(* ===== verification/Go_Prelude.thy ===== *)
theory Go_Prelude
  imports Complex_Main "HOL-Library.Word" "HOL-Library.List_Lexorder" "HOL-Library.Char_ord"
    "HOL-Library.Sublist"
begin

text \<open>
  The parts of the Go language and of its standard library that every component of the worker
  uses, and the lemmas on them that the component theories share:
  \<^item> Go's \<open>int\<close> and \<open>int64\<close> are integers of 64 bits in two's complement; \<open>wrap64\<close> is the
    reduction every Go operation on them performs, \<open>uint64\<close> is the word type \<open>64 word\<close>;
  \<^item> \<open>time.Time\<close> is the number of nanoseconds since the Go zero time, so the zero time is 0;
  \<^item> \<open>[]byte\<close> is a list of 8-bit words, \<open>nil\<close> and the empty slice being the empty list;
  \<^item> \<open>error\<close> values are the datatype \<open>go_error\<close>: the sentinels that the code compares with
    \<open>errors.Is\<close>, plain messages, and wrapped errors (\<open>fmt.Errorf\<close> with \<open>%w\<close>);
  \<^item> \<open>strconv.Itoa\<close> and the \<open>strings\<close> functions the code calls.
\<close>

named_theorems go_simps \<open>equations of the Go run-time library\<close>

subsection \<open>Integers\<close>

type_synonym u64 = "64 word"
type_synonym bytes = "8 word list"

definition wrap64 :: "int \<Rightarrow> int" where
  "wrap64 x = (x + 2 ^ 63) mod 2 ^ 64 - 2 ^ 63"

lemma wrap64_id [simp]: "- (2 ^ 63) \<le> x \<Longrightarrow> x < 2 ^ 63 \<Longrightarrow> wrap64 x = x"
  by (simp add: wrap64_def)

lemma wrap64_lower: "- (2 ^ 63) \<le> wrap64 x"
  by (simp add: wrap64_def)

lemma wrap64_upper: "wrap64 x < 2 ^ 63"
proof -
  have "(x + 2 ^ 63) mod 2 ^ 64 < (2 ^ 64 :: int)" by simp
  then show ?thesis by (simp add: wrap64_def)
qed

lemma wrap64_small [go_simps]: "0 \<le> x \<Longrightarrow> x < 2 ^ 63 \<Longrightarrow> wrap64 x = x"
  by simp

lemma wrap64_wrap [simp]:
  "wrap64 (wrap64 x + y) = wrap64 (x + y)"
  "wrap64 (y + wrap64 x) = wrap64 (y + x)"
  "wrap64 (wrap64 x - y) = wrap64 (x - y)"
  unfolding wrap64_def by (simp_all add: mod_simps algebra_simps)

subsection \<open>Time\<close>

type_synonym time = int
type_synonym duration = int

abbreviation (input) zero_time :: time where
  "zero_time \<equiv> 0"

definition second :: duration where
  "second = 1000000000"

subsection \<open>Decimal rendering\<close>

definition digit_char :: "nat \<Rightarrow> char" where
  "digit_char d = char_of (48 + d)"

fun show_nat :: "nat \<Rightarrow> string" where
  "show_nat n = (if n < 10 then [digit_char n] else show_nat (n div 10) @ [digit_char (n mod 10)])"

declare show_nat.simps [simp del]

definition show_int :: "int \<Rightarrow> string" where
  "show_int i = (if i < 0 then ''-'' @ show_nat (nat (- i)) else show_nat (nat i))"

definition is_digit :: "char \<Rightarrow> bool" where
  "is_digit c \<longleftrightarrow> 48 \<le> (of_char c :: nat) \<and> (of_char c :: nat) \<le> 57"

fun digits_val :: "nat \<Rightarrow> string \<Rightarrow> nat option" where
  "digits_val acc [] = Some acc"
| "digits_val acc (c # cs) =
     (if is_digit c then digits_val (10 * acc + (of_char c - 48)) cs else None)"

definition read_nat :: "string \<Rightarrow> nat option" where
  "read_nat s = (if s = [] then None else digits_val 0 s)"

lemma of_char_digit: "d < 10 \<Longrightarrow> of_char (digit_char d) = 48 + d"
  by (simp add: digit_char_def)

lemma is_digit_digit_char [simp]: "d < 10 \<Longrightarrow> is_digit (digit_char d)"
  by (simp add: is_digit_def of_char_digit)

lemma digits_val_append:
  "digits_val a (xs @ ys) = (case digits_val a xs of None \<Rightarrow> None | Some b \<Rightarrow> digits_val b ys)"
  by (induction a xs rule: digits_val.induct) auto

lemma show_nat_not_Nil [simp]: "show_nat n \<noteq> []"
  by (subst show_nat.simps) simp

lemma digits_val_show_nat: "digits_val 0 (show_nat n) = Some n"
proof (induction n rule: show_nat.induct)
  case (1 n)
  show ?case
  proof (cases "n < 10")
    case True
    then show ?thesis by (subst show_nat.simps) (simp add: of_char_digit)
  next
    case False
    with "1.IH" have "digits_val 0 (show_nat (n div 10)) = Some (n div 10)" by simp
    moreover have "n mod 10 < 10" by simp
    ultimately show ?thesis using False
      by (subst show_nat.simps) (simp add: digits_val_append of_char_digit)
  qed
qed

lemma read_nat_show_nat [simp]: "read_nat (show_nat n) = Some n"
  by (simp add: read_nat_def digits_val_show_nat)

lemma show_nat_inject [simp]: "show_nat m = show_nat n \<longleftrightarrow> m = n"
  by (metis option.inject read_nat_show_nat)

subsection \<open>Strings\<close>

text \<open>
  Go strings are byte sequences. \<open>strings.TrimSpace\<close> removes leading and trailing white space
  (the ASCII white space; the Unicode spaces outside ASCII are several bytes and are kept).
\<close>

definition is_space :: "char \<Rightarrow> bool" where
  "is_space c \<longleftrightarrow> (of_char c :: nat) \<in> {9, 10, 11, 12, 13, 32}"

definition TrimSpace :: "string \<Rightarrow> string" where
  "TrimSpace s = rev (dropWhile is_space (rev (dropWhile is_space s)))"

definition HasPrefix :: "string \<Rightarrow> string \<Rightarrow> bool" where
  "HasPrefix s p \<longleftrightarrow> take (length p) s = p"

definition HasSuffix :: "string \<Rightarrow> string \<Rightarrow> bool" where
  "HasSuffix s p \<longleftrightarrow> length p \<le> length s \<and> drop (length s - length p) s = p"

definition TrimRightChar :: "string \<Rightarrow> char \<Rightarrow> string" where
  "TrimRightChar s c = rev (dropWhile (\<lambda>x. x = c) (rev s))"

lemma HasPrefix_append [simp]: "HasPrefix (p @ s) p"
  by (simp add: HasPrefix_def)

lemma HasSuffix_append [simp]: "HasSuffix (s @ p) p"
  by (simp add: HasSuffix_def)

lemma HasPrefix_iff_prefix: "HasPrefix s p \<longleftrightarrow> prefix p s"
  unfolding HasPrefix_def prefix_def by (metis append_eq_conv_conj append_take_drop_id)

lemma HasSuffix_iff_suffix: "HasSuffix s p \<longleftrightarrow> suffix p s"
proof
  assume "HasSuffix s p"
  then show "suffix p s" unfolding HasSuffix_def suffix_def by (metis append_take_drop_id)
next
  assume "suffix p s"
  then show "HasSuffix s p" by (auto simp: suffix_def)
qed

definition firstNonEmpty :: "string list \<Rightarrow> string" where
  "firstNonEmpty vs = (case dropWhile (\<lambda>v. v = []) vs of [] \<Rightarrow> [] | v # _ \<Rightarrow> v)"

lemma firstNonEmpty_simps [simp]:
  "firstNonEmpty [] = []"
  "firstNonEmpty (v # vs) = (if v = [] then firstNonEmpty vs else v)"
  by (simp_all add: firstNonEmpty_def)

text \<open>
  \<open>strconv.Quote\<close>, the rendering of \<open>%q\<close>: quotes and backslashes are escaped, control
  characters are written by their escape, everything else is kept.
\<close>

definition hex_char :: "nat \<Rightarrow> char" where
  "hex_char d = (if d < 10 then char_of (48 + d) else char_of (87 + d))"

definition quote_char :: "char \<Rightarrow> string" where
  "quote_char c =
     (let n = of_char c :: nat; bs = char_of (92 :: nat) in
      if n = 34 \<or> n = 92 then [bs, c]
      else if n = 7 then [bs, CHR ''a''] else if n = 8 then [bs, CHR ''b'']
      else if n = 12 then [bs, CHR ''f''] else if n = 10 then [bs, CHR ''n'']
      else if n = 13 then [bs, CHR ''r''] else if n = 9 then [bs, CHR ''t'']
      else if n = 11 then [bs, CHR ''v'']
      else if n < 32 \<or> n = 127 then [bs, CHR ''x'', hex_char (n div 16), hex_char (n mod 16)]
      else [c])"

definition Quote :: "string \<Rightarrow> string" where
  "Quote s = [char_of (34 :: nat)] @ concat (map quote_char s) @ [char_of (34 :: nat)]"

subsection \<open>Values of encoding/json\<close>

text \<open>
  The JSON values the worker writes and reads. Numbers, times and byte strings are leaves of their
  own: the textual form of each is the business of \<open>encoding/json\<close>, which renders and
  parses them without loss.
\<close>

datatype json =
    JNull
  | JBool bool
  | JInt int
  | JFloat rat
  | JStr string
  | JTime time
  | JBytes bytes
  | JArr "json list"
  | JObj "(string \<times> json) list"

subsection \<open>Errors\<close>

record job_error =
  eCode :: string
  eMessage :: string
  eExitCode :: int
  eStderr :: string

datatype go_error =
    Err string
  | ErrStoreNotFound
  | ErrSchedCapacity
  | ErrIngestCapacity
  | ErrStreamKeyInvalid
  | ErrInvalidPayment
  | ErrInsufficientBalance
  | ErrStreamNotFound
  | ErrEncoderExited
  | ErrShellUnauthorized
  | ErrShellNotFound
  | ErrShellConflict
  | ErrShellBadRequest
  | ErrCanceled
  | ErrDeadline
  | ErrNotExist
  | ErrJob job_error
  | ErrWrap string go_error
  | ErrNote go_error string

text \<open>\<open>err.Error()\<close>: a wrapped error is rendered as the wrapped text with what
  the format string puts before (\<open>ErrWrap\<close>) or after it (\<open>ErrNote\<close>).\<close>

definition JobError_Error :: "job_error \<Rightarrow> string" where
  "JobError_Error e =
     (if eExitCode e \<noteq> 0
      then eCode e @ '': '' @ eMessage e @ '' (exit '' @ show_int (eExitCode e) @ '')''
      else eCode e @ '': '' @ eMessage e)"

fun error_text :: "go_error \<Rightarrow> string" where
  "error_text (Err s) = s"
| "error_text ErrStoreNotFound = ''store: key not found''"
| "error_text ErrSchedCapacity = ''scheduler: capacity exceeded''"
| "error_text ErrIngestCapacity = ''ingest: capacity exceeded''"
| "error_text ErrStreamKeyInvalid = ''ingest: stream key invalid''"
| "error_text ErrInvalidPayment = ''payment: invalid ticket''"
| "error_text ErrInsufficientBalance = ''payment: insufficient balance''"
| "error_text ErrStreamNotFound = ''liverunner: stream not found''"
| "error_text ErrEncoderExited = ''liverunner: encoder exited''"
| "error_text ErrShellUnauthorized = ''shellclient: unauthorized (bad shared secret)''"
| "error_text ErrShellNotFound = ''shellclient: not found''"
| "error_text ErrShellConflict = ''shellclient: conflict (state mismatch)''"
| "error_text ErrShellBadRequest = ''shellclient: bad request''"
| "error_text ErrCanceled = ''context canceled''"
| "error_text ErrDeadline = ''context deadline exceeded''"
| "error_text ErrNotExist = ''file does not exist''"
| "error_text (ErrJob e) = JobError_Error e"
| "error_text (ErrWrap p e) = p @ error_text e"
| "error_text (ErrNote e s) = error_text e @ s"

text \<open>\<open>errors.Is\<close> and \<open>errors.As\<close> walk the chain of wrapped errors.\<close>

fun root_cause :: "go_error \<Rightarrow> go_error" where
  "root_cause (ErrWrap _ e) = root_cause e"
| "root_cause (ErrNote e _) = root_cause e"
| "root_cause e = e"

definition errors_Is :: "go_error \<Rightarrow> go_error \<Rightarrow> bool" where
  "errors_Is e target \<longleftrightarrow> root_cause e = target"

definition errors_As_JobError :: "go_error \<Rightarrow> job_error option" where
  "errors_As_JobError e = (case root_cause e of ErrJob je \<Rightarrow> Some je | _ \<Rightarrow> None)"

type_synonym 'a result = "go_error + 'a"

text \<open>\<open>os.IsNotExist\<close>; and the bytes of a string.\<close>

definition os_IsNotExist :: "go_error \<Rightarrow> bool" where
  "os_IsNotExist e \<longleftrightarrow> e = ErrNotExist"

definition bytes_of :: "string \<Rightarrow> bytes" where
  "bytes_of s = map (\<lambda>c. of_nat (of_char c)) s"

text \<open>Sequencing of fallible computations, and a fallible function mapped over a slice.\<close>

fun rbind :: "'a result \<Rightarrow> ('a \<Rightarrow> 'b result) \<Rightarrow> 'b result" where
  "rbind (Inl e) f = Inl e"
| "rbind (Inr x) f = f x"

fun rmap :: "('a \<Rightarrow> 'b result) \<Rightarrow> 'a list \<Rightarrow> 'b list result" where
  "rmap f [] = Inr []"
| "rmap f (x # xs) = rbind (f x) (\<lambda>y. rbind (rmap f xs) (\<lambda>ys. Inr (y # ys)))"

fun is_ok :: "'a result \<Rightarrow> bool" where
  "is_ok (Inl e) = False"
| "is_ok (Inr x) = True"

lemma rbind_eq_Inr: "rbind r f = Inr y \<longleftrightarrow> (\<exists>x. r = Inr x \<and> f x = Inr y)"
  by (cases r) auto

lemma rmap_all_ok: "(\<And>x. x \<in> set xs \<Longrightarrow> f x = Inr (g x)) \<Longrightarrow> rmap f xs = Inr (map g xs)"
  by (induction xs) auto

lemma rmap_eq_Inr: "rmap f xs = Inr ys \<longleftrightarrow> list_all2 (\<lambda>x y. f x = Inr y) xs ys"
  by (induction xs arbitrary: ys) (auto simp: rbind_eq_Inr list_all2_Cons1)

lemma is_ok_iff: "is_ok r \<longleftrightarrow> (\<exists>x. r = Inr x)"
  by (cases r) auto

subsection \<open>Generic lemmas on lists and maps\<close>

lemma filter_eq_Cons_hd: "find P xs = Some x \<longleftrightarrow> (\<exists>ys. filter P xs = x # ys)"
  by (induction xs) auto

lemma find_None_iff_filter: "find P xs = None \<longleftrightarrow> filter P xs = []"
  by (induction xs) auto

lemma sum_list_remove1_nat:
  fixes f :: "'a \<Rightarrow> int"
  shows "x \<in> set xs \<Longrightarrow> sum_list (map f (remove1 x xs)) = sum_list (map f xs) - f x"
  by (induction xs) auto

lemma sum_list_update_int:
  fixes xs :: "int list"
  shows "i < length xs \<Longrightarrow> sum_list (xs[i := v]) = sum_list xs + v - xs ! i"
proof (induction xs arbitrary: i)
  case (Cons x xs)
  then show ?case by (cases i) auto
qed simp

lemma sum_list_nonneg_map:
  fixes f :: "'a \<Rightarrow> int"
  shows "(\<And>x. x \<in> set xs \<Longrightarrow> 0 \<le> f x) \<Longrightarrow> 0 \<le> sum_list (map f xs)"
  by (induction xs) (auto intro: add_nonneg_nonneg)

lemma sum_list_member_le:
  fixes f :: "'a \<Rightarrow> int"
  shows "x \<in> set xs \<Longrightarrow> (\<And>y. y \<in> set xs \<Longrightarrow> 0 \<le> f y) \<Longrightarrow> f x \<le> sum_list (map f xs)"
proof (induction xs)
  case Nil
  then show ?case by simp
next
  case (Cons a xs)
  then show ?case
    using sum_list_nonneg_map [of xs f] by (cases "x = a") fastforce+
qed

end
