(* ===== verification/Go_Float.thy ===== *)
theory Go_Float
  imports Go_Prelude "HOL-Library.Log_Nat" Complex_Main
begin

text \<open>
  Go's \<open>float64\<close>. A finite \<open>float64\<close> is a rational number; every arithmetic operation computes the
  exact result and rounds it to the nearest representable number, ties to even (IEEE 754, no fused
  multiply-add, as on amd64). \<open>rnd64\<close> is that rounding: 53 significant bits, gradual underflow
  below \<open>2^-1022\<close>. Overflow to infinity and NaN are not represented: the quantities the worker
  computes with (seconds, megapixels, megabits, host scale factors) stay far below \<open>2^1024\<close>.
\<close>

subsection \<open>Rounding\<close>

definition round_even :: "rat \<Rightarrow> int" where
  "round_even y =
     (let f = \<lfloor>y\<rfloor>; r = y - of_int f in
      if r < 1 / 2 then f else if 1 / 2 < r then f + 1 else if even f then f else f + 1)"

text \<open>The binary exponent of a positive rational: \<open>2^e \<le> x < 2^(e+1)\<close>.\<close>

definition exponent2 :: "rat \<Rightarrow> int" where
  "exponent2 x =
     (let (a, b) = quotient_of x; d = bitlen a - bitlen b in
      if 2 powi d \<le> x then d else d - 1)"

definition ulp64 :: "rat \<Rightarrow> rat" where
  "ulp64 x = 2 powi (max (exponent2 x) (- 1022) - 52)"

definition rnd64 :: "rat \<Rightarrow> rat" where
  "rnd64 x =
     (if x = 0 then 0
      else sgn x * of_int (round_even (\<bar>x\<bar> / ulp64 \<bar>x\<bar>)) * ulp64 \<bar>x\<bar>)"

text \<open>
  Conversion of a \<open>float64\<close> to \<open>int\<close> truncates towards zero; a value out of range gives the
  smallest integer on amd64.
\<close>

definition int_of_float :: "rat \<Rightarrow> int" where
  "int_of_float x =
     (let t = (if 0 \<le> x then \<lfloor>x\<rfloor> else \<lceil>x\<rceil>) in
      if - (2 ^ 63) \<le> t \<and> t < 2 ^ 63 then t else - (2 ^ 63))"

subsection \<open>Error bounds\<close>

lemma round_even_error: "\<bar>of_int (round_even y) - y\<bar> \<le> 1 / 2"
proof -
  have "of_int \<lfloor>y\<rfloor> \<le> y" "y < of_int \<lfloor>y\<rfloor> + 1" by linarith+
  then show ?thesis by (auto simp: round_even_def Let_def)
qed

lemma round_even_of_int [simp]: "round_even (of_int n) = n"
  by (simp add: round_even_def)

lemma round_even_mono_nat: "of_int n \<le> y \<Longrightarrow> n \<le> round_even y"
proof -
  assume "of_int n \<le> y"
  then have "n \<le> \<lfloor>y\<rfloor>" by linarith
  then show ?thesis by (auto simp: round_even_def Let_def)
qed

lemma ulp64_pos [simp]: "0 < ulp64 x"
  by (simp add: ulp64_def)

lemma exponent2_bounds:
  assumes "0 < x"
  shows "2 powi exponent2 x \<le> x \<and> x < 2 powi (exponent2 x + 1)"
proof -
  obtain a b where q: "quotient_of x = (a, b)" by fastforce
  have b0: "0 < b" using quotient_of_denom_pos [OF q] .
  have x: "x = of_int a / of_int b" using quotient_of_div [OF q] .
  have a0: "0 < a" using assms b0 x by (simp add: zero_less_divide_iff)
  let ?d = "bitlen a - bitlen b"
  have ba: "2 ^ nat (bitlen a - 1) \<le> a" "a < 2 ^ nat (bitlen a)"
    using bitlen_bounds [of a] a0 by auto
  have bb: "2 ^ nat (bitlen b - 1) \<le> b" "b < 2 ^ nat (bitlen b)"
    using bitlen_bounds [of b] b0 by auto
  have la: "0 < bitlen a"
  proof (rule ccontr)
    assume "\<not> 0 < bitlen a"
    with ba(2) a0 show False by simp
  qed
  have lb: "0 < bitlen b"
  proof (rule ccontr)
    assume "\<not> 0 < bitlen b"
    with bb(2) b0 show False by simp
  qed
  have ra1: "(2::rat) powi (bitlen a - 1) \<le> of_int a"
    using ba(1) la by (simp add: power_int_def)
  have ra2: "of_int a < (2::rat) powi (bitlen a)"
    using ba(2) la by (simp add: power_int_def)
  have rb1: "(2::rat) powi (bitlen b - 1) \<le> of_int b"
    using bb(1) lb by (simp add: power_int_def)
  have rb2: "of_int b < (2::rat) powi (bitlen b)"
    using bb(2) lb by (simp add: power_int_def)
  have low: "(2::rat) powi (?d - 1) \<le> x"
  proof -
    have "(2::rat) powi (?d - 1) = 2 powi (bitlen a - 1) / 2 powi (bitlen b)"
      by (simp add: power_int_diff [symmetric] algebra_simps)
    also have "\<dots> \<le> of_int a / of_int b"
      using ra1 rb2 b0 a0 by (intro frac_le) auto
    finally show ?thesis by (simp add: x)
  qed
  have high: "x < 2 powi (?d + 1)"
  proof -
    have "of_int a / of_int b < (2::rat) powi (bitlen a) / 2 powi (bitlen b - 1)"
      using ra2 rb1 b0 a0 by (intro frac_less) auto
    also have "\<dots> = 2 powi (?d + 1)"
      by (simp add: power_int_diff [symmetric] algebra_simps)
    finally show ?thesis by (simp add: x)
  qed
  show ?thesis using low high by (auto simp: exponent2_def q Let_def)
qed

lemma ulp64_le:
  assumes "2 powi (- 1022) \<le> x"
  shows "ulp64 x \<le> x / 2 ^ 52"
proof -
  have x0: "0 < x" using assms by (meson less_le_trans zero_less_numeral zero_less_power_int)
  note eb = exponent2_bounds [OF x0]
  have "- 1022 \<le> exponent2 x"
  proof (rule ccontr)
    assume "\<not> - 1022 \<le> exponent2 x"
    then have "exponent2 x + 1 \<le> - 1022" by simp
    then have "(2::rat) powi (exponent2 x + 1) \<le> 2 powi (- 1022)"
      by (intro power_int_increasing) auto
    with eb assms show False by linarith
  qed
  then have "ulp64 x = 2 powi exponent2 x / 2 ^ 52"
    by (simp add: ulp64_def max_def power_int_diff)
  with eb show ?thesis by (simp add: divide_right_mono)
qed

lemma rnd64_minus [simp]: "rnd64 (- x) = - rnd64 x"
  by (simp add: rnd64_def sgn_minus)

lemma rnd64_0 [simp]: "rnd64 0 = 0"
  by (simp add: rnd64_def)

lemma rnd64_error_ulp: "\<bar>rnd64 x - x\<bar> \<le> ulp64 \<bar>x\<bar> / 2"
proof (cases "x = 0")
  case True
  then show ?thesis by (simp add: less_imp_le)
next
  case False
  let ?u = "ulp64 \<bar>x\<bar>"
  let ?y = "\<bar>x\<bar> / ?u"
  have "rnd64 x - x = sgn x * (of_int (round_even ?y) * ?u - \<bar>x\<bar>)"
    using False by (simp add: rnd64_def algebra_simps abs_mult_sgn)
  also have "of_int (round_even ?y) * ?u - \<bar>x\<bar> = (of_int (round_even ?y) - ?y) * ?u"
    using less_imp_neq [OF ulp64_pos [of "\<bar>x\<bar>"]] by (simp add: left_diff_distrib)
  finally have "\<bar>rnd64 x - x\<bar> = \<bar>of_int (round_even ?y) - ?y\<bar> * ?u"
    using False abs_of_pos [OF ulp64_pos [of "\<bar>x\<bar>"]] by (simp add: abs_mult)
  also have "\<dots> \<le> 1 / 2 * ?u"
    by (intro mult_right_mono round_even_error less_imp_le ulp64_pos)
  finally show ?thesis by simp
qed

lemma rnd64_error:
  assumes "2 powi (- 1022) \<le> \<bar>x\<bar>"
  shows "\<bar>rnd64 x - x\<bar> \<le> \<bar>x\<bar> / 2 ^ 53"
proof -
  have "\<bar>rnd64 x - x\<bar> \<le> ulp64 \<bar>x\<bar> / 2" by (rule rnd64_error_ulp)
  also have "\<dots> \<le> \<bar>x\<bar> / 2 ^ 52 / 2" using ulp64_le [OF assms] by simp
  finally show ?thesis by simp
qed

lemma rnd64_pos [simp]: "0 < x \<Longrightarrow> 2 powi (- 1022) \<le> x \<Longrightarrow> 0 < rnd64 x"
proof -
  assume x: "0 < x" "2 powi (- 1022) \<le> x"
  have "\<bar>rnd64 x - x\<bar> \<le> x / 2 ^ 53" using rnd64_error [of x] x by simp
  then have "x - x / 2 ^ 53 \<le> rnd64 x" by linarith
  moreover have "0 < x - x / 2 ^ 53" using x by simp
  ultimately show ?thesis by linarith
qed

lemma rnd64_nonneg [simp]: "0 \<le> x \<Longrightarrow> 0 \<le> rnd64 x"
proof -
  assume x: "0 \<le> x"
  have "0 \<le> round_even (\<bar>x\<bar> / ulp64 \<bar>x\<bar>)"
    by (rule round_even_mono_nat) (simp add: less_imp_le)
  with x show ?thesis by (simp add: rnd64_def less_imp_le)
qed

lemma rnd64_of_int:
  assumes "\<bar>n\<bar> < 2 ^ 53"
  shows "rnd64 (of_int n) = of_int n"
proof (cases "n = 0")
  case True
  then show ?thesis by simp
next
  case False
  let ?x = "\<bar>of_int n :: rat\<bar>"
  have x1: "1 \<le> ?x" using False by simp
  then have x0: "0 < ?x" by linarith
  note eb = exponent2_bounds [OF x0]
  have e0: "0 \<le> exponent2 ?x"
  proof (rule ccontr)
    assume "\<not> 0 \<le> exponent2 ?x"
    then have "(2::rat) powi (exponent2 ?x + 1) \<le> 2 powi 0"
      by (intro power_int_increasing) auto
    with eb x1 show False by simp
  qed
  have e53: "exponent2 ?x < 53"
  proof (rule ccontr)
    assume "\<not> exponent2 ?x < 53"
    then have "(2::rat) powi 53 \<le> 2 powi exponent2 ?x"
      by (intro power_int_increasing) auto
    with eb have "2 ^ 53 \<le> ?x" by simp
    then have "of_int (2 ^ 53) \<le> (of_int \<bar>n\<bar> :: rat)" by simp
    with assms show False by (simp only: of_int_le_iff)
  qed
  define k where "k = nat (52 - exponent2 ?x)"
  have u: "ulp64 ?x = 1 / 2 ^ k"
    using e0 e53 by (simp add: ulp64_def k_def power_int_def max_def power_one_over)
  then have "?x / ulp64 ?x = of_int (\<bar>n\<bar> * 2 ^ k)" by simp
  then have r: "round_even (?x / ulp64 ?x) = \<bar>n\<bar> * 2 ^ k" by (simp only: round_even_of_int)
  show ?thesis
  proof -
    have "rnd64 (of_int n) = sgn (of_int n) * of_int (\<bar>n\<bar> * 2 ^ k) * (1 / 2 ^ k)"
      using False by (simp only: rnd64_def of_int_eq_0_iff if_False u r [unfolded u])
    then show ?thesis by (simp add: sgn_if)
  qed
qed

subsection \<open>Monotonicity\<close>

text \<open>Evaluation: whole numbers are not rounded.\<close>

lemma rnd64_code [code]:
  "rnd64 x =
     (let (a, b) = quotient_of x in
      if b = 1 \<and> \<bar>a\<bar> < 9007199254740992 then x
      else sgn x * of_int (round_even (\<bar>x\<bar> / ulp64 \<bar>x\<bar>)) * ulp64 \<bar>x\<bar>)"
proof (cases "snd (quotient_of x) = 1 \<and> \<bar>fst (quotient_of x)\<bar> < 9007199254740992")
  case True
  then have "x = of_int (fst (quotient_of x))" using quotient_of_div [of x "fst (quotient_of x)" 1] by (metis div_by_1 of_int_1 prod.collapse)
  then have "rnd64 x = x" using rnd64_of_int [of "fst (quotient_of x)"] True by simp
  with True show ?thesis by (simp add: case_prod_unfold Let_def)
next
  case False
  have "quotient_of 0 = (0, 1)" by code_simp
  with False have "x \<noteq> 0" by auto
  with False show ?thesis by (auto simp: rnd64_def case_prod_unfold Let_def)
qed

lemma round_even_bounds: "\<lfloor>y\<rfloor> \<le> round_even y" "round_even y \<le> \<lfloor>y\<rfloor> + 1"
  by (auto simp: round_even_def Let_def)

lemma round_even_mono: "x \<le> y \<Longrightarrow> round_even x \<le> round_even y"
proof -
  assume le: "x \<le> y"
  then have "\<lfloor>x\<rfloor> \<le> \<lfloor>y\<rfloor>" by (rule floor_mono)
  then consider "\<lfloor>x\<rfloor> = \<lfloor>y\<rfloor>" | "\<lfloor>x\<rfloor> + 1 \<le> \<lfloor>y\<rfloor>" by linarith
  then show ?thesis
  proof cases
    case 1
    with le show ?thesis by (auto simp: round_even_def Let_def)
  next
    case 2
    with round_even_bounds [of x] round_even_bounds [of y] show ?thesis by linarith
  qed
qed

lemma exponent2_mono: "0 < x \<Longrightarrow> x \<le> y \<Longrightarrow> exponent2 x \<le> exponent2 y"
proof (rule ccontr)
  assume a: "0 < x" "x \<le> y" "\<not> exponent2 x \<le> exponent2 y"
  then have "(2::rat) powi (exponent2 y + 1) \<le> 2 powi exponent2 x"
    by (intro power_int_increasing) auto
  with exponent2_bounds [of x] exponent2_bounds [of y] a show False by linarith
qed

lemma rnd64_pos_eq: "0 < x \<Longrightarrow> rnd64 x = of_int (round_even (x / ulp64 x)) * ulp64 x"
  by (simp add: rnd64_def)

lemma rnd64_le_binade:
  assumes "0 < x"
  shows "rnd64 x \<le> 2 powi (max (exponent2 x) (- 1022) + 1)"
proof -
  let ?e = "max (exponent2 x) (- 1022)"
  have "x < 2 powi (exponent2 x + 1)" using exponent2_bounds [OF assms] by simp
  also have "(2::rat) powi (exponent2 x + 1) \<le> 2 powi (?e + 1)"
    by (intro power_int_increasing) auto
  also have "(2::rat) powi (?e + 1) = 2 ^ 53 * ulp64 x"
    by (simp add: ulp64_def power_int_add power_int_diff)
  finally have "x / ulp64 x \<le> of_int (2 ^ 53)" by (simp add: pos_divide_le_eq)
  then have "round_even (x / ulp64 x) \<le> 2 ^ 53" using round_even_mono round_even_of_int by metis
  then have "of_int (round_even (x / ulp64 x)) * ulp64 x \<le> 2 ^ 53 * ulp64 x"
    by (intro mult_right_mono) (auto simp: less_imp_le simp flip: of_int_le_iff)
  also have "\<dots> = 2 powi (?e + 1)" by (simp add: ulp64_def power_int_add power_int_diff)
  finally show ?thesis using assms by (simp add: rnd64_pos_eq)
qed

lemma rnd64_ge_binade:
  assumes "0 < x" "- 1022 \<le> exponent2 x"
  shows "2 powi exponent2 x \<le> rnd64 x"
proof -
  have e: "2 powi exponent2 x = 2 ^ 52 * ulp64 x"
    using assms(2) by (simp add: ulp64_def max_def power_int_diff)
  have "2 ^ 52 * ulp64 x \<le> x" using exponent2_bounds [OF assms(1)] e by simp
  then have "of_int (2 ^ 52) \<le> x / ulp64 x" by (simp add: pos_le_divide_eq)
  then have "2 ^ 52 \<le> round_even (x / ulp64 x)" by (rule round_even_mono_nat)
  then have "2 ^ 52 * ulp64 x \<le> of_int (round_even (x / ulp64 x)) * ulp64 x"
    by (intro mult_right_mono) (auto simp: less_imp_le simp flip: of_int_le_iff)
  with e show ?thesis using assms(1) by (simp add: rnd64_pos_eq)
qed

lemma rnd64_mono:
  assumes "0 \<le> x" "x \<le> y"
  shows "rnd64 x \<le> rnd64 y"
proof (cases "x = 0")
  case True
  then show ?thesis using assms by simp
next
  case False
  then have x0: "0 < x" and y0: "0 < y" using assms by auto
  have em: "exponent2 x \<le> exponent2 y" by (rule exponent2_mono [OF x0 assms(2)])
  show ?thesis
  proof (cases "max (exponent2 x) (- 1022) = max (exponent2 y) (- 1022)")
    case True
    then have u: "ulp64 y = ulp64 x" by (simp add: ulp64_def)
    have "round_even (x / ulp64 x) \<le> round_even (y / ulp64 x)"
      using assms(2) by (intro round_even_mono divide_right_mono) (auto simp: less_imp_le)
    then show ?thesis
      using x0 y0 by (simp add: rnd64_pos_eq u mult_right_mono less_imp_le)
  next
    case False
    with em have lt: "max (exponent2 x) (- 1022) + 1 \<le> exponent2 y" and ge: "- 1022 \<le> exponent2 y"
      by (auto simp: max_def split: if_splits)
    have "rnd64 x \<le> 2 powi (max (exponent2 x) (- 1022) + 1)" by (rule rnd64_le_binade [OF x0])
    also have "\<dots> \<le> 2 powi exponent2 y" using lt by (intro power_int_increasing) auto
    also have "\<dots> \<le> rnd64 y" by (rule rnd64_ge_binade [OF y0 ge])
    finally show ?thesis .
  qed
qed

lemma rnd64_le_int:
  assumes "0 \<le> x" "x \<le> of_int n" "n < 2 ^ 53"
  shows "rnd64 x \<le> of_int n"
proof -
  have "0 \<le> (of_int n :: rat)" using assms(1,2) by linarith
  then have "0 \<le> n" by simp
  then have "rnd64 (of_int n) = of_int n" using assms(3) by (intro rnd64_of_int) simp
  with rnd64_mono [OF assms(1,2)] show ?thesis by simp
qed

lemma int_of_float_mono:
  assumes "0 \<le> m" "m \<le> n" "n < 2 ^ 63"
  shows "int_of_float (of_int m) \<le> int_of_float (of_int n)"
  using assms by (simp add: int_of_float_def)

subsection \<open>Seconds counted in tenths\<close>

text \<open>
  Both live encoders keep the encoded media time as an integer number of tenths of a second and
  report \<open>float64(n) / 10.0\<close>; the live runner subtracts two such readings and bills the ceiling
  of the difference. The two roundings can move the difference across an integer, but by less
  than a twentieth of a second.
\<close>

definition seconds_of_tenths :: "int \<Rightarrow> rat" where
  "seconds_of_tenths n = rnd64 (rnd64 (of_int n) / 10)"

lemma seconds_of_tenths_error:
  assumes "0 \<le> n" "n < 2 ^ 40"
  shows "\<bar>seconds_of_tenths n - of_int n / 10\<bar> \<le> 1 / 2 ^ 13"
proof (cases "n = 0")
  case True
  then show ?thesis by (simp add: seconds_of_tenths_def)
next
  case False
  let ?x = "of_int n / 10 :: rat"
  have ex: "rnd64 (of_int n) = of_int n" using assms by (intro rnd64_of_int) simp
  have n1: "1 \<le> (of_int n :: rat)" using False assms(1) by simp
  have lt: "of_int n < (2 ^ 40 :: rat)"
    using assms(2) by (metis of_int_less_iff of_int_numeral of_int_power)
  have "(2::rat) powi (- 1022) \<le> 2 powi (- 4)" by (intro power_int_increasing) auto
  also have "\<dots> \<le> \<bar>?x\<bar>" using n1 by (simp add: power_int_def power_divide)
  finally have "\<bar>rnd64 ?x - ?x\<bar> \<le> \<bar>?x\<bar> / 2 ^ 53" by (rule rnd64_error)
  also have "\<dots> \<le> 1 / 2 ^ 13" using n1 lt by simp
  finally show ?thesis by (simp add: seconds_of_tenths_def ex)
qed

lemma rnd64_small_error:
  assumes "\<bar>x\<bar> < 2 ^ 38"
  shows "\<bar>rnd64 x - x\<bar> \<le> 1 / 2 ^ 13"
proof (cases "2 powi (- 1022) \<le> \<bar>x\<bar>")
  case True
  then have "\<bar>rnd64 x - x\<bar> \<le> \<bar>x\<bar> / 2 ^ 53" by (rule rnd64_error)
  also have "\<dots> \<le> 1 / 2 ^ 13" using assms by simp
  finally show ?thesis .
next
  case False
  show ?thesis
  proof (cases "x = 0")
    case True
    then show ?thesis by simp
  next
    case nz: False
    then have "0 < \<bar>x\<bar>" by simp
    from exponent2_bounds [OF this] False have "(2::rat) powi exponent2 \<bar>x\<bar> < 2 powi (- 1022)"
      by linarith
    then have "exponent2 \<bar>x\<bar> < - 1022"
      using power_int_increasing [of "- 1022" "exponent2 \<bar>x\<bar>" "2::rat"] by linarith
    then have "ulp64 \<bar>x\<bar> = 2 powi (- 1074)" by (simp add: ulp64_def max_def)
    also have "\<dots> \<le> 2 powi (- 13)" by (intro power_int_increasing) auto
    finally have "ulp64 \<bar>x\<bar> \<le> 1 / 2 ^ 13" by (simp add: power_int_def power_one_over)
    with rnd64_error_ulp [of x] show ?thesis by simp
  qed
qed

text \<open>Billing one interval: never under, at most one unit over.\<close>

lemma ceil_tenths_diff:
  assumes "0 \<le> k" "k \<le> n" "n < 2 ^ 40"
  defines "u \<equiv> \<lceil>rnd64 (seconds_of_tenths n - seconds_of_tenths k)\<rceil>"
  shows "n - k \<le> 10 * u" and "10 * u \<le> n - k + 10"
proof -
  let ?d = "seconds_of_tenths n - seconds_of_tenths k"
  let ?e = "(of_int n - of_int k) / 10 :: rat"
  have en: "\<bar>seconds_of_tenths n - of_int n / 10\<bar> \<le> 1 / 2 ^ 13"
    using assms by (intro seconds_of_tenths_error) auto
  have ek: "\<bar>seconds_of_tenths k - of_int k / 10\<bar> \<le> 1 / 2 ^ 13"
    using assms by (intro seconds_of_tenths_error) auto
  have d: "\<bar>?d - ?e\<bar> \<le> 2 / 2 ^ 13" using en ek by (simp only: diff_divide_distrib)
  have lt: "of_int n < (2 ^ 40 :: rat)"
    using assms(3) by (metis of_int_less_iff of_int_numeral of_int_power)
  have kn: "0 \<le> (of_int k :: rat)" "of_int k \<le> (of_int n :: rat)" using assms(1,2) by auto
  have "?e < 2 ^ 37" "0 \<le> ?e" using lt kn by simp_all
  moreover have "(2::rat) / 2 ^ 13 \<le> 1" "(2::rat) ^ 37 + 1 \<le> 2 ^ 38" by simp_all
  ultimately have "\<bar>?d\<bar> < 2 ^ 38" using d by linarith
  from rnd64_small_error [OF this] d have r: "\<bar>rnd64 ?d - ?e\<bar> \<le> 3 / 2 ^ 13" by linarith
  then have r': "\<bar>rnd64 ?d - ?e\<bar> < 1 / 20" by (rule le_less_trans) simp
  have "rnd64 ?d \<le> of_int u" "of_int u < rnd64 ?d + 1" unfolding u_def by linarith+
  with r' have "?e - 1 / 20 < of_int u" "of_int u < ?e + 1 + 1 / 20" by linarith+
  then have "of_int (n - k) - 1 / 2 < (of_int (10 * u) :: rat)"
    and "(of_int (10 * u) :: rat) < of_int (n - k + 10) + 1 / 2" by (simp_all add: field_simps)
  then show "n - k \<le> 10 * u" "10 * u \<le> n - k + 10" by linarith+
qed

lemma ceil_tenths_drift: "\<lceil>rnd64 (seconds_of_tenths 83 - seconds_of_tenths 33)\<rceil> = 6"
  by code_simp

end
