(* ===== verification/Go_Path.thy ===== *)
theory Go_Path
  imports Go_Prelude
begin

text \<open>
  \<open>path/filepath\<close> on Unix: \<open>Clean\<close> and \<open>Join\<close>. A path is split at its slashes; empty and \<open>.\<close>
  elements are dropped, \<open>..\<close> removes the element before it, at the root it is dropped.
\<close>

fun split_on :: "char \<Rightarrow> string \<Rightarrow> string list" where
  "split_on c [] = [[]]"
| "split_on c (x # xs) =
     (if x = c then [] # split_on c xs
      else (case split_on c xs of [] \<Rightarrow> [[x]] | p # ps \<Rightarrow> (x # p) # ps))"

fun join_with :: "string \<Rightarrow> string list \<Rightarrow> string" where
  "join_with sep [] = []"
| "join_with sep [p] = p"
| "join_with sep (p # q # ps) = p @ sep @ join_with sep (q # ps)"

text \<open>One element on the stack of kept elements (the last one first).\<close>

definition push_elem :: "bool \<Rightarrow> string \<Rightarrow> string list \<Rightarrow> string list" where
  "push_elem rooted e st =
     (if e = [] \<or> e = ''.'' then st
      else if e = ''..'' then
        (case st of [] \<Rightarrow> if rooted then [] else [''..'']
         | t # ts \<Rightarrow> if t = ''..'' then ''..'' # st else ts)
      else e # st)"

definition Clean :: "string \<Rightarrow> string" where
  "Clean p =
     (let rooted = HasPrefix p ''/'';
          body = join_with ''/'' (rev (fold (push_elem rooted) (split_on CHR ''/'' p) []))
      in if rooted then ''/'' @ body else if body = [] then ''.'' else body)"

definition filepath_Join :: "string list \<Rightarrow> string" where
  "filepath_Join elems =
     (let es = filter (\<lambda>e. e \<noteq> []) elems in if es = [] then [] else Clean (join_with ''/'' es))"

text \<open>\<open>filepath.Base\<close> and \<open>filepath.Ext\<close>.\<close>

definition filepath_Base :: "string \<Rightarrow> string" where
  "filepath_Base p =
     (if p = [] then ''.''
      else let q = TrimRightChar p (CHR ''/'') in
        if q = [] then ''/'' else last (split_on (CHR ''/'') q))"

lemma split_on_not_Nil [simp]: "split_on c s \<noteq> []"
  by (cases s) (auto split: list.splits)

lemma split_on_append:
  "split_on c (xs @ c # ys) = split_on c xs @ split_on c ys"
  by (induction xs) (auto split: list.splits)

lemma split_on_no_sep: "c \<notin> set s \<Longrightarrow> split_on c s = [s]"
  by (induction s) auto

lemma join_split: "join_with [c] (split_on c s) = s"
proof (induction s)
  case (Cons x xs)
  then show ?case
    by (cases "split_on c xs") (auto split: list.splits, (metis append_Cons join_with.simps(2,3) neq_Nil_conv)+)
qed simp

lemma join_with_snoc: "ps \<noteq> [] \<Longrightarrow> join_with sep (ps @ [p]) = join_with sep ps @ sep @ p"
  by (induction sep ps rule: join_with.induct) auto

lemma push_elem_not_Nil: "\<forall>x \<in> set st. x \<noteq> [] \<Longrightarrow> \<forall>x \<in> set (push_elem r e st). x \<noteq> []"
  by (auto simp: push_elem_def split: list.splits if_splits)

lemma fold_push_not_Nil: "\<forall>x \<in> set st. x \<noteq> [] \<Longrightarrow> \<forall>x \<in> set (fold (push_elem r) es st). x \<noteq> []"
proof (induction es arbitrary: st)
  case (Cons e es)
  from Cons.IH [OF push_elem_not_Nil [OF Cons.prems]] show ?case by simp
qed simp

text \<open>Joining one plain element below a rooted directory gives a direct child.\<close>

lemma Join_child:
  assumes "HasPrefix d ''/''" "e \<noteq> []" "CHR ''/'' \<notin> set e" "e \<noteq> ''.''" "e \<noteq> ''..''"
  shows "filepath_Join [d, e] = (if Clean d = ''/'' then ''/'' @ e else Clean d @ ''/'' @ e)"
proof -
  have d: "d \<noteq> []" using assms(1) by (auto simp: HasPrefix_def)
  have r: "HasPrefix (d @ CHR ''/'' # e) ''/''"
    using assms(1) d by (cases d) (auto simp: HasPrefix_def)
  let ?st = "fold (push_elem True) (split_on CHR ''/'' d) []"
  have f: "fold (push_elem True) (split_on CHR ''/'' (d @ CHR ''/'' # e)) [] = e # ?st"
    using assms by (simp add: split_on_append split_on_no_sep push_elem_def)
  show ?thesis
  proof (cases "?st = []")
    case True
    then show ?thesis using assms d r f by (simp add: filepath_Join_def Clean_def)
  next
    case False
    have ne: "join_with ''/'' (rev ?st) \<noteq> []" if "?st \<noteq> []"
    proof -
      have "\<forall>x \<in> set (rev ?st). x \<noteq> []" using fold_push_not_Nil [of "[]"] by simp
      moreover have "\<forall>x \<in> set ps. x \<noteq> [] \<Longrightarrow> ps \<noteq> [] \<Longrightarrow> join_with ''/'' ps \<noteq> []" for ps
        by (cases ps; cases "tl ps") auto
      ultimately show ?thesis using that by simp
    qed
    have "Clean d \<noteq> ''/''" using assms(1) False ne by (simp add: Clean_def)
    then show ?thesis
      using assms d r f False by (simp add: filepath_Join_def Clean_def join_with_snoc)
  qed
qed

subsection \<open>Plain path elements\<close>

definition plainElem :: "string \<Rightarrow> bool" where
  "plainElem e \<longleftrightarrow> e \<noteq> [] \<and> e \<noteq> ''.'' \<and> e \<noteq> ''..'' \<and> CHR ''/'' \<notin> set e"

lemma fold_push_plain:
  "\<forall>e \<in> set es. e \<noteq> [] \<and> e \<noteq> ''.'' \<and> e \<noteq> ''..'' \<Longrightarrow> fold (push_elem r) es st = rev es @ st"
  by (induction es arbitrary: st) (auto simp: push_elem_def)

lemma join_with_append:
  "ps \<noteq> [] \<Longrightarrow> qs \<noteq> [] \<Longrightarrow> join_with sep (ps @ qs) = join_with sep ps @ sep @ join_with sep qs"
proof (induction sep ps rule: join_with.induct)
  case (2 sep p)
  then show ?case by (cases qs) auto
qed auto

lemma split_on_join:
  "es \<noteq> [] \<Longrightarrow> list_all plainElem es \<Longrightarrow> split_on (CHR ''/'') (join_with ''/'' es) = es"
proof (induction "''/''" es rule: join_with.induct)
  case (3 p q ps)
  then show ?case using split_on_append [of "CHR ''/''" p "join_with ''/'' (q # ps)"]
    by (simp add: plainElem_def split_on_no_sep)
qed (simp_all add: plainElem_def split_on_no_sep)

lemma split_on_pieces: "e \<in> set (split_on c s) \<Longrightarrow> c \<notin> set e"
  by (induction s arbitrary: e) (auto split: if_splits list.splits)

lemma push_plain: "CHR ''/'' \<notin> set e \<Longrightarrow> list_all plainElem st \<Longrightarrow> list_all plainElem (push_elem True e st)"
  by (auto simp: push_elem_def plainElem_def split: list.splits)

lemma fold_push_rooted:
  "\<forall>e \<in> set es. CHR ''/'' \<notin> set e \<Longrightarrow> list_all plainElem st \<Longrightarrow> list_all plainElem (fold (push_elem True) es st)"
  by (induction es arbitrary: st) (auto intro: push_plain)

lemma fold_push_list: "list_all plainElem es \<Longrightarrow> fold (push_elem r) es st = rev es @ st"
  by (rule fold_push_plain) (auto simp: list_all_iff plainElem_def)

text \<open>A rooted path is, when cleaned, the slash before a list of plain elements; joining adds to that list.\<close>

definition rooted_at :: "string list \<Rightarrow> string \<Rightarrow> bool" where
  "rooted_at qs p \<longleftrightarrow> HasPrefix p ''/'' \<and> list_all plainElem qs \<and> fold (push_elem True) (split_on (CHR ''/'') p) [] = rev qs"

lemma rooted_exists: "HasPrefix p ''/'' \<Longrightarrow> \<exists>qs. rooted_at qs p"
proof -
  assume p: "HasPrefix p ''/''"
  let ?st = "fold (push_elem True) (split_on (CHR ''/'') p) []"
  have "list_all plainElem ?st" by (rule fold_push_rooted) (auto dest: split_on_pieces)
  then have "rooted_at (rev ?st) p" using p by (simp add: rooted_at_def list_all_iff)
  then show ?thesis by blast
qed

lemma join_with_Cons: "es \<noteq> [] \<Longrightarrow> join_with ''/'' (d # es) = d @ ''/'' @ join_with ''/'' es"
  by (cases es) auto

lemma Join_rooted:
  assumes "rooted_at qs d" "es \<noteq> []" "list_all plainElem es"
  shows "filepath_Join (d # es) = ''/'' @ join_with ''/'' (qs @ es)" "rooted_at (qs @ es) (filepath_Join (d # es))"
proof -
  have d: "d \<noteq> []" "HasPrefix d ''/''" using assms(1) by (auto simp: rooted_at_def HasPrefix_def)
  have ne: "filter (\<lambda>e. e \<noteq> []) (d # es) = d # es"
    using d assms(3) by (induction es) (auto simp: plainElem_def)
  have j: "join_with ''/'' (d # es) = d @ CHR ''/'' # join_with ''/'' es" using join_with_Cons [OF assms(2)] by simp
  have r: "HasPrefix (d @ CHR ''/'' # join_with ''/'' es) ''/''" using d by (cases d) (auto simp: HasPrefix_def)
  have "fold (push_elem True) (split_on (CHR ''/'') (d @ CHR ''/'' # join_with ''/'' es)) [] = rev (qs @ es)"
    using assms by (simp add: split_on_append split_on_join fold_push_list rooted_at_def)
  then show eq: "filepath_Join (d # es) = ''/'' @ join_with ''/'' (qs @ es)"
    using r unfolding filepath_Join_def ne j [symmetric] Let_def Clean_def by (simp add: j)
  have all: "list_all plainElem (qs @ es)" "qs @ es \<noteq> []" using assms by (simp_all add: rooted_at_def)
  have "split_on (CHR ''/'') (CHR ''/'' # join_with ''/'' (qs @ es)) = [] # (qs @ es)"
    using split_on_join [OF all(2,1)] by simp
  then have "fold (push_elem True) (split_on (CHR ''/'') (CHR ''/'' # join_with ''/'' (qs @ es))) [] = rev (qs @ es)"
    using fold_push_list [OF all(1), of True "[]"] by (simp add: push_elem_def)
  then show "rooted_at (qs @ es) (filepath_Join (d # es))"
    unfolding eq rooted_at_def using all(1) by (simp add: HasPrefix_def)
qed

lemma Join_relative:
  assumes "es \<noteq> []" "list_all plainElem es"
  shows "filepath_Join es = join_with ''/'' es"
proof -
  have ne: "filter (\<lambda>e. e \<noteq> []) es = es" using assms(2) by (induction es) (auto simp: plainElem_def)
  obtain e es' where es: "es = e # es'" "plainElem e" using assms by (cases es) auto
  then obtain c cs where e: "e = c # cs" "c \<noteq> CHR ''/''" by (cases e) (auto simp: plainElem_def)
  then obtain t where t: "join_with ''/'' es = c # t" using es by (cases es') auto
  then have "\<not> HasPrefix (join_with ''/'' es) ''/''" using e(2) by (simp add: HasPrefix_def)
  moreover have "fold (push_elem False) (split_on (CHR ''/'') (join_with ''/'' es)) [] = rev es"
    unfolding split_on_join [OF assms] fold_push_list [OF assms(2)] by simp
  moreover have "join_with ''/'' es \<noteq> []" using t by simp
  ultimately show ?thesis using assms(1) unfolding filepath_Join_def ne Let_def Clean_def by simp
qed

end
