(* ===== verification/Go_Scan.thy ===== *)
theory Go_Scan
  imports Go_Float Go_Path
begin

text \<open>
  Numbers as text: \<open>strconv.Atoi\<close>, \<open>strconv.ParseFloat\<close> and the verbs \<open>%d\<close>, \<open>%f\<close> of \<open>fmt.Sscanf\<close>, and the
  verb \<open>%g\<close> of \<open>fmt.Sprintf\<close>. Floats are read in decimal notation; the hexadecimal notation and the words
  \<open>inf\<close> and \<open>nan\<close>, which ffmpeg does not print in the fields read here, count as syntax errors.
\<close>

definition split_sign :: "string \<Rightarrow> int \<times> string" where
  "split_sign s =
     (case s of
        [] \<Rightarrow> (1, [])
      | c # r \<Rightarrow> if c = CHR ''-'' then (- 1, r) else if c = CHR ''+'' then (1, r) else (1, s))"

definition in_int64 :: "int \<Rightarrow> int option" where
  "in_int64 i = (if - (2 ^ 63) \<le> i \<and> i < 2 ^ 63 then Some i else None)"

definition Atoi :: "string \<Rightarrow> int option" where
  "Atoi s =
     (case split_sign s of (sg, r) \<Rightarrow>
       (case read_nat r of None \<Rightarrow> None | Some n \<Rightarrow> in_int64 (sg * int n)))"

definition sscanf_d :: "string \<Rightarrow> int option" where
  "sscanf_d s =
     (case split_sign (dropWhile is_space s) of (sg, r) \<Rightarrow>
       (case read_nat (takeWhile is_digit r) of None \<Rightarrow> None | Some n \<Rightarrow> in_int64 (sg * int n)))"

text \<open>A decimal float at the head of a string: its exact value and what follows it.\<close>

definition scan_exponent :: "string \<Rightarrow> (int \<times> string) option" where
  "scan_exponent s =
     (case s of
        [] \<Rightarrow> Some (0, [])
      | c # r \<Rightarrow>
          if c = CHR ''e'' \<or> c = CHR ''E'' then
            (case split_sign r of (sg, t) \<Rightarrow>
              (case read_nat (takeWhile is_digit t) of
                 None \<Rightarrow> None
               | Some n \<Rightarrow> Some (sg * int n, dropWhile is_digit t)))
          else Some (0, s))"

definition scan_decimal :: "string \<Rightarrow> (rat \<times> string) option" where
  "scan_decimal s =
     (case split_sign s of (sg, r) \<Rightarrow>
       (let ip = takeWhile is_digit r;
            r = dropWhile is_digit r;
            (fp, r) = (case r of
                         [] \<Rightarrow> ([], [])
                       | c # t \<Rightarrow> if c = CHR ''.'' then (takeWhile is_digit t, dropWhile is_digit t) else ([], r))
        in case read_nat (ip @ fp) of
             None \<Rightarrow> None
           | Some n \<Rightarrow>
               (case scan_exponent r of
                  None \<Rightarrow> None
                | Some (e, r) \<Rightarrow> Some (of_int (sg * int n) * 10 powi (e - int (length fp)), r))))"

definition in_float64 :: "rat \<Rightarrow> rat option" where
  "in_float64 x = (let y = rnd64 x in if \<bar>y\<bar> < 2 ^ 1024 then Some y else None)"

lemma in_float64_code [code]:
  "in_float64 x = (let y = rnd64 x in if \<bar>y\<bar> < 1000000000 then Some y else if \<bar>y\<bar> < 2 ^ 1024 then Some y else None)"
proof -
  have "(1000000000 :: rat) \<le> 2 ^ 30" by simp
  also have "\<dots> \<le> 2 ^ 1024" by (rule power_increasing) simp_all
  finally have le: "(1000000000 :: rat) \<le> 2 ^ 1024" .
  have "\<bar>rnd64 x\<bar> < 1000000000 \<Longrightarrow> \<bar>rnd64 x\<bar> < 2 ^ 1024" by (rule less_le_trans [OF _ le])
  then show ?thesis unfolding in_float64_def Let_def by metis
qed

definition ParseFloat :: "string \<Rightarrow> rat option" where
  "ParseFloat s =
     (case scan_decimal s of None \<Rightarrow> None | Some (x, r) \<Rightarrow> if r = [] then in_float64 x else None)"

text \<open>\<open>%f\<close> also swallows the characters of the notations it then fails to convert.\<close>

definition sscanf_f :: "string \<Rightarrow> rat option" where
  "sscanf_f s =
     (case scan_decimal (dropWhile is_space s) of
        None \<Rightarrow> None
      | Some (x, r) \<Rightarrow>
          if r \<noteq> [] \<and> hd r \<in> {CHR ''_'', CHR ''p'', CHR ''P'', CHR ''x'', CHR ''X''} then None else in_float64 x)"

text \<open>\<open>%g\<close>: the shortest digits that read back as the same float, with an exponent outside \<open>10^-4 .. 10^6\<close>.\<close>

fun decimal_exp :: "nat \<Rightarrow> rat \<Rightarrow> int \<Rightarrow> int" where
  "decimal_exp 0 x e = e"
| "decimal_exp (Suc n) x e =
     (if 10 \<le> x then decimal_exp n (x / 10) (e + 1)
      else if x < 1 then decimal_exp n (x * 10) (e - 1) else e)"

definition shortest :: "rat \<Rightarrow> int \<Rightarrow> nat \<Rightarrow> int option" where
  "shortest x e n =
     (let u = 10 powi (e + 1 - int n); d = round_even (x / u)
      in if rnd64 (of_int d * u) = x then Some d else None)"

fun first_some :: "(nat \<Rightarrow> 'a option) \<Rightarrow> nat list \<Rightarrow> 'a option" where
  "first_some f [] = None"
| "first_some f (n # ns) = (case f n of Some y \<Rightarrow> Some y | None \<Rightarrow> first_some f ns)"

definition show_exp :: "int \<Rightarrow> string" where
  "show_exp e =
     (let d = show_nat (nat \<bar>e\<bar>) in
      (if e < 0 then ''e-'' else ''e+'') @ (if length d < 2 then ''0'' @ d else d))"

definition show_g_pos :: "rat \<Rightarrow> string" where
  "show_g_pos x =
     (let e = decimal_exp 400 x 0;
          ds = (case first_some (shortest x e) [1..<18] of None \<Rightarrow> [] | Some d \<Rightarrow> show_int d)
      in if e < - 4 \<or> 6 \<le> e
         then take 1 ds @ (if length ds > 1 then ''.'' @ drop 1 ds else []) @ show_exp e
         else if 0 \<le> e
         then take (nat (e + 1)) (ds @ replicate (nat (e + 1) - length ds) (CHR ''0'')) @
           (if length ds > nat (e + 1) then ''.'' @ drop (nat (e + 1)) ds else [])
         else ''0.'' @ replicate (nat (- e - 1)) (CHR ''0'') @ ds)"

definition show_g :: "rat \<Rightarrow> string" where
  "show_g x = (if x = 0 then ''0'' else if x < 0 then ''-'' @ show_g_pos (- x) else show_g_pos x)"

lemma number_examples:
  "Atoi ''-07'' = Some (- 7)" "Atoi ''1x'' = None" "sscanf_d ''42 frames'' = Some 42"
  "ParseFloat ''3.00'' = Some 3" "ParseFloat ''N/A'' = None" "show_g 60 = ''60''"
  by code_simp+

end
