(* ===== verification/Go_Codec.thy ===== *)
theory Go_Codec
  imports Go_Scan
begin

text \<open>
  Bytes as text and numbers: \<open>encoding/hex\<close>, the standard encoding of \<open>encoding/base64\<close>, and the conversions of
  \<open>math/big\<close> that the worker uses (\<open>SetString\<close> in base 10, \<open>Bytes\<close>, \<open>SetBytes\<close>). Each decoder comes with the lemma
  that it inverts its encoder.
\<close>

subsection \<open>Hexadecimal\<close>

definition hex_val :: "char \<Rightarrow> nat option" where
  "hex_val c =
     (let n = of_char c :: nat in
      if 48 \<le> n \<and> n \<le> 57 then Some (n - 48)
      else if 97 \<le> n \<and> n \<le> 102 then Some (n - 87)
      else if 65 \<le> n \<and> n \<le> 70 then Some (n - 55)
      else None)"

definition hex_digits :: "8 word \<Rightarrow> string" where
  "hex_digits b = [hex_char (unat b div 16), hex_char (unat b mod 16)]"

definition hex_Encode :: "bytes \<Rightarrow> string" where
  "hex_Encode bs = concat (map hex_digits bs)"

text \<open>\<open>hex.DecodeString\<close>, whose error is not looked at by any caller.\<close>

fun hex_Decode :: "string \<Rightarrow> bytes option" where
  "hex_Decode [] = Some []"
| "hex_Decode [c] = None"
| "hex_Decode (c # d # s) =
     (case (hex_val c, hex_val d, hex_Decode s) of
        (Some x, Some y, Some bs) \<Rightarrow> Some (word_of_nat (16 * x + y) # bs)
      | _ \<Rightarrow> None)"

lemma hex_val_char: "n < 16 \<Longrightarrow> hex_val (hex_char n) = Some n"
  by (auto simp: hex_val_def hex_char_def Let_def linorder_not_less)

lemma hex_val_less: "hex_val c = Some n \<Longrightarrow> n < 16"
  by (auto simp: hex_val_def Let_def split: if_splits)

lemma length_hex_Encode [simp]: "length (hex_Encode bs) = 2 * length bs"
  by (induction bs) (simp_all add: hex_Encode_def hex_digits_def)

lemma byte_split: "word_of_nat (16 * (unat b div 16) + unat b mod 16) = (b :: 8 word)"
  by (simp add: mult_div_mod_eq [of 16 "unat b"])

lemma hex_Decode_Encode [simp]: "hex_Decode (hex_Encode bs) = Some bs"
proof (induction bs)
  case (Cons b bs)
  have "unat b < 256" using unsigned_less [of b, where 'a = nat] by simp
  then have "unat b div 16 < 16" by simp
  then show ?case using Cons byte_split [of b]
    by (simp add: hex_Encode_def hex_digits_def hex_val_char)
qed (simp add: hex_Encode_def)

lemma hex_Decode_length: "hex_Decode s = Some bs \<Longrightarrow> length s = 2 * length bs"
  by (induction s arbitrary: bs rule: hex_Decode.induct) (auto split: option.splits)

subsection \<open>Base 64\<close>

definition b64_val :: "char \<Rightarrow> nat option" where
  "b64_val c =
     (let n = of_char c :: nat in
      if 65 \<le> n \<and> n \<le> 90 then Some (n - 65)
      else if 97 \<le> n \<and> n \<le> 122 then Some (n - 71)
      else if 48 \<le> n \<and> n \<le> 57 then Some (n + 4)
      else if n = 43 then Some 62
      else if n = 47 then Some 63
      else None)"

definition CorruptInput :: "nat \<Rightarrow> go_error" where
  "CorruptInput n = Err (''illegal base64 data at input byte '' @ show_nat n)"

text \<open>The bytes that the sextets of one quantum stand for; trailing bits are dropped.\<close>

definition sextets :: "nat list \<Rightarrow> bytes" where
  "sextets vs =
     (let v = foldl (\<lambda>a x. 64 * a + x) 0 (vs @ replicate (4 - length vs) 0)
      in List.take (length vs - 1) [word_of_nat (v div 65536), word_of_nat (v div 256), word_of_nat v])"

text \<open>
  \<open>base64.StdEncoding.DecodeString\<close>: the input without its line breaks, each character with its position;
  \<open>len\<close> is the length of the whole input and \<open>vs\<close> the sextets of the current quantum. After the padding
  nothing may follow.
\<close>

fun b64_trail :: "(nat \<times> char) list \<Rightarrow> nat list \<Rightarrow> bytes result" where
  "b64_trail [] vs = Inr (sextets vs)"
| "b64_trail ((p, c) # cs) vs = Inl (CorruptInput p)"

fun b64_pad :: "nat \<Rightarrow> nat \<Rightarrow> (nat \<times> char) list \<Rightarrow> nat list \<Rightarrow> bytes result" where
  "b64_pad len p [] vs =
     (if length vs < 2 then Inl (CorruptInput p)
      else if length vs = 2 then Inl (CorruptInput len) else b64_trail [] vs)"
| "b64_pad len p ((q, c) # cs) vs =
     (if length vs < 2 then Inl (CorruptInput p)
      else if length vs = 2 then
        (if c = CHR ''='' then b64_trail cs vs else Inl (CorruptInput (q - 1)))
      else b64_trail ((q, c) # cs) vs)"

fun b64_quanta :: "nat \<Rightarrow> (nat \<times> char) list \<Rightarrow> nat list \<Rightarrow> bytes result" where
  "b64_quanta len [] vs = (if vs = [] then Inr [] else Inl (CorruptInput (len - length vs)))"
| "b64_quanta len ((p, c) # cs) vs =
     (case b64_val c of
        Some v \<Rightarrow>
          (if length vs = 3 then rbind (b64_quanta len cs []) (\<lambda>bs. Inr (sextets (vs @ [v]) @ bs))
           else b64_quanta len cs (vs @ [v]))
      | None \<Rightarrow> if c = CHR ''='' then b64_pad len p cs vs else Inl (CorruptInput p))"

definition is_break :: "char \<Rightarrow> bool" where
  "is_break c \<longleftrightarrow> c = CHR 0x0A \<or> c = CHR 0x0D"

definition b64_Decode :: "string \<Rightarrow> bytes result" where
  "b64_Decode s = b64_quanta (length s) (filter (\<lambda>(_, c). \<not> is_break c) (enumerate 0 s)) []"

text \<open>The encoder, which the worker itself uses only inside \<open>encoding/json\<close>.\<close>

definition b64_char :: "nat \<Rightarrow> char" where
  "b64_char n =
     (if n < 26 then char_of (n + 65) else if n < 52 then char_of (n + 71)
      else if n < 62 then char_of (n - 4) else if n = 62 then CHR ''+'' else CHR ''/'')"

fun b64_Encode :: "bytes \<Rightarrow> string" where
  "b64_Encode [] = []"
| "b64_Encode [a] = (let v = unat a in [b64_char (v div 4), b64_char (v mod 4 * 16), CHR ''='', CHR ''=''])"
| "b64_Encode [a, b] =
     (let v = unat a * 256 + unat b
      in [b64_char (v div 1024), b64_char (v div 16 mod 64), b64_char (v mod 16 * 4), CHR ''=''])"
| "b64_Encode (a # b # c # bs) =
     (let v = unat a * 65536 + unat b * 256 + unat c
      in b64_char (v div 262144) # b64_char (v div 4096 mod 64) # b64_char (v div 64 mod 64)
         # b64_char (v mod 64) # b64_Encode bs)"

lemma b64_val_char: "n < 64 \<Longrightarrow> b64_val (b64_char n) = Some n"
  by (auto simp: b64_val_def b64_char_def Let_def linorder_not_less)

lemma is_break_val: "b64_val c = Some n \<Longrightarrow> \<not> is_break c"
  by (auto simp: b64_val_def is_break_def Let_def)

lemma b64_pad_char [simp]: "b64_val CHR ''='' = None" "\<not> is_break CHR ''=''"
  by code_simp+

lemma byte_less: "unat (b :: 8 word) < 256"
  using unsigned_less [of b, where 'a = nat] by simp

lemma word_of_nat_mod: "word_of_nat (n mod 256) = (word_of_nat n :: 8 word)"
  by (simp add: word_of_nat_eq_iff take_bit_eq_mod)

lemma byte_of: "n = 256 * m + unat b \<Longrightarrow> word_of_nat n = (b :: 8 word)"
proof -
  assume "n = 256 * m + unat b"
  then have "n mod 256 = unat b" using byte_less [of b] by simp
  then show ?thesis using word_of_nat_mod [of n] by simp
qed

lemma fourth: "length vs = 3 \<Longrightarrow> \<exists>a b c. vs = [a, b, c]"
  by (auto simp: length_Suc_conv eval_nat_numeral)

text \<open>A full quantum of four characters, and the two that end with padding.\<close>

lemma b64_quantum:
  "b64_val c0 = Some v0 \<Longrightarrow> b64_val c1 = Some v1 \<Longrightarrow> b64_val c2 = Some v2 \<Longrightarrow> b64_val c3 = Some v3 \<Longrightarrow>
   b64_quanta len ((p0, c0) # (p1, c1) # (p2, c2) # (p3, c3) # cs) [] =
     rbind (b64_quanta len cs []) (\<lambda>bs. Inr (sextets [v0, v1, v2, v3] @ bs))"
  by simp

lemma digits_64: "(v :: nat) < 16777216 \<Longrightarrow>
    ((v div 262144 * 64 + v div 4096 mod 64) * 64 + v div 64 mod 64) * 64 + v mod 64 = v"
proof -
  have "v div 64 = v div 64 div 64 * 64 + v div 64 mod 64" "v = v div 64 * 64 + v mod 64"
    "v div 4096 = v div 4096 div 64 * 64 + v div 4096 mod 64" by simp_all
  moreover have "v div 64 div 64 = v div 4096" "v div 4096 div 64 = v div 262144" by (simp_all add: div_mult2_eq [symmetric])
  ultimately show ?thesis by (metis mult.commute)
qed

lemma sextets_full:
  assumes "v = unat a * 65536 + unat b * 256 + unat c"
  shows "sextets [v div 262144, v div 4096 mod 64, v div 64 mod 64, v mod 64] = [a, b, c]"
proof -
  have l: "unat a < 256" "unat b < 256" "unat c < 256" by (rule byte_less)+
  then have v: "v < 16777216" using assms by simp
  have "v div 65536 = unat a" "v div 256 = 256 * unat a + unat b" using assms l by simp_all
  then have "word_of_nat (v div 65536) = a" "word_of_nat (v div 256) = b" "word_of_nat v = c"
    using assms by (simp, metis byte_of, intro byte_of [where m = "unat a * 256 + unat b"], simp)
  then show ?thesis using digits_64 [OF v] by (simp add: sextets_def Let_def algebra_simps)
qed

lemma sextets_two:
  assumes "v = unat a * 256 + unat b"
  shows "sextets [v div 1024, v div 16 mod 64, v mod 16 * 4] = [a, b]"
proof -
  have l: "unat a < 256" "unat b < 256" by (rule byte_less)+
  have "v div 16 = v div 1024 * 64 + v div 16 mod 64" using div_mult_mod_eq [of "v div 16" 64] by (simp add: div_mult2_eq [symmetric])
  moreover have "v = v div 16 * 16 + v mod 16" by simp
  ultimately have "v = (v div 1024 * 64 + v div 16 mod 64) * 16 + v mod 16" by metis
  moreover have "((x * 64 + y) * 64 + z * 4) * 64 = ((x * 64 + y) * 16 + z) * (256 :: nat)" for x y z by simp
  ultimately have e: "((v div 1024 * 64 + v div 16 mod 64) * 64 + v mod 16 * 4) * 64 = v * 256" by metis
  have "v * 256 div 65536 = unat a" using assms l by simp
  then show ?thesis using e assms byte_of [OF assms [unfolded mult.commute [of _ 256]]]
    by (simp add: sextets_def Let_def algebra_simps)
qed

lemma sextets_one: "sextets [unat a div 4, unat a mod 4 * 16] = [a]"
proof -
  have "unat a = unat a div 4 * 4 + unat a mod 4" by simp
  moreover have "x * 64 + y * 16 = (x * 4 + y) * (16 :: nat)" for x y by simp
  ultimately have "unat a div 4 * 64 + unat a mod 4 * 16 = unat a * 16" by metis
  then show ?thesis by (simp add: sextets_def Let_def algebra_simps numeral_2_eq_2)
qed

lemma b64_Encode_no_break: "c \<in> set (b64_Encode bs) \<Longrightarrow> \<not> is_break c"
proof -
  have d: "n < 64 \<Longrightarrow> \<not> is_break (b64_char n)" for n using b64_val_char is_break_val by blast
  have l: "unat (b :: 8 word) < 256" for b by (rule byte_less)
  show "c \<in> set (b64_Encode bs) \<Longrightarrow> \<not> is_break c"
  proof (induction bs rule: b64_Encode.induct)
    case (2 a)
    have "unat a div 4 < 64" "unat a mod 4 * 16 < 64" using l [of a] by simp_all
    then show ?case using 2 d by (auto simp: Let_def)
  next
    case (3 a b)
    have "(unat a * 256 + unat b) div 1024 < 64" "(unat a * 256 + unat b) mod 16 * 4 < 64" using l [of a] l [of b] by simp_all
    then show ?case using 3 d by (auto simp: Let_def)
  next
    case (4 a b c' bs)
    have "(unat a * 65536 + unat b * 256 + unat c') div 262144 < 64" using l [of a] l [of b] l [of c'] by simp
    then show ?case using 4 d by (auto simp: Let_def)
  qed simp
qed

lemma b64_quanta_Encode: "b64_quanta len (enumerate p (b64_Encode bs)) [] = Inr bs"
proof (induction bs arbitrary: p rule: b64_Encode.induct)
  case (2 a)
  have "unat a div 4 < 64" "unat a mod 4 * 16 < 64" using byte_less [of a] by simp_all
  then show ?case using sextets_one [of a] by (simp add: b64_val_char Let_def)
next
  case (3 a b)
  let ?v = "unat a * 256 + unat b"
  have "?v div 1024 < 64" "?v div 16 mod 64 < 64" "?v mod 16 * 4 < 64" using byte_less [of a] byte_less [of b] by simp_all
  then show ?case using sextets_two [of ?v a b] by (simp add: b64_val_char Let_def)
next
  case (4 a b c bs)
  let ?v = "unat a * 65536 + unat b * 256 + unat c"
  have "?v div 262144 < 64" "?v div 4096 mod 64 < 64" "?v div 64 mod 64 < 64" "?v mod 64 < 64"
    using byte_less [of a] byte_less [of b] byte_less [of c] by simp_all
  moreover note sextets_full [of ?v a b c, OF refl] "4" [of ?v "Suc (Suc (Suc (Suc p)))"]
  ultimately show ?case
    by (simp only: b64_Encode.simps Let_def enumerate_simps b64_quantum [OF b64_val_char b64_val_char b64_val_char b64_val_char])
      simp
qed simp

lemma b64_Decode_Encode [simp]: "b64_Decode (b64_Encode bs) = Inr bs"
proof -
  have "filter (\<lambda>(_, c). \<not> is_break c) (enumerate 0 (b64_Encode bs)) = enumerate 0 (b64_Encode bs)"
    by (rule filter_True) (auto dest!: in_set_enumerate_eq [THEN iffD1] b64_Encode_no_break nth_mem)
  then show ?thesis by (simp add: b64_Decode_def b64_quanta_Encode)
qed

subsection \<open>Big integers\<close>

text \<open>\<open>SetString(s, 10)\<close>; \<open>Bytes\<close> of a natural number, most significant byte first; \<open>SetBytes\<close>.\<close>

definition SetString10 :: "string \<Rightarrow> int option" where
  "SetString10 s =
     (case split_sign s of (sg, r) \<Rightarrow>
       (case read_nat r of None \<Rightarrow> None | Some n \<Rightarrow> Some (sg * int n)))"

fun big_Bytes :: "nat \<Rightarrow> bytes" where
  "big_Bytes n = (if n = 0 then [] else big_Bytes (n div 256) @ [word_of_nat n])"

declare big_Bytes.simps [simp del]

definition big_SetBytes :: "bytes \<Rightarrow> nat" where
  "big_SetBytes bs = foldl (\<lambda>n b. 256 * n + unat b) 0 bs"

lemma SetBytes_Bytes [simp]: "big_SetBytes (big_Bytes n) = n"
proof (induction n rule: big_Bytes.induct)
  case (1 n)
  show ?case
  proof (cases "n = 0")
    case False
    have "unat (word_of_nat n :: 8 word) = n mod 256" by (simp add: unsigned_of_nat take_bit_eq_mod)
    then show ?thesis using 1 False by (simp add: big_Bytes.simps [of n] big_SetBytes_def)
  qed (simp add: big_Bytes.simps big_SetBytes_def)
qed

end
