(* ===== verification/Webhooks.thy ===== *)
theory Webhooks
  imports Go_Codec
begin

text \<open>
  \<open>internal/providers/webhooks/webhooks.go\<close>: delivery of one webhook with retries. The trace of a delivery
  lists the pauses and the posts with their body and signature. HMAC-SHA256, the rendering of JSON text and
  the network are parameters: \<open>weDo\<close> answers the next post, an error or a status code, and \<open>weCtxErr\<close> is the
  state of the caller's context, both as a function of the trace so far.
\<close>

record delivery =
  dlURL :: string
  dlSecret :: string
  dlEvent :: string
  dlPayload :: json

datatype wh_event =
    WhSleep duration
  | WhPost string string string string

record http_sender =
  hsBackoffs :: "duration list"
  weHMAC :: "string \<Rightarrow> string \<Rightarrow> bytes"
  weMarshal :: "json \<Rightarrow> string result"
  weNewRequest :: "string \<Rightarrow> unit result"
  weDo :: "wh_event list \<Rightarrow> int result"
  weCtxErr :: "wh_event list \<Rightarrow> go_error option"
  weNow :: time

definition defaultBackoffs :: "duration list" where
  "defaultBackoffs = [1 * second, 5 * second, 25 * second]"

definition NewHTTP :: "http_sender \<Rightarrow> http_sender" where
  "NewHTTP env = env\<lparr>hsBackoffs := defaultBackoffs\<rparr>"

definition SignBody :: "http_sender \<Rightarrow> string \<Rightarrow> string \<Rightarrow> string" where
  "SignBody S body secret = hex_Encode (weHMAC S secret body)"

text \<open>The envelope; an absent payload (nil) is omitted.\<close>

definition envelope :: "string \<Rightarrow> time \<Rightarrow> json \<Rightarrow> json" where
  "envelope event stamp data =
     JObj ([(''event'', JStr event), (''at'', JTime stamp)] @ (if data = JNull then [] else [(''data'', data)]))"

text \<open>
  The loop of \<open>Send\<close>, whose first attempt comes without a pause and every further one after the next
  backoff; \<open>prev\<close> is the error of the attempt before.
\<close>

definition attempt ::
  "http_sender \<Rightarrow> delivery \<Rightarrow> string \<Rightarrow> string \<Rightarrow> wh_event list \<Rightarrow> wh_event list \<times> go_error option option \<times> go_error" where
  "attempt S d body sig tr =
     (case weNewRequest S (dlURL d) of
        Inl err \<Rightarrow> (tr, Some (Some err), err)
      | Inr _ \<Rightarrow>
          (let tr' = tr @ [WhPost (dlURL d) (''sha256='' @ sig) (dlEvent d) body] in
           case weDo S tr of
             Inl err \<Rightarrow> (tr', None, err)
           | Inr status \<Rightarrow>
               if status div 100 = 2 then (tr', Some None, Err [])
               else (tr', None, Err (''webhook: HTTP '' @ show_int status))))"

fun retries ::
  "http_sender \<Rightarrow> delivery \<Rightarrow> string \<Rightarrow> string \<Rightarrow> duration list \<Rightarrow> wh_event list \<Rightarrow> go_error \<Rightarrow>
   wh_event list \<times> go_error option" where
  "retries S d body sig [] tr prev = (tr, Some prev)"
| "retries S d body sig (b # bs) tr prev =
     (let tr = tr @ [WhSleep b] in
      case weCtxErr S tr of
        Some err \<Rightarrow> (tr, Some err)
      | None \<Rightarrow>
          (case attempt S d body sig tr of
             (tr, Some r, _) \<Rightarrow> (tr, r)
           | (tr, None, err) \<Rightarrow> retries S d body sig bs tr err))"

definition Send :: "http_sender \<Rightarrow> delivery \<Rightarrow> wh_event list \<times> go_error option" where
  "Send S d =
     (if dlURL d = [] then ([], None)
      else
        (case weMarshal S (envelope (dlEvent d) (weNow S) (dlPayload d)) of
           Inl err \<Rightarrow> ([], Some (ErrWrap ''marshal: '' err))
         | Inr body \<Rightarrow>
             (let sig = SignBody S body (dlSecret d) in
              case attempt S d body sig [] of
                (tr, Some r, _) \<Rightarrow> (tr, r)
              | (tr, None, err) \<Rightarrow> retries S d body sig (hsBackoffs S) tr err)))"

subsection \<open>Deliveries\<close>

definition retry_trace :: "wh_event \<Rightarrow> duration list \<Rightarrow> wh_event list" where
  "retry_trace post bs = concat (map (\<lambda>b. [WhSleep b, post]) bs)"

lemma retry_trace_simps [simp]:
  "retry_trace post [] = []" "retry_trace post (b # bs) = WhSleep b # post # retry_trace post bs"
  by (simp_all add: retry_trace_def)

text \<open>A trace ends with a post that was answered with a status of the 200 class.\<close>

definition delivered :: "http_sender \<Rightarrow> wh_event \<Rightarrow> wh_event list \<Rightarrow> bool" where
  "delivered S post tr \<longleftrightarrow>
     (\<exists>pre status. tr = pre @ [post] \<and> weDo S pre = Inr status \<and> status div 100 = 2)"

text \<open>Nothing stands in the way of further attempts, but none succeeds.\<close>

definition unanswered :: "http_sender \<Rightarrow> delivery \<Rightarrow> wh_event \<Rightarrow> bool" where
  "unanswered S d post \<longleftrightarrow>
     (\<forall>tr. weCtxErr S tr = None) \<and> is_ok (weNewRequest S (dlURL d)) \<and> (\<forall>tr. \<not> delivered S post tr)"

lemma unanswered_not:
  "weCtxErr S tr = Some e \<Longrightarrow> \<not> unanswered S d post" "weNewRequest S (dlURL d) = Inl e \<Longrightarrow> \<not> unanswered S d post"
  "delivered S post tr \<Longrightarrow> \<not> unanswered S d post"
  by (auto simp: unanswered_def)

abbreviation (input) post_of :: "delivery \<Rightarrow> string \<Rightarrow> string \<Rightarrow> wh_event" where
  "post_of d body sig \<equiv> WhPost (dlURL d) (''sha256='' @ sig) (dlEvent d) body"

lemma attempt_cases:
  obtains (bad) err where "attempt S d body sig tr = (tr, Some (Some err), err)" "weNewRequest S (dlURL d) = Inl err"
  | (ok) "attempt S d body sig tr = (tr @ [post_of d body sig], Some None, Err [])"
      "delivered S (post_of d body sig) (tr @ [post_of d body sig])"
  | (again) err where "attempt S d body sig tr = (tr @ [post_of d body sig], None, err)"
      "\<not> delivered S (post_of d body sig) (tr @ [post_of d body sig])"
proof (cases "weNewRequest S (dlURL d)")
  case (Inl err)
  then show ?thesis using bad by (simp add: attempt_def)
next
  case (Inr u)
  then show ?thesis using ok again
    by (cases "weDo S tr") (auto simp: attempt_def Let_def delivered_def split: if_splits)
qed

lemma not_delivered_sleep [simp]: "\<not> delivered S (WhPost u s e b) (tr @ [WhSleep t])"
  by (simp add: delivered_def)

lemma retries_trace:
  assumes "\<not> delivered S (post_of d body sig) tr"
  shows "\<exists>more rest. fst (retries S d body sig bs tr err) = tr @ more \<and> retry_trace (post_of d body sig) bs = more @ rest \<and>
    (snd (retries S d body sig bs tr err) = None \<longleftrightarrow> delivered S (post_of d body sig) (tr @ more)) \<and>
    (unanswered S d (post_of d body sig) \<longrightarrow> rest = [])"
  using assms
proof (induction bs arbitrary: tr err)
  case (Cons b bs)
  let ?p = "post_of d body sig" and ?tr = "tr @ [WhSleep b]"
  show ?case
  proof (cases "weCtxErr S ?tr")
    case (Some e)
    note n = unanswered_not(1) [OF Some]
    show ?thesis
      by (rule exI [of _ "[WhSleep b]"], rule exI [of _ "?p # retry_trace ?p bs"]) (use Some n in \<open>simp add: Let_def\<close>)
  next
    case None
    show ?thesis
    proof (cases rule: attempt_cases [of S d body sig ?tr])
      case (bad e)
      show ?thesis
        by (rule exI [of _ "[WhSleep b]"], rule exI [of _ "?p # retry_trace ?p bs"]) (use None bad unanswered_not(2) [OF bad(2)] in \<open>simp add: Let_def\<close>)
    next
      case ok
      note n = unanswered_not(3) [OF ok(2)]
      show ?thesis
        by (rule exI [of _ "[WhSleep b, ?p]"], rule exI [of _ "retry_trace ?p bs"]) (use None ok n in \<open>simp add: Let_def\<close>)
    next
      case (again e)
      from Cons.IH [OF again(2)] obtain more rest where m:
        "fst (retries S d body sig bs (?tr @ [?p]) e) = (?tr @ [?p]) @ more" "retry_trace ?p bs = more @ rest"
        "snd (retries S d body sig bs (?tr @ [?p]) e) = None \<longleftrightarrow> delivered S ?p ((?tr @ [?p]) @ more)"
        "unanswered S d ?p \<longrightarrow> rest = []"
        by blast
      show ?thesis
        by (rule exI [of _ "WhSleep b # ?p # more"], rule exI [of _ rest]) (use None again(1) m in \<open>simp add: Let_def\<close>)
    qed
  qed
qed simp

text \<open>
  C29. A delivery always comes to an end: it is a series of identical, signed posts of which each further one
  comes after the next backoff, at most one more post than there are backoffs. It reports success exactly
  if the last post was answered with a status of the 200 class, and if no post ever is, all attempts are made.
\<close>

theorem webhook_delivery:
  assumes "dlURL d \<noteq> []" "weMarshal S (envelope (dlEvent d) (weNow S) (dlPayload d)) = Inr body"
    "post = WhPost (dlURL d) (''sha256='' @ SignBody S body (dlSecret d)) (dlEvent d) body"
  shows "\<exists>rest. post # retry_trace post (hsBackoffs S) = fst (Send S d) @ rest \<and>
    (snd (Send S d) = None \<longleftrightarrow> delivered S post (fst (Send S d))) \<and>
    (unanswered S d post \<longrightarrow> rest = [])"
proof (cases rule: attempt_cases [of S d body "SignBody S body (dlSecret d)" "[]"])
  case (bad e)
  then show ?thesis using assms unanswered_not(2) [OF bad(2)] by (simp add: Send_def Let_def delivered_def)
next
  case ok
  then show ?thesis using assms unanswered_not(3) [OF ok(2)] by (simp add: Send_def Let_def)
next
  case (again e)
  let ?sig = "SignBody S body (dlSecret d)"
  note again = again [folded assms(3), unfolded append_Nil]
  have send: "Send S d = retries S d body ?sig (hsBackoffs S) [post] e"
    using assms(1,2) again(1) by (simp add: Send_def Let_def)
  from retries_trace [of S d ?sig body "[post]" "hsBackoffs S" e, folded assms(3), OF again(2), folded send]
  obtain more rest where "fst (Send S d) = [post] @ more" "retry_trace post (hsBackoffs S) = more @ rest"
    "snd (Send S d) = None \<longleftrightarrow> delivered S post ([post] @ more)"
    "unanswered S d post \<longrightarrow> rest = []"
    by (elim exE conjE) (rule that)
  then show ?thesis by (intro exI [of _ rest]) simp
qed

definition demo_sender :: http_sender where
  "demo_sender =
     NewHTTP \<lparr>hsBackoffs = [], weHMAC = (\<lambda>k b. [0]), weMarshal = (\<lambda>_. Inr ''{}''), weNewRequest = (\<lambda>_. Inr ()),
       weDo = (\<lambda>tr. Inr 503), weCtxErr = (\<lambda>_. None), weNow = 0\<rparr>"

definition demo_delivery :: delivery where
  "demo_delivery = \<lparr>dlURL = ''http://gw'', dlSecret = ''s'', dlEvent = ''job.error'', dlPayload = JNull\<rparr>"

text \<open>With the default backoffs, which the worker documents as three attempts, a gateway that answers 503 gets four posts.\<close>

theorem webhook_delivery_witness:
  "length (filter (\<lambda>e. case e of WhPost _ _ _ _ \<Rightarrow> True | _ \<Rightarrow> False) (fst (Send demo_sender demo_delivery))) = 4 \<and>
   snd (Send demo_sender demo_delivery) \<noteq> None"
proof -
  let ?p = "WhPost ''http://gw'' (''sha256='' @ SignBody demo_sender ''{}'' ''s'') ''job.error'' ''{}''"
  have n: "\<not> delivered demo_sender ?p tr" for tr by (simp add: delivered_def demo_sender_def NewHTTP_def)
  then have "unanswered demo_sender demo_delivery ?p" by (simp add: unanswered_def demo_sender_def NewHTTP_def)
  with webhook_delivery [of demo_delivery demo_sender "''{}''" ?p] n
  have "fst (Send demo_sender demo_delivery) = ?p # retry_trace ?p (hsBackoffs demo_sender)"
    "snd (Send demo_sender demo_delivery) \<noteq> None"
    by (simp_all add: demo_delivery_def demo_sender_def NewHTTP_def)
  then show ?thesis by (simp add: demo_sender_def NewHTTP_def defaultBackoffs_def)
qed

end
