(* ===== verification/Worker_Types.thy ===== *)
theory Worker_Types
  imports Go_Prelude
begin

text \<open>
  \<open>internal/types/types.go\<close>: the data shared by all components. A Go string enumeration is a
  datatype with the source's constants as constructors and one more constructor for every other
  string (the empty zero value of a Go variable among them); the functions \<open>*_string\<close> and
  \<open>*_of_string\<close> are the conversions. Structs are records with a prefix on the field names.
\<close>

named_theorems type_defs \<open>definitions of constants of the package types\<close>

subsection \<open>Mode\<close>

datatype mode = ModeUnified | ModeVOD | ModeABR | ModeLive | ModeOther string

fun Mode_String :: "mode \<Rightarrow> string" where
  "Mode_String ModeUnified = ''all''"
| "Mode_String ModeVOD = ''vod''"
| "Mode_String ModeABR = ''abr''"
| "Mode_String ModeLive = ''live''"
| "Mode_String (ModeOther s) = s"

definition mode_of_string :: "string \<Rightarrow> mode" where
  "mode_of_string s =
     (if s = ''all'' then ModeUnified else if s = ''vod'' then ModeVOD
      else if s = ''abr'' then ModeABR else if s = ''live'' then ModeLive else ModeOther s)"

definition mode_canonical :: "mode \<Rightarrow> bool" where
  "mode_canonical m \<longleftrightarrow> mode_of_string (Mode_String m) = m"

fun Mode_Validate :: "mode \<Rightarrow> unit result" where
  "Mode_Validate (ModeOther s) =
     Inl (Err (''unknown mode '' @ Quote s @ '' (want all|vod|abr|live)''))"
| "Mode_Validate _ = Inr ()"

definition IsUnified :: "mode \<Rightarrow> bool" where "IsUnified m \<longleftrightarrow> m = ModeUnified"
definition IsVOD :: "mode \<Rightarrow> bool" where "IsVOD m \<longleftrightarrow> m = ModeVOD \<or> m = ModeUnified"
definition IsABR :: "mode \<Rightarrow> bool" where "IsABR m \<longleftrightarrow> m = ModeABR \<or> m = ModeUnified"
definition IsLive :: "mode \<Rightarrow> bool" where "IsLive m \<longleftrightarrow> m = ModeLive \<or> m = ModeUnified"

lemma Mode_String_of_string [simp]: "Mode_String (mode_of_string s) = s"
  by (auto simp: mode_of_string_def)

lemma Mode_Validate_of_string:
  "Mode_Validate (mode_of_string s) = Inr () \<longleftrightarrow> s \<in> {''all'', ''vod'', ''abr'', ''live''}"
  by (auto simp: mode_of_string_def)

subsection \<open>Job phases\<close>

datatype job_phase =
    PhaseQueued | PhaseDownloading | PhaseProbing | PhaseEncoding | PhaseUploading
  | PhaseComplete | PhaseError | PhaseOther string

fun JobPhase_string :: "job_phase \<Rightarrow> string" where
  "JobPhase_string PhaseQueued = ''queued''"
| "JobPhase_string PhaseDownloading = ''downloading''"
| "JobPhase_string PhaseProbing = ''probing''"
| "JobPhase_string PhaseEncoding = ''encoding''"
| "JobPhase_string PhaseUploading = ''uploading''"
| "JobPhase_string PhaseComplete = ''complete''"
| "JobPhase_string PhaseError = ''error''"
| "JobPhase_string (PhaseOther s) = s"

definition job_phase_of_string :: "string \<Rightarrow> job_phase" where
  "job_phase_of_string s =
     (if s = ''queued'' then PhaseQueued else if s = ''downloading'' then PhaseDownloading
      else if s = ''probing'' then PhaseProbing else if s = ''encoding'' then PhaseEncoding
      else if s = ''uploading'' then PhaseUploading else if s = ''complete'' then PhaseComplete
      else if s = ''error'' then PhaseError else PhaseOther s)"

definition phase_canonical :: "job_phase \<Rightarrow> bool" where
  "phase_canonical p \<longleftrightarrow> job_phase_of_string (JobPhase_string p) = p"

definition JobPhase_IsTerminal :: "job_phase \<Rightarrow> bool" where
  "JobPhase_IsTerminal p \<longleftrightarrow> p = PhaseComplete \<or> p = PhaseError"

lemma phase_canonical_simps [simp]:
  "phase_canonical PhaseQueued" "phase_canonical PhaseDownloading" "phase_canonical PhaseProbing"
  "phase_canonical PhaseEncoding" "phase_canonical PhaseUploading"
  "phase_canonical PhaseComplete" "phase_canonical PhaseError"
  by (simp_all add: phase_canonical_def job_phase_of_string_def)

record phase_timing =
  ptPhase :: job_phase
  ptStart :: time
  ptEnd :: time

record job =
  jID :: string
  jMode :: mode
  jPhase :: job_phase
  jProgress :: rat
  jInputURL :: string
  jOutputURL :: string
  jPreset :: string
  jWebhookURL :: string
  jWebhookSecret :: string
  jWorkID :: string
  jSender :: bytes
  jPriceWei :: string
  jUnitsPer :: int
  jCreatedAt :: time
  jUpdatedAt :: time
  jPhases :: "phase_timing list"
  jLogs :: "string list"
  jErrorCode :: string
  jErrorMessage :: string

text \<open>The zero value of the struct.\<close>

definition zero_job :: job where
  "zero_job =
     \<lparr>jID = [], jMode = ModeOther [], jPhase = PhaseOther [], jProgress = 0, jInputURL = [],
      jOutputURL = [], jPreset = [], jWebhookURL = [], jWebhookSecret = [], jWorkID = [],
      jSender = [], jPriceWei = [], jUnitsPer = 0, jCreatedAt = zero_time,
      jUpdatedAt = zero_time, jPhases = [], jLogs = [], jErrorCode = [], jErrorMessage = []\<rparr>"

subsection \<open>GPU profiles\<close>

datatype gpu_vendor =
    GPUVendorAuto | GPUVendorNVIDIA | GPUVendorIntel | GPUVendorAMD | GPUVendorNone
  | GPUVendorOther string

fun GPUVendor_String :: "gpu_vendor \<Rightarrow> string" where
  "GPUVendor_String GPUVendorAuto = ''auto''"
| "GPUVendor_String GPUVendorNVIDIA = ''nvidia''"
| "GPUVendor_String GPUVendorIntel = ''intel''"
| "GPUVendor_String GPUVendorAMD = ''amd''"
| "GPUVendor_String GPUVendorNone = ''none''"
| "GPUVendor_String (GPUVendorOther s) = s"

definition gpu_vendor_of_string :: "string \<Rightarrow> gpu_vendor" where
  "gpu_vendor_of_string s =
     (if s = ''auto'' then GPUVendorAuto else if s = ''nvidia'' then GPUVendorNVIDIA
      else if s = ''intel'' then GPUVendorIntel else if s = ''amd'' then GPUVendorAMD
      else if s = ''none'' then GPUVendorNone else GPUVendorOther s)"

fun GPUVendor_Validate :: "gpu_vendor \<Rightarrow> unit result" where
  "GPUVendor_Validate (GPUVendorOther s) =
     Inl (Err (''unknown gpu vendor '' @ Quote s @ '' (want auto|nvidia|intel|amd|none)''))"
| "GPUVendor_Validate _ = Inr ()"

record gpu_profile =
  gVendor :: gpu_vendor
  gModel :: string
  gDriverVer :: string
  gVRAMBytes :: u64
  gMaxSessions :: int
  gSupportsH264 :: bool
  gSupportsHEVC :: bool
  gSupportsAV1 :: bool
  gDetectedAt :: time

definition zero_gpu :: gpu_profile where
  "zero_gpu =
     \<lparr>gVendor = GPUVendorOther [], gModel = [], gDriverVer = [], gVRAMBytes = 0,
      gMaxSessions = 0, gSupportsH264 = False, gSupportsHEVC = False, gSupportsAV1 = False,
      gDetectedAt = zero_time\<rparr>"

subsection \<open>Presets\<close>

record preset =
  pName :: string
  pCodec :: string
  pWidthMax :: int
  pHeightMax :: int
  pBitrateKbps :: int
  pProfile :: string
  pGOPSeconds :: rat
  pExtra :: "(string \<times> json) list"

definition zero_preset :: preset where
  "zero_preset =
     \<lparr>pName = [], pCodec = [], pWidthMax = 0, pHeightMax = 0, pBitrateKbps = 0, pProfile = [],
      pGOPSeconds = 0, pExtra = []\<rparr>"

definition Preset_Validate :: "preset \<Rightarrow> unit result" where
  "Preset_Validate p =
     (if pName p = [] then Inl (Err ''preset name is empty'')
      else if pCodec p \<notin> {''h264'', ''hevc'', ''av1''}
      then Inl (Err (''preset '' @ Quote (pName p) @ '': unknown codec '' @ Quote (pCodec p) @
                     '' (want h264|hevc|av1)''))
      else if pWidthMax p \<le> 0 \<or> pHeightMax p \<le> 0
      then Inl (Err (''preset '' @ Quote (pName p) @ '': width_max/height_max must be > 0''))
      else if pBitrateKbps p \<le> 0
      then Inl (Err (''preset '' @ Quote (pName p) @ '': bitrate_kbps must be > 0''))
      else Inr ())"

definition SupportedBy :: "preset \<Rightarrow> gpu_profile \<Rightarrow> bool" where
  "SupportedBy p g =
     (if pCodec p = ''h264'' then gSupportsH264 g
      else if pCodec p = ''hevc'' then gSupportsHEVC g
      else if pCodec p = ''av1'' then gSupportsAV1 g
      else False)"

text \<open>A catalogue is the list of its presets.\<close>

type_synonym catalogue = "preset list"

fun Lookup :: "catalogue \<Rightarrow> string \<Rightarrow> preset option" where
  "Lookup [] name = None"
| "Lookup (p # ps) name = (if pName p = name then Some p else Lookup ps name)"

fun Catalogue_Filter :: "catalogue \<Rightarrow> gpu_profile \<Rightarrow> preset list" where
  "Catalogue_Filter [] g = []"
| "Catalogue_Filter (p # ps) g =
     (if SupportedBy p g then p # Catalogue_Filter ps g else Catalogue_Filter ps g)"

lemma Lookup_Some_name: "Lookup c n = Some p \<Longrightarrow> pName p = n \<and> p \<in> set c"
  by (induction c n rule: Lookup.induct) (auto split: if_splits)

lemma Lookup_None_iff: "Lookup c n = None \<longleftrightarrow> (\<forall>p \<in> set c. pName p \<noteq> n)"
  by (induction c n rule: Lookup.induct) auto

lemma Lookup_eq_find: "Lookup c n = find (\<lambda>p. pName p = n) c"
  by (induction c n rule: Lookup.induct) auto

lemma Lookup_distinct:
  "distinct (map pName c) \<Longrightarrow> p \<in> set c \<Longrightarrow> Lookup c (pName p) = Some p"
  by (induction c) (auto simp: image_iff)

lemma Catalogue_Filter_eq: "Catalogue_Filter c g = filter (\<lambda>p. SupportedBy p g) c"
  by (induction c g rule: Catalogue_Filter.induct) auto

lemma Preset_Validate_ok_iff:
  "Preset_Validate p = Inr () \<longleftrightarrow>
     pName p \<noteq> [] \<and> pCodec p \<in> {''h264'', ''hevc'', ''av1''} \<and>
     0 < pWidthMax p \<and> 0 < pHeightMax p \<and> 0 < pBitrateKbps p"
  by (auto simp: Preset_Validate_def)

subsection \<open>Error codes\<close>

definition ErrCodeInvalidPayment :: string where
  [type_defs]: "ErrCodeInvalidPayment = ''INVALID_PAYMENT''"
definition ErrCodeInsufficientBalance :: string where
  [type_defs]: "ErrCodeInsufficientBalance = ''INSUFFICIENT_BALANCE''"
definition ErrCodeJobNotFound :: string where
  [type_defs]: "ErrCodeJobNotFound = ''JOB_NOT_FOUND''"
definition ErrCodeJobInvalidPreset :: string where
  [type_defs]: "ErrCodeJobInvalidPreset = ''JOB_INVALID_PRESET''"
definition ErrCodeDownloadFailed :: string where
  [type_defs]: "ErrCodeDownloadFailed = ''DOWNLOAD_FAILED''"
definition ErrCodeProbeFailed :: string where
  [type_defs]: "ErrCodeProbeFailed = ''PROBE_FAILED''"
definition ErrCodeEncodingFailed :: string where
  [type_defs]: "ErrCodeEncodingFailed = ''ENCODING_FAILED''"
definition ErrCodeUploadFailed :: string where
  [type_defs]: "ErrCodeUploadFailed = ''UPLOAD_FAILED''"
definition ErrCodePaymentFailed :: string where
  [type_defs]: "ErrCodePaymentFailed = ''PAYMENT_FAILED''"
definition ErrCodeCapacityExceeded :: string where
  [type_defs]: "ErrCodeCapacityExceeded = ''CAPACITY_EXCEEDED''"
definition ErrCodeStreamEncoderFailed :: string where
  [type_defs]: "ErrCodeStreamEncoderFailed = ''STREAM_ENCODER_FAILED''"
definition ErrCodeStreamNotFound :: string where
  [type_defs]: "ErrCodeStreamNotFound = ''STREAM_NOT_FOUND''"
definition ErrCodeTopupRateLimited :: string where
  [type_defs]: "ErrCodeTopupRateLimited = ''TOPUP_RATE_LIMITED''"
definition ErrCodePreflightNoGPU :: string where
  [type_defs]: "ErrCodePreflightNoGPU = ''PREFLIGHT_NO_GPU''"
definition ErrCodePreflightFFmpegMissing :: string where
  [type_defs]: "ErrCodePreflightFFmpegMissing = ''PREFLIGHT_FFMPEG_MISSING''"
definition ErrCodePreflightDevConflict :: string where
  [type_defs]: "ErrCodePreflightDevConflict = ''PREFLIGHT_DEV_CONFLICT''"

definition JobErrorOf :: "string \<Rightarrow> string \<Rightarrow> go_error" where
  "JobErrorOf code msg = ErrJob \<lparr>eCode = code, eMessage = msg, eExitCode = 0, eStderr = []\<rparr>"

subsection \<open>Streams\<close>

datatype stream_phase =
    StreamPhaseStarting | StreamPhaseStreaming | StreamPhaseLowBalance | StreamPhasePaymentLost
  | StreamPhaseClosing | StreamPhaseClosed | StreamPhaseEncoderFailed
  | StreamPhaseBalanceExhausted | StreamPhaseOther string

fun StreamPhase_string :: "stream_phase \<Rightarrow> string" where
  "StreamPhase_string StreamPhaseStarting = ''starting''"
| "StreamPhase_string StreamPhaseStreaming = ''streaming''"
| "StreamPhase_string StreamPhaseLowBalance = ''low_balance''"
| "StreamPhase_string StreamPhasePaymentLost = ''payment_unreachable''"
| "StreamPhase_string StreamPhaseClosing = ''closing''"
| "StreamPhase_string StreamPhaseClosed = ''closed''"
| "StreamPhase_string StreamPhaseEncoderFailed = ''encoder_failed''"
| "StreamPhase_string StreamPhaseBalanceExhausted = ''balance_exhausted''"
| "StreamPhase_string (StreamPhaseOther s) = s"

definition stream_phase_of_string :: "string \<Rightarrow> stream_phase" where
  "stream_phase_of_string s =
     (if s = ''starting'' then StreamPhaseStarting
      else if s = ''streaming'' then StreamPhaseStreaming
      else if s = ''low_balance'' then StreamPhaseLowBalance
      else if s = ''payment_unreachable'' then StreamPhasePaymentLost
      else if s = ''closing'' then StreamPhaseClosing
      else if s = ''closed'' then StreamPhaseClosed
      else if s = ''encoder_failed'' then StreamPhaseEncoderFailed
      else if s = ''balance_exhausted'' then StreamPhaseBalanceExhausted
      else StreamPhaseOther s)"

definition stream_phase_canonical :: "stream_phase \<Rightarrow> bool" where
  "stream_phase_canonical p \<longleftrightarrow> stream_phase_of_string (StreamPhase_string p) = p"

definition StreamPhase_IsTerminal :: "stream_phase \<Rightarrow> bool" where
  "StreamPhase_IsTerminal p \<longleftrightarrow>
     p = StreamPhaseClosed \<or> p = StreamPhaseEncoderFailed \<or> p = StreamPhaseBalanceExhausted"

record stream =
  sWorkID :: string
  sGatewaySessionID :: string
  sWorkerSessionID :: string
  sPaymentWorkID :: string
  sSender :: bytes
  sPhase :: stream_phase
  sSubscribeURL :: string
  sPublishURL :: string
  sPreset :: string
  sStartedAt :: time
  sUpdatedAt :: time
  sClosedAt :: time
  sDebitSeq :: u64
  sUnitsDebited :: int
  sWebhookURL :: string
  sWebhookSecret :: string
  sLastTopupAt :: time
  sLowBalance :: bool
  sGraceUntil :: time
  sCloseReason :: string
  sErrorCode :: string

definition zero_stream :: stream where
  "zero_stream =
     \<lparr>sWorkID = [], sGatewaySessionID = [], sWorkerSessionID = [], sPaymentWorkID = [],
      sSender = [], sPhase = StreamPhaseOther [], sSubscribeURL = [], sPublishURL = [],
      sPreset = [], sStartedAt = zero_time, sUpdatedAt = zero_time, sClosedAt = zero_time,
      sDebitSeq = 0, sUnitsDebited = 0, sWebhookURL = [], sWebhookSecret = [],
      sLastTopupAt = zero_time, sLowBalance = False, sGraceUntil = zero_time,
      sCloseReason = [], sErrorCode = []\<rparr>"

lemma stream_phase_canonical_simps [simp]:
  "stream_phase_canonical StreamPhaseStarting" "stream_phase_canonical StreamPhaseStreaming"
  "stream_phase_canonical StreamPhaseLowBalance" "stream_phase_canonical StreamPhasePaymentLost"
  "stream_phase_canonical StreamPhaseClosing" "stream_phase_canonical StreamPhaseClosed"
  "stream_phase_canonical StreamPhaseEncoderFailed"
  "stream_phase_canonical StreamPhaseBalanceExhausted"
  by (simp_all add: stream_phase_canonical_def stream_phase_of_string_def)

end
