(* ===== verification/Worker_Config.thy ===== *)
theory Worker_Config
  imports Go_Codec Worker_Types
begin

text \<open>
  \<open>internal/config\<close>: the configuration of the daemon with its defaults and cross-field checks
  (\<open>config.go\<close>), and the shared file \<open>worker.yaml\<close> with its validation and the projection to the rows that
  the HTTP surface offers (\<open>parse.go\<close>). The YAML library, the file system and \<open>net/url\<close> are parameters: a
  document arrives as the record that the decoder fills, and \<open>urlp\<close> gives the scheme and the host of a URL.
  A Go map of type \<open>map[string]any\<close> is an optional list of members, \<open>None\<close> for nil.
\<close>

subsection \<open>Registry rows\<close>

record registry_offering =
  roID :: string
  roPricePerWorkUnitWei :: string
  roBackendURL :: string
  roConstraints :: "(string \<times> json) list option"

record registry_capability =
  capName :: string
  capWorkUnit :: string
  capExtra :: "(string \<times> json) list option"
  capOfferings :: "registry_offering list"

definition capability_Clone :: "registry_capability \<Rightarrow> registry_capability" where
  "capability_Clone c =
     \<lparr>capName = capName c, capWorkUnit = capWorkUnit c, capExtra = capExtra c,
      capOfferings = map (\<lambda>r. \<lparr>roID = roID r, roPricePerWorkUnitWei = roPricePerWorkUnitWei r,
        roBackendURL = roBackendURL r, roConstraints = roConstraints r\<rparr>) (capOfferings c)\<rparr>"

lemma capability_Clone_id [simp]: "capability_Clone c = c"
  by (cases c) (simp add: capability_Clone_def map_idI)

subsection \<open>The shared file\<close>

definition CurrentProtocolVersion :: int where "CurrentProtocolVersion = 1"
definition CurrentAPIVersion :: int where "CurrentAPIVersion = 1"

datatype yaml_node = YNull | YScalar | YSequence | YMapping "(string \<times> json) list result"

record yaml_object =
  yoPresent :: bool
  yoValue :: "(string \<times> json) list option"

text \<open>\<open>UnmarshalYAML\<close> of an object; the field has been set when an error is returned.\<close>

fun object_UnmarshalYAML :: "yaml_node \<Rightarrow> yaml_object \<Rightarrow> yaml_object \<times> unit result" where
  "object_UnmarshalYAML YNull ob =
     (ob\<lparr>yoPresent := True\<rparr>, Inl (Err ''must be an object when present (got null)''))"
| "object_UnmarshalYAML (YMapping (Inr kvs)) ob = (ob\<lparr>yoPresent := True, yoValue := Some kvs\<rparr>, Inr ())"
| "object_UnmarshalYAML (YMapping (Inl err)) ob = (ob\<lparr>yoPresent := True\<rparr>, Inl err)"
| "object_UnmarshalYAML n ob = (ob\<lparr>yoPresent := True\<rparr>, Inl (Err ''must be an object when present''))"

record yaml_offering =
  yfID :: string
  yfPricePerWorkUnitWei :: string
  yfBackendURL :: string
  yfConstraints :: yaml_object

record yaml_capability =
  ycCapability :: string
  ycWorkUnit :: string
  ycExtra :: yaml_object
  ycOfferings :: "yaml_offering list"

record yaml_worker =
  ywHTTPListen :: string
  ywPaymentDaemonSocket :: string

text \<open>Of the two raw nodes only their presence is looked at.\<close>

record yaml_config =
  yProtocolVersion :: int
  yWorkerEthAddress :: string
  yAuthToken :: string
  yPaymentDaemon :: bool
  yWorker :: yaml_worker
  yCapabilities :: "yaml_capability list"
  yServiceRegistryPublisher :: bool

record shared_config =
  shProtocolVersion :: int
  shAPIVersion :: int
  shWorkerEthAddress :: string
  shAuthToken :: string
  shHTTPListen :: string
  shPaymentDaemonSocket :: string
  shCapabilities :: "registry_capability list"

text \<open>What the decoder finds behind the first document.\<close>

datatype yaml_tail = TailEOF | TailDocument | TailError go_error

definition parseReader :: "yaml_config result \<Rightarrow> yaml_tail \<Rightarrow> yaml_config result" where
  "parseReader doc tail =
     (case doc of
        Inl err \<Rightarrow> Inl (ErrWrap ''config: decode: '' err)
      | Inr cfg \<Rightarrow>
          (case tail of
             TailEOF \<Rightarrow> Inr cfg
           | TailDocument \<Rightarrow>
               Inl (Err ''config: unexpected second YAML document; only one document per file is supported'')
           | TailError err \<Rightarrow> Inl (ErrWrap ''config: trailing data after first document: '' err)))"

subsection \<open>Validation\<close>

definition lower_hex :: "char \<Rightarrow> bool" where
  "lower_hex c \<longleftrightarrow> (let n = of_char c :: nat in 48 \<le> n \<and> n \<le> 57 \<or> 97 \<le> n \<and> n \<le> 102)"

definition lower_alnum :: "char \<Rightarrow> bool" where
  "lower_alnum c \<longleftrightarrow> (let n = of_char c :: nat in 48 \<le> n \<and> n \<le> 57 \<or> 97 \<le> n \<and> n \<le> 122)"

text \<open>The two regular expressions.\<close>

definition lowerEthAddressRE :: "string \<Rightarrow> bool" where
  "lowerEthAddressRE s \<longleftrightarrow> HasPrefix s ''0x'' \<and> length s = 42 \<and> list_all lower_hex (drop 2 s)"

definition videoCapabilityNameRE :: "string \<Rightarrow> bool" where
  "videoCapabilityNameRE s \<longleftrightarrow>
     HasPrefix s ''video:'' \<and>
     (let ps = split_on CHR ''.'' (drop 6 s)
      in 2 \<le> length ps \<and> list_all (\<lambda>p. p \<noteq> [] \<and> list_all lower_alnum p) ps)"

definition knownWorkUnits :: "string list" where
  "knownWorkUnits =
     [''token'', ''character'', ''audio_second'', ''image_step_megapixel'', ''video_frame_megapixel'']"

definition sortedKeys :: "string list \<Rightarrow> string list" where
  "sortedKeys ks = sort ks"

definition validateObject :: "string \<Rightarrow> yaml_object \<Rightarrow> unit result" where
  "validateObject path ob =
     (if \<not> yoPresent ob then Inr ()
      else if yoValue ob = None then Inl (Err (path @ '': must be an object when present''))
      else Inr ())"

definition validateOffering ::
  "(string \<Rightarrow> (string \<times> string) result) \<Rightarrow> string \<Rightarrow> nat \<Rightarrow> yaml_offering \<Rightarrow> unit result" where
  "validateOffering urlp capPrefix index r =
     (let pre = capPrefix @ ''.offerings['' @ show_nat index @ '']'' in
      if TrimSpace (yfID r) = [] then Inl (Err (pre @ ''.id: required''))
      else
        (case SetString10 (yfPricePerWorkUnitWei r) of
           None \<Rightarrow> Inl (Err (pre @ ''.price_per_work_unit_wei: '' @ Quote (yfPricePerWorkUnitWei r) @ '' is not a decimal integer''))
         | Some price \<Rightarrow>
             if price \<le> 0
             then Inl (Err (pre @ ''.price_per_work_unit_wei: must be > 0 (got '' @ Quote (yfPricePerWorkUnitWei r) @ '')''))
             else if TrimSpace (yfBackendURL r) = [] then Inl (Err (pre @ ''.backend_url: required''))
             else
               (case urlp (yfBackendURL r) of
                  Inl err \<Rightarrow> Inl (ErrWrap (pre @ ''.backend_url: '') err)
                | Inr (scheme, host) \<Rightarrow>
                    if scheme = [] \<or> host = [] then Inl (Err (pre @ ''.backend_url: must be an absolute URL''))
                    else validateObject (pre @ ''.constraints'') (yfConstraints r))))"

text \<open>The loops with their map of the names seen so far.\<close>

fun validateOfferings ::
  "(string \<Rightarrow> (string \<times> string) result) \<Rightarrow> string \<Rightarrow> nat \<Rightarrow> string list \<Rightarrow> yaml_offering list \<Rightarrow> unit result" where
  "validateOfferings urlp pre j seen [] = Inr ()"
| "validateOfferings urlp pre j seen (r # rs) =
     rbind (validateOffering urlp pre j r) (\<lambda>_.
       if yfID r \<in> set seen
       then Inl (Err (pre @ ''.offerings['' @ show_nat j @ ''].id: duplicate '' @ Quote (yfID r) @ '' within capability''))
       else validateOfferings urlp pre (j + 1) (yfID r # seen) rs)"

definition validateCapability ::
  "(string \<Rightarrow> (string \<times> string) result) \<Rightarrow> nat \<Rightarrow> yaml_capability \<Rightarrow> unit result" where
  "validateCapability urlp i c =
     (let pre = ''capabilities['' @ show_nat i @ '']'' in
      if \<not> videoCapabilityNameRE (ycCapability c)
      then Inl (Err (pre @ ''.capability: must match ^video:[a-z0-9]+('' @ [CHR 0x5C] @ ''.[a-z0-9]+)+$ (got '' @
             Quote (ycCapability c) @ '')''))
      else if ycWorkUnit c \<notin> set knownWorkUnits
      then Inl (Err (pre @ ''.work_unit: must be one of '' @ join_with ''|'' (sortedKeys knownWorkUnits) @ '' (got '' @
             Quote (ycWorkUnit c) @ '')''))
      else rbind (validateObject (pre @ ''.extra'') (ycExtra c)) (\<lambda>_.
        if ycOfferings c = [] then Inl (Err (pre @ ''.offerings: at least one offering required''))
        else validateOfferings urlp pre 0 [] (ycOfferings c)))"

fun validateCapabilities ::
  "(string \<Rightarrow> (string \<times> string) result) \<Rightarrow> nat \<Rightarrow> string list \<Rightarrow> yaml_capability list \<Rightarrow> unit result" where
  "validateCapabilities urlp i seen [] = Inr ()"
| "validateCapabilities urlp i seen (c # cs) =
     rbind (validateCapability urlp i c) (\<lambda>_.
       if ycCapability c \<in> set seen
       then Inl (Err (''capabilities['' @ show_nat i @ ''].capability: duplicate '' @ Quote (ycCapability c)))
       else validateCapabilities urlp (i + 1) (ycCapability c # seen) cs)"

definition validateSharedConfig ::
  "(string \<Rightarrow> (string \<times> string) result) \<Rightarrow> yaml_config option \<Rightarrow> unit result" where
  "validateSharedConfig urlp doc =
     (case doc of
        None \<Rightarrow> Inl (Err ''config: nil shared worker config'')
      | Some cfg \<Rightarrow>
          if yServiceRegistryPublisher cfg
          then Inl (Err ''worker.yaml: 'service_registry_publisher' is not supported in v3.0.1'')
          else if yProtocolVersion cfg \<noteq> CurrentProtocolVersion
          then Inl (Err (''worker.yaml: protocol_version='' @ show_int (yProtocolVersion cfg) @
                 '' is not supported by this worker build (CurrentProtocolVersion='' @ show_int CurrentProtocolVersion @ '')''))
          else if \<not> yPaymentDaemon cfg then Inl (Err ''worker.yaml: missing 'payment_daemon' section'')
          else if yWorkerEthAddress cfg \<noteq> [] \<and> \<not> lowerEthAddressRE (TrimSpace (yWorkerEthAddress cfg))
          then Inl (Err (''worker_eth_address: must be a lowercased 0x-prefixed 40-hex address (got '' @
                 Quote (yWorkerEthAddress cfg) @ '')''))
          else if TrimSpace (ywHTTPListen (yWorker cfg)) = [] then Inl (Err ''worker.http_listen: required'')
          else if TrimSpace (ywPaymentDaemonSocket (yWorker cfg)) = []
          then Inl (Err ''worker.payment_daemon_socket: required'')
          else if yCapabilities cfg = [] then Inl (Err ''capabilities: at least one capability required'')
          else validateCapabilities urlp 0 [] (yCapabilities cfg))"

subsection \<open>Projection\<close>

definition cloneMap :: "(string \<times> json) list option \<Rightarrow> (string \<times> json) list option" where
  "cloneMap m = m"

definition projectOffering :: "yaml_offering \<Rightarrow> registry_offering" where
  "projectOffering r =
     \<lparr>roID = yfID r, roPricePerWorkUnitWei = yfPricePerWorkUnitWei r, roBackendURL = yfBackendURL r,
      roConstraints = cloneMap (yoValue (yfConstraints r))\<rparr>"

definition projectCapability :: "yaml_capability \<Rightarrow> registry_capability" where
  "projectCapability c =
     \<lparr>capName = ycCapability c, capWorkUnit = ycWorkUnit c, capExtra = cloneMap (yoValue (ycExtra c)),
      capOfferings = map projectOffering (ycOfferings c)\<rparr>"

definition projectSharedConfig :: "yaml_config \<Rightarrow> shared_config" where
  "projectSharedConfig cfg =
     \<lparr>shProtocolVersion = CurrentProtocolVersion, shAPIVersion = CurrentAPIVersion,
      shWorkerEthAddress = TrimSpace (yWorkerEthAddress cfg), shAuthToken = TrimSpace (yAuthToken cfg),
      shHTTPListen = TrimSpace (ywHTTPListen (yWorker cfg)),
      shPaymentDaemonSocket = TrimSpace (ywPaymentDaemonSocket (yWorker cfg)),
      shCapabilities = map projectCapability (yCapabilities cfg)\<rparr>"

text \<open>\<open>opened\<close> is the outcome of opening the file, with what the decoder makes of it.\<close>

definition parseFile :: "string \<Rightarrow> (yaml_config result \<times> yaml_tail) result \<Rightarrow> yaml_config result" where
  "parseFile path opened =
     (case opened of
        Inl err \<Rightarrow> Inl (ErrWrap (''config: open '' @ Quote path @ '': '') err)
      | Inr (doc, tail) \<Rightarrow> parseReader doc tail)"

definition LoadSharedWorker ::
  "(string \<Rightarrow> (string \<times> string) result) \<Rightarrow> string \<Rightarrow> (yaml_config result \<times> yaml_tail) result \<Rightarrow> shared_config result" where
  "LoadSharedWorker urlp path opened =
     rbind (parseFile path opened) (\<lambda>cfg.
       case validateSharedConfig urlp (Some cfg) of
         Inl err \<Rightarrow> Inl (ErrWrap ''config: validate: '' err)
       | Inr _ \<Rightarrow> Inr (projectSharedConfig cfg))"

text \<open>The comparison in constant time is an equality; nobody but a test calls it.\<close>

definition CheckBearerToken :: "string \<Rightarrow> string \<Rightarrow> bool" where
  "CheckBearerToken header token \<longleftrightarrow> (let want = ''Bearer '' @ token in length header = length want \<and> header = want)"

subsection \<open>The configuration of the daemon\<close>

record worker_config =
  wcMode :: mode
  wcVersion :: string
  wcDev :: bool
  wcNodeID :: string
  wcProtocolVersion :: int
  wcAPIVersion :: int
  wcWorkerEthAddress :: string
  wcCapabilities :: "registry_capability list"
  wcFFmpegBin :: string
  wcGPUVendor :: gpu_vendor
  wcGPUDevice :: string
  wcIgnoreGPULimit :: bool
  wcMaxQueueSize :: int
  wcTempDir :: string
  wcJobTTL :: duration
  wcGPUSlots :: int
  wcLiveReserve :: int
  wcGPUCostCapacity :: int
  wcGPULiveReserveCost :: int
  wcGPUBatchCostScale :: rat
  wcGPULiveCostScale :: rat
  wcPresetsFile :: string
  wcHTTPListen :: string
  wcGRPCSocket :: string
  wcMetricsListen :: string
  wcMetricsMaxSeries :: int
  wcStorePath :: string
  wcPaymentSocket :: string
  wcRegistrySocket :: string
  wcRegistryRefresh :: duration
  wcWebhookRetryBackoffs :: "duration list"
  wcPublicURL :: string
  wcDebitCadence :: duration
  wcStreamPreCreditSeconds :: int
  wcStreamRunwaySeconds :: int
  wcStreamGraceSeconds :: int
  wcStreamDebitRetryBackoff :: duration
  wcStreamRestartLimit :: int
  wcStreamTopupMinInterval :: duration
  wcShellInternalURL :: string
  wcShellInternalSecret :: string
  wcIngestRTMPListen :: string
  wcIngestRTMPMaxConcurrent :: int
  wcLivePreset :: string
  wcLiveStoragePrefix :: string
  wcAuthToken :: string
  wcPriceWeiPerUnit :: string
  wcFFmpegMaxCPUSeconds :: u64
  wcFFmpegMaxRSSBytes :: u64
  wcFFmpegMaxOpenFDs :: u64
  wcCancelGrace :: duration
  wcMaxJobLogBytes :: int

definition Default :: worker_config where
  "Default =
     \<lparr>wcMode = ModeUnified, wcVersion = ''dev'', wcDev = False, wcNodeID = ''transcode-worker-node'',
      wcProtocolVersion = CurrentProtocolVersion, wcAPIVersion = CurrentAPIVersion, wcWorkerEthAddress = [],
      wcCapabilities = [], wcFFmpegBin = ''/usr/local/bin/ffmpeg'', wcGPUVendor = GPUVendorAuto,
      wcGPUDevice = [], wcIgnoreGPULimit = False, wcMaxQueueSize = 5, wcTempDir = ''/tmp/livepeer-transcode'',
      wcJobTTL = 24 * (3600 * second), wcGPUSlots = 0, wcLiveReserve = 1, wcGPUCostCapacity = 0,
      wcGPULiveReserveCost = 0, wcGPUBatchCostScale = 1, wcGPULiveCostScale = 5 / 4,
      wcPresetsFile = ''presets/h264-streaming.yaml'', wcHTTPListen = '':8080'', wcGRPCSocket = [],
      wcMetricsListen = [], wcMetricsMaxSeries = 10000, wcStorePath = [], wcPaymentSocket = [],
      wcRegistrySocket = [], wcRegistryRefresh = 15 * (60 * second),
      wcWebhookRetryBackoffs = [1 * second, 5 * second, 25 * second], wcPublicURL = [],
      wcDebitCadence = 5 * second, wcStreamPreCreditSeconds = 1, wcStreamRunwaySeconds = 30,
      wcStreamGraceSeconds = 60, wcStreamDebitRetryBackoff = 1 * second, wcStreamRestartLimit = 3,
      wcStreamTopupMinInterval = 5 * second, wcShellInternalURL = [], wcShellInternalSecret = [],
      wcIngestRTMPListen = '':1935'', wcIngestRTMPMaxConcurrent = 4, wcLivePreset = ''h264-live'',
      wcLiveStoragePrefix = ''live/{stream_id}'', wcAuthToken = [], wcPriceWeiPerUnit = ''0'',
      wcFFmpegMaxCPUSeconds = 0, wcFFmpegMaxRSSBytes = 0, wcFFmpegMaxOpenFDs = 0, wcCancelGrace = 5 * second,
      wcMaxJobLogBytes = 128 * 1024\<rparr>"

text \<open>\<open>Validate\<close> returns the first violated rule.\<close>

definition validateStreaming :: "worker_config \<Rightarrow> unit result" where
  "validateStreaming c =
     (if wcDebitCadence c < 1 * second then Inl (Err ''debit_cadence must be >= 1s (gRPC capacity protection)'')
      else if wcStreamPreCreditSeconds c \<le> 0 then Inl (Err ''stream_pre_credit_seconds must be > 0'')
      else if wcStreamRunwaySeconds c \<le> 0 then Inl (Err ''stream_runway_seconds must be > 0'')
      else if wcStreamGraceSeconds c \<le> 0 then Inl (Err ''stream_grace_seconds must be > 0'')
      else if wcStreamRestartLimit c \<le> 0 then Inl (Err ''stream_restart_limit must be > 0'')
      else Inr ())"

definition config_Validate :: "worker_config \<Rightarrow> unit result" where
  "config_Validate c =
     (case Mode_Validate (wcMode c) of
        Inl err \<Rightarrow> Inl (ErrWrap ''mode: '' err)
      | Inr _ \<Rightarrow>
          (case GPUVendor_Validate (wcGPUVendor c) of
             Inl err \<Rightarrow> Inl (ErrWrap ''gpu_vendor: '' err)
           | Inr _ \<Rightarrow>
               if wcFFmpegBin c = [] then Inl (Err ''ffmpeg_bin must be set'')
               else if wcMaxQueueSize c \<le> 0 then Inl (Err ''max_queue_size must be > 0'')
               else if wcTempDir c = [] then Inl (Err ''temp_dir must be set'')
               else if wcGPUBatchCostScale c \<le> 0 then Inl (Err ''gpu_batch_cost_scale must be > 0'')
               else if wcGPULiveCostScale c \<le> 0 then Inl (Err ''gpu_live_cost_scale must be > 0'')
               else if wcHTTPListen c = [] \<and> \<not> wcDev c then Inl (Err ''http_listen must be set in non-dev mode'')
               else if wcPresetsFile c = [] then Inl (Err ''presets_file must be set'')
               else rbind (if IsLive (wcMode c) then validateStreaming c else Inr ()) (\<lambda>_.
                 if wcDev c \<and> wcPaymentSocket c \<noteq> []
                 then Inl (Err (ErrCodePreflightDevConflict @ '': --dev set but --payment-socket-path also configured''))
                 else Inr ())))"

lemma config_Validate_Default: "config_Validate Default = Inr ()"
  by (simp add: config_Validate_def Default_def validateStreaming_def second_def)

subsection \<open>What an accepted file guarantees\<close>

definition object_ok :: "yaml_object \<Rightarrow> bool" where
  "object_ok ob \<longleftrightarrow> (yoPresent ob \<longrightarrow> yoValue ob \<noteq> None)"

definition priced :: "string \<Rightarrow> bool" where
  "priced s \<longleftrightarrow> (case SetString10 s of None \<Rightarrow> False | Some p \<Rightarrow> 0 < p)"

definition offering_ok :: "(string \<Rightarrow> (string \<times> string) result) \<Rightarrow> yaml_offering \<Rightarrow> bool" where
  "offering_ok urlp r \<longleftrightarrow>
     TrimSpace (yfID r) \<noteq> [] \<and> priced (yfPricePerWorkUnitWei r) \<and> TrimSpace (yfBackendURL r) \<noteq> [] \<and>
     (case urlp (yfBackendURL r) of Inl _ \<Rightarrow> False | Inr (scheme, host) \<Rightarrow> scheme \<noteq> [] \<and> host \<noteq> []) \<and>
     object_ok (yfConstraints r)"

definition capability_ok :: "(string \<Rightarrow> (string \<times> string) result) \<Rightarrow> yaml_capability \<Rightarrow> bool" where
  "capability_ok urlp c \<longleftrightarrow>
     videoCapabilityNameRE (ycCapability c) \<and> ycWorkUnit c \<in> set knownWorkUnits \<and> object_ok (ycExtra c) \<and>
     ycOfferings c \<noteq> [] \<and> list_all (offering_ok urlp) (ycOfferings c) \<and> distinct (map yfID (ycOfferings c))"

definition worker_yaml_ok :: "(string \<Rightarrow> (string \<times> string) result) \<Rightarrow> yaml_config \<Rightarrow> bool" where
  "worker_yaml_ok urlp cfg \<longleftrightarrow>
     \<not> yServiceRegistryPublisher cfg \<and> yProtocolVersion cfg = 1 \<and> yPaymentDaemon cfg \<and>
     (yWorkerEthAddress cfg = [] \<or> lowerEthAddressRE (TrimSpace (yWorkerEthAddress cfg))) \<and>
     TrimSpace (ywHTTPListen (yWorker cfg)) \<noteq> [] \<and> TrimSpace (ywPaymentDaemonSocket (yWorker cfg)) \<noteq> [] \<and>
     yCapabilities cfg \<noteq> [] \<and> list_all (capability_ok urlp) (yCapabilities cfg) \<and>
     distinct (map ycCapability (yCapabilities cfg))"

lemma validateObject_iff: "is_ok (validateObject path ob) \<longleftrightarrow> object_ok ob"
  by (simp add: validateObject_def object_ok_def)

lemma validateOffering_iff: "is_ok (validateOffering urlp pre j r) \<longleftrightarrow> offering_ok urlp r"
  by (auto simp: validateOffering_def offering_ok_def Let_def priced_def validateObject_iff
      split: option.splits sum.splits prod.splits)

lemma is_ok_rbind: "is_ok (rbind r f) \<longleftrightarrow> (\<exists>x. r = Inr x \<and> is_ok (f x))"
  by (cases r) auto

lemma is_ok_unit: "is_ok r \<longleftrightarrow> r = Inr ()"
  by (cases r) auto

lemma validateOfferings_iff:
  "is_ok (validateOfferings urlp pre j seen rs) \<longleftrightarrow>
     list_all (offering_ok urlp) rs \<and> distinct (map yfID rs) \<and> set (map yfID rs) \<inter> set seen = {}"
  by (induction urlp pre j seen rs rule: validateOfferings.induct)
    (auto simp: is_ok_rbind validateOffering_iff [unfolded is_ok_unit])

lemma validateCapability_iff: "is_ok (validateCapability urlp i c) \<longleftrightarrow> capability_ok urlp c"
  by (auto simp: validateCapability_def capability_ok_def Let_def is_ok_rbind validateOfferings_iff
      validateObject_iff [unfolded is_ok_unit])

lemma validateCapabilities_iff:
  "is_ok (validateCapabilities urlp i seen cs) \<longleftrightarrow>
     list_all (capability_ok urlp) cs \<and> distinct (map ycCapability cs) \<and> set (map ycCapability cs) \<inter> set seen = {}"
  by (induction urlp i seen cs rule: validateCapabilities.induct)
    (auto simp: is_ok_rbind validateCapability_iff [unfolded is_ok_unit])


text \<open>The rows that reach the HTTP surface: distinct names, and every price a positive decimal number.\<close>

definition registry_ok :: "registry_capability list \<Rightarrow> bool" where
  "registry_ok cs \<longleftrightarrow>
     distinct (map capName cs) \<and>
     list_all (\<lambda>c. videoCapabilityNameRE (capName c) \<and> capWorkUnit c \<in> set knownWorkUnits \<and> capOfferings c \<noteq> [] \<and>
       distinct (map roID (capOfferings c)) \<and>
       list_all (\<lambda>r. TrimSpace (roID r) \<noteq> [] \<and> priced (roPricePerWorkUnitWei r)) (capOfferings c)) cs"

lemma LoadSharedWorker_registry:
  assumes "LoadSharedWorker urlp path opened = Inr sh"
  shows "registry_ok (shCapabilities sh) \<and> shCapabilities sh \<noteq> [] \<and> shHTTPListen sh \<noteq> [] \<and> shPaymentDaemonSocket sh \<noteq> []"
proof -
  obtain cfg where c: "(case validateSharedConfig urlp (Some cfg) of
      Inl err \<Rightarrow> Inl (ErrWrap ''config: validate: '' err) | Inr _ \<Rightarrow> Inr (projectSharedConfig cfg)) = Inr sh"
    using assms unfolding LoadSharedWorker_def rbind_eq_Inr by blast
  then have cfg: "validateSharedConfig urlp (Some cfg) = Inr ()" "sh = projectSharedConfig cfg"
    by (cases "validateSharedConfig urlp (Some cfg)"; simp)+
  have "worker_yaml_ok urlp cfg"
    using cfg(1) unfolding is_ok_unit [symmetric]
    by (simp add: validateSharedConfig_def worker_yaml_ok_def validateCapabilities_iff CurrentProtocolVersion_def
        split: if_splits)
  then show ?thesis
    by (auto simp: cfg(2) worker_yaml_ok_def projectSharedConfig_def registry_ok_def projectCapability_def
        projectOffering_def capability_ok_def offering_ok_def list_all_iff comp_def)
qed

end
