(* ===== verification/Payment_Broker.thy ===== *)
theory Payment_Broker
  imports Go_Prelude
begin

text \<open>
  \<open>internal/service/paymentbroker/paymentbroker.go\<close>: the runner-facing payment surface.
  \<open>broker_ops\<close> is the Go interface \<open>Broker\<close>; the payment daemon behind the production
  implementation is outside the repository, so the runners take the operations as a parameter.
  \<open>fake\<close> is the in-memory broker of tests and dev mode (without the wall-clock stamp of its debit
  records). The locale \<open>broker_ledger\<close> states the ledger contract: a successful debit takes
  exactly the units from the session's balance, everything else that is not a payment leaves
  all balances alone.
\<close>

record session_binding =
  bnWorkID :: string
  bnCapability :: string
  bnOffering :: string
  bnPricePerWorkUnitWei :: string
  bnWorkUnit :: string

record receipt =
  rcSender :: bytes
  rcCreditedWei :: bytes
  rcBalanceWei :: bytes
  rcWinnersQueued :: int

record 'b broker_ops =
  bkOpenSession :: "'b \<Rightarrow> session_binding \<Rightarrow> 'b \<times> unit result"
  bkProcessPayment :: "'b \<Rightarrow> bytes \<Rightarrow> string \<Rightarrow> 'b \<times> receipt result"
  bkDebitBalance :: "'b \<Rightarrow> bytes \<Rightarrow> string \<Rightarrow> int \<Rightarrow> u64 \<Rightarrow> 'b \<times> bytes result"
  bkSufficientBalance :: "'b \<Rightarrow> bytes \<Rightarrow> string \<Rightarrow> int \<Rightarrow> 'b \<times> bool result"
  bkCloseSession :: "'b \<Rightarrow> bytes \<Rightarrow> string \<Rightarrow> 'b \<times> unit result"

subsection \<open>The in-memory broker\<close>

record fake_debit =
  fdSender :: bytes
  fdWorkID :: string
  fdUnits :: int
  fdDebitSeq :: u64

record fake =
  fkBalances :: "string \<Rightarrow> int"
  fkDebits :: "fake_debit list"
  fkOpens :: "string \<rightharpoonup> session_binding"
  fkClosed :: "string \<Rightarrow> bool"
  fkCloses :: "string \<Rightarrow> int"
  fkCreditPerProcess :: int
  fkFailProcess :: "go_error option"
  fkFailDebit :: "go_error option"

definition NewFake :: fake where
  "NewFake = \<lparr>fkBalances = (\<lambda>_. 0), fkDebits = [], fkOpens = Map.empty, fkClosed = (\<lambda>_. False),
     fkCloses = (\<lambda>_. 0), fkCreditPerProcess = 100, fkFailProcess = None, fkFailDebit = None\<rparr>"

definition CreditFor :: "fake \<Rightarrow> string \<Rightarrow> int \<Rightarrow> fake" where
  "CreditFor f workID units =
     f\<lparr>fkBalances := (fkBalances f)(workID := wrap64 (fkBalances f workID + units))\<rparr>"

definition fake_OpenSession :: "fake \<Rightarrow> session_binding \<Rightarrow> fake \<times> unit result" where
  "fake_OpenSession f binding =
     (f\<lparr>fkOpens := (fkOpens f)(bnWorkID binding \<mapsto> binding)\<rparr>, Inr ())"

definition fake_ProcessPayment :: "fake \<Rightarrow> bytes \<Rightarrow> string \<Rightarrow> fake \<times> receipt result" where
  "fake_ProcessPayment f payment workID =
     (case fkFailProcess f of
        Some err \<Rightarrow> (f, Inl err)
      | None \<Rightarrow>
          (let credited = fkCreditPerProcess f; f = CreditFor f workID credited in
           (f, Inr \<lparr>rcSender = map (\<lambda>c. word_of_nat (of_char c)) ''fake-sender'',
                   rcCreditedWei = [word_of_int credited],
                   rcBalanceWei = [word_of_int (fkBalances f workID)], rcWinnersQueued = 0\<rparr>)))"

definition fake_DebitBalance ::
  "fake \<Rightarrow> bytes \<Rightarrow> string \<Rightarrow> int \<Rightarrow> u64 \<Rightarrow> fake \<times> bytes result" where
  "fake_DebitBalance f sender workID units seq =
     (case fkFailDebit f of
        Some err \<Rightarrow> (f, Inl err)
      | None \<Rightarrow>
          (let f = f\<lparr>fkDebits := fkDebits f @
                       [\<lparr>fdSender = sender, fdWorkID = workID, fdUnits = units, fdDebitSeq = seq\<rparr>],
                     fkBalances := (fkBalances f)(workID := wrap64 (fkBalances f workID - units))\<rparr> in
           (f, Inr [word_of_int (fkBalances f workID)])))"

definition fake_SufficientBalance :: "fake \<Rightarrow> bytes \<Rightarrow> string \<Rightarrow> int \<Rightarrow> fake \<times> bool result" where
  "fake_SufficientBalance f sender workID minUnits = (f, Inr (minUnits \<le> fkBalances f workID))"

definition fake_CloseSession :: "fake \<Rightarrow> bytes \<Rightarrow> string \<Rightarrow> fake \<times> unit result" where
  "fake_CloseSession f sender workID =
     (f\<lparr>fkClosed := (fkClosed f)(workID := True),
        fkCloses := (fkCloses f)(workID := wrap64 (fkCloses f workID + 1))\<rparr>, Inr ())"

definition fake_Balance :: "fake \<Rightarrow> string \<Rightarrow> int" where "fake_Balance f workID = fkBalances f workID"
definition fake_IsClosed :: "fake \<Rightarrow> string \<Rightarrow> bool" where "fake_IsClosed f workID = fkClosed f workID"
definition fake_CloseCount :: "fake \<Rightarrow> string \<Rightarrow> int" where "fake_CloseCount f workID = fkCloses f workID"
definition fake_Debits :: "fake \<Rightarrow> fake_debit list" where "fake_Debits f = fkDebits f"
definition fake_OpenedBinding :: "fake \<Rightarrow> string \<Rightarrow> session_binding option" where
  "fake_OpenedBinding f workID = fkOpens f workID"

definition fake_ops :: "fake broker_ops" where
  "fake_ops = \<lparr>bkOpenSession = fake_OpenSession, bkProcessPayment = fake_ProcessPayment,
     bkDebitBalance = fake_DebitBalance, bkSufficientBalance = fake_SufficientBalance,
     bkCloseSession = fake_CloseSession\<rparr>"

subsection \<open>The ledger contract\<close>

text \<open>A sequence of debits, stopping at the first one that is refused.\<close>

fun debit_all ::
  "'b broker_ops \<Rightarrow> 'b \<Rightarrow> bytes \<Rightarrow> string \<Rightarrow> (int \<times> u64) list \<Rightarrow> 'b \<times> unit result" where
  "debit_all bk b sender w [] = (b, Inr ())"
| "debit_all bk b sender w ((u, q) # ds) =
     (case bkDebitBalance bk b sender w u q of
        (b, Inl e) \<Rightarrow> (b, Inl e) | (b, Inr _) \<Rightarrow> debit_all bk b sender w ds)"

locale broker_ledger =
  fixes bk :: "'b broker_ops" and bal :: "'b \<Rightarrow> string \<Rightarrow> int" and good :: "'b \<Rightarrow> bool"
  assumes debit_ok: "good b \<Longrightarrow> bkDebitBalance bk b sender w u q = (b', Inr x) \<Longrightarrow>
      good b' \<and> bal b' = (bal b)(w := wrap64 (bal b w - u))"
    and debit_err: "good b \<Longrightarrow> bkDebitBalance bk b sender w u q = (b', Inl e) \<Longrightarrow> good b' \<and> bal b' = bal b"
    and sufficient: "good b \<Longrightarrow> bkSufficientBalance bk b sender w m = (b', Inr ok) \<Longrightarrow>
      good b' \<and> bal b' = bal b \<and> (ok \<longleftrightarrow> m \<le> bal b w)"
    and open_bal: "good b \<Longrightarrow> bkOpenSession bk b bn = (b', r) \<Longrightarrow> good b' \<and> bal b' = bal b"
    and close_bal: "good b \<Longrightarrow> bkCloseSession bk b sender w = (b', r') \<Longrightarrow> good b' \<and> bal b' = bal b"
    and process_err: "good b \<Longrightarrow> bkProcessPayment bk b pay w = (b', Inl e) \<Longrightarrow> good b' \<and> bal b' = bal b"
    and bal_range: "good b \<Longrightarrow> wrap64 (bal b w) = bal b w"
begin

lemma debit_all_total:
  "good b \<Longrightarrow> debit_all bk b sender w ds = (b', Inr ()) \<Longrightarrow>
   good b' \<and> bal b' = (bal b)(w := wrap64 (bal b w - sum_list (map fst ds)))"
proof (induction ds arbitrary: b)
  case Nil
  then show ?case by (simp add: bal_range)
next
  case (Cons d ds)
  obtain u q where d: "d = (u, q)" by fastforce
  from Cons.prems d obtain b1 x where b1: "bkDebitBalance bk b sender w u q = (b1, Inr x)"
    "debit_all bk b1 sender w ds = (b', Inr ())"
    by (auto split: prod.splits sum.splits)
  note ok = debit_ok [OF Cons.prems(1) b1(1)]
  from Cons.IH [OF _ b1(2)] ok d show ?case
    by (auto simp: diff_diff_eq fun_eq_iff)
qed

text \<open>Affordable debits never overdraw the account.\<close>

lemma debit_after_sufficient:
  assumes "good b" "bkSufficientBalance bk b sender w m = (b1, Inr True)"
    "bkDebitBalance bk b1 sender w u q = (b2, Inr x)" "0 \<le> u" "u \<le> m" "bal b w < 2 ^ 63"
  shows "bal b2 w = bal b w - u \<and> m - u \<le> bal b2 w"
proof -
  have s: "good b1" "bal b1 = bal b" "m \<le> bal b w" using sufficient [OF assms(1,2)] by auto
  then have "bal b2 w = wrap64 (bal b w - u)" using debit_ok [OF s(1) assms(3)] by simp
  moreover have "wrap64 (bal b w - u) = bal b w - u" using assms(4,5,6) s(3) by simp
  ultimately show ?thesis using s(3) by simp
qed

end

definition fake_good :: "fake \<Rightarrow> bool" where
  "fake_good f \<longleftrightarrow> (\<forall>w. wrap64 (fkBalances f w) = fkBalances f w)"

lemma wrap64_idem [simp]: "wrap64 (wrap64 x) = wrap64 x"
  using wrap64_wrap(1) [of x 0] by simp

interpretation ledger: broker_ledger fake_ops fkBalances fake_good
  by unfold_locales
    (auto simp: fake_ops_def fake_DebitBalance_def fake_SufficientBalance_def fake_OpenSession_def
      fake_CloseSession_def fake_ProcessPayment_def fake_good_def Let_def split: option.splits)

lemma fake_good_NewFake [simp]: "fake_good NewFake"
  by (simp add: fake_good_def NewFake_def)

subsection \<open>Properties\<close>

text \<open>
  The in-memory broker is an exact ledger: after a run of successful debits the balance of the
  session has dropped by the sum of the units (in 64-bit arithmetic), no other session is touched,
  and the debit history has grown by exactly these debits, in order.
\<close>

theorem fake_ledger_exact:
  assumes "fake_good f" "debit_all fake_ops f sender w ds = (f', Inr ())"
  shows "fake_Balance f' w = wrap64 (fake_Balance f w - sum_list (map fst ds)) \<and>
    (\<forall>v. v = w \<or> fake_Balance f' v = fake_Balance f v) \<and>
    fake_Debits f' = fake_Debits f @
      map (\<lambda>(u, q). \<lparr>fdSender = sender, fdWorkID = w, fdUnits = u, fdDebitSeq = q\<rparr>) ds"
proof -
  have hist: "debit_all fake_ops f sender w ds = (f', Inr ()) \<Longrightarrow>
      fkDebits f' = fkDebits f @
      map (\<lambda>(u, q). \<lparr>fdSender = sender, fdWorkID = w, fdUnits = u, fdDebitSeq = q\<rparr>) ds" for f
    by (induction ds arbitrary: f)
      (auto simp: fake_ops_def fake_DebitBalance_def Let_def split: option.splits prod.splits)
  show ?thesis
    using ledger.debit_all_total [OF assms] hist [OF assms(2)]
    by (simp add: fake_Balance_def fake_Debits_def)
qed

theorem fake_ledger_exact_witness:
  "fake_Balance (fst (debit_all fake_ops (CreditFor NewFake ''w'' 100) [] ''w'' [(30, 1), (20, 2)])) ''w'' = 50"
proof -
  have g: "fake_good (CreditFor NewFake ''w'' 100)"
    by (simp add: fake_good_def CreditFor_def NewFake_def)
  have r: "debit_all fake_ops (CreditFor NewFake ''w'' 100) [] ''w'' [(30, 1), (20, 2)] =
      (fst (debit_all fake_ops (CreditFor NewFake ''w'' 100) [] ''w'' [(30, 1), (20, 2)]), Inr ())"
    by (simp add: fake_ops_def fake_DebitBalance_def CreditFor_def NewFake_def Let_def)
  show ?thesis
    using fake_ledger_exact [OF g r] by (simp add: fake_Balance_def CreditFor_def NewFake_def)
qed

text \<open>
  A replayed debit is charged again by the in-memory broker: two debits with the same sequence
  number take the units twice, where the interface promises that a replay is a no-op.
\<close>

theorem fake_replay_charges_twice:
  "fkFailDebit f = None \<Longrightarrow>
   snd (debit_all fake_ops f sender w [(u, q), (u, q)]) = Inr () \<and>
   fake_Balance (fst (debit_all fake_ops f sender w [(u, q), (u, q)])) w = wrap64 (fake_Balance f w - 2 * u)"
  by (simp add: fake_ops_def fake_DebitBalance_def fake_Balance_def Let_def diff_diff_eq)

theorem fake_replay_charges_twice_witness:
  "fkFailDebit NewFake = None \<and>
   fake_Balance (fst (debit_all fake_ops NewFake [] ''w'' [(5, 1), (5, 1)])) ''w'' = - 10"
  using fake_replay_charges_twice [of NewFake "[]" "''w''" 5 1]
  by (simp add: NewFake_def fake_Balance_def)

end
