(* ===== verification/Payment_Client.thy ===== *)
theory Payment_Client
  imports Go_Codec Payment_Broker
begin

text \<open>
  \<open>internal/providers/paymentclient/paymentclient.go\<close>: the broker of production, a client of the payment
  daemon. The daemon's RPC interface is \<open>payee_rpc\<close>, a parameter (the stubs are generated, the daemon is
  another program); the client translates its own requests into messages and the answers back. Prices and
  face values travel as big-endian bytes.
\<close>

record ticket_request =
  tqSender :: bytes
  tqRecipient :: bytes
  tqFaceValue :: "int option"
  tqCapability :: string
  tqOffering :: string

record ticket_params =
  tpRecipient :: bytes
  tpFaceValueWei :: bytes
  tpWinProb :: bytes
  tpRecipientRandHash :: bytes
  tpSeed :: bytes
  tpExpirationBlock :: bytes
  tpCreationRound :: int
  tpCreationRoundBlockHash :: bytes

record offering_price =
  opID :: string
  opPricePerWorkUnitWei :: string

record daemon_capability =
  dcCapability :: string
  dcWorkUnit :: string
  dcOfferings :: "offering_price list"

subsection \<open>The messages of the daemon\<close>

record price_info =
  piPricePerUnit :: int
  piPixelsPerUnit :: int

record capability_entry =
  ceCapability :: string
  ceWorkUnit :: string
  ceOfferings :: "(string \<times> price_info option) list"

record ticket_message =
  tmSender :: bytes
  tmRecipient :: bytes
  tmFaceValue :: bytes
  tmCapability :: string
  tmOffering :: string

record open_message =
  omWorkId :: string
  omCapability :: string
  omOffering :: string
  omPricePerWorkUnitWei :: bytes
  omWorkUnit :: string

record 'b payee_rpc =
  rpcListCapabilities :: "'b \<Rightarrow> 'b \<times> capability_entry list result"
  rpcGetTicketParams :: "'b \<Rightarrow> ticket_message \<Rightarrow> 'b \<times> ticket_params option result"
  rpcOpenSession :: "'b \<Rightarrow> open_message \<Rightarrow> 'b \<times> unit result"
  rpcProcessPayment :: "'b \<Rightarrow> bytes \<Rightarrow> string \<Rightarrow> 'b \<times> receipt result"
  rpcDebitBalance :: "'b \<Rightarrow> bytes \<Rightarrow> string \<Rightarrow> int \<Rightarrow> u64 \<Rightarrow> 'b \<times> bytes result"
  rpcSufficientBalance :: "'b \<Rightarrow> bytes \<Rightarrow> string \<Rightarrow> int \<Rightarrow> 'b \<times> bool result"
  rpcCloseSession :: "'b \<Rightarrow> bytes \<Rightarrow> string \<Rightarrow> 'b \<times> unit result"

subsection \<open>The client\<close>

text \<open>\<open>Div\<close> of \<open>big.Int\<close> is Euclidean, which for a positive divisor is the division of \<open>int\<close>.\<close>

definition priceInfoToWeiString :: "price_info option \<Rightarrow> string" where
  "priceInfoToWeiString p =
     (case p of
        None \<Rightarrow> ''0''
      | Some p \<Rightarrow>
          if piPixelsPerUnit p \<le> 0 then show_int (piPricePerUnit p)
          else show_int (piPricePerUnit p div piPixelsPerUnit p))"

definition client_capability :: "capability_entry \<Rightarrow> daemon_capability" where
  "client_capability e =
     \<lparr>dcCapability = ceCapability e, dcWorkUnit = ceWorkUnit e,
      dcOfferings = map (\<lambda>(oid, price). \<lparr>opID = oid, opPricePerWorkUnitWei = priceInfoToWeiString price\<rparr>) (ceOfferings e)\<rparr>"

definition client_ListCapabilities :: "'b payee_rpc \<Rightarrow> 'b \<Rightarrow> 'b \<times> daemon_capability list result" where
  "client_ListCapabilities rpc b =
     (case rpcListCapabilities rpc b of
        (b, Inl err) \<Rightarrow> (b, Inl err)
      | (b, Inr es) \<Rightarrow> (b, Inr (map client_capability es)))"

text \<open>\<open>Bytes\<close> of a big integer is its absolute value.\<close>

definition int_Bytes :: "int \<Rightarrow> bytes" where
  "int_Bytes i = big_Bytes (nat \<bar>i\<bar>)"

definition client_GetTicketParams :: "'b payee_rpc \<Rightarrow> 'b \<Rightarrow> ticket_request \<Rightarrow> 'b \<times> ticket_params result" where
  "client_GetTicketParams rpc b q =
     (case rpcGetTicketParams rpc b
        \<lparr>tmSender = tqSender q, tmRecipient = tqRecipient q,
         tmFaceValue = (case tqFaceValue q of None \<Rightarrow> [] | Some v \<Rightarrow> int_Bytes v),
         tmCapability = tqCapability q, tmOffering = tqOffering q\<rparr> of
        (b, Inl err) \<Rightarrow> (b, Inl err)
      | (b, Inr None) \<Rightarrow> (b, Inl (Err ''paymentclient: daemon returned nil ticket_params''))
      | (b, Inr (Some tp)) \<Rightarrow> (b, Inr tp))"

definition client_OpenSession :: "'b payee_rpc \<Rightarrow> 'b \<Rightarrow> session_binding \<Rightarrow> 'b \<times> unit result" where
  "client_OpenSession rpc b bn =
     (if bnWorkID bn = [] then (b, Inl (Err ''paymentclient: work_id is required''))
      else
        (case SetString10 (bnPricePerWorkUnitWei bn) of
           None \<Rightarrow> (b, Inl (Err (''paymentclient: invalid price_per_work_unit_wei '' @ Quote (bnPricePerWorkUnitWei bn))))
         | Some price \<Rightarrow>
             rpcOpenSession rpc b
               \<lparr>omWorkId = bnWorkID bn, omCapability = bnCapability bn, omOffering = bnOffering bn,
                omPricePerWorkUnitWei = int_Bytes price, omWorkUnit = bnWorkUnit bn\<rparr>))"

definition client_ProcessPayment :: "'b payee_rpc \<Rightarrow> 'b \<Rightarrow> bytes \<Rightarrow> string \<Rightarrow> 'b \<times> receipt result" where
  "client_ProcessPayment rpc b pay workID = rpcProcessPayment rpc b pay workID"

definition client_DebitBalance :: "'b payee_rpc \<Rightarrow> 'b \<Rightarrow> bytes \<Rightarrow> string \<Rightarrow> int \<Rightarrow> u64 \<Rightarrow> 'b \<times> bytes result" where
  "client_DebitBalance rpc b sender workID units debitSeq = rpcDebitBalance rpc b sender workID units debitSeq"

definition client_SufficientBalance :: "'b payee_rpc \<Rightarrow> 'b \<Rightarrow> bytes \<Rightarrow> string \<Rightarrow> int \<Rightarrow> 'b \<times> bool result" where
  "client_SufficientBalance rpc b sender workID minUnits = rpcSufficientBalance rpc b sender workID minUnits"

definition client_CloseSession :: "'b payee_rpc \<Rightarrow> 'b \<Rightarrow> bytes \<Rightarrow> string \<Rightarrow> 'b \<times> unit result" where
  "client_CloseSession rpc b sender workID = rpcCloseSession rpc b sender workID"

definition client_ops :: "'b payee_rpc \<Rightarrow> 'b broker_ops" where
  "client_ops rpc =
     \<lparr>bkOpenSession = client_OpenSession rpc, bkProcessPayment = client_ProcessPayment rpc,
      bkDebitBalance = client_DebitBalance rpc, bkSufficientBalance = client_SufficientBalance rpc,
      bkCloseSession = client_CloseSession rpc\<rparr>"

subsection \<open>What the daemon is told\<close>

text \<open>The price that \<open>OpenSession\<close> announces is the configured one, digit for digit.\<close>

lemma int_Bytes_price: "0 \<le> i \<Longrightarrow> int (big_SetBytes (int_Bytes i)) = i"
  by (simp add: int_Bytes_def)

lemma client_OpenSession_sends:
  assumes "SetString10 (bnPricePerWorkUnitWei bn) = Some price" "0 \<le> price" "bnWorkID bn \<noteq> []"
  shows "\<exists>m. client_OpenSession rpc b bn = rpcOpenSession rpc b m \<and> int (big_SetBytes (omPricePerWorkUnitWei m)) = price \<and>
    omWorkId m = bnWorkID bn \<and> omCapability m = bnCapability bn \<and> omOffering m = bnOffering bn \<and> omWorkUnit m = bnWorkUnit bn"
  using assms
  by (intro exI [of _ "\<lparr>omWorkId = bnWorkID bn, omCapability = bnCapability bn, omOffering = bnOffering bn,
      omPricePerWorkUnitWei = int_Bytes price, omWorkUnit = bnWorkUnit bn\<rparr>"])
    (simp add: client_OpenSession_def int_Bytes_price)

end
