(* ===== verification/Go_Comp.thy ===== *)
theory Go_Comp
  imports Go_Prelude
begin

text \<open>
  Sequential Go code with effects. A computation reads and changes a world \<open>'w\<close> and returns a value
  or an error; \<open>None\<close> is a call that has not returned (it waits on a condition variable).
  \<open>andThen\<close> is the usual \<open>if err != nil { return err }\<close>, \<open>onError\<close> an error branch that
  ends the function, \<open>deferred\<close> a \<open>defer\<close> statement: its action runs on every way out of the
  function. \<open>wp\<close> states what holds when a computation returns (or waits); its rules, collected
  in \<open>wp_rules\<close>, evaluate a program step by step.
\<close>

named_theorems wp_rules \<open>weakest preconditions of the combinators\<close>

type_synonym ('w, 'a) comp = "'w \<Rightarrow> 'w \<times> 'a result option"

definition returns :: "'a \<Rightarrow> ('w, 'a) comp" where
  "returns x w = (w, Some (Inr x))"

definition fails :: "go_error \<Rightarrow> ('w, 'a) comp" where
  "fails e w = (w, Some (Inl e))"

definition andThen :: "('w, 'a) comp \<Rightarrow> ('a \<Rightarrow> ('w, 'b) comp) \<Rightarrow> ('w, 'b) comp" where
  "andThen m f w =
     (case m w of
        (w', None) \<Rightarrow> (w', None)
      | (w', Some (Inl e)) \<Rightarrow> (w', Some (Inl e))
      | (w', Some (Inr x)) \<Rightarrow> f x w')"

definition onError :: "('w, 'a) comp \<Rightarrow> (go_error \<Rightarrow> ('w, 'b) comp) \<Rightarrow> ('a \<Rightarrow> ('w, 'b) comp) \<Rightarrow> ('w, 'b) comp" where
  "onError m h f w =
     (case m w of
        (w', None) \<Rightarrow> (w', None)
      | (w', Some (Inl e)) \<Rightarrow> h e w'
      | (w', Some (Inr x)) \<Rightarrow> f x w')"

text \<open>The error of a call is dropped (\<open>_ = f()\<close>).\<close>

definition ignoring :: "('w, 'a) comp \<Rightarrow> ('w, 'b) comp \<Rightarrow> ('w, 'b) comp" where
  "ignoring m k = onError m (\<lambda>_. k) (\<lambda>_. k)"

definition deferred :: "('w \<Rightarrow> 'w) \<Rightarrow> ('w, 'a) comp \<Rightarrow> ('w, 'a) comp" where
  "deferred d m w = (case m w of (w', None) \<Rightarrow> (w', None) | (w', Some r) \<Rightarrow> (d w', Some r))"

definition modifying :: "('w \<Rightarrow> 'w) \<Rightarrow> ('w, 'a) comp \<Rightarrow> ('w, 'a) comp" where
  "modifying f m w = m (f w)"

definition reading :: "('w \<Rightarrow> ('w, 'a) comp) \<Rightarrow> ('w, 'a) comp" where
  "reading f w = f w w"

text \<open>A fallible step on the world.\<close>

definition step_of :: "('w \<Rightarrow> 'w \<times> 'a result) \<Rightarrow> ('w, 'a) comp" where
  "step_of f w = (case f w of (w', r) \<Rightarrow> (w', Some r))"

subsection \<open>Weakest preconditions\<close>

definition wp :: "('w, 'a) comp \<Rightarrow> 'w \<Rightarrow> ('w \<Rightarrow> 'a result option \<Rightarrow> bool) \<Rightarrow> bool" where
  "wp m w Q = (case m w of (w', r) \<Rightarrow> Q w' r)"

lemma wp_returns [wp_rules]: "wp (returns x) w Q = Q w (Some (Inr x))"
  by (simp add: wp_def returns_def)

lemma wp_fails [wp_rules]: "wp (fails e) w Q = Q w (Some (Inl e))"
  by (simp add: wp_def fails_def)

lemma wp_onError [wp_rules]:
  "wp (onError m h f) w Q =
     wp m w (\<lambda>w' r. case r of None \<Rightarrow> Q w' None
       | Some (Inl e) \<Rightarrow> wp (h e) w' Q | Some (Inr x) \<Rightarrow> wp (f x) w' Q)"
  by (auto simp: wp_def onError_def split: prod.splits option.splits sum.splits)

lemma wp_andThen [wp_rules]:
  "wp (andThen m f) w Q =
     wp m w (\<lambda>w' r. case r of None \<Rightarrow> Q w' None
       | Some (Inl e) \<Rightarrow> Q w' (Some (Inl e)) | Some (Inr x) \<Rightarrow> wp (f x) w' Q)"
  by (auto simp: wp_def andThen_def split: prod.splits option.splits sum.splits)

lemma wp_ignoring [wp_rules]:
  "wp (ignoring m k) w Q = wp m w (\<lambda>w' r. case r of None \<Rightarrow> Q w' None | Some _ \<Rightarrow> wp k w' Q)"
  by (auto simp: wp_def ignoring_def onError_def split: prod.splits option.splits sum.splits)

lemma wp_deferred [wp_rules]:
  "wp (deferred d m) w Q =
     wp m w (\<lambda>w' r. case r of None \<Rightarrow> Q w' None | Some x \<Rightarrow> Q (d w') (Some x))"
  by (auto simp: wp_def deferred_def split: prod.splits option.splits)

lemma wp_modifying [wp_rules]: "wp (modifying f m) w Q = wp m (f w) Q"
  by (simp add: wp_def modifying_def)

lemma wp_reading [wp_rules]: "wp (reading f) w Q = wp (f w) w Q"
  by (simp add: wp_def reading_def)

lemma wp_step_of [wp_rules]: "wp (step_of f) w Q = (case f w of (w', r) \<Rightarrow> Q w' (Some r))"
  by (simp add: wp_def step_of_def split: prod.splits)

lemma wp_if [wp_rules]: "wp (if b then m else n) w Q = (if b then wp m w Q else wp n w Q)"
  by simp

lemma wpD: "wp m w Q \<Longrightarrow> m w = (w', r) \<Longrightarrow> Q w' r"
  by (simp add: wp_def)

lemma wp_mono: "wp m w Q \<Longrightarrow> (\<And>w' r. Q w' r \<Longrightarrow> R w' r) \<Longrightarrow> wp m w R"
  by (auto simp: wp_def split: prod.splits)

end
