(* ===== verification/Kv_Store.thy ===== *)
theory Kv_Store
  imports Go_Prelude "HOL-Library.AList" "HOL-Library.Multiset"
begin

text \<open>
  \<open>internal/providers/store/store.go\<close>: the key-value store behind all durable state.
  \<open>store_ops\<close> is the Go interface \<open>Store\<close>; the locale \<open>kv_store\<close> is its contract, stated
  on the abstract content \<open>view\<close> of a store; \<open>reliable_store\<close> adds that writes succeed.
  \<open>memStore\<close> is the in-memory implementation. \<open>boltStore\<close> is the code of the BoltDB-backed
  implementation over the operations of the library \<open>bbolt\<close>, which are parameters: the locale
  \<open>bbolt\<close> states what its documentation promises, and from that the contract of a store
  follows. Values are polymorphic here; the repository stores JSON values.
\<close>

subsection \<open>The interface\<close>

record ('s, 'v) store_ops =
  opPut :: "'s \<Rightarrow> string \<Rightarrow> string \<Rightarrow> 'v \<Rightarrow> 's \<times> unit result"
  opGet :: "'s \<Rightarrow> string \<Rightarrow> string \<Rightarrow> 'v result"
  opDelete :: "'s \<Rightarrow> string \<Rightarrow> string \<Rightarrow> 's \<times> unit result"
  opList :: "'s \<Rightarrow> string \<Rightarrow> (string \<times> 'v) list result"

text \<open>\<open>PutJSON\<close> and \<open>GetJSON\<close> with the marshalling of the value's type.\<close>

definition PutJSON ::
  "('s, json) store_ops \<Rightarrow> ('a \<Rightarrow> json result) \<Rightarrow> 's \<Rightarrow> string \<Rightarrow> string \<Rightarrow> 'a \<Rightarrow> 's \<times> unit result" where
  "PutJSON st marshal s bucket key v =
     (case marshal v of
        Inl err \<Rightarrow> (s, Inl (ErrWrap ''marshal: '' err))
      | Inr b \<Rightarrow> opPut st s bucket key b)"

definition GetJSON ::
  "('s, json) store_ops \<Rightarrow> (json \<Rightarrow> 'a result) \<Rightarrow> 's \<Rightarrow> string \<Rightarrow> string \<Rightarrow> 'a result" where
  "GetJSON st unmarshal s bucket key = rbind (opGet st s bucket key) unmarshal"

locale kv_store =
  fixes st :: "('s, 'v) store_ops"
    and view :: "'s \<Rightarrow> string \<Rightarrow> string \<Rightarrow> 'v option"
    and inv :: "'s \<Rightarrow> bool"
  assumes get_view: "inv s \<Longrightarrow>
      opGet st s b k = (case view s b k of None \<Rightarrow> Inl ErrStoreNotFound | Some v \<Rightarrow> Inr v)"
    and put_ok: "inv s \<Longrightarrow> opPut st s b k v = (s', Inr ()) \<Longrightarrow>
      inv s' \<and> view s' = (view s)(b := (view s b)(k \<mapsto> v))"
    and put_err: "inv s \<Longrightarrow> opPut st s b k v = (s', Inl e) \<Longrightarrow> inv s' \<and> view s' = view s"
    and delete_ok: "inv s \<Longrightarrow> opDelete st s b k = (s', Inr ()) \<Longrightarrow>
      inv s' \<and> view s' = (view s)(b := (view s b)(k := None))"
    and delete_err: "inv s \<Longrightarrow> opDelete st s b k = (s', Inl e) \<Longrightarrow> inv s' \<and> view s' = view s"
    and list_view: "inv s \<Longrightarrow> \<exists>kvs. opList st s b = Inr kvs \<and> sorted (map fst kvs) \<and>
      distinct (map fst kvs) \<and> map_of kvs = view s b"
begin

lemma get_after_put:
  "inv s \<Longrightarrow> opPut st s b k v = (s', Inr ()) \<Longrightarrow> opGet st s' b k = Inr v"
  using put_ok [of s b k v s'] get_view [of s' b k] by simp

lemma get_other_after_put:
  "inv s \<Longrightarrow> opPut st s b k v = (s', Inr ()) \<Longrightarrow> (b', k') \<noteq> (b, k) \<Longrightarrow>
   opGet st s' b' k' = opGet st s b' k'"
  using put_ok [of s b k v s'] get_view [of s' b' k'] get_view [of s b' k'] by auto

lemma put_inv: "inv s \<Longrightarrow> inv (fst (opPut st s b k v))"
proof -
  assume s: "inv s"
  obtain s' r where "opPut st s b k v = (s', r)" by fastforce
  with s put_ok [of s b k v s'] put_err [of s b k v s'] show ?thesis by (cases r) auto
qed

end

locale reliable_store = kv_store +
  assumes put_total: "inv s \<Longrightarrow> b \<noteq> [] \<Longrightarrow> k \<noteq> [] \<Longrightarrow> snd (opPut st s b k v) = Inr ()"
begin

lemma put_view:
  assumes "inv s" "b \<noteq> []" "k \<noteq> []"
  shows "\<exists>s'. opPut st s b k v = (s', Inr ()) \<and> inv s' \<and> view s' = (view s)(b := (view s b)(k \<mapsto> v))"
  using put_total [OF assms, of v] put_ok [OF assms(1), of b k v]
  by (cases "opPut st s b k v") auto

end

subsection \<open>Sorting the listing\<close>

text \<open>
  The in-place insertion sort: \<open>sift kv j\<close> is the inner loop, \<open>sort_from kv i\<close> the outer one.
\<close>

fun sift :: "(string \<times> 'v) list \<Rightarrow> nat \<Rightarrow> (string \<times> 'v) list" where
  "sift kv 0 = kv"
| "sift kv (Suc j) =
     (if fst (kv ! j) > fst (kv ! Suc j) then sift (kv[j := kv ! Suc j, Suc j := kv ! j]) j else kv)"

lemma length_sift [simp]: "length (sift kv j) = length kv"
  by (induction kv j rule: sift.induct) auto

function sort_from :: "(string \<times> 'v) list \<Rightarrow> nat \<Rightarrow> (string \<times> 'v) list" where
  "sort_from kv i = (if i < length kv then sort_from (sift kv i) (Suc i) else kv)"
  by auto
termination by (relation "measure (\<lambda>(kv, i). length kv - i)") auto

declare sort_from.simps [simp del]

definition sortKV :: "(string \<times> 'v) list \<Rightarrow> (string \<times> 'v) list" where
  "sortKV kv = sort_from kv 1"

subsection \<open>The in-memory store\<close>

text \<open>
  A Go map is an association list with distinct keys. \<open>List\<close> walks the map in some order and then
  sorts; the walk here follows the association list, and \<open>sortKV_order_irrelevant\<close> below
  shows that the order of the walk does not matter.
\<close>

type_synonym 'v memStore = "(string \<times> (string \<times> 'v) list) list"

definition Memory :: "'v memStore" where "Memory = []"

definition mem_Put :: "'v memStore \<Rightarrow> string \<Rightarrow> string \<Rightarrow> 'v \<Rightarrow> 'v memStore \<times> unit result" where
  "mem_Put s bucket key value =
     (let b = (case map_of s bucket of None \<Rightarrow> [] | Some b \<Rightarrow> b) in
      (AList.update bucket (AList.update key value b) s, Inr ()))"

definition mem_Get :: "'v memStore \<Rightarrow> string \<Rightarrow> string \<Rightarrow> 'v result" where
  "mem_Get s bucket key =
     (case map_of s bucket of
        None \<Rightarrow> Inl ErrStoreNotFound
      | Some b \<Rightarrow> (case map_of b key of None \<Rightarrow> Inl ErrStoreNotFound | Some v \<Rightarrow> Inr v))"

definition mem_Delete :: "'v memStore \<Rightarrow> string \<Rightarrow> string \<Rightarrow> 'v memStore \<times> unit result" where
  "mem_Delete s bucket key =
     (case map_of s bucket of
        None \<Rightarrow> (s, Inr ())
      | Some b \<Rightarrow> (AList.update bucket (AList.delete key b) s, Inr ()))"

definition mem_List :: "'v memStore \<Rightarrow> string \<Rightarrow> (string \<times> 'v) list result" where
  "mem_List s bucket =
     (case map_of s bucket of None \<Rightarrow> Inr [] | Some b \<Rightarrow> Inr (sortKV b))"

definition memStore_ops :: "('v memStore, 'v) store_ops" where
  "memStore_ops = \<lparr>opPut = mem_Put, opGet = mem_Get, opDelete = mem_Delete, opList = mem_List\<rparr>"

definition mem_view :: "'v memStore \<Rightarrow> string \<Rightarrow> string \<Rightarrow> 'v option" where
  "mem_view s b k = (case map_of s b of None \<Rightarrow> None | Some m \<Rightarrow> map_of m k)"

definition mem_inv :: "'v memStore \<Rightarrow> bool" where
  "mem_inv s \<longleftrightarrow> distinct (map fst s) \<and> (\<forall>(b, m) \<in> set s. distinct (map fst m))"

subsection \<open>The insertion sort is correct\<close>

text \<open>Insertion into a sorted prefix, on the reversed prefix.\<close>

fun insR :: "(string \<times> 'v) list \<Rightarrow> string \<times> 'v \<Rightarrow> (string \<times> 'v) list" where
  "insR [] x = [x]"
| "insR (y # r) x = (if fst y > fst x then y # insR r x else x # y # r)"

lemma sift_insR: "sift (rev r @ x # ys) (length r) = rev (insR r x) @ ys"
proof (induction r arbitrary: ys)
  case Nil
  then show ?case by simp
next
  case (Cons y r)
  have n1: "(rev r @ y # x # ys) ! length r = y"
    by (metis length_rev nth_append_length)
  have n2: "(rev r @ y # x # ys) ! Suc (length r) = x"
    by (metis append.assoc append_Cons append_Nil length_append_singleton length_rev nth_append_length)
  have upd: "(rev r @ y # x # ys)[length r := x, Suc (length r) := y] = rev r @ x # y # ys"
    by (simp add: list_update_append)
  show ?case using Cons.IH [of "y # ys"] n1 n2 upd by simp
qed

lemma mset_insR [simp]: "mset (insR r x) = add_mset x (mset r)"
  by (induction r x rule: insR.induct) auto

lemma set_insR [simp]: "set (insR r x) = insert x (set r)"
  by (metis mset_insR set_mset_add_mset_insert set_mset_mset)

lemma sorted_insR: "sorted_wrt (\<lambda>a b. fst b \<le> fst a) r \<Longrightarrow> sorted_wrt (\<lambda>a b. fst b \<le> fst a) (insR r x)"
  by (induction r x rule: insR.induct) (auto simp: not_less)

lemma sort_from_correct:
  assumes "i \<le> length kv" "sorted (map fst (take i kv))"
  shows "sorted (map fst (sort_from kv i)) \<and> mset (sort_from kv i) = mset kv"
  using assms
proof (induction kv i rule: sort_from.induct)
  case (1 kv i)
  show ?case
  proof (cases "i < length kv")
    case False
    then show ?thesis using "1.prems" by (simp add: sort_from.simps)
  next
    case True
    let ?r = "rev (take i kv)" and ?x = "kv ! i" and ?ys = "drop (Suc i) kv"
    have kv: "kv = rev ?r @ ?x # ?ys" using True by (simp add: id_take_nth_drop)
    have len: "length ?r = i" using True by simp
    have s: "sift kv i = rev (insR ?r ?x) @ ?ys"
      using sift_insR [of ?r ?x ?ys] kv len by metis
    have li: "length (insR ?r ?x) = Suc i"
      by (metis mset_insR size_mset size_add_mset len)
    have "sorted_wrt (\<lambda>a b. fst b \<le> fst a) ?r"
      using "1.prems"(2) by (simp add: sorted_wrt_rev sorted_map)
    then have "sorted (map fst (take (Suc i) (sift kv i)))"
      using sorted_insR [of ?r ?x] li s by (simp add: sorted_wrt_rev sorted_map)
    moreover have "mset (sift kv i) = mset kv"
    proof -
      have "mset (sift kv i) = add_mset ?x (mset (take i kv)) + mset ?ys" by (simp add: s)
      also have "\<dots> = mset (rev ?r @ ?x # ?ys)" by simp
      also have "\<dots> = mset kv" using kv by metis
      finally show ?thesis .
    qed
    ultimately show ?thesis
      using "1.IH" [OF True] True by (simp add: sort_from.simps [of kv i])
  qed
qed

lemma sortKV_sorted: "sorted (map fst (sortKV kv))"
  and mset_sortKV [simp]: "mset (sortKV kv) = mset kv"
proof -
  have "sorted (map fst (sortKV kv)) \<and> mset (sortKV kv) = mset kv"
  proof (cases kv)
    case Nil
    then show ?thesis by (simp add: sortKV_def sort_from.simps)
  next
    case (Cons a as)
    then show ?thesis unfolding sortKV_def by (intro sort_from_correct) auto
  qed
  then show "sorted (map fst (sortKV kv))" "mset (sortKV kv) = mset kv" by auto
qed

lemma distinct_sortKV: "distinct (map fst kv) \<Longrightarrow> distinct (map fst (sortKV kv))"
  by (metis mset_map mset_sortKV mset_eq_imp_distinct_iff)

lemma map_of_same_mset:
  assumes "distinct (map fst xs)" "mset ys = mset xs"
  shows "map_of ys = map_of xs"
proof -
  have "distinct (map fst ys)" using assms by (metis mset_map mset_eq_imp_distinct_iff)
  moreover have "set ys = set xs" using assms(2) by (rule mset_eq_setD)
  ultimately show ?thesis using assms(1) map_of_inject_set by blast
qed

lemma map_of_sortKV: "distinct (map fst kv) \<Longrightarrow> map_of (sortKV kv) = map_of kv"
  by (rule map_of_same_mset) simp_all

text \<open>Two walks of the same map give the same listing.\<close>

lemma sorted_distinct_fst_unique:
  assumes "sorted (map fst xs)" "sorted (map fst ys)" "distinct (map fst xs)" "mset xs = mset ys"
  shows "xs = ys"
proof -
  have ks: "map fst xs = map fst ys"
    using assms by (metis mset_map properties_for_sort sorted_sort_id)
  have "map_of xs = map_of ys" using map_of_same_mset [of xs ys] assms by metis
  moreover have "length xs = length ys" using assms(4) by (metis size_mset)
  moreover have "zip (map fst zs) (map snd zs) = zs" for zs :: "('a \<times> 'b) list"
    by (simp add: zip_map_fst_snd)
  ultimately show ?thesis
    using ks assms(3) by (metis map_of_zip_inject length_map)
qed

lemma sortKV_order_irrelevant:
  "distinct (map fst xs) \<Longrightarrow> mset ys = mset xs \<Longrightarrow> sortKV ys = sortKV xs"
  using sorted_distinct_fst_unique [of "sortKV xs" "sortKV ys"]
  by (simp add: sortKV_sorted distinct_sortKV)

subsection \<open>The in-memory store satisfies the contract\<close>

lemma mem_view_Put:
  "mem_view (fst (mem_Put s b k v)) = (mem_view s)(b := (mem_view s b)(k \<mapsto> v))"
  by (auto simp: mem_view_def mem_Put_def Let_def fun_eq_iff update_conv' split: option.splits)

lemma mem_view_Delete:
  "mem_view (fst (mem_Delete s b k)) = (mem_view s)(b := (mem_view s b)(k := None))"
  by (auto simp: mem_view_def mem_Delete_def fun_eq_iff update_conv' delete_conv' split: option.splits)

lemma mem_inv_bucket: "mem_inv s \<Longrightarrow> map_of s b = Some m \<Longrightarrow> distinct (map fst m)"
  by (auto simp: mem_inv_def dest: map_of_SomeD)

lemma mem_inv_update:
  assumes "mem_inv s" "distinct (map fst m)"
  shows "mem_inv (AList.update b m s)"
proof -
  have "set (AList.update b m s) \<subseteq> insert (b, m) (set s)"
    by (induction s) auto
  with assms show ?thesis by (auto simp: mem_inv_def distinct_update)
qed

lemma mem_inv_Put: "mem_inv s \<Longrightarrow> mem_inv (fst (mem_Put s b k v))"
  by (auto simp: mem_Put_def Let_def intro!: mem_inv_update distinct_update intro: mem_inv_bucket
      split: option.splits)

lemma mem_inv_Delete: "mem_inv s \<Longrightarrow> mem_inv (fst (mem_Delete s b k))"
  by (auto simp: mem_Delete_def intro!: mem_inv_update distinct_delete intro: mem_inv_bucket
      split: option.splits)

lemma mem_List_view:
  assumes "mem_inv s"
  shows "\<exists>kvs. mem_List s b = Inr kvs \<and> sorted (map fst kvs) \<and> distinct (map fst kvs) \<and>
    map_of kvs = mem_view s b"
proof (cases "map_of s b")
  case None
  then show ?thesis by (auto simp: mem_List_def mem_view_def fun_eq_iff)
next
  case (Some m)
  then show ?thesis
    using mem_inv_bucket [OF assms Some]
    by (auto simp: mem_List_def mem_view_def fun_eq_iff sortKV_sorted distinct_sortKV map_of_sortKV)
qed

interpretation mem: reliable_store memStore_ops mem_view mem_inv
proof
  fix s :: "'v memStore" and b k v s' e
  assume inv: "mem_inv s"
  show "opGet memStore_ops s b k = (case mem_view s b k of None \<Rightarrow> Inl ErrStoreNotFound | Some v \<Rightarrow> Inr v)"
    by (auto simp: memStore_ops_def mem_Get_def mem_view_def split: option.splits)
  show "opPut memStore_ops s b k v = (s', Inr ()) \<Longrightarrow>
      mem_inv s' \<and> mem_view s' = (mem_view s)(b := (mem_view s b)(k \<mapsto> v))"
    using mem_inv_Put [OF inv, of b k v] mem_view_Put [of s b k v] by (auto simp: memStore_ops_def)
  show "opPut memStore_ops s b k v = (s', Inl e) \<Longrightarrow> mem_inv s' \<and> mem_view s' = mem_view s"
    by (simp add: memStore_ops_def mem_Put_def Let_def)
  show "opDelete memStore_ops s b k = (s', Inr ()) \<Longrightarrow>
      mem_inv s' \<and> mem_view s' = (mem_view s)(b := (mem_view s b)(k := None))"
    using mem_inv_Delete [OF inv, of b k] mem_view_Delete [of s b k] by (auto simp: memStore_ops_def)
  show "opDelete memStore_ops s b k = (s', Inl e) \<Longrightarrow> mem_inv s' \<and> mem_view s' = mem_view s"
    by (simp add: memStore_ops_def mem_Delete_def split: option.splits)
  show "\<exists>kvs. opList memStore_ops s b = Inr kvs \<and> sorted (map fst kvs) \<and> distinct (map fst kvs) \<and>
      map_of kvs = mem_view s b"
    using mem_List_view [OF inv] by (simp add: memStore_ops_def)
  show "snd (opPut memStore_ops s b k v) = Inr ()"
    by (simp add: memStore_ops_def mem_Put_def Let_def)
qed

lemma mem_inv_Memory [simp]: "mem_inv Memory"
  by (simp add: mem_inv_def Memory_def)

lemma mem_view_Memory [simp]: "mem_view Memory b k = None"
  by (simp add: mem_view_def Memory_def)

subsection \<open>The BoltDB-backed store\<close>

text \<open>
  The operations of a \<open>bbolt\<close> transaction that the store calls. \<open>bxGet\<close> is \<open>None\<close> where the
  library returns \<open>nil\<close>; \<open>bxCursor\<close> is the sequence that \<open>First\<close> and \<open>Next\<close> walk.
\<close>

record ('d, 'v) bbolt_ops =
  bxEnsure :: "'d \<Rightarrow> string \<Rightarrow> 'd result"
  bxBucket :: "'d \<Rightarrow> string \<Rightarrow> bool"
  bxGet :: "'d \<Rightarrow> string \<Rightarrow> string \<Rightarrow> 'v option"
  bxPut :: "'d \<Rightarrow> string \<Rightarrow> string \<Rightarrow> 'v \<Rightarrow> 'd result"
  bxDelete :: "'d \<Rightarrow> string \<Rightarrow> string \<Rightarrow> 'd result"
  bxCursor :: "'d \<Rightarrow> string \<Rightarrow> (string \<times> 'v) list"
  bxCommit :: "'d \<Rightarrow> 'd result"

text \<open>\<open>db.Update\<close>: a function that fails, or a commit that fails, leaves the database alone.\<close>

definition bolt_Update :: "('d, 'v) bbolt_ops \<Rightarrow> ('d \<Rightarrow> 'd result) \<Rightarrow> 'd \<Rightarrow> 'd \<times> unit result" where
  "bolt_Update B f d =
     (case rbind (f d) (bxCommit B) of Inl e \<Rightarrow> (d, Inl e) | Inr d' \<Rightarrow> (d', Inr ()))"

definition bolt_Put ::
  "('d, 'v) bbolt_ops \<Rightarrow> 'd \<Rightarrow> string \<Rightarrow> string \<Rightarrow> 'v \<Rightarrow> 'd \<times> unit result" where
  "bolt_Put B d bucket key value =
     bolt_Update B (\<lambda>tx. rbind (bxEnsure B tx bucket) (\<lambda>tx. bxPut B tx bucket key value)) d"

definition bolt_Get :: "('d, 'v) bbolt_ops \<Rightarrow> 'd \<Rightarrow> string \<Rightarrow> string \<Rightarrow> 'v result" where
  "bolt_Get B d bucket key =
     (if \<not> bxBucket B d bucket then Inl ErrStoreNotFound
      else (case bxGet B d bucket key of None \<Rightarrow> Inl ErrStoreNotFound | Some v \<Rightarrow> Inr v))"

definition bolt_Delete ::
  "('d, 'v) bbolt_ops \<Rightarrow> 'd \<Rightarrow> string \<Rightarrow> string \<Rightarrow> 'd \<times> unit result" where
  "bolt_Delete B d bucket key =
     bolt_Update B (\<lambda>tx. if \<not> bxBucket B tx bucket then Inr tx else bxDelete B tx bucket key) d"

definition bolt_List :: "('d, 'v) bbolt_ops \<Rightarrow> 'd \<Rightarrow> string \<Rightarrow> (string \<times> 'v) list result" where
  "bolt_List B d bucket = (if \<not> bxBucket B d bucket then Inr [] else Inr (bxCursor B d bucket))"

definition boltStore_ops :: "('d, 'v) bbolt_ops \<Rightarrow> ('d, 'v) store_ops" where
  "boltStore_ops B =
     \<lparr>opPut = bolt_Put B, opGet = bolt_Get B, opDelete = bolt_Delete B, opList = bolt_List B\<rparr>"

definition bolt_view ::
  "('d \<Rightarrow> string \<Rightarrow> (string \<rightharpoonup> 'v) option) \<Rightarrow> 'd \<Rightarrow> string \<Rightarrow> string \<Rightarrow> 'v option" where
  "bolt_view contents d b k = (case contents d b of None \<Rightarrow> None | Some m \<Rightarrow> m k)"

text \<open>
  What the library documents: buckets are maps from keys to values, a bucket is created empty and
  kept if it exists, a cursor walks the keys in byte order, a commit publishes what the
  transaction wrote. Any of the writing operations may fail.
\<close>

locale bbolt =
  fixes B :: "('d, 'v) bbolt_ops"
    and contents :: "'d \<Rightarrow> string \<Rightarrow> (string \<rightharpoonup> 'v) option"
  assumes ensure: "bxEnsure B d b = Inr d' \<Longrightarrow>
      contents d' = (contents d)(b \<mapsto> (case contents d b of None \<Rightarrow> Map.empty | Some m \<Rightarrow> m))"
    and bucket: "bxBucket B d b \<longleftrightarrow> contents d b \<noteq> None"
    and get: "contents d b = Some m \<Longrightarrow> bxGet B d b k = m k"
    and put: "bxPut B d b k v = Inr d' \<Longrightarrow> contents d b = Some m \<Longrightarrow>
      contents d' = (contents d)(b \<mapsto> m(k \<mapsto> v))"
    and del: "bxDelete B d b k = Inr d' \<Longrightarrow> contents d b = Some m \<Longrightarrow>
      contents d' = (contents d)(b \<mapsto> m(k := None))"
    and cursor: "contents d b = Some m \<Longrightarrow>
      sorted (map fst (bxCursor B d b)) \<and> distinct (map fst (bxCursor B d b)) \<and>
      map_of (bxCursor B d b) = m"
    and commit: "bxCommit B d = Inr d' \<Longrightarrow> contents d' = contents d"
begin

lemma bolt_Put_ok:
  assumes "bolt_Put B d b k v = (d', Inr ())"
  shows "bolt_view contents d' = (bolt_view contents d)(b := (bolt_view contents d b)(k \<mapsto> v))"
proof -
  obtain d1 d2 where "bxEnsure B d b = Inr d1" "bxPut B d1 b k v = Inr d2" "bxCommit B d2 = Inr d'"
    using assms
    by (auto simp: bolt_Put_def bolt_Update_def rbind_eq_Inr split: sum.splits)
  then have "contents d' = (contents d)(b \<mapsto> (case contents d b of None \<Rightarrow> Map.empty | Some m \<Rightarrow> m)(k \<mapsto> v))"
    using ensure put commit by (metis fun_upd_same fun_upd_upd)
  then show ?thesis by (auto simp: bolt_view_def fun_eq_iff split: option.splits)
qed

lemma bolt_Delete_ok:
  assumes "bolt_Delete B d b k = (d', Inr ())"
  shows "bolt_view contents d' = (bolt_view contents d)(b := (bolt_view contents d b)(k := None))"
proof (cases "contents d b")
  case None
  then have "contents d' = contents d"
    using assms commit
    by (auto simp: bolt_Delete_def bolt_Update_def bucket split: sum.splits)
  with None show ?thesis by (auto simp: bolt_view_def fun_eq_iff)
next
  case (Some m)
  then obtain d1 where "bxDelete B d b k = Inr d1" "bxCommit B d1 = Inr d'"
    using assms
    by (auto simp: bolt_Delete_def bolt_Update_def bucket rbind_eq_Inr split: sum.splits)
  with Some have "contents d' = (contents d)(b \<mapsto> m(k := None))" using del commit by metis
  with Some show ?thesis by (auto simp: bolt_view_def fun_eq_iff)
qed

end

lemma bolt_Update_err: "bolt_Update B f d = (d', Inl e) \<Longrightarrow> d' = d"
  by (auto simp: bolt_Update_def split: sum.splits)

sublocale bbolt \<subseteq> bolt: kv_store "boltStore_ops B" "bolt_view contents" "\<lambda>_. True"
proof
  fix s b k v s' e
  show "opGet (boltStore_ops B) s b k =
      (case bolt_view contents s b k of None \<Rightarrow> Inl ErrStoreNotFound | Some v \<Rightarrow> Inr v)"
    using get [of s b _ k]
    by (auto simp: boltStore_ops_def bolt_Get_def bolt_view_def bucket split: option.splits)
  show "opPut (boltStore_ops B) s b k v = (s', Inr ()) \<Longrightarrow>
      True \<and> bolt_view contents s' = (bolt_view contents s)(b := (bolt_view contents s b)(k \<mapsto> v))"
    using bolt_Put_ok by (simp add: boltStore_ops_def)
  show "opPut (boltStore_ops B) s b k v = (s', Inl e) \<Longrightarrow>
      True \<and> bolt_view contents s' = bolt_view contents s"
    by (auto simp: boltStore_ops_def bolt_Put_def dest: bolt_Update_err)
  show "opDelete (boltStore_ops B) s b k = (s', Inr ()) \<Longrightarrow>
      True \<and> bolt_view contents s' = (bolt_view contents s)(b := (bolt_view contents s b)(k := None))"
    using bolt_Delete_ok by (simp add: boltStore_ops_def)
  show "opDelete (boltStore_ops B) s b k = (s', Inl e) \<Longrightarrow>
      True \<and> bolt_view contents s' = bolt_view contents s"
    by (auto simp: boltStore_ops_def bolt_Delete_def dest: bolt_Update_err)
  show "\<exists>kvs. opList (boltStore_ops B) s b = Inr kvs \<and> sorted (map fst kvs) \<and>
      distinct (map fst kvs) \<and> map_of kvs = bolt_view contents s b"
    using cursor [of s b]
    by (auto simp: boltStore_ops_def bolt_List_def bolt_view_def bucket fun_eq_iff
        split: option.splits)
qed

context bbolt
begin

lemma bolt_get_after_put:
  "bolt_Put B d b k v = (d', Inr ()) \<Longrightarrow>
   bolt_Get B d' b' k' = (if (b', k') = (b, k) then Inr v else bolt_Get B d b' k')"
  using bolt.put_ok [of d b k v d'] bolt.get_view [of d' b' k'] bolt.get_view [of d b' k']
  by (auto simp: boltStore_ops_def)

lemma bolt_put_failed: "bolt_Put B d b k v = (d', Inl e) \<Longrightarrow> bolt_Get B d' = bolt_Get B d"
  by (auto simp: bolt_Put_def dest: bolt_Update_err)

lemma bolt_list_sorted:
  "\<exists>kvs. bolt_List B d b = Inr kvs \<and> sorted_wrt (<) (map fst kvs) \<and>
     (\<forall>k v. (k, v) \<in> set kvs \<longleftrightarrow> bolt_Get B d b k = Inr v)"
proof -
  obtain kvs where kvs: "opList (boltStore_ops B) d b = Inr kvs" "sorted (map fst kvs)"
    "distinct (map fst kvs)" "map_of kvs = bolt_view contents d b"
    using bolt.list_view [of d b] by blast
  have "(k, v) \<in> set kvs \<longleftrightarrow> bolt_Get B d b k = Inr v" for k v
    using bolt.get_view [of d b k] kvs(4) map_of_eq_Some_iff [OF kvs(3), of k v]
    by (auto simp: boltStore_ops_def split: option.splits)
  with kvs show ?thesis by (auto simp: boltStore_ops_def strict_sorted_iff)
qed

end

text \<open>
  The laws can hold: the in-memory store with the refusals that the library documents (an empty
  bucket name, an empty key).
\<close>

definition mem_contents :: "'v memStore \<Rightarrow> string \<Rightarrow> (string \<rightharpoonup> 'v) option" where
  "mem_contents s b = map_option map_of (map_of s b)"

definition mem_bbolt :: "('v memStore, 'v) bbolt_ops" where
  "mem_bbolt =
     \<lparr>bxEnsure = (\<lambda>s b. if b = [] then Inl (Err ''bucket name required'')
        else Inr (case map_of s b of None \<Rightarrow> AList.update b [] s | Some _ \<Rightarrow> s)),
      bxBucket = (\<lambda>s b. map_of s b \<noteq> None),
      bxGet = mem_view,
      bxPut = (\<lambda>s b k v. if k = [] then Inl (Err ''key required'') else Inr (fst (mem_Put s b k v))),
      bxDelete = (\<lambda>s b k. Inr (fst (mem_Delete s b k))),
      bxCursor = (\<lambda>s b. case map_of s b of None \<Rightarrow> [] | Some m \<Rightarrow> sortKV (AList.clearjunk m)),
      bxCommit = Inr\<rparr>"

interpretation bolt_mem: bbolt mem_bbolt mem_contents
  by unfold_locales
    (auto simp: mem_bbolt_def mem_contents_def mem_view_def mem_Put_def mem_Delete_def Let_def
      fun_eq_iff update_conv' delete_conv' sortKV_sorted distinct_sortKV map_of_sortKV
      distinct_clearjunk map_of_clearjunk split: option.splits if_splits)

subsection \<open>Properties\<close>

text \<open>
  C10. The in-memory store is a map: after a write the same key reads back the written value and
  every other key what it read before, and the listing of a bucket is the bucket's content in
  strictly ascending key order.
\<close>

theorem memStore_functional:
  assumes "mem_inv s"
  shows "mem_Get (fst (mem_Put s b k v)) b' k' = (if (b', k') = (b, k) then Inr v else mem_Get s b' k') \<and>
    mem_Get (fst (mem_Delete s b k)) b' k' =
      (if (b', k') = (b, k) then Inl ErrStoreNotFound else mem_Get s b' k') \<and>
    (\<exists>kvs. mem_List (fst (mem_Put s b k v)) b = Inr kvs \<and>
      sorted_wrt (<) (map fst kvs) \<and> map_of kvs = (mem_view s b)(k \<mapsto> v))"
proof -
  have g: "mem_Get s b k = (case mem_view s b k of None \<Rightarrow> Inl ErrStoreNotFound | Some v \<Rightarrow> Inr v)" for s b k
    by (auto simp: mem_Get_def mem_view_def split: option.splits)
  show ?thesis
    using mem_List_view [OF mem_inv_Put [OF assms], of b k v b]
    by (auto simp: g mem_view_Put mem_view_Delete strict_sorted_iff)
qed

theorem memStore_functional_witness:
  "mem_inv (Memory :: nat memStore) \<and> mem_Get (fst (mem_Put (Memory :: nat memStore) ''b'' ''k'' 1)) ''b'' ''k'' = Inr 1"
  using memStore_functional [of "Memory :: nat memStore" "''b''" "''k''" 1 "''b''" "''k''"] by simp



end
