(* ===== verification/Job_Json.thy ===== *)
theory Job_Json
  imports Worker_Types
begin

text \<open>
  How \<open>encoding/json\<close> writes and reads the durable records \<open>types.Job\<close> and \<open>types.Stream\<close>,
  following the struct tags: \<open>omitempty\<close> drops an empty string, slice or list (a \<open>time.Time\<close> is
  a struct and is never dropped), \<open>json:"-"\<close> drops the field altogether. Decoding starts from
  the zero value, ignores unknown members, takes the last of several members of one name, and
  leaves a field alone on \<open>null\<close>. Strings are UTF-8 and times lie in the years 0 to 9999, as
  everything the worker stores does; then the library renders every leaf without loss.
\<close>

named_theorems json_simps \<open>evaluation of encoded objects\<close>

subsection \<open>Objects\<close>

definition jopt :: "bool \<Rightarrow> string \<Rightarrow> json \<Rightarrow> (string \<times> json) list" where
  "jopt omit k v = (if omit then [] else [(k, v)])"

definition jget :: "(string \<times> json) list \<Rightarrow> string \<Rightarrow> json option" where
  "jget kvs k = map_of (rev kvs) k"

lemma jget_append [json_simps]:
  "jget (xs @ ys) k = (case jget ys k of None \<Rightarrow> jget xs k | Some v \<Rightarrow> Some v)"
  unfolding jget_def by (simp add: map_add_def)

lemma jget_jopt [json_simps]: "jget (jopt b k v) k' = (if k = k' \<and> \<not> b then Some v else None)"
  by (simp add: jget_def jopt_def)

lemma jget_Nil [json_simps]: "jget [] k = None"
  by (simp add: jget_def)

lemma jget_Cons [json_simps]:
  "jget ((k', v) # xs) k =
     (case jget xs k of None \<Rightarrow> (if k' = k then Some v else None) | Some w \<Rightarrow> Some w)"
  unfolding jget_def by (auto simp: map_add_def split: option.splits)

definition dec_field :: "(json \<Rightarrow> 'a result) \<Rightarrow> 'a \<Rightarrow> (string \<times> json) list \<Rightarrow> string \<Rightarrow> 'a result" where
  "dec_field d z kvs k =
     (case jget kvs k of None \<Rightarrow> Inr z | Some JNull \<Rightarrow> Inr z | Some j \<Rightarrow> d j)"

abbreviation (input) type_error :: "string \<Rightarrow> go_error" where
  "type_error t \<equiv> Err (''json: cannot unmarshal into Go value of type '' @ t)"

fun dec_str :: "json \<Rightarrow> string result" where
  "dec_str (JStr s) = Inr s"
| "dec_str _ = Inl (type_error ''string'')"

fun dec_int :: "json \<Rightarrow> int result" where
  "dec_int (JInt i) = (if - (2 ^ 63) \<le> i \<and> i < 2 ^ 63 then Inr i else Inl (type_error ''int64''))"
| "dec_int _ = Inl (type_error ''int64'')"

fun dec_u64 :: "json \<Rightarrow> u64 result" where
  "dec_u64 (JInt i) = (if 0 \<le> i \<and> i < 2 ^ 64 then Inr (word_of_int i) else Inl (type_error ''uint64''))"
| "dec_u64 _ = Inl (type_error ''uint64'')"

fun dec_float :: "json \<Rightarrow> rat result" where
  "dec_float (JFloat r) = Inr r"
| "dec_float (JInt i) = Inr (of_int i)"
| "dec_float _ = Inl (type_error ''float64'')"

fun dec_bool :: "json \<Rightarrow> bool result" where
  "dec_bool (JBool b) = Inr b"
| "dec_bool _ = Inl (type_error ''bool'')"

fun dec_time :: "json \<Rightarrow> time result" where
  "dec_time (JTime t) = Inr t"
| "dec_time _ = Inl (type_error ''time.Time'')"

fun dec_bytes :: "json \<Rightarrow> bytes result" where
  "dec_bytes (JBytes b) = Inr b"
| "dec_bytes _ = Inl (type_error ''[]uint8'')"

fun dec_list :: "(json \<Rightarrow> 'a result) \<Rightarrow> json \<Rightarrow> 'a list result" where
  "dec_list d (JArr js) = rmap d js"
| "dec_list d _ = Inl (type_error ''slice'')"

definition enc_u64 :: "u64 \<Rightarrow> json" where
  "enc_u64 w = JInt (uint w)"

lemma dec_enc_u64 [json_simps]: "dec_u64 (enc_u64 w) = Inr w"
proof -
  have "uint w < 2 ^ 64" using uint_lt2p [of w] by simp
  then show ?thesis by (simp add: enc_u64_def)
qed

lemma enc_u64_not_null [json_simps]: "enc_u64 w \<noteq> JNull"
  by (simp add: enc_u64_def)

subsection \<open>Jobs\<close>

definition encode_timing :: "phase_timing \<Rightarrow> json" where
  "encode_timing t =
     JObj ([(''phase'', JStr (JobPhase_string (ptPhase t)))] @ [(''start'', JTime (ptStart t))] @
           [(''end'', JTime (ptEnd t))])"

fun decode_timing :: "json \<Rightarrow> phase_timing result" where
  "decode_timing (JObj ob) =
     rbind (dec_field dec_str [] ob ''phase'') (\<lambda>ph.
     rbind (dec_field dec_time zero_time ob ''start'') (\<lambda>st.
     rbind (dec_field dec_time zero_time ob ''end'') (\<lambda>en.
       Inr \<lparr>ptPhase = job_phase_of_string ph, ptStart = st, ptEnd = en\<rparr>)))"
| "decode_timing JNull = Inr \<lparr>ptPhase = job_phase_of_string [], ptStart = zero_time, ptEnd = zero_time\<rparr>"
| "decode_timing _ = Inl (type_error ''types.PhaseTiming'')"

definition job_members :: "job \<Rightarrow> (string \<times> json) list" where
  "job_members j =
     [(''id'', JStr (jID j))] @
     [(''mode'', JStr (Mode_String (jMode j)))] @
     [(''phase'', JStr (JobPhase_string (jPhase j)))] @
     [(''progress'', JFloat (jProgress j))] @
     [(''input_url'', JStr (jInputURL j))] @
     [(''output_url'', JStr (jOutputURL j))] @
     [(''preset'', JStr (jPreset j))] @
     jopt (jWebhookURL j = []) ''webhook_url'' (JStr (jWebhookURL j)) @
     [(''work_id'', JStr (jWorkID j))] @
     jopt (jSender j = []) ''sender'' (JBytes (jSender j)) @
     jopt (jPriceWei j = []) ''price_wei'' (JStr (jPriceWei j)) @
     [(''units_per_segment'', JInt (jUnitsPer j))] @
     [(''created_at'', JTime (jCreatedAt j))] @
     [(''updated_at'', JTime (jUpdatedAt j))] @
     jopt (jPhases j = []) ''phases'' (JArr (map encode_timing (jPhases j))) @
     jopt (jLogs j = []) ''logs'' (JArr (map JStr (jLogs j))) @
     jopt (jErrorCode j = []) ''error_code'' (JStr (jErrorCode j)) @
     jopt (jErrorMessage j = []) ''error_message'' (JStr (jErrorMessage j))"

definition encode_job :: "job \<Rightarrow> json" where
  "encode_job j = JObj (job_members j)"

fun decode_job :: "json \<Rightarrow> job result" where
  "decode_job (JObj ob) =
     rbind (dec_field dec_str [] ob ''id'') (\<lambda>id'.
     rbind (dec_field dec_str [] ob ''mode'') (\<lambda>mode'.
     rbind (dec_field dec_str [] ob ''phase'') (\<lambda>phase'.
     rbind (dec_field dec_float 0 ob ''progress'') (\<lambda>progress'.
     rbind (dec_field dec_str [] ob ''input_url'') (\<lambda>input_url'.
     rbind (dec_field dec_str [] ob ''output_url'') (\<lambda>output_url'.
     rbind (dec_field dec_str [] ob ''preset'') (\<lambda>preset'.
     rbind (dec_field dec_str [] ob ''webhook_url'') (\<lambda>webhook_url'.
     rbind (dec_field dec_str [] ob ''work_id'') (\<lambda>work_id'.
     rbind (dec_field dec_bytes [] ob ''sender'') (\<lambda>sender'.
     rbind (dec_field dec_str [] ob ''price_wei'') (\<lambda>price_wei'.
     rbind (dec_field dec_int 0 ob ''units_per_segment'') (\<lambda>units'.
     rbind (dec_field dec_time zero_time ob ''created_at'') (\<lambda>created'.
     rbind (dec_field dec_time zero_time ob ''updated_at'') (\<lambda>updated'.
     rbind (dec_field (dec_list decode_timing) [] ob ''phases'') (\<lambda>phases'.
     rbind (dec_field (dec_list dec_str) [] ob ''logs'') (\<lambda>logs'.
     rbind (dec_field dec_str [] ob ''error_code'') (\<lambda>error_code'.
     rbind (dec_field dec_str [] ob ''error_message'') (\<lambda>error_message'.
       Inr \<lparr>jID = id', jMode = mode_of_string mode', jPhase = job_phase_of_string phase',
            jProgress = progress', jInputURL = input_url', jOutputURL = output_url',
            jPreset = preset', jWebhookURL = webhook_url', jWebhookSecret = [],
            jWorkID = work_id', jSender = sender', jPriceWei = price_wei', jUnitsPer = units',
            jCreatedAt = created', jUpdatedAt = updated', jPhases = phases', jLogs = logs',
            jErrorCode = error_code', jErrorMessage = error_message'\<rparr>))))))))))))))))))"
| "decode_job JNull = Inr zero_job"
| "decode_job _ = Inl (type_error ''types.Job'')"

definition timing_wf :: "phase_timing \<Rightarrow> bool" where
  "timing_wf t \<longleftrightarrow> phase_canonical (ptPhase t)"

text \<open>
  A record that can be stored: its enumerations are in canonical form (the datatype's own
  constructor for a known string) and its 64-bit field is in range.
\<close>

definition job_wf :: "job \<Rightarrow> bool" where
  "job_wf j \<longleftrightarrow>
     mode_canonical (jMode j) \<and> phase_canonical (jPhase j) \<and>
     (\<forall>t \<in> set (jPhases j). timing_wf t) \<and> - (2 ^ 63) \<le> jUnitsPer j \<and> jUnitsPer j < 2 ^ 63"

lemmas enum_canonical_defs = mode_canonical_def phase_canonical_def stream_phase_canonical_def

lemma decode_encode_timing: "timing_wf t \<Longrightarrow> decode_timing (encode_timing t) = Inr t"
  by (simp add: encode_timing_def dec_field_def json_simps timing_wf_def enum_canonical_defs)

lemma encode_timing_not_null [json_simps]: "encode_timing t \<noteq> JNull"
  by (simp add: encode_timing_def)

lemma dec_timings:
  "\<forall>t \<in> set ts. timing_wf t \<Longrightarrow> rmap decode_timing (map encode_timing ts) = Inr ts"
  by (induction ts) (auto simp: decode_encode_timing)

lemma dec_logs: "rmap dec_str (map JStr ls) = Inr ls"
  by (induction ls) auto

lemma dec_job_members:
  assumes "job_wf j"
  shows "dec_field dec_str [] (job_members j) ''id'' = Inr (jID j)"
    and "dec_field dec_str [] (job_members j) ''mode'' = Inr (Mode_String (jMode j))"
    and "dec_field dec_str [] (job_members j) ''phase'' = Inr (JobPhase_string (jPhase j))"
    and "dec_field dec_float 0 (job_members j) ''progress'' = Inr (jProgress j)"
    and "dec_field dec_str [] (job_members j) ''input_url'' = Inr (jInputURL j)"
    and "dec_field dec_str [] (job_members j) ''output_url'' = Inr (jOutputURL j)"
    and "dec_field dec_str [] (job_members j) ''preset'' = Inr (jPreset j)"
    and "dec_field dec_str [] (job_members j) ''webhook_url'' = Inr (jWebhookURL j)"
    and "dec_field dec_str [] (job_members j) ''work_id'' = Inr (jWorkID j)"
    and "dec_field dec_bytes [] (job_members j) ''sender'' = Inr (jSender j)"
    and "dec_field dec_str [] (job_members j) ''price_wei'' = Inr (jPriceWei j)"
    and "dec_field dec_int 0 (job_members j) ''units_per_segment'' = Inr (jUnitsPer j)"
    and "dec_field dec_time zero_time (job_members j) ''created_at'' = Inr (jCreatedAt j)"
    and "dec_field dec_time zero_time (job_members j) ''updated_at'' = Inr (jUpdatedAt j)"
    and "dec_field (dec_list decode_timing) [] (job_members j) ''phases'' = Inr (jPhases j)"
    and "dec_field (dec_list dec_str) [] (job_members j) ''logs'' = Inr (jLogs j)"
    and "dec_field dec_str [] (job_members j) ''error_code'' = Inr (jErrorCode j)"
    and "dec_field dec_str [] (job_members j) ''error_message'' = Inr (jErrorMessage j)"
  using assms
  by (simp_all add: job_members_def dec_field_def json_simps job_wf_def dec_timings dec_logs)

lemma decode_encode_job:
  assumes "job_wf j"
  shows "decode_job (encode_job j) = Inr (j\<lparr>jWebhookSecret := []\<rparr>)"
  using dec_job_members [OF assms] assms
  by (simp add: encode_job_def job_wf_def enum_canonical_defs)


subsection \<open>Streams\<close>

definition stream_members :: "stream \<Rightarrow> (string \<times> json) list" where
  "stream_members s =
     [(''work_id'', JStr (sWorkID s))] @
     jopt (sGatewaySessionID s = []) ''gateway_session_id'' (JStr (sGatewaySessionID s)) @
     jopt (sWorkerSessionID s = []) ''worker_session_id'' (JStr (sWorkerSessionID s)) @
     jopt (sPaymentWorkID s = []) ''payment_work_id'' (JStr (sPaymentWorkID s)) @
     jopt (sSender s = []) ''sender'' (JBytes (sSender s)) @
     [(''phase'', JStr (StreamPhase_string (sPhase s)))] @
     [(''subscribe_url'', JStr (sSubscribeURL s))] @
     [(''publish_url'', JStr (sPublishURL s))] @
     [(''preset'', JStr (sPreset s))] @
     [(''started_at'', JTime (sStartedAt s))] @
     [(''updated_at'', JTime (sUpdatedAt s))] @
     [(''closed_at'', JTime (sClosedAt s))] @
     [(''debit_seq'', enc_u64 (sDebitSeq s))] @
     [(''units_debited'', JInt (sUnitsDebited s))] @
     jopt (sWebhookURL s = []) ''webhook_url'' (JStr (sWebhookURL s)) @
     [(''last_topup_at'', JTime (sLastTopupAt s))] @
     [(''low_balance'', JBool (sLowBalance s))] @
     [(''grace_until'', JTime (sGraceUntil s))] @
     jopt (sCloseReason s = []) ''close_reason'' (JStr (sCloseReason s)) @
     jopt (sErrorCode s = []) ''error_code'' (JStr (sErrorCode s))"

definition encode_stream :: "stream \<Rightarrow> json" where
  "encode_stream s = JObj (stream_members s)"

fun decode_stream :: "json \<Rightarrow> stream result" where
  "decode_stream (JObj ob) =
     rbind (dec_field dec_str [] ob ''work_id'') (\<lambda>work_id'.
     rbind (dec_field dec_str [] ob ''gateway_session_id'') (\<lambda>gateway'.
     rbind (dec_field dec_str [] ob ''worker_session_id'') (\<lambda>worker'.
     rbind (dec_field dec_str [] ob ''payment_work_id'') (\<lambda>payment'.
     rbind (dec_field dec_bytes [] ob ''sender'') (\<lambda>sender'.
     rbind (dec_field dec_str [] ob ''phase'') (\<lambda>phase'.
     rbind (dec_field dec_str [] ob ''subscribe_url'') (\<lambda>subscribe'.
     rbind (dec_field dec_str [] ob ''publish_url'') (\<lambda>publish'.
     rbind (dec_field dec_str [] ob ''preset'') (\<lambda>preset'.
     rbind (dec_field dec_time zero_time ob ''started_at'') (\<lambda>started'.
     rbind (dec_field dec_time zero_time ob ''updated_at'') (\<lambda>updated'.
     rbind (dec_field dec_time zero_time ob ''closed_at'') (\<lambda>closed'.
     rbind (dec_field dec_u64 0 ob ''debit_seq'') (\<lambda>seq'.
     rbind (dec_field dec_int 0 ob ''units_debited'') (\<lambda>units'.
     rbind (dec_field dec_str [] ob ''webhook_url'') (\<lambda>webhook_url'.
     rbind (dec_field dec_time zero_time ob ''last_topup_at'') (\<lambda>topup'.
     rbind (dec_field dec_bool False ob ''low_balance'') (\<lambda>low'.
     rbind (dec_field dec_time zero_time ob ''grace_until'') (\<lambda>grace'.
     rbind (dec_field dec_str [] ob ''close_reason'') (\<lambda>close_reason'.
     rbind (dec_field dec_str [] ob ''error_code'') (\<lambda>error_code'.
       Inr \<lparr>sWorkID = work_id', sGatewaySessionID = gateway', sWorkerSessionID = worker',
            sPaymentWorkID = payment', sSender = sender', sPhase = stream_phase_of_string phase',
            sSubscribeURL = subscribe', sPublishURL = publish', sPreset = preset',
            sStartedAt = started', sUpdatedAt = updated', sClosedAt = closed',
            sDebitSeq = seq', sUnitsDebited = units', sWebhookURL = webhook_url',
            sWebhookSecret = [], sLastTopupAt = topup', sLowBalance = low',
            sGraceUntil = grace', sCloseReason = close_reason',
            sErrorCode = error_code'\<rparr>))))))))))))))))))))"
| "decode_stream JNull = Inr zero_stream"
| "decode_stream _ = Inl (type_error ''types.Stream'')"

definition stream_wf :: "stream \<Rightarrow> bool" where
  "stream_wf s \<longleftrightarrow>
     stream_phase_canonical (sPhase s) \<and> - (2 ^ 63) \<le> sUnitsDebited s \<and> sUnitsDebited s < 2 ^ 63"

lemma dec_stream_members:
  assumes "stream_wf s"
  shows "dec_field dec_str [] (stream_members s) ''work_id'' = Inr (sWorkID s)"
    and "dec_field dec_str [] (stream_members s) ''gateway_session_id'' = Inr (sGatewaySessionID s)"
    and "dec_field dec_str [] (stream_members s) ''worker_session_id'' = Inr (sWorkerSessionID s)"
    and "dec_field dec_str [] (stream_members s) ''payment_work_id'' = Inr (sPaymentWorkID s)"
    and "dec_field dec_bytes [] (stream_members s) ''sender'' = Inr (sSender s)"
    and "dec_field dec_str [] (stream_members s) ''phase'' = Inr (StreamPhase_string (sPhase s))"
    and "dec_field dec_str [] (stream_members s) ''subscribe_url'' = Inr (sSubscribeURL s)"
    and "dec_field dec_str [] (stream_members s) ''publish_url'' = Inr (sPublishURL s)"
    and "dec_field dec_str [] (stream_members s) ''preset'' = Inr (sPreset s)"
    and "dec_field dec_time zero_time (stream_members s) ''started_at'' = Inr (sStartedAt s)"
    and "dec_field dec_time zero_time (stream_members s) ''updated_at'' = Inr (sUpdatedAt s)"
    and "dec_field dec_time zero_time (stream_members s) ''closed_at'' = Inr (sClosedAt s)"
    and "dec_field dec_u64 0 (stream_members s) ''debit_seq'' = Inr (sDebitSeq s)"
    and "dec_field dec_int 0 (stream_members s) ''units_debited'' = Inr (sUnitsDebited s)"
    and "dec_field dec_str [] (stream_members s) ''webhook_url'' = Inr (sWebhookURL s)"
    and "dec_field dec_time zero_time (stream_members s) ''last_topup_at'' = Inr (sLastTopupAt s)"
    and "dec_field dec_bool False (stream_members s) ''low_balance'' = Inr (sLowBalance s)"
    and "dec_field dec_time zero_time (stream_members s) ''grace_until'' = Inr (sGraceUntil s)"
    and "dec_field dec_str [] (stream_members s) ''close_reason'' = Inr (sCloseReason s)"
    and "dec_field dec_str [] (stream_members s) ''error_code'' = Inr (sErrorCode s)"
  using assms uint_lt2p [of "sDebitSeq s"]
  by (simp_all add: stream_members_def dec_field_def json_simps stream_wf_def enc_u64_def)

lemma decode_encode_stream:
  assumes "stream_wf s"
  shows "decode_stream (encode_stream s) = Inr (s\<lparr>sWebhookSecret := []\<rparr>)"
  using dec_stream_members [OF assms] assms
  by (simp add: encode_stream_def stream_wf_def enum_canonical_defs)


end
