(* ===== verification/Jobs_Repo.thy ===== *)
theory Jobs_Repo
  imports Kv_Store Job_Json
begin

text \<open>
  \<open>internal/repo/jobs/jobs.go\<close>: the repository of jobs and streams over a store. The functions
  take the operations \<open>st\<close> of the store and its state \<open>s\<close>; the readings of \<open>time.Now()\<close> are
  arguments, in the order in which the code takes them. The locale \<open>json_store\<close> is any reliable
  store of JSON values; what the repository promises is proved there once, and interpreted on
  the in-memory store.
\<close>

definition BucketJobs :: string where "BucketJobs = ''jobs''"
definition BucketStreams :: string where "BucketStreams = ''streams''"

lemma buckets [simp]:
  "BucketJobs \<noteq> []" "BucketStreams \<noteq> []" "BucketJobs \<noteq> BucketStreams" "BucketStreams \<noteq> BucketJobs"
  by (simp_all add: BucketJobs_def BucketStreams_def)

subsection \<open>Jobs\<close>

definition Save :: "('s, json) store_ops \<Rightarrow> 's \<Rightarrow> time \<Rightarrow> job \<Rightarrow> 's \<times> unit result" where
  "Save st s now j =
     (if jID j = [] then (s, Inl (Err ''jobs: empty id''))
      else PutJSON st (\<lambda>j. Inr (encode_job j)) s BucketJobs (jID j) (j\<lparr>jUpdatedAt := now\<rparr>))"

definition Repo_Get :: "('s, json) store_ops \<Rightarrow> 's \<Rightarrow> string \<Rightarrow> job result" where
  "Repo_Get st s jid = GetJSON st decode_job s BucketJobs jid"

definition Repo_List :: "('s, json) store_ops \<Rightarrow> 's \<Rightarrow> job list result" where
  "Repo_List st s =
     rbind (opList st s BucketJobs)
       (rmap (\<lambda>(k, v). case decode_job v of
           Inl e \<Rightarrow> Inl (ErrWrap (''decode '' @ k @ '': '') e) | Inr j \<Rightarrow> Inr j))"

definition ListNonTerminal :: "('s, json) store_ops \<Rightarrow> 's \<Rightarrow> job list result" where
  "ListNonTerminal st s =
     rbind (Repo_List st s) (\<lambda>all. Inr (filter (\<lambda>j. \<not> JobPhase_IsTerminal (jPhase j)) all))"

text \<open>Close out the last phase if it is still open.\<close>

definition closeLast :: "time \<Rightarrow> phase_timing list \<Rightarrow> phase_timing list" where
  "closeLast now ts =
     (let n = length ts in
      if n > 0 \<and> ptEnd (ts ! (n - 1)) = zero_time
      then ts[n - 1 := (ts ! (n - 1))\<lparr>ptEnd := now\<rparr>] else ts)"

definition enterPhase :: "time \<Rightarrow> job_phase \<Rightarrow> job \<Rightarrow> job" where
  "enterPhase now to j =
     (let ts = closeLast now (jPhases j) @ [\<lparr>ptPhase = to, ptStart = now, ptEnd = zero_time\<rparr>] in
      j\<lparr>jPhase := to,
        jPhases := (if JobPhase_IsTerminal to
                    then ts[length ts - 1 := (ts ! (length ts - 1))\<lparr>ptEnd := now\<rparr>] else ts)\<rparr>)"

definition Transition ::
  "('s, json) store_ops \<Rightarrow> 's \<Rightarrow> string \<Rightarrow> job_phase \<Rightarrow> time \<Rightarrow> time \<Rightarrow> 's \<times> job result" where
  "Transition st s jid to now now' =
     (case Repo_Get st s jid of
        Inl err \<Rightarrow> (s, Inl err)
      | Inr j \<Rightarrow>
          (let j = enterPhase now to j in
           case Save st s now' j of
             (s, Inl err) \<Rightarrow> (s, Inl err)
           | (s, Inr _) \<Rightarrow> (s, Inr j)))"

definition errorJob :: "time \<Rightarrow> string \<Rightarrow> string \<Rightarrow> job \<Rightarrow> job" where
  "errorJob now code msg j =
     j\<lparr>jErrorCode := code, jErrorMessage := msg, jPhase := PhaseError,
       jPhases := closeLast now (jPhases j) @
         [\<lparr>ptPhase = PhaseError, ptStart = now, ptEnd = now\<rparr>]\<rparr>"

definition MarkError ::
  "('s, json) store_ops \<Rightarrow> 's \<Rightarrow> string \<Rightarrow> string \<Rightarrow> string \<Rightarrow> time \<Rightarrow> time \<Rightarrow> 's \<times> job result" where
  "MarkError st s jid code msg now now' =
     (case Repo_Get st s jid of
        Inl err \<Rightarrow> (s, Inl err)
      | Inr j \<Rightarrow>
          (let j = errorJob now code msg j in
           case Save st s now' j of
             (s, Inl err) \<Rightarrow> (s, Inl err)
           | (s, Inr _) \<Rightarrow> (s, Inr j)))"

subsection \<open>Streams\<close>

definition SaveStream :: "('s, json) store_ops \<Rightarrow> 's \<Rightarrow> time \<Rightarrow> stream \<Rightarrow> 's \<times> unit result" where
  "SaveStream st s now x =
     (if sWorkID x = [] then (s, Inl (Err ''jobs: empty work_id''))
      else PutJSON st (\<lambda>x. Inr (encode_stream x)) s BucketStreams (sWorkID x) (x\<lparr>sUpdatedAt := now\<rparr>))"

definition GetStream :: "('s, json) store_ops \<Rightarrow> 's \<Rightarrow> string \<Rightarrow> stream result" where
  "GetStream st s workID = GetJSON st decode_stream s BucketStreams workID"

definition ListStreams :: "('s, json) store_ops \<Rightarrow> 's \<Rightarrow> stream list result" where
  "ListStreams st s =
     rbind (opList st s BucketStreams) (rmap (\<lambda>(k, v). decode_stream v))"

definition ListNonTerminalStreams :: "('s, json) store_ops \<Rightarrow> 's \<Rightarrow> stream list result" where
  "ListNonTerminalStreams st s =
     rbind (ListStreams st s) (\<lambda>all. Inr (filter (\<lambda>x. \<not> StreamPhase_IsTerminal (sPhase x)) all))"

definition IncrementDebitSeq ::
  "('s, json) store_ops \<Rightarrow> 's \<Rightarrow> string \<Rightarrow> time \<Rightarrow> 's \<times> u64 result" where
  "IncrementDebitSeq st s workID now =
     (case GetStream st s workID of
        Inl err \<Rightarrow> (s, Inl err)
      | Inr x \<Rightarrow>
          (let x = x\<lparr>sDebitSeq := sDebitSeq x + 1\<rparr> in
           case SaveStream st s now x of
             (s, Inl err) \<Rightarrow> (s, Inl err)
           | (s, Inr _) \<Rightarrow> (s, Inr (sDebitSeq x))))"

subsection \<open>Phase histories\<close>

text \<open>
  The timings of a job form a timeline: every closed phase ends after it started and before the
  next one starts, only the last can be open, it is open exactly while the phase is not
  terminal, and it is the job's current phase.
\<close>

fun timeline :: "phase_timing list \<Rightarrow> bool" where
  "timeline [] = True"
| "timeline [t] = (0 < ptStart t \<and> (if JobPhase_IsTerminal (ptPhase t) then ptStart t \<le> ptEnd t else ptEnd t = zero_time))"
| "timeline (t # u # ts) = (0 < ptStart t \<and> ptStart t \<le> ptEnd t \<and> ptEnd t \<le> ptStart u \<and> timeline (u # ts))"

definition history_ok :: "job \<Rightarrow> bool" where
  "history_ok j \<longleftrightarrow> timeline (jPhases j) \<and> (jPhases j \<noteq> [] \<longrightarrow> ptPhase (last (jPhases j)) = jPhase j)"

text \<open>The latest instant a history mentions.\<close>

definition last_mark :: "phase_timing list \<Rightarrow> time" where
  "last_mark ts = (if ts = [] then 0 else max (ptStart (last ts)) (ptEnd (last ts)))"

lemma closeLast_simps [simp]:
  "closeLast now [] = []"
  "closeLast now (ts @ [t]) = ts @ [if ptEnd t = 0 then t\<lparr>ptEnd := now\<rparr> else t]"
  by (auto simp: closeLast_def Let_def)

lemma enterPhase_eq:
  "enterPhase now to j =
     j\<lparr>jPhase := to, jPhases := closeLast now (jPhases j) @
       [\<lparr>ptPhase = to, ptStart = now, ptEnd = (if JobPhase_IsTerminal to then now else zero_time)\<rparr>]\<rparr>"
  by (simp add: enterPhase_def Let_def)

lemma timeline_snoc:
  "timeline (ts @ [t]) \<Longrightarrow> last_mark (ts @ [t]) \<le> now \<Longrightarrow> timeline [u] \<Longrightarrow> ptStart u = now \<Longrightarrow>
   timeline (ts @ [if ptEnd t = 0 then t\<lparr>ptEnd := now\<rparr> else t] @ [u])"
proof (induction ts rule: timeline.induct)
  case (2 s)
  then show ?case by (auto simp: last_mark_def split: if_splits)
next
  case (3 s1 s2 ss)
  then show ?case by (auto simp: last_mark_def split: if_splits)
qed (auto simp: last_mark_def split: if_splits)

lemma timeline_closeLast:
  assumes "timeline ts" "last_mark ts \<le> now" "timeline [u]" "ptStart u = now"
  shows "timeline (closeLast now ts @ [u])"
proof (cases ts rule: rev_cases)
  case Nil
  then show ?thesis using assms by (auto split: if_splits)
next
  case (snoc xs t)
  have "timeline (xs @ [if ptEnd t = 0 then t\<lparr>ptEnd := now\<rparr> else t] @ [u])"
    using assms unfolding snoc by (rule timeline_snoc)
  then show ?thesis unfolding snoc closeLast_simps by (simp only: append_assoc)
qed

lemma history_enterPhase:
  assumes "history_ok j" "last_mark (jPhases j) \<le> now" "0 < now"
  shows "history_ok (enterPhase now to j)"
  using assms by (auto simp: history_ok_def enterPhase_eq intro!: timeline_closeLast)

lemma history_errorJob:
  assumes "history_ok j" "last_mark (jPhases j) \<le> now" "0 < now"
  shows "history_ok (errorJob now code msg j)"
  using assms
  by (auto simp: history_ok_def errorJob_def JobPhase_IsTerminal_def intro!: timeline_closeLast)

lemma set_closeLast: "t \<in> set (closeLast now ts) \<Longrightarrow> \<exists>u \<in> set ts. ptPhase t = ptPhase u"
  by (cases ts rule: rev_cases) (auto split: if_splits)

lemma job_wf_enterPhase: "job_wf j \<Longrightarrow> phase_canonical to \<Longrightarrow> job_wf (enterPhase now to j)"
  by (auto simp: job_wf_def enterPhase_eq timing_wf_def dest!: set_closeLast)

lemma job_wf_errorJob: "job_wf j \<Longrightarrow> job_wf (errorJob now code msg j)"
  by (auto simp: job_wf_def errorJob_def timing_wf_def dest!: set_closeLast)

lemma job_wf_update [simp]:
  "job_wf (j\<lparr>jUpdatedAt := t\<rparr>) = job_wf j"
  "job_wf (j\<lparr>jWebhookSecret := w\<rparr>) = job_wf j"
  by (auto simp: job_wf_def)

subsection \<open>What the repository promises\<close>

locale json_store = reliable_store st view inv
  for st :: "('s, json) store_ops" and view :: "'s \<Rightarrow> string \<Rightarrow> string \<Rightarrow> json option" and inv :: "'s \<Rightarrow> bool"
begin

lemma Save_spec:
  assumes "inv s" "jID j \<noteq> []"
  obtains s' where "Save st s now j = (s', Inr ())" "inv s'"
    "view s' = (view s)(BucketJobs := (view s BucketJobs)(jID j \<mapsto> encode_job (j\<lparr>jUpdatedAt := now\<rparr>)))"
  using put_view [OF assms(1) buckets(1) assms(2)] assms
  by (force simp: Save_def PutJSON_def)

lemma Repo_Get_view:
  "inv s \<Longrightarrow> Repo_Get st s jid =
     (case view s BucketJobs jid of None \<Rightarrow> Inl ErrStoreNotFound | Some v \<Rightarrow> decode_job v)"
  by (simp add: Repo_Get_def GetJSON_def get_view split: option.splits)

lemma GetStream_view:
  "inv s \<Longrightarrow> GetStream st s w =
     (case view s BucketStreams w of None \<Rightarrow> Inl ErrStoreNotFound | Some v \<Rightarrow> decode_stream v)"
  by (simp add: GetStream_def GetJSON_def get_view split: option.splits)

text \<open>What a save changes for every reader.\<close>

lemma Save_ok:
  assumes "inv s" "jID j \<noteq> []" "job_wf j"
  obtains s' where "Save st s now j = (s', Inr ())" "inv s'"
    "\<And>k. Repo_Get st s' k =
      (if k = jID j then Inr (j\<lparr>jUpdatedAt := now, jWebhookSecret := []\<rparr>) else Repo_Get st s k)"
    "\<And>w. GetStream st s' w = GetStream st s w"
proof -
  obtain s' where s': "Save st s now j = (s', Inr ())" "inv s'"
    "view s' = (view s)(BucketJobs := (view s BucketJobs)(jID j \<mapsto> encode_job (j\<lparr>jUpdatedAt := now\<rparr>)))"
    using Save_spec [OF assms(1,2)] by blast
  have "decode_job (encode_job (j\<lparr>jUpdatedAt := now\<rparr>)) = Inr (j\<lparr>jUpdatedAt := now, jWebhookSecret := []\<rparr>)"
    using decode_encode_job [of "j\<lparr>jUpdatedAt := now\<rparr>"] assms(3) by simp
  with s' assms(1) that show ?thesis by (auto simp: Repo_Get_view GetStream_view)
qed

lemma Transition_ok:
  assumes "inv s" "Repo_Get st s jid = Inr j" "jID j = jid" "jid \<noteq> []" "job_wf j" "phase_canonical to"
  obtains s' where "Transition st s jid to now now' = (s', Inr (enterPhase now to j))" "inv s'"
    "\<And>k. Repo_Get st s' k =
      (if k = jid then Inr ((enterPhase now to j)\<lparr>jUpdatedAt := now', jWebhookSecret := []\<rparr>)
       else Repo_Get st s k)"
    "\<And>w. GetStream st s' w = GetStream st s w"
proof -
  have [simp]: "jID (enterPhase now to j) = jid" using assms(3) by (simp add: enterPhase_eq)
  obtain s' where "Save st s now' (enterPhase now to j) = (s', Inr ())" "inv s'"
    "\<And>k. Repo_Get st s' k =
      (if k = jid then Inr ((enterPhase now to j)\<lparr>jUpdatedAt := now', jWebhookSecret := []\<rparr>)
       else Repo_Get st s k)"
    "\<And>w. GetStream st s' w = GetStream st s w"
    using Save_ok [OF assms(1), of "enterPhase now to j" now'] assms
    by (auto simp: job_wf_enterPhase)
  with assms that show ?thesis by (simp add: Transition_def Let_def)
qed

lemma MarkError_ok:
  assumes "inv s" "Repo_Get st s jid = Inr j" "jID j = jid" "jid \<noteq> []" "job_wf j"
  obtains s' where "MarkError st s jid code msg now now' = (s', Inr (errorJob now code msg j))" "inv s'"
    "\<And>k. Repo_Get st s' k =
      (if k = jid then Inr ((errorJob now code msg j)\<lparr>jUpdatedAt := now', jWebhookSecret := []\<rparr>)
       else Repo_Get st s k)"
    "\<And>w. GetStream st s' w = GetStream st s w"
proof -
  have [simp]: "jID (errorJob now code msg j) = jid" using assms(3) by (simp add: errorJob_def)
  obtain s' where "Save st s now' (errorJob now code msg j) = (s', Inr ())" "inv s'"
    "\<And>k. Repo_Get st s' k =
      (if k = jid then Inr ((errorJob now code msg j)\<lparr>jUpdatedAt := now', jWebhookSecret := []\<rparr>)
       else Repo_Get st s k)"
    "\<And>w. GetStream st s' w = GetStream st s w"
    using Save_ok [OF assms(1), of "errorJob now code msg j" now'] assms
    by (auto simp: job_wf_errorJob)
  with assms that show ?thesis by (simp add: MarkError_def Let_def)
qed

lemma SaveStream_ok:
  assumes "inv s" "sWorkID x \<noteq> []" "stream_wf x"
  obtains s' where "SaveStream st s now x = (s', Inr ())" "inv s'"
    "\<And>w. GetStream st s' w =
      (if w = sWorkID x then Inr (x\<lparr>sUpdatedAt := now, sWebhookSecret := []\<rparr>) else GetStream st s w)"
    "\<And>k. Repo_Get st s' k = Repo_Get st s k"
proof -
  obtain s' where s': "opPut st s BucketStreams (sWorkID x) (encode_stream (x\<lparr>sUpdatedAt := now\<rparr>)) = (s', Inr ())"
    "inv s'" "view s' = (view s)(BucketStreams := (view s BucketStreams)(sWorkID x \<mapsto> encode_stream (x\<lparr>sUpdatedAt := now\<rparr>)))"
    using put_view [OF assms(1) buckets(2) assms(2)] by blast
  have "decode_stream (encode_stream (x\<lparr>sUpdatedAt := now\<rparr>)) = Inr (x\<lparr>sUpdatedAt := now, sWebhookSecret := []\<rparr>)"
    using decode_encode_stream [of "x\<lparr>sUpdatedAt := now\<rparr>"] assms(3) by (simp add: stream_wf_def)
  with s' assms that show ?thesis
    by (auto simp: SaveStream_def PutJSON_def Repo_Get_view GetStream_view)
qed

lemma IncrementDebitSeq_ok:
  assumes "inv s" "GetStream st s w = Inr x" "sWorkID x = w" "w \<noteq> []" "stream_wf x"
  obtains s' where "IncrementDebitSeq st s w now = (s', Inr (sDebitSeq x + 1))" "inv s'"
    "GetStream st s' w = Inr (x\<lparr>sDebitSeq := sDebitSeq x + 1, sUpdatedAt := now, sWebhookSecret := []\<rparr>)"
proof -
  let ?x = "x\<lparr>sDebitSeq := sDebitSeq x + 1\<rparr>"
  have wid: "sWorkID ?x \<noteq> []" and wf: "stream_wf ?x" using assms by (auto simp: stream_wf_def)
  show ?thesis
    by (rule SaveStream_ok [OF assms(1) wid wf, of now], rule that)
      (use assms in \<open>auto simp: IncrementDebitSeq_def Let_def\<close>)
qed

end

interpretation repo: json_store memStore_ops mem_view mem_inv
  by (rule json_store.intro) (rule mem.reliable_store_axioms)

subsection \<open>Listing\<close>

text \<open>
  A store is well kept when every record sits under its own key and decodes to a storable job;
  this is what \<open>Save\<close> establishes.
\<close>

definition jobs_kept :: "json memStore \<Rightarrow> bool" where
  "jobs_kept s \<longleftrightarrow>
     (\<forall>k v. mem_view s BucketJobs k = Some v \<longrightarrow>
        (\<exists>j. k \<noteq> [] \<and> decode_job v = Inr j \<and> jID j = k \<and> job_wf j))"

lemma jobs_kept_Memory [simp]: "jobs_kept Memory"
  by (simp add: jobs_kept_def)

lemma jobs_kept_Save:
  assumes "mem_inv s" "jobs_kept s" "jID j \<noteq> []" "job_wf j"
  shows "jobs_kept (fst (Save memStore_ops s now j))"
proof -
  obtain s' where s': "Save memStore_ops s now j = (s', Inr ())" "mem_inv s'"
    "mem_view s' = (mem_view s)(BucketJobs := (mem_view s BucketJobs)(jID j \<mapsto> encode_job (j\<lparr>jUpdatedAt := now\<rparr>)))"
    using repo.Save_spec [OF assms(1,3)] by blast
  have "decode_job (encode_job (j\<lparr>jUpdatedAt := now\<rparr>)) = Inr (j\<lparr>jUpdatedAt := now, jWebhookSecret := []\<rparr>)"
    using decode_encode_job [of "j\<lparr>jUpdatedAt := now\<rparr>"] assms(4) by simp
  with assms s' show ?thesis by (auto simp: jobs_kept_def)
qed

lemma Repo_List_kept:
  assumes "mem_inv s" "jobs_kept s"
  obtains js where "Repo_List memStore_ops s = Inr js" "sorted_wrt (<) (map jID js)"
    "\<And>j. j \<in> set js \<longleftrightarrow> Repo_Get memStore_ops s (jID j) = Inr j"
proof -
  obtain kvs where kvs: "opList memStore_ops s BucketJobs = Inr kvs" "sorted (map fst kvs)"
    "distinct (map fst kvs)" "map_of kvs = mem_view s BucketJobs"
    using mem.list_view [OF assms(1), of BucketJobs] by blast
  define g where "g = (\<lambda>kv :: string \<times> json. projr (decode_job (snd kv)))"
  have g: "decode_job v = Inr (g (k, v)) \<and> jID (g (k, v)) = k" if "(k, v) \<in> set kvs" for k v
  proof -
    have "mem_view s BucketJobs k = Some v" using that kvs(3,4) by (metis map_of_is_SomeI)
    then obtain j where "decode_job v = Inr j" "jID j = k" using assms(2) unfolding jobs_kept_def by blast
    then show ?thesis by (simp add: g_def)
  qed
  have lst: "Repo_List memStore_ops s = Inr (map g kvs)"
    unfolding Repo_List_def kvs(1) rbind.simps
    by (rule rmap_all_ok) (use g in \<open>auto split: prod.splits\<close>)
  have ids: "map jID (map g kvs) = map fst kvs" using g by (auto intro!: map_cong simp: comp_def)
  have mem: "j \<in> set (map g kvs) \<longleftrightarrow> Repo_Get memStore_ops s (jID j) = Inr j" for j
  proof
    assume "j \<in> set (map g kvs)"
    then obtain k v where kv: "(k, v) \<in> set kvs" "j = g (k, v)" by auto
    then have "mem_view s BucketJobs k = Some v" using kvs(3,4) by (metis map_of_is_SomeI)
    with g [OF kv(1)] kv(2) show "Repo_Get memStore_ops s (jID j) = Inr j"
      by (simp add: repo.Repo_Get_view [OF assms(1)])
  next
    assume "Repo_Get memStore_ops s (jID j) = Inr j"
    then obtain v where v: "mem_view s BucketJobs (jID j) = Some v" "decode_job v = Inr j"
      by (auto simp: repo.Repo_Get_view [OF assms(1)] split: option.splits)
    then have "(jID j, v) \<in> set kvs" using kvs(4) by (metis map_of_SomeD)
    with g [OF this] v show "j \<in> set (map g kvs)" by force
  qed
  show ?thesis
    by (rule that [OF lst _ mem]) (simp only: ids strict_sorted_iff kvs simp_thms)
qed

subsection \<open>Properties\<close>

text \<open>
  C9. Durable jobs round-trip: a saved job reads back as it was saved, up to the new update time
  and the webhook secret, which the tag \<open>json:"-"\<close> keeps out of the store; no other job and no
  stream is touched.
\<close>

theorem job_save_get_roundtrip:
  assumes "mem_inv s" "jID j \<noteq> []" "job_wf j"
  shows "snd (Save memStore_ops s now j) = Inr () \<and>
    Repo_Get memStore_ops (fst (Save memStore_ops s now j)) k =
      (if k = jID j then Inr (j\<lparr>jUpdatedAt := now, jWebhookSecret := []\<rparr>)
       else Repo_Get memStore_ops s k) \<and>
    GetStream memStore_ops (fst (Save memStore_ops s now j)) w = GetStream memStore_ops s w"
  by (rule repo.Save_ok [OF assms, of now]) simp

definition demo_job :: job where
  "demo_job = zero_job\<lparr>jID := ''j1'', jMode := ModeVOD, jPhase := PhaseQueued,
     jInputURL := ''http://in'', jOutputURL := ''http://out'', jPreset := ''h264-720p'',
     jWebhookURL := ''http://hook'', jWebhookSecret := ''s3cret'', jWorkID := ''w1'', jUnitsPer := 12\<rparr>"

lemma demo_job_wf: "job_wf demo_job" "jID demo_job \<noteq> []"
  by (simp_all add: demo_job_def zero_job_def job_wf_def mode_canonical_def mode_of_string_def)

theorem job_save_get_roundtrip_witness:
  "Repo_Get memStore_ops (fst (Save memStore_ops Memory 5 demo_job)) ''j1'' =
     Inr (demo_job\<lparr>jUpdatedAt := 5, jWebhookSecret := []\<rparr>)"
  using job_save_get_roundtrip [OF mem_inv_Memory demo_job_wf(2,1), of 5 "''j1''"]
  by (simp add: demo_job_def)

text \<open>
  C8. Phase history: with clock readings that do not run backwards, \<open>Transition\<close> and
  \<open>MarkError\<close> keep a job's timeline well-formed in the store: closed phases in order without
  overlap, the last entry is the current phase, and it is open exactly while the phase is not
  terminal.
\<close>

theorem phase_history_preserved:
  assumes "mem_inv s" "Repo_Get memStore_ops s jid = Inr j" "jID j = jid" "jid \<noteq> []" "job_wf j"
    "phase_canonical to" "history_ok j" "last_mark (jPhases j) \<le> now" "0 < now"
  shows "(\<exists>j'. Repo_Get memStore_ops (fst (Transition memStore_ops s jid to now now')) jid = Inr j' \<and>
      jPhase j' = to \<and> history_ok j' \<and> length (jPhases j') = length (jPhases j) + 1) \<and>
    (\<exists>j'. Repo_Get memStore_ops (fst (MarkError memStore_ops s jid code msg now now')) jid = Inr j' \<and>
      jPhase j' = PhaseError \<and> jErrorCode j' = code \<and> history_ok j')"
proof
  have h: "history_ok (x\<lparr>jUpdatedAt := t, jWebhookSecret := w\<rparr>) = history_ok x" for x t w
    by (simp add: history_ok_def)
  have len: "length (closeLast now ts) = length ts" for ts by (simp add: closeLast_def Let_def)
  have ht: "history_ok (enterPhase now to j)" using assms by (intro history_enterPhase)
  have he: "history_ok (errorJob now code msg j)" using assms by (intro history_errorJob)
  show "\<exists>j'. Repo_Get memStore_ops (fst (Transition memStore_ops s jid to now now')) jid = Inr j' \<and>
      jPhase j' = to \<and> history_ok j' \<and> length (jPhases j') = length (jPhases j) + 1"
    by (rule repo.Transition_ok [OF assms(1-6), of now now'])
      (use ht in \<open>simp add: h, simp add: enterPhase_eq len\<close>)
  show "\<exists>j'. Repo_Get memStore_ops (fst (MarkError memStore_ops s jid code msg now now')) jid = Inr j' \<and>
      jPhase j' = PhaseError \<and> jErrorCode j' = code \<and> history_ok j'"
    by (rule repo.MarkError_ok [OF assms(1-5), of code msg now now'])
      (use he in \<open>simp add: h, simp add: errorJob_def\<close>)
qed

definition demo_store :: "json memStore" where
  "demo_store = fst (Save memStore_ops Memory 5 demo_job)"

lemma demo_store_inv: "mem_inv demo_store"
  unfolding demo_store_def
  by (rule repo.Save_ok [OF mem_inv_Memory demo_job_wf(2,1), of 5]) simp

lemma demo_store_get:
  "Repo_Get memStore_ops demo_store ''j1'' = Inr (demo_job\<lparr>jUpdatedAt := 5, jWebhookSecret := []\<rparr>)"
  unfolding demo_store_def
  by (rule repo.Save_ok [OF mem_inv_Memory demo_job_wf(2,1), of 5]) (simp add: demo_job_def)

theorem phase_history_preserved_witness:
  "\<exists>j'. Repo_Get memStore_ops (fst (Transition memStore_ops demo_store ''j1'' PhaseDownloading 7 8)) ''j1'' = Inr j' \<and>
     jPhase j' = PhaseDownloading \<and> history_ok j'"
proof -
  have "job_wf (demo_job\<lparr>jUpdatedAt := 5, jWebhookSecret := []\<rparr>)" using demo_job_wf by simp
  moreover have "history_ok (demo_job\<lparr>jUpdatedAt := 5, jWebhookSecret := []\<rparr>)"
    "last_mark (jPhases (demo_job\<lparr>jUpdatedAt := 5, jWebhookSecret := []\<rparr>)) \<le> 7"
    "jID (demo_job\<lparr>jUpdatedAt := 5, jWebhookSecret := []\<rparr>) = ''j1''"
    by (simp_all add: demo_job_def zero_job_def history_ok_def last_mark_def)
  ultimately show ?thesis
    using phase_history_preserved [OF demo_store_inv demo_store_get, of PhaseDownloading 7 8 "[]" "[]"]
    by auto
qed

text \<open>
  The restart listing: the jobs that \<open>ListNonTerminal\<close> returns are exactly the stored jobs whose
  phase is not final, each once, in ascending order of their ids.
\<close>

theorem list_non_terminal_exact:
  assumes "mem_inv s" "jobs_kept s"
  shows "\<exists>js. ListNonTerminal memStore_ops s = Inr js \<and> sorted_wrt (<) (map jID js) \<and>
    (\<forall>j. j \<in> set js \<longleftrightarrow>
      Repo_Get memStore_ops s (jID j) = Inr j \<and> jPhase j \<noteq> PhaseComplete \<and> jPhase j \<noteq> PhaseError)"
proof -
  obtain js where "Repo_List memStore_ops s = Inr js" "sorted_wrt (<) (map jID js)"
    "\<And>j. j \<in> set js \<longleftrightarrow> Repo_Get memStore_ops s (jID j) = Inr j"
    using Repo_List_kept [OF assms] by blast
  then show ?thesis
    by (auto simp: ListNonTerminal_def JobPhase_IsTerminal_def sorted_wrt_map sorted_wrt_filter)
qed

theorem list_non_terminal_exact_witness:
  "mem_inv demo_store \<and> jobs_kept demo_store \<and>
   (\<exists>js. ListNonTerminal memStore_ops demo_store = Inr js \<and> map jID js \<noteq> [])"
proof -
  have k: "jobs_kept demo_store"
    unfolding demo_store_def by (intro jobs_kept_Save mem_inv_Memory jobs_kept_Memory demo_job_wf)
  obtain js where js: "ListNonTerminal memStore_ops demo_store = Inr js"
    "\<And>j. j \<in> set js \<longleftrightarrow> Repo_Get memStore_ops demo_store (jID j) = Inr j \<and>
       jPhase j \<noteq> PhaseComplete \<and> jPhase j \<noteq> PhaseError"
    using list_non_terminal_exact [OF demo_store_inv k] by blast
  have "demo_job\<lparr>jUpdatedAt := 5, jWebhookSecret := []\<rparr> \<in> set js"
    unfolding js(2) using demo_store_get by (simp add: demo_job_def)
  with js(1) k demo_store_inv show ?thesis by auto
qed

end
