(* ===== verification/Scheduler.thy ===== *)
theory Scheduler
  imports Go_Prelude
begin

text \<open>
  \<open>internal/providers/scheduler/scheduler.go\<close>: host-local GPU admission with slots, a cost budget
  and headroom reserved for live work.

  The definitions follow the file: \<open>New\<close> normalises a configuration, \<open>canAllocateLive\<close> and
  \<open>canAllocateBatch\<close> are the admission tests, \<open>Acquire\<close> and \<open>Release\<close> the operations of
  a controller, \<open>Snapshot\<close> its report. A batch \<open>Acquire\<close> that has to wait on the condition
  variable returns \<open>None\<close> here and leaves its queue entry behind; \<open>batch_retry\<close> is the loop body
  it executes each time it is woken. The relation \<open>sched_step\<close> interleaves any number of callers:
  the mutex makes each critical section one step. Integer arithmetic is Go's 64-bit arithmetic.
\<close>

named_theorems sched_defs \<open>the operations of the scheduler\<close>

subsection \<open>Data\<close>

datatype workload = WorkloadBatch | WorkloadLive

record request =
  rWorkload :: workload
  rSlots :: int
  rCost :: int

record snapshot =
  snTotalSlots :: int
  snLiveReservedSlots :: int
  snTotalCost :: int
  snLiveReservedCost :: int
  snActiveSlots :: int
  snActiveBatchSlots :: int
  snActiveLiveSlots :: int
  snActiveCost :: int
  snActiveBatchCost :: int
  snActiveLiveCost :: int
  snQueuedBatch :: int

record sched_config =
  cfTotalSlots :: int
  cfLiveReservedSlots :: int
  cfTotalCost :: int
  cfLiveReservedCost :: int

record slotController =
  total :: int
  liveReserved :: int
  totalCost :: int
  liveCostReserved :: int
  active :: int
  activeBatch :: int
  activeLive :: int
  activeCost :: int
  activeBatchCost :: int
  activeLiveCost :: int
  queuedBatch :: int

text \<open>\<open>lDone\<close> is the \<open>sync.Once\<close> of the lease.\<close>

record slotLease =
  lWorkload :: workload
  lSlots :: int
  lCost :: int
  lDone :: bool

datatype controller = NoopController | SlotController slotController

subsection \<open>Construction\<close>

definition newSlotController :: "sched_config \<Rightarrow> slotController" where
  "newSlotController cfg =
     \<lparr>total = cfTotalSlots cfg, liveReserved = cfLiveReservedSlots cfg,
      totalCost = cfTotalCost cfg, liveCostReserved = cfLiveReservedCost cfg,
      active = 0, activeBatch = 0, activeLive = 0, activeCost = 0, activeBatchCost = 0,
      activeLiveCost = 0, queuedBatch = 0\<rparr>"

text \<open>The assignments of \<open>New\<close> after the no-op test, in order.\<close>

definition normalizeConfig :: "sched_config \<Rightarrow> sched_config" where
  "normalizeConfig cfg =
     (let tc = (if cfTotalCost cfg \<le> 0 then wrap64 (cfTotalSlots cfg * 100) else cfTotalCost cfg);
          ls = (if cfLiveReservedSlots cfg < 0 then 0 else cfLiveReservedSlots cfg);
          lc = (if cfLiveReservedCost cfg < 0 then 0 else cfLiveReservedCost cfg);
          ls = (if ls \<ge> cfTotalSlots cfg then wrap64 (cfTotalSlots cfg - 1) else ls);
          maxLiveReservedCost = wrap64 (tc - 100);
          maxLiveReservedCost = (if maxLiveReservedCost < 0 then 0 else maxLiveReservedCost);
          lc = (if lc = 0 then wrap64 (ls * 100) else lc);
          lc = (if lc > maxLiveReservedCost then maxLiveReservedCost else lc)
      in \<lparr>cfTotalSlots = cfTotalSlots cfg, cfLiveReservedSlots = ls, cfTotalCost = tc,
          cfLiveReservedCost = lc\<rparr>)"

definition New :: "sched_config \<Rightarrow> controller" where
  "New cfg =
     (if cfTotalSlots cfg \<le> 0 then NoopController
      else SlotController (newSlotController (normalizeConfig cfg)))"

subsection \<open>Admission\<close>

definition canAllocateLive :: "slotController \<Rightarrow> int \<Rightarrow> int \<Rightarrow> bool" where
  "canAllocateLive c slots cost \<longleftrightarrow>
     wrap64 (active c + slots) \<le> total c \<and> wrap64 (activeCost c + cost) \<le> totalCost c"

definition canAllocateBatch :: "slotController \<Rightarrow> int \<Rightarrow> int \<Rightarrow> bool" where
  "canAllocateBatch c slots cost \<longleftrightarrow>
     wrap64 (active c + slots) \<le> wrap64 (total c - liveReserved c) \<and>
     wrap64 (activeCost c + cost) \<le> wrap64 (totalCost c - liveCostReserved c)"

definition reqSlots :: "request \<Rightarrow> int" where
  "reqSlots r = (if rSlots r \<le> 0 then 1 else rSlots r)"

definition reqCost :: "request \<Rightarrow> int" where
  "reqCost r = (if rCost r \<le> 0 then wrap64 (reqSlots r * 100) else rCost r)"

definition allocLive :: "slotController \<Rightarrow> int \<Rightarrow> int \<Rightarrow> slotController" where
  "allocLive c slots cost =
     c\<lparr>active := wrap64 (active c + slots), activeLive := wrap64 (activeLive c + slots),
       activeCost := wrap64 (activeCost c + cost),
       activeLiveCost := wrap64 (activeLiveCost c + cost)\<rparr>"

definition allocBatch :: "slotController \<Rightarrow> int \<Rightarrow> int \<Rightarrow> slotController" where
  "allocBatch c slots cost =
     c\<lparr>active := wrap64 (active c + slots), activeBatch := wrap64 (activeBatch c + slots),
       activeCost := wrap64 (activeCost c + cost),
       activeBatchCost := wrap64 (activeBatchCost c + cost)\<rparr>"

definition newLease :: "request \<Rightarrow> slotLease" where
  "newLease r = \<lparr>lWorkload = rWorkload r, lSlots = reqSlots r, lCost = reqCost r, lDone = False\<rparr>"

text \<open>
  One pass through the loop of a waiting batch request; \<open>ctxErr\<close> is the answer of \<open>ctx.Err()\<close>.
  \<open>None\<close>: the request goes (back) to \<open>cond.Wait\<close>. Leaving the function runs the deferred
  \<open>c.queuedBatch--\<close>.
\<close>

definition batch_retry ::
  "slotController \<Rightarrow> go_error option \<Rightarrow> request \<Rightarrow> slotController \<times> slotLease result option" where
  "batch_retry c ctxErr r =
     (let slots = reqSlots r; cost = reqCost r;
          leave = (\<lambda>c. c\<lparr>queuedBatch := wrap64 (queuedBatch c - 1)\<rparr>) in
      if \<not> canAllocateBatch c slots cost
      then (case ctxErr of
              Some err \<Rightarrow> (leave c, Some (Inl err))
            | None \<Rightarrow> (c, None))
      else (leave (allocBatch c slots cost), Some (Inr (newLease r))))"

definition Acquire ::
  "slotController \<Rightarrow> go_error option \<Rightarrow> request \<Rightarrow> slotController \<times> slotLease result option" where
  "Acquire c ctxErr r =
     (let slots = reqSlots r; cost = reqCost r in
      if slots > total c then (c, Some (Inl ErrSchedCapacity))
      else if cost > totalCost c then (c, Some (Inl ErrSchedCapacity))
      else if rWorkload r = WorkloadLive
      then (if \<not> canAllocateLive c slots cost then (c, Some (Inl ErrSchedCapacity))
            else (allocLive c slots cost, Some (Inr (newLease r))))
      else batch_retry (c\<lparr>queuedBatch := wrap64 (queuedBatch c + 1)\<rparr>) ctxErr r)"

definition Release :: "slotController \<Rightarrow> slotLease \<Rightarrow> slotController \<times> slotLease" where
  "Release c l =
     (if lDone l then (c, l)
      else
        (let c = c\<lparr>active := wrap64 (active c - lSlots l),
                   activeCost := wrap64 (activeCost c - lCost l)\<rparr> in
         (if lWorkload l = WorkloadLive
          then c\<lparr>activeLive := wrap64 (activeLive c - lSlots l),
                 activeLiveCost := wrap64 (activeLiveCost c - lCost l)\<rparr>
          else c\<lparr>activeBatch := wrap64 (activeBatch c - lSlots l),
                 activeBatchCost := wrap64 (activeBatchCost c - lCost l)\<rparr>,
          l\<lparr>lDone := True\<rparr>)))"

definition Snapshot :: "slotController \<Rightarrow> snapshot" where
  "Snapshot c =
     \<lparr>snTotalSlots = total c, snLiveReservedSlots = liveReserved c, snTotalCost = totalCost c,
      snLiveReservedCost = liveCostReserved c, snActiveSlots = active c,
      snActiveBatchSlots = activeBatch c, snActiveLiveSlots = activeLive c,
      snActiveCost = activeCost c, snActiveBatchCost = activeBatchCost c,
      snActiveLiveCost = activeLiveCost c, snQueuedBatch = queuedBatch c\<rparr>"

text \<open>The two implementations of the Go interface \<open>Controller\<close>.\<close>

fun ctl_Acquire ::
  "controller \<Rightarrow> go_error option \<Rightarrow> request \<Rightarrow> controller \<times> slotLease result option" where
  "ctl_Acquire NoopController ctxErr r = (NoopController, Some (Inr (newLease r)))"
| "ctl_Acquire (SlotController c) ctxErr r =
     (let (c', a) = Acquire c ctxErr r in (SlotController c', a))"

fun ctl_Release :: "controller \<Rightarrow> slotLease \<Rightarrow> controller" where
  "ctl_Release NoopController l = NoopController"
| "ctl_Release (SlotController c) l = SlotController (fst (Release c l))"

fun ctl_Snapshot :: "controller \<Rightarrow> snapshot" where
  "ctl_Snapshot NoopController =
     \<lparr>snTotalSlots = 0, snLiveReservedSlots = 0, snTotalCost = 0, snLiveReservedCost = 0,
      snActiveSlots = 0, snActiveBatchSlots = 0, snActiveLiveSlots = 0, snActiveCost = 0,
      snActiveBatchCost = 0, snActiveLiveCost = 0, snQueuedBatch = 0\<rparr>"
| "ctl_Snapshot (SlotController c) = Snapshot c"

subsection \<open>Interleaved callers\<close>

text \<open>
  The state of the whole: the controller, the requests parked in \<open>cond.Wait\<close>, and every lease
  ever handed out. A step is one critical section of one goroutine: an \<open>Acquire\<close> call up to its
  return or its first wait, a waiting request that is woken and looks again, or a \<open>Release\<close> of
  any lease (a second one included).
\<close>

record sched_sys =
  sysCtl :: slotController
  sysWaiting :: "request list"
  sysLeases :: "slotLease list"

definition sys_acquire :: "sched_sys \<Rightarrow> go_error option \<Rightarrow> request \<Rightarrow> sched_sys" where
  "sys_acquire s ctxErr r =
     (case Acquire (sysCtl s) ctxErr r of
        (c, None) \<Rightarrow> s\<lparr>sysCtl := c, sysWaiting := r # sysWaiting s\<rparr>
      | (c, Some (Inl _)) \<Rightarrow> s\<lparr>sysCtl := c\<rparr>
      | (c, Some (Inr l)) \<Rightarrow> s\<lparr>sysCtl := c, sysLeases := l # sysLeases s\<rparr>)"

definition sys_wake :: "sched_sys \<Rightarrow> go_error option \<Rightarrow> request \<Rightarrow> sched_sys" where
  "sys_wake s ctxErr r =
     (case batch_retry (sysCtl s) ctxErr r of
        (c, None) \<Rightarrow> s
      | (c, Some (Inl _)) \<Rightarrow> s\<lparr>sysCtl := c, sysWaiting := remove1 r (sysWaiting s)\<rparr>
      | (c, Some (Inr l)) \<Rightarrow>
          s\<lparr>sysCtl := c, sysWaiting := remove1 r (sysWaiting s), sysLeases := l # sysLeases s\<rparr>)"

definition sys_release :: "sched_sys \<Rightarrow> nat \<Rightarrow> sched_sys" where
  "sys_release s i =
     (let (c, l) = Release (sysCtl s) (sysLeases s ! i) in
      s\<lparr>sysCtl := c, sysLeases := (sysLeases s)[i := l]\<rparr>)"

inductive sched_step :: "sched_sys \<Rightarrow> sched_sys \<Rightarrow> bool" where
  step_acquire: "sched_step s (sys_acquire s ctxErr r)"
| step_wake: "r \<in> set (sysWaiting s) \<Longrightarrow> sched_step s (sys_wake s ctxErr r)"
| step_release: "i < length (sysLeases s) \<Longrightarrow> sched_step s (sys_release s i)"

inductive_cases sched_stepE: "sched_step s s'"

definition sys_init :: "slotController \<Rightarrow> sched_sys" where
  "sys_init c = \<lparr>sysCtl = c, sysWaiting = [], sysLeases = []\<rparr>"

inductive sched_reach :: "slotController \<Rightarrow> sched_sys \<Rightarrow> bool" for c0 where
  reach_init: "sched_reach c0 (sys_init c0)"
| reach_step: "sched_reach c0 s \<Longrightarrow> sched_step s s' \<Longrightarrow> sched_reach c0 s'"

subsection \<open>The invariant\<close>

text \<open>
  \<open>limits_ok\<close> is what \<open>New\<close> establishes about the configured limits; the upper bounds (\<open>2^55\<close>
  slots, \<open>2^62\<close> cost units) keep the sums that the code computes inside 64 bits. \<open>held\<close> sums a
  field over the leases that are still held.
\<close>

definition limits_ok :: "slotController \<Rightarrow> bool" where
  "limits_ok c \<longleftrightarrow>
     0 < total c \<and> total c < 2 ^ 55 \<and> 0 \<le> liveReserved c \<and> liveReserved c < total c \<and>
     0 < totalCost c \<and> totalCost c < 2 ^ 62 \<and> 0 \<le> liveCostReserved c \<and>
     liveCostReserved c + min 100 (totalCost c) \<le> totalCost c"

definition lease_val :: "(slotLease \<Rightarrow> int) \<Rightarrow> workload \<Rightarrow> slotLease \<Rightarrow> int" where
  "lease_val f w l = (if lDone l \<or> lWorkload l \<noteq> w then 0 else f l)"

definition held :: "(slotLease \<Rightarrow> int) \<Rightarrow> workload \<Rightarrow> slotLease list \<Rightarrow> int" where
  "held f w ls = sum_list (map (lease_val f w) ls)"

definition lease_ok :: "slotController \<Rightarrow> slotLease \<Rightarrow> bool" where
  "lease_ok c l \<longleftrightarrow> 0 < lSlots l \<and> lSlots l \<le> total c \<and> 0 < lCost l \<and> lCost l \<le> totalCost c"

text \<open>The counters of a controller agree with the leases that are held, and the limits hold.\<close>

definition counts_ok :: "slotController \<Rightarrow> slotLease list \<Rightarrow> bool" where
  "counts_ok c ls \<longleftrightarrow>
     activeBatch c = held lSlots WorkloadBatch ls \<and>
     activeLive c = held lSlots WorkloadLive ls \<and>
     active c = activeBatch c + activeLive c \<and>
     activeBatchCost c = held lCost WorkloadBatch ls \<and>
     activeLiveCost c = held lCost WorkloadLive ls \<and>
     activeCost c = activeBatchCost c + activeLiveCost c"

definition within_ok :: "slotController \<Rightarrow> bool" where
  "within_ok c \<longleftrightarrow>
     0 \<le> activeBatch c \<and> 0 \<le> activeLive c \<and> 0 \<le> activeBatchCost c \<and> 0 \<le> activeLiveCost c \<and>
     active c = activeBatch c + activeLive c \<and>
     activeCost c = activeBatchCost c + activeLiveCost c \<and>
     active c \<le> total c \<and> activeCost c \<le> totalCost c \<and>
     activeBatch c \<le> total c - liveReserved c \<and>
     activeBatchCost c \<le> totalCost c - liveCostReserved c"

definition sched_inv :: "sched_sys \<Rightarrow> bool" where
  "sched_inv s \<longleftrightarrow>
     limits_ok (sysCtl s) \<and> (\<forall>l \<in> set (sysLeases s). lease_ok (sysCtl s) l) \<and>
     counts_ok (sysCtl s) (sysLeases s) \<and> within_ok (sysCtl s) \<and>
     queuedBatch (sysCtl s) = wrap64 (int (length (sysWaiting s))) \<and>
     (\<forall>r \<in> set (sysWaiting s).
        rWorkload r = WorkloadBatch \<and> reqSlots r \<le> total (sysCtl s) \<and>
        reqCost r \<le> totalCost (sysCtl s))"

lemmas sched_inv_defs = sched_inv_def counts_ok_def within_ok_def lease_ok_def

lemma workload_not [simp]:
  "w \<noteq> WorkloadLive \<longleftrightarrow> w = WorkloadBatch" "w \<noteq> WorkloadBatch \<longleftrightarrow> w = WorkloadLive"
  by (cases w; simp)+

lemma held_simps [simp]:
  "held f w [] = 0"
  "held f w (l # ls) = lease_val f w l + held f w ls"
  by (simp_all add: held_def)

lemma held_update:
  "i < length ls \<Longrightarrow> held f w (ls[i := l]) = held f w ls + lease_val f w l - lease_val f w (ls ! i)"
  by (simp add: held_def map_update sum_list_update_int)

lemma held_nonneg: "(\<And>l. l \<in> set ls \<Longrightarrow> 0 \<le> f l) \<Longrightarrow> 0 \<le> held f w ls"
  unfolding held_def by (rule sum_list_nonneg_map) (auto simp: lease_val_def)

lemma held_all_done: "\<forall>l \<in> set ls. lDone l \<Longrightarrow> held f w ls = 0"
  by (induction ls) (auto simp: lease_val_def)

lemma Release_again: "Release c l = (c1, l1) \<Longrightarrow> Release c1 l1 = (c1, l1)"
  by (auto simp: Release_def Let_def split: if_splits)

lemma held_member_le:
  assumes "i < length ls" "\<And>l. l \<in> set ls \<Longrightarrow> 0 \<le> f l"
  shows "lease_val f w (ls ! i) \<le> held f w ls"
  unfolding held_def by (rule sum_list_member_le) (use assms in \<open>auto simp: lease_val_def\<close>)

lemma reqSlots_pos: "0 < reqSlots r"
  by (simp add: reqSlots_def)

lemma reqCost_pos: "reqSlots r < 2 ^ 55 \<Longrightarrow> 0 < reqCost r"
  using reqSlots_pos [of r] by (simp add: reqCost_def)

lemma normalizeConfig_total [simp]: "cfTotalSlots (normalizeConfig cfg) = cfTotalSlots cfg"
  by (simp add: normalizeConfig_def Let_def)

lemma New_limits_ok:
  assumes "New cfg = SlotController c" "cfTotalSlots cfg < 2 ^ 55" "cfTotalCost cfg < 2 ^ 62"
  shows "limits_ok c"
proof -
  define ls where "ls = (let ls = (if cfLiveReservedSlots cfg < 0 then 0 else cfLiveReservedSlots cfg)
    in if ls \<ge> cfTotalSlots cfg then wrap64 (cfTotalSlots cfg - 1) else ls)"
  have pos: "0 < cfTotalSlots cfg" using assms(1) by (auto simp: New_def split: if_splits)
  have ls: "0 \<le> ls" "ls < cfTotalSlots cfg" using pos assms(2) by (auto simp: ls_def Let_def)
  then have ls100: "wrap64 (ls * 100) = ls * 100" using assms(2) by simp
  show ?thesis
    using assms pos ls unfolding New_def newSlotController_def limits_ok_def
    by (auto simp: normalizeConfig_def Let_def ls_def [unfolded Let_def, symmetric] ls100)
qed

subsection \<open>Every step keeps the invariant\<close>

text \<open>Under the limits, the guarded additions of an admission do not wrap.\<close>

lemma canAllocateLive_iff:
  assumes "limits_ok c" "within_ok c" "0 < k" "k \<le> total c" "0 < x" "x \<le> totalCost c"
  shows "canAllocateLive c k x \<longleftrightarrow> active c + k \<le> total c \<and> activeCost c + x \<le> totalCost c"
proof -
  have "wrap64 (active c + k) = active c + k" "wrap64 (activeCost c + x) = activeCost c + x"
    using assms by (auto simp: limits_ok_def within_ok_def)
  then show ?thesis by (simp add: canAllocateLive_def)
qed

lemma canAllocateBatch_iff:
  assumes "limits_ok c" "within_ok c" "0 < k" "k \<le> total c" "0 < x" "x \<le> totalCost c"
  shows "canAllocateBatch c k x \<longleftrightarrow>
    active c + k \<le> total c - liveReserved c \<and>
    activeCost c + x \<le> totalCost c - liveCostReserved c"
proof -
  have "wrap64 (active c + k) = active c + k" "wrap64 (activeCost c + x) = activeCost c + x"
    "wrap64 (total c - liveReserved c) = total c - liveReserved c"
    "wrap64 (totalCost c - liveCostReserved c) = totalCost c - liveCostReserved c"
    using assms by (auto simp: limits_ok_def within_ok_def)
  then show ?thesis by (simp add: canAllocateBatch_def)
qed

lemma allocLive_eq:
  assumes "limits_ok c" "within_ok c" "0 < k" "0 < x" "canAllocateLive c k x"
    "k \<le> total c" "x \<le> totalCost c"
  shows "allocLive c k x =
    c\<lparr>active := active c + k, activeLive := activeLive c + k,
      activeCost := activeCost c + x, activeLiveCost := activeLiveCost c + x\<rparr>"
proof -
  have le: "active c + k \<le> total c" "activeCost c + x \<le> totalCost c"
    using canAllocateLive_iff [of c k x] assms by auto
  have "wrap64 (active c + k) = active c + k" "wrap64 (activeCost c + x) = activeCost c + x"
    "wrap64 (activeLive c + k) = activeLive c + k"
    "wrap64 (activeLiveCost c + x) = activeLiveCost c + x"
    using assms le by (auto simp: limits_ok_def within_ok_def)
  then show ?thesis by (simp add: allocLive_def)
qed

lemma allocBatch_eq:
  assumes "limits_ok c" "within_ok c" "0 < k" "0 < x" "canAllocateBatch c k x"
    "k \<le> total c" "x \<le> totalCost c"
  shows "allocBatch c k x =
    c\<lparr>active := active c + k, activeBatch := activeBatch c + k,
      activeCost := activeCost c + x, activeBatchCost := activeBatchCost c + x\<rparr>"
proof -
  have le: "active c + k \<le> total c - liveReserved c"
    "activeCost c + x \<le> totalCost c - liveCostReserved c"
    using canAllocateBatch_iff [of c k x] assms by auto
  have "wrap64 (active c + k) = active c + k" "wrap64 (activeCost c + x) = activeCost c + x"
    "wrap64 (activeBatch c + k) = activeBatch c + k"
    "wrap64 (activeBatchCost c + x) = activeBatchCost c + x"
    using assms le by (auto simp: limits_ok_def within_ok_def)
  then show ?thesis by (simp add: allocBatch_def)
qed

text \<open>A queue entry does not matter to the limits and counters.\<close>

lemma queuedBatch_irrelevant [simp]:
  "limits_ok (c\<lparr>queuedBatch := q\<rparr>) = limits_ok c"
  "within_ok (c\<lparr>queuedBatch := q\<rparr>) = within_ok c"
  "counts_ok (c\<lparr>queuedBatch := q\<rparr>) ls = counts_ok c ls"
  "lease_ok (c\<lparr>queuedBatch := q\<rparr>) = lease_ok c"
  "canAllocateBatch (c\<lparr>queuedBatch := q\<rparr>) = canAllocateBatch c"
  "canAllocateLive (c\<lparr>queuedBatch := q\<rparr>) = canAllocateLive c"
  by (auto simp: limits_ok_def within_ok_def counts_ok_def lease_ok_def canAllocateBatch_def
      canAllocateLive_def fun_eq_iff)

text \<open>The three kinds of change, on the controller and the list of leases.\<close>

definition ctl_ok :: "slotController \<Rightarrow> slotLease list \<Rightarrow> bool" where
  "ctl_ok c ls \<longleftrightarrow> limits_ok c \<and> (\<forall>l \<in> set ls. lease_ok c l) \<and> counts_ok c ls \<and> within_ok c"

lemma ctl_ok_queuedBatch [simp]: "ctl_ok (c\<lparr>queuedBatch := q\<rparr>) ls = ctl_ok c ls"
  by (simp add: ctl_ok_def)

definition fits :: "slotController \<Rightarrow> request \<Rightarrow> bool" where
  "fits c r \<longleftrightarrow> reqSlots r \<le> total c \<and> reqCost r \<le> totalCost c"

lemma ctl_ok_allocLive:
  assumes "ctl_ok c ls" "rWorkload r = WorkloadLive" "fits c r"
    "canAllocateLive c (reqSlots r) (reqCost r)"
  shows "ctl_ok (allocLive c (reqSlots r) (reqCost r)) (newLease r # ls)"
proof -
  have lim: "limits_ok c" and wi: "within_ok c" using assms by (auto simp: ctl_ok_def)
  have p: "0 < reqSlots r" by (rule reqSlots_pos)
  have q: "0 < reqCost r"
    using assms lim by (intro reqCost_pos) (auto simp: fits_def limits_ok_def)
  have le: "active c + reqSlots r \<le> total c" "activeCost c + reqCost r \<le> totalCost c"
    using canAllocateLive_iff [OF lim wi p _ q] assms by (auto simp: fits_def)
  have eq: "allocLive c (reqSlots r) (reqCost r) =
    c\<lparr>active := active c + reqSlots r, activeLive := activeLive c + reqSlots r,
      activeCost := activeCost c + reqCost r, activeLiveCost := activeLiveCost c + reqCost r\<rparr>"
    using assms by (intro allocLive_eq lim wi p q) (auto simp: fits_def)
  show ?thesis
    using assms p q le unfolding eq ctl_ok_def fits_def
    by (simp add: limits_ok_def lease_ok_def counts_ok_def within_ok_def newLease_def lease_val_def)
qed

lemma ctl_ok_allocBatch:
  assumes "ctl_ok c ls" "rWorkload r = WorkloadBatch" "fits c r"
    "canAllocateBatch c (reqSlots r) (reqCost r)"
  shows "ctl_ok (allocBatch c (reqSlots r) (reqCost r)) (newLease r # ls)"
proof -
  have lim: "limits_ok c" and wi: "within_ok c" using assms by (auto simp: ctl_ok_def)
  have p: "0 < reqSlots r" by (rule reqSlots_pos)
  have q: "0 < reqCost r"
    using assms lim by (intro reqCost_pos) (auto simp: fits_def limits_ok_def)
  have le: "active c + reqSlots r \<le> total c - liveReserved c"
    "activeCost c + reqCost r \<le> totalCost c - liveCostReserved c"
    using canAllocateBatch_iff [OF lim wi p _ q] assms by (auto simp: fits_def)
  have eq: "allocBatch c (reqSlots r) (reqCost r) =
    c\<lparr>active := active c + reqSlots r, activeBatch := activeBatch c + reqSlots r,
      activeCost := activeCost c + reqCost r, activeBatchCost := activeBatchCost c + reqCost r\<rparr>"
    using assms by (intro allocBatch_eq lim wi p q) (auto simp: fits_def)
  show ?thesis
    using assms p q le unfolding eq ctl_ok_def fits_def
    by (simp add: limits_ok_def lease_ok_def counts_ok_def within_ok_def newLease_def lease_val_def)
qed

lemma Release_eq:
  assumes "ctl_ok c ls" "i < length ls" "\<not> lDone (ls ! i)"
  shows "fst (Release c (ls ! i)) =
    c\<lparr>active := active c - lSlots (ls ! i), activeCost := activeCost c - lCost (ls ! i),
      activeLive := activeLive c - lease_val lSlots WorkloadLive (ls ! i),
      activeLiveCost := activeLiveCost c - lease_val lCost WorkloadLive (ls ! i),
      activeBatch := activeBatch c - lease_val lSlots WorkloadBatch (ls ! i),
      activeBatchCost := activeBatchCost c - lease_val lCost WorkloadBatch (ls ! i)\<rparr>"
    and "lease_val lSlots w (ls ! i) \<le> held lSlots w ls"
    and "lease_val lCost w (ls ! i) \<le> held lCost w ls"
    and "0 \<le> lease_val lSlots w (ls ! i)"
    and "0 \<le> lease_val lCost w (ls ! i)"
proof -
  let ?l = "ls ! i"
  have ok: "0 < lSlots l" "0 < lCost l" if "l \<in> set ls" for l
    using assms(1) that by (auto simp: ctl_ok_def lease_ok_def)
  have mem: "?l \<in> set ls" using assms(2) by simp
  show vs: "lease_val lSlots w ?l \<le> held lSlots w ls" for w
    using assms(2) ok by (intro held_member_le) (auto intro: less_imp_le)
  show vc: "lease_val lCost w ?l \<le> held lCost w ls" for w
    using assms(2) ok by (intro held_member_le) (auto intro: less_imp_le)
  show "0 \<le> lease_val lSlots w (ls ! i)" "0 \<le> lease_val lCost w (ls ! i)"
    using ok [OF mem] by (auto simp: lease_val_def)
  show "fst (Release c (ls ! i)) =
    c\<lparr>active := active c - lSlots (ls ! i), activeCost := activeCost c - lCost (ls ! i),
      activeLive := activeLive c - lease_val lSlots WorkloadLive (ls ! i),
      activeLiveCost := activeLiveCost c - lease_val lCost WorkloadLive (ls ! i),
      activeBatch := activeBatch c - lease_val lSlots WorkloadBatch (ls ! i),
      activeBatchCost := activeBatchCost c - lease_val lCost WorkloadBatch (ls ! i)\<rparr>"
    using assms vs [of "lWorkload ?l"] vc [of "lWorkload ?l"] ok [OF mem]
    by (cases "lWorkload ?l")
      (simp_all add: Release_def ctl_ok_def counts_ok_def within_ok_def limits_ok_def
        lease_val_def)
qed

lemma ctl_ok_Release:
  assumes "ctl_ok c ls" "i < length ls"
  shows "ctl_ok (fst (Release c (ls ! i))) (ls[i := snd (Release c (ls ! i))])"
proof (cases "lDone (ls ! i)")
  case True
  then show ?thesis using assms by (simp add: Release_def)
next
  case False
  let ?l = "ls ! i"
  have snd: "snd (Release c ?l) = ?l\<lparr>lDone := True\<rparr>" using False by (simp add: Release_def Let_def)
  have zero: "lease_val f w (?l\<lparr>lDone := True\<rparr>) = 0" for f w by (simp add: lease_val_def)
  have sum: "lease_val f WorkloadBatch ?l + lease_val f WorkloadLive ?l = f ?l" for f
    using False by (cases "lWorkload ?l") (simp_all add: lease_val_def)
  have sp: "lSlots ?l = lease_val lSlots WorkloadBatch ?l + lease_val lSlots WorkloadLive ?l"
    "lCost ?l = lease_val lCost WorkloadBatch ?l + lease_val lCost WorkloadLive ?l"
    by (simp_all add: sum)
  have lk: "lease_ok c ?l" using assms by (auto simp: ctl_ok_def)
  note vals = Release_eq(2-5) [OF assms False, of WorkloadBatch]
    Release_eq(2-5) [OF assms False, of WorkloadLive]
  have mem: "set (ls[i := ?l\<lparr>lDone := True\<rparr>]) \<subseteq> insert (?l\<lparr>lDone := True\<rparr>) (set ls)"
    by (rule set_update_subset_insert)
  show ?thesis
    unfolding Release_eq(1) [OF assms False] snd ctl_ok_def
  proof (intro conjI ballI)
    fix l assume "l \<in> set (ls[i := ?l\<lparr>lDone := True\<rparr>])"
    with mem have "l = ?l\<lparr>lDone := True\<rparr> \<or> l \<in> set ls" by blast
    with lk assms show "lease_ok (c\<lparr>active := active c - lSlots ?l, activeCost := activeCost c - lCost ?l,
      activeLive := activeLive c - lease_val lSlots WorkloadLive ?l,
      activeLiveCost := activeLiveCost c - lease_val lCost WorkloadLive ?l,
      activeBatch := activeBatch c - lease_val lSlots WorkloadBatch ?l,
      activeBatchCost := activeBatchCost c - lease_val lCost WorkloadBatch ?l\<rparr>) l"
      by (auto simp: lease_ok_def ctl_ok_def)
  qed (use assms vals sp in \<open>simp_all add: ctl_ok_def counts_ok_def within_ok_def limits_ok_def
        held_update zero\<close>)
qed

lemma sched_inv_alt:
  "sched_inv s \<longleftrightarrow> ctl_ok (sysCtl s) (sysLeases s) \<and>
     queuedBatch (sysCtl s) = wrap64 (int (length (sysWaiting s))) \<and>
     (\<forall>r \<in> set (sysWaiting s). rWorkload r = WorkloadBatch \<and> fits (sysCtl s) r)"
  by (auto simp: sched_inv_def ctl_ok_def fits_def)

lemma fits_alloc [simp]:
  "fits (c\<lparr>queuedBatch := q\<rparr>) = fits c"
  "fits (allocBatch c k x) = fits c"
  "fits (allocLive c k x) = fits c"
  "fits (fst (Release c l)) = fits c"
  "queuedBatch (allocBatch c k x) = queuedBatch c"
  "queuedBatch (allocLive c k x) = queuedBatch c"
  "queuedBatch (fst (Release c l)) = queuedBatch c"
  by (auto simp: fits_def allocBatch_def allocLive_def Release_def Let_def fun_eq_iff)

text \<open>What one pass of the loop does to the controller.\<close>

lemma batch_retry_cases:
  assumes "batch_retry c ctxErr r = (c', a)"
  obtains
    (wait) "a = None" "c' = c" "\<not> canAllocateBatch c (reqSlots r) (reqCost r)" "ctxErr = None"
  | (cancelled) err where "a = Some (Inl err)" "ctxErr = Some err"
      "\<not> canAllocateBatch c (reqSlots r) (reqCost r)"
      "c' = c\<lparr>queuedBatch := wrap64 (queuedBatch c - 1)\<rparr>"
  | (granted) "a = Some (Inr (newLease r))" "canAllocateBatch c (reqSlots r) (reqCost r)"
      "c' = (allocBatch c (reqSlots r) (reqCost r))\<lparr>queuedBatch := wrap64 (queuedBatch c - 1)\<rparr>"
  using assms by (auto simp: batch_retry_def Let_def split: if_splits option.splits)

lemma Acquire_cases:
  assumes "Acquire c ctxErr r = (c', a)"
  obtains
    (refused) "a = Some (Inl ErrSchedCapacity)" "c' = c"
      "\<not> fits c r \<or> rWorkload r = WorkloadLive \<and> \<not> canAllocateLive c (reqSlots r) (reqCost r)"
  | (live) "a = Some (Inr (newLease r))" "fits c r" "rWorkload r = WorkloadLive"
      "canAllocateLive c (reqSlots r) (reqCost r)" "c' = allocLive c (reqSlots r) (reqCost r)"
  | (batch) "fits c r" "rWorkload r = WorkloadBatch"
      "batch_retry (c\<lparr>queuedBatch := wrap64 (queuedBatch c + 1)\<rparr>) ctxErr r = (c', a)"
  using assms by (auto simp: Acquire_def Let_def fits_def split: if_splits)

lemma wrap64_pred_length:
  assumes "r \<in> set ws"
  shows "wrap64 (wrap64 (int (length ws)) - 1) = wrap64 (int (length (remove1 r ws)))"
proof -
  have "int (length (remove1 r ws)) = int (length ws) - 1"
    using assms length_pos_if_in_set [OF assms] by (simp add: length_remove1 of_nat_diff Suc_leI)
  then show ?thesis by simp
qed

lemma sched_inv_wake:
  assumes "sched_inv s" "r \<in> set (sysWaiting s)"
  shows "sched_inv (sys_wake s ctxErr r)"
proof -
  obtain c' a where br: "batch_retry (sysCtl s) ctxErr r = (c', a)" by fastforce
  have r: "rWorkload r = WorkloadBatch" "fits (sysCtl s) r"
    using assms by (auto simp: sched_inv_alt)
  have ws: "\<forall>r' \<in> set (remove1 r (sysWaiting s)). rWorkload r' = WorkloadBatch \<and> fits (sysCtl s) r'"
    using assms set_remove1_subset [of r "sysWaiting s"] by (auto simp: sched_inv_alt)
  note pl = wrap64_pred_length [OF assms(2)]
  from br show ?thesis
  proof (cases rule: batch_retry_cases)
    case wait
    with br assms show ?thesis by (simp add: sys_wake_def)
  next
    case (cancelled err)
    with br assms ws pl show ?thesis by (simp add: sys_wake_def sched_inv_alt)
  next
    case granted
    with br assms ws pl ctl_ok_allocBatch [of "sysCtl s" "sysLeases s" r] r
    show ?thesis by (simp add: sys_wake_def sched_inv_alt)
  qed
qed

lemma sched_inv_acquire:
  assumes "sched_inv s"
  shows "sched_inv (sys_acquire s ctxErr r)"
proof -
  obtain c' a where ac: "Acquire (sysCtl s) ctxErr r = (c', a)" by fastforce
  from ac show ?thesis
  proof (cases rule: Acquire_cases)
    case refused
    with ac assms show ?thesis by (simp add: sys_acquire_def)
  next
    case live
    with ac assms ctl_ok_allocLive [of "sysCtl s" "sysLeases s" r]
    show ?thesis by (simp add: sys_acquire_def sched_inv_alt)
  next
    case batch
    let ?q = "sysCtl s\<lparr>queuedBatch := wrap64 (queuedBatch (sysCtl s) + 1)\<rparr>"
    let ?s = "s\<lparr>sysCtl := ?q, sysWaiting := r # sysWaiting s\<rparr>"
    have inv: "sched_inv ?s" using assms batch by (auto simp: sched_inv_alt algebra_simps)
    have "sys_acquire s ctxErr r = sys_wake ?s ctxErr r"
      using ac batch by (cases rule: batch_retry_cases [OF batch(3)])
        (simp_all add: sys_acquire_def sys_wake_def)
    with sched_inv_wake [OF inv, of r ctxErr] show ?thesis by simp
  qed
qed

lemma sched_inv_release:
  assumes "sched_inv s" "i < length (sysLeases s)"
  shows "sched_inv (sys_release s i)"
  using assms ctl_ok_Release [of "sysCtl s" "sysLeases s" i]
  by (auto simp: sys_release_def sched_inv_alt split: prod.splits) (metis fst_conv fits_alloc(4,7))+

lemma sched_inv_init:
  assumes "limits_ok c" "c = newSlotController cfg"
  shows "sched_inv (sys_init c)"
  using assms by (simp add: sched_inv_def sys_init_def newSlotController_def counts_ok_def
      within_ok_def limits_ok_def min_def split: if_splits)

lemma sched_reach_inv:
  assumes "sched_reach c s" "New cfg = SlotController c"
    "cfTotalSlots cfg < 2 ^ 55" "cfTotalCost cfg < 2 ^ 62"
  shows "sched_inv s"
  using assms(1)
proof (induction rule: sched_reach.induct)
  case reach_init
  have "c = newSlotController (normalizeConfig cfg)"
    using assms(2) by (auto simp: New_def split: if_splits)
  then show ?case using sched_inv_init New_limits_ok assms by blast
next
  case (reach_step s s')
  from reach_step.hyps(2) reach_step.IH show ?case
    by (cases rule: sched_step.cases)
      (auto intro: sched_inv_acquire sched_inv_wake sched_inv_release)
qed

lemma sched_step_limits:
  "sched_step s s' \<Longrightarrow>
   total (sysCtl s') = total (sysCtl s) \<and> liveReserved (sysCtl s') = liveReserved (sysCtl s) \<and>
   totalCost (sysCtl s') = totalCost (sysCtl s) \<and>
   liveCostReserved (sysCtl s') = liveCostReserved (sysCtl s)"
  by (induction rule: sched_step.induct)
    (auto simp: sys_acquire_def sys_wake_def sys_release_def Acquire_def batch_retry_def Let_def
      Release_def allocLive_def allocBatch_def split: option.splits sum.splits prod.splits)

lemma sched_reach_limits:
  "sched_reach c s \<Longrightarrow>
   total (sysCtl s) = total c \<and> liveReserved (sysCtl s) = liveReserved c \<and>
   totalCost (sysCtl s) = totalCost c \<and> liveCostReserved (sysCtl s) = liveCostReserved c"
  by (induction rule: sched_reach.induct) (use sched_step_limits in \<open>auto simp: sys_init_def\<close>)

subsection \<open>The interface of a controller\<close>

text \<open>
  What the runners rely on when they call \<open>Acquire\<close>, keep the lease and release it on every path
  with \<open>defer\<close>: a refused request leaves no trace, and giving back a fresh lease restores the
  controller. The client's lemma: whatever is run between \<open>Acquire\<close> and the deferred
  \<open>Release\<close>, the controller is left as it was found.
\<close>

definition with_lease ::
  "('c \<Rightarrow> go_error option \<Rightarrow> request \<Rightarrow> 'c \<times> slotLease result option) \<Rightarrow>
   ('c \<Rightarrow> slotLease \<Rightarrow> 'c) \<Rightarrow> 'c \<Rightarrow> go_error option \<Rightarrow> request \<Rightarrow> ('c \<Rightarrow> 'c \<times> 'a result) \<Rightarrow>
   'c \<times> 'a result option" where
  "with_lease acq rel c ctxErr r body =
     (case acq c ctxErr r of
        (c, None) \<Rightarrow> (c, None)
      | (c, Some (Inl err)) \<Rightarrow> (c, Some (Inl err))
      | (c, Some (Inr l)) \<Rightarrow> (let (c, x) = body c in (rel c l, Some x)))"

locale admission_controller =
  fixes acquire :: "'c \<Rightarrow> go_error option \<Rightarrow> request \<Rightarrow> 'c \<times> slotLease result option"
    and release :: "'c \<Rightarrow> slotLease \<Rightarrow> 'c"
    and good :: "'c \<Rightarrow> bool"
  assumes acquire_release: "good c \<Longrightarrow> acquire c e r = (c', Some (Inr l)) \<Longrightarrow> release c' l = c"
    and acquire_error: "good c \<Longrightarrow> acquire c e r = (c', Some (Inl err)) \<Longrightarrow> c' = c"
begin

lemma with_lease_restores:
  assumes "good c" "with_lease acquire release c e r body = (c', Some x)"
    "\<And>d. fst (body d) = d"
  shows "c' = c"
proof -
  obtain d a where da: "acquire c e r = (d, a)" by fastforce
  obtain y where "body d = (d, y)" using assms(3) [of d] by (cases "body d") auto
  with assms da acquire_release acquire_error show ?thesis
    by (auto simp: with_lease_def split: option.splits sum.splits)
qed

lemma refused_runs_nothing:
  assumes "acquire c e r = (c', Some (Inl err))"
  shows "with_lease acquire release c e r body = (c', Some (Inl err))"
  using assms by (simp add: with_lease_def)

end

definition slot_good :: "slotController \<Rightarrow> bool" where
  "slot_good c \<longleftrightarrow> limits_ok c \<and> within_ok c \<and> - (2 ^ 63) \<le> queuedBatch c \<and> queuedBatch c < 2 ^ 63"

fun ctl_good :: "controller \<Rightarrow> bool" where
  "ctl_good NoopController = True"
| "ctl_good (SlotController c) = slot_good c"

lemma Release_allocLive:
  assumes "slot_good c" "fits c r" "rWorkload r = WorkloadLive"
    "canAllocateLive c (reqSlots r) (reqCost r)"
  shows "fst (Release (allocLive c (reqSlots r) (reqCost r)) (newLease r)) = c"
proof -
  have lim: "limits_ok c" "within_ok c" using assms by (auto simp: slot_good_def)
  have q: "0 < reqCost r"
    using assms lim by (intro reqCost_pos) (auto simp: fits_def limits_ok_def)
  show ?thesis
    using assms q reqSlots_pos [of r] lim
    by (simp add: Release_def newLease_def allocLive_def limits_ok_def within_ok_def)
qed

lemma Release_allocBatch:
  assumes "slot_good c" "fits c r" "rWorkload r = WorkloadBatch"
    "canAllocateBatch c (reqSlots r) (reqCost r)"
  shows "fst (Release ((allocBatch c (reqSlots r) (reqCost r))\<lparr>queuedBatch := queuedBatch c\<rparr>)
    (newLease r)) = c"
proof -
  have lim: "limits_ok c" "within_ok c" using assms by (auto simp: slot_good_def)
  show ?thesis
    using assms lim
    by (simp add: Release_def newLease_def allocBatch_def limits_ok_def within_ok_def)
qed

lemma Acquire_Release:
  assumes "slot_good c" "Acquire c e r = (c', Some (Inr l))"
  shows "fst (Release c' l) = c"
  using assms(2)
proof (cases rule: Acquire_cases)
  case refused
  then show ?thesis by simp
next
  case live
  with Release_allocLive [OF assms(1)] show ?thesis by simp
next
  case batch
  have q: "wrap64 (queuedBatch c) = queuedBatch c" using assms(1) by (simp add: slot_good_def)
  have "allocBatch (c\<lparr>queuedBatch := x\<rparr>) k y \<lparr>queuedBatch := z\<rparr> =
      (allocBatch c k y)\<lparr>queuedBatch := z\<rparr>" for x k y z
    by (simp add: allocBatch_def)
  with batch q Release_allocBatch [OF assms(1)] show ?thesis
    by (cases rule: batch_retry_cases [OF batch(3)]) simp_all
qed

lemma Acquire_error_unchanged:
  assumes "slot_good c" "Acquire c e r = (c', Some (Inl err))"
  shows "c' = c"
  using assms(2)
proof (cases rule: Acquire_cases)
  case batch
  have q: "wrap64 (queuedBatch c) = queuedBatch c" using assms(1) by (simp add: slot_good_def)
  from batch(3) show ?thesis by (cases rule: batch_retry_cases) (simp_all add: q)
qed simp_all

interpretation sched: admission_controller ctl_Acquire ctl_Release ctl_good
proof
  fix c e r c' l
  assume "ctl_good c" "ctl_Acquire c e r = (c', Some (Inr l))"
  then show "ctl_Release c' l = c"
    by (cases c) (auto dest: Acquire_Release split: prod.splits)
next
  fix c e r c' err
  assume "ctl_good c" "ctl_Acquire c e r = (c', Some (Inl err))"
  then show "c' = c"
    by (cases c) (auto dest: Acquire_error_unchanged split: prod.splits)
qed

subsection \<open>Properties\<close>

definition cfg4 :: sched_config where
  "cfg4 = \<lparr>cfTotalSlots = 4, cfLiveReservedSlots = 1, cfTotalCost = 0, cfLiveReservedCost = 0\<rparr>"

definition batchReq :: "int \<Rightarrow> request" where
  "batchReq cost = \<lparr>rWorkload = WorkloadBatch, rSlots = 1, rCost = cost\<rparr>"

definition liveReq :: "int \<Rightarrow> request" where
  "liveReq cost = \<lparr>rWorkload = WorkloadLive, rSlots = 1, rCost = cost\<rparr>"

definition ctl4 :: slotController where
  "ctl4 = newSlotController (normalizeConfig cfg4)"

lemma New_cfg4: "New cfg4 = SlotController ctl4"
  by (simp add: New_def ctl4_def cfg4_def)

lemma ctl4_eq:
  "ctl4 = \<lparr>total = 4, liveReserved = 1, totalCost = 400, liveCostReserved = 100, active = 0,
     activeBatch = 0, activeLive = 0, activeCost = 0, activeBatchCost = 0, activeLiveCost = 0,
     queuedBatch = 0\<rparr>"
  by (simp add: ctl4_def cfg4_def newSlotController_def normalizeConfig_def Let_def)

lemma cfg4_bounds: "cfTotalSlots cfg4 < 2 ^ 55" "cfTotalCost cfg4 < 2 ^ 62"
  by (simp_all add: cfg4_def)

definition sys4 :: sched_sys where
  "sys4 = sys_acquire (sys_acquire (sys_init ctl4) None (batchReq 100)) None (liveReq 0)"

lemma reach_sys4: "sched_reach ctl4 sys4"
  unfolding sys4_def by (intro reach_step [OF _ step_acquire] reach_init)

lemma sys4_eval:
  "sysWaiting sys4 = []"
  "sysLeases sys4 = [newLease (liveReq 0), newLease (batchReq 100)]"
  "sysCtl sys4 = ctl4\<lparr>active := 2, activeBatch := 1, activeLive := 1, activeCost := 200,
     activeBatchCost := 100, activeLiveCost := 100\<rparr>"
  by code_simp+

text \<open>
  C1. Admission safety: in every state that any interleaving of callers can reach, the counters of
  the scheduler are exactly the sums over the leases still held, the host is never
  over-committed in slots or cost, and batch work never enters the headroom reserved for live
  work.
\<close>

theorem sched_admission_safety:
  assumes "New cfg = SlotController c" "cfTotalSlots cfg < 2 ^ 55" "cfTotalCost cfg < 2 ^ 62"
    "sched_reach c s"
  shows "active (sysCtl s) = held lSlots WorkloadBatch (sysLeases s) + held lSlots WorkloadLive (sysLeases s) \<and>
    activeCost (sysCtl s) = held lCost WorkloadBatch (sysLeases s) + held lCost WorkloadLive (sysLeases s) \<and>
    active (sysCtl s) \<le> cfTotalSlots cfg \<and>
    activeCost (sysCtl s) \<le> totalCost c \<and>
    held lSlots WorkloadBatch (sysLeases s) \<le> total c - liveReserved c \<and>
    held lCost WorkloadBatch (sysLeases s) \<le> totalCost c - liveCostReserved c"
proof -
  have inv: "sched_inv s" using sched_reach_inv assms by blast
  have tc: "total c = cfTotalSlots cfg"
    using assms(1) by (auto simp: New_def newSlotController_def split: if_splits)
  show ?thesis
    using inv sched_reach_limits [OF assms(4)] tc
    by (simp add: sched_inv_def counts_ok_def within_ok_def)
qed

theorem sched_admission_safety_witness:
  "sched_reach ctl4 sys4 \<and> active (sysCtl sys4) = 2 \<and> active (sysCtl sys4) \<le> cfTotalSlots cfg4"
  using sched_admission_safety [OF New_cfg4 cfg4_bounds reach_sys4] reach_sys4
  by (simp add: sys4_eval)

text \<open>
  C2. Live headroom: as long as the live streams together stay within the reserve, a live request
  that still fits into the reserve is admitted at once, whatever the batch load is.
\<close>

theorem sched_live_headroom:
  assumes "New cfg = SlotController c" "cfTotalSlots cfg < 2 ^ 55" "cfTotalCost cfg < 2 ^ 62"
    "sched_reach c s" "rWorkload r = WorkloadLive"
    "held lSlots WorkloadLive (sysLeases s) + reqSlots r \<le> liveReserved c"
    "held lCost WorkloadLive (sysLeases s) + reqCost r \<le> liveCostReserved c"
  shows "snd (Acquire (sysCtl s) ctxErr r) = Some (Inr (newLease r))"
proof -
  let ?c = "sysCtl s"
  have inv: "sched_inv s" using sched_reach_inv assms by blast
  then have lim: "limits_ok ?c" and wi: "within_ok ?c" and co: "counts_ok ?c (sysLeases s)"
    by (auto simp: sched_inv_def)
  note lims = sched_reach_limits [OF assms(4)]
  have k: "reqSlots r \<le> total ?c" and x: "reqCost r \<le> totalCost ?c"
    using assms(6,7) lims wi co lim by (auto simp: within_ok_def counts_ok_def limits_ok_def)
  then have q: "0 < reqCost r" using lim by (intro reqCost_pos) (auto simp: limits_ok_def)
  have "canAllocateLive ?c (reqSlots r) (reqCost r)"
    unfolding canAllocateLive_iff [OF lim wi reqSlots_pos k q x]
    using assms(6,7) lims wi co by (auto simp: within_ok_def counts_ok_def)
  with k x assms(5) show ?thesis by (simp add: Acquire_def Let_def)
qed

definition sysBusy :: sched_sys where
  "sysBusy = sys_acquire (sys_acquire (sys_acquire (sys_init ctl4) None (batchReq 100))
     None (batchReq 100)) None (batchReq 100)"

theorem sched_live_headroom_witness:
  "canAllocateBatch (sysCtl sysBusy) 1 20 = False \<and>
   snd (Acquire (sysCtl sysBusy) None (liveReq 100)) = Some (Inr (newLease (liveReq 100)))"
proof -
  have reach: "sched_reach ctl4 sysBusy"
    unfolding sysBusy_def by (intro reach_step [OF _ step_acquire] reach_init)
  have ev: "sysLeases sysBusy = replicate 3 (newLease (batchReq 100))"
    "active (sysCtl sysBusy) = 3" "total (sysCtl sysBusy) = 4" "liveReserved (sysCtl sysBusy) = 1"
    by code_simp+
  have "snd (Acquire (sysCtl sysBusy) None (liveReq 100)) = Some (Inr (newLease (liveReq 100)))"
    by (rule sched_live_headroom [OF New_cfg4 cfg4_bounds reach])
      (simp_all add: ev liveReq_def batchReq_def reqSlots_def reqCost_def newLease_def
        lease_val_def numeral_3_eq_3 ctl4_eq)
  with ev show ?thesis by (simp add: canAllocateBatch_def)
qed

text \<open>
  Batch progress: the normalised reserve never locks batch work out. Once every lease has been
  released, a waiting one-slot request whose cost is at most one slot's worth (and at most
  the whole budget) is granted the next time it is woken, cancelled or not.
\<close>

theorem sched_batch_progress:
  assumes "New cfg = SlotController c" "cfTotalSlots cfg < 2 ^ 55" "cfTotalCost cfg < 2 ^ 62"
    "sched_reach c s" "\<forall>l \<in> set (sysLeases s). lDone l"
    "r \<in> set (sysWaiting s)" "reqSlots r = 1" "reqCost r \<le> 100"
  shows "snd (batch_retry (sysCtl s) ctxErr r) = Some (Inr (newLease r))"
proof -
  let ?c = "sysCtl s"
  have inv: "sched_inv s" using sched_reach_inv assms by blast
  then have lim: "limits_ok ?c" and wi: "within_ok ?c" and co: "counts_ok ?c (sysLeases s)"
    and x: "reqCost r \<le> totalCost ?c"
    using assms(6) by (auto simp: sched_inv_def)
  have "held f w (sysLeases s) = 0" for f w using assms(5) by (rule held_all_done)
  with co have z: "active ?c = 0" "activeCost ?c = 0" by (auto simp: counts_ok_def)
  have k: "1 \<le> total ?c" using lim by (simp add: limits_ok_def)
  have q: "0 < reqCost r" using assms(7) by (intro reqCost_pos) simp
  have "canAllocateBatch ?c 1 (reqCost r)"
    unfolding canAllocateBatch_iff [OF lim wi zero_less_one k q x]
    using z lim x assms(8) by (auto simp: limits_ok_def)
  with assms(7) show ?thesis by (simp add: batch_retry_def Let_def)
qed

definition sysWait :: sched_sys where
  "sysWait = sys_release (sys_release (sys_release (sys_acquire sysBusy None (batchReq 80)) 0) 1) 2"

theorem sched_batch_progress_witness:
  "sysWaiting sysWait = [batchReq 80] \<and>
   snd (batch_retry (sysCtl sysWait) None (batchReq 80)) = Some (Inr (newLease (batchReq 80)))"
proof -
  have ev: "sysLeases (sys_acquire sysBusy None (batchReq 80)) = replicate 3 (newLease (batchReq 100))"
    "sysWaiting (sys_acquire sysBusy None (batchReq 80)) = [batchReq 80]"
    by code_simp+
  have rel: "sysLeases (sys_release s i) = (sysLeases s)[i := snd (Release (sysCtl s) (sysLeases s ! i))]"
    "sysWaiting (sys_release s i) = sysWaiting s" for s i
    by (simp_all add: sys_release_def split: prod.splits)
  have dn: "lDone (snd (Release c l))" for c l by (simp add: Release_def Let_def)
  have reach: "sched_reach ctl4 sysWait"
    unfolding sysWait_def sysBusy_def
    by (intro reach_step [OF _ step_release] reach_step [OF _ step_acquire] reach_init)
      (simp_all add: rel ev [unfolded sysBusy_def])
  have wait: "sysWaiting sysWait = [batchReq 80]"
    and all: "\<forall>l \<in> set (sysLeases sysWait). lDone l"
    by (simp_all add: sysWait_def rel ev dn numeral_3_eq_3 numeral_2_eq_2)
  have "snd (batch_retry (sysCtl sysWait) None (batchReq 80)) = Some (Inr (newLease (batchReq 80)))"
    by (rule sched_batch_progress [OF New_cfg4 cfg4_bounds reach all])
      (simp_all add: wait batchReq_def reqSlots_def reqCost_def)
  with wait show ?thesis by simp
qed

text \<open>
  C3. Leases are balanced: on a controller within its limits a request that is refused or
  cancelled changes nothing, and releasing a granted lease, once or any number of times, gives
  back exactly the controller before the request.
\<close>

theorem sched_acquire_release_roundtrip:
  assumes "slot_good c" "Acquire c ctxErr r = (c', Some a)"
  shows "case a of
      Inl _ \<Rightarrow> c' = c
    | Inr l \<Rightarrow> fst (Release c' l) = c \<and>
        (case Release c' l of (c1, l1) \<Rightarrow> Release c1 l1 = (c1, l1))"
  using assms Acquire_Release [OF assms(1)] Acquire_error_unchanged [OF assms(1)]
  by (auto dest: Release_again split: sum.splits)

theorem sched_acquire_release_roundtrip_witness:
  "slot_good ctl4 \<and> snd (Acquire ctl4 None (liveReq 30)) = Some (Inr (newLease (liveReq 30))) \<and>
   fst (Release (fst (Acquire ctl4 None (liveReq 30))) (newLease (liveReq 30))) = ctl4"
proof -
  have g: "slot_good ctl4" by (simp add: ctl4_eq slot_good_def limits_ok_def within_ok_def)
  have a: "Acquire ctl4 None (liveReq 30) =
      (allocLive ctl4 1 30, Some (Inr (newLease (liveReq 30))))"
    by (simp add: Acquire_def liveReq_def reqSlots_def reqCost_def canAllocateLive_def ctl4_eq Let_def)
  show ?thesis using sched_acquire_release_roundtrip [OF g a] g a by simp
qed

end
