(* ===== verification/Workload_Cost.thy ===== *)
theory Workload_Cost
  imports Go_Float Worker_Types
begin

text \<open>
  \<open>internal/providers/workloadcost/cost.go\<close>: the admission cost of a preset. The estimate is
  floating point arithmetic, every operation rounded; \<open>p.WidthMax*p.HeightMax\<close> is a 64-bit
  product. The constants 1.15 and 1.3 are the \<open>float64\<close> values nearest to them.
\<close>

definition UnitsPerSlot :: int where "UnitsPerSlot = 100"
definition minPresetCost :: int where "minPresetCost = 20"

record cost_model =
  cmBatchScale :: rat
  cmLiveScale :: rat

definition DefaultModel :: cost_model where
  "DefaultModel = \<lparr>cmBatchScale = 1, cmLiveScale = 5 / 4\<rparr>"

definition Normalized :: "cost_model \<Rightarrow> cost_model" where
  "Normalized m =
     (let m = (if cmBatchScale m \<le> 0 then m\<lparr>cmBatchScale := cmBatchScale DefaultModel\<rparr> else m) in
      if cmLiveScale m \<le> 0 then m\<lparr>cmLiveScale := cmLiveScale DefaultModel\<rparr> else m)"

definition CostDefault :: int where "CostDefault = UnitsPerSlot"

definition clampCost :: "int \<Rightarrow> int" where
  "clampCost v =
     (if v < minPresetCost then minPresetCost else if v > UnitsPerSlot then UnitsPerSlot else v)"

definition codecMultiplier :: "string \<Rightarrow> rat" where
  "codecMultiplier codec =
     (if codec = ''hevc'' then rnd64 (115 / 100)
      else if codec = ''av1'' then rnd64 (130 / 100) else 1)"

definition estimate :: "preset \<Rightarrow> rat \<Rightarrow> int" where
  "estimate p workloadMultiplier =
     (if pWidthMax p \<le> 0 \<or> pHeightMax p \<le> 0 \<or> pBitrateKbps p \<le> 0 then CostDefault
      else
        (let megapixels = rnd64 (rnd64 (of_int (wrap64 (pWidthMax p * pHeightMax p))) / 1000000);
             bitrateMbps = rnd64 (rnd64 (of_int (pBitrateKbps p)) / 1000);
             load = rnd64 (rnd64 (rnd64 (megapixels * 32) + rnd64 (bitrateMbps * 6)) + 8);
             cost = rnd64 (rnd64 (load * codecMultiplier (pCodec p)) * workloadMultiplier)
         in clampCost (int_of_float (of_int \<lceil>cost\<rceil>))))"

definition Model_ForPreset :: "cost_model \<Rightarrow> preset \<Rightarrow> int" where
  "Model_ForPreset m p = estimate p (cmBatchScale (Normalized m))"

definition Model_ForLivePreset :: "cost_model \<Rightarrow> preset \<Rightarrow> int" where
  "Model_ForLivePreset m p = estimate p (cmLiveScale (Normalized m))"

definition ForPreset :: "preset \<Rightarrow> int" where
  "ForPreset p = Model_ForPreset DefaultModel p"

definition ForLivePreset :: "preset \<Rightarrow> int" where
  "ForLivePreset p = Model_ForLivePreset DefaultModel p"

subsection \<open>Properties\<close>

lemma clampCost_range: "minPresetCost \<le> clampCost v \<and> clampCost v \<le> UnitsPerSlot"
  by (simp add: clampCost_def minPresetCost_def UnitsPerSlot_def)

lemma clampCost_mono: "v \<le> w \<Longrightarrow> clampCost v \<le> clampCost w"
  by (simp add: clampCost_def minPresetCost_def UnitsPerSlot_def)

lemma estimate_range: "20 \<le> estimate p w \<and> estimate p w \<le> 100"
  using clampCost_range
  by (auto simp: estimate_def Let_def CostDefault_def UnitsPerSlot_def minPresetCost_def)

lemma Normalized_pos: "0 < cmBatchScale (Normalized m) \<and> 0 < cmLiveScale (Normalized m)"
  by (auto simp: Normalized_def Let_def DefaultModel_def)

lemma Normalized_idem: "Normalized (Normalized m) = Normalized m"
  by (auto simp: Normalized_def Let_def DefaultModel_def)

text \<open>The estimate before rounding up, as a function of the pixel count and the bitrate.\<close>

definition rawCost :: "int \<Rightarrow> int \<Rightarrow> rat \<Rightarrow> rat \<Rightarrow> rat" where
  "rawCost pixels kbps cm wm =
     rnd64 (rnd64 (rnd64 (rnd64 (rnd64 (rnd64 (rnd64 (of_int pixels) / 1000000) * 32) +
       rnd64 (rnd64 (rnd64 (of_int kbps) / 1000) * 6)) + 8) * cm) * wm)"

lemma estimate_rawCost:
  assumes "0 < pWidthMax p" "0 < pHeightMax p" "0 < pBitrateKbps p"
    "pWidthMax p * pHeightMax p < 2 ^ 63"
  shows "estimate p wm =
    clampCost (int_of_float (of_int \<lceil>rawCost (pWidthMax p * pHeightMax p) (pBitrateKbps p)
      (codecMultiplier (pCodec p)) wm\<rceil>))"
proof -
  have "0 < pWidthMax p * pHeightMax p" using assms by simp
  then have "wrap64 (pWidthMax p * pHeightMax p) = pWidthMax p * pHeightMax p"
    using assms by (intro wrap64_small) auto
  then show ?thesis using assms by (simp add: estimate_def rawCost_def Let_def)
qed

lemma codecMultiplier_range: "0 \<le> codecMultiplier c \<and> codecMultiplier c \<le> 2"
proof -
  have "rnd64 (115 / 100) \<le> of_int 2" "rnd64 (130 / 100) \<le> of_int 2"
    by (rule rnd64_le_int; simp)+
  then show ?thesis by (auto simp: codecMultiplier_def)
qed

lemma rawCost_nonneg:
  "0 \<le> px \<Longrightarrow> 0 \<le> kb \<Longrightarrow> 0 \<le> cm \<Longrightarrow> 0 \<le> wm \<Longrightarrow> 0 \<le> rawCost px kb cm wm"
  unfolding rawCost_def
  by (intro rnd64_nonneg mult_nonneg_nonneg add_nonneg_nonneg divide_nonneg_nonneg) auto

lemma rawCost_mono:
  assumes "0 \<le> px" "px \<le> px'" "0 \<le> kb" "kb \<le> kb'" "0 \<le> cm" "0 \<le> wm"
  shows "rawCost px kb cm wm \<le> rawCost px' kb' cm wm"
  unfolding rawCost_def
  by (intro rnd64_mono mult_right_mono add_mono divide_right_mono rnd64_nonneg mult_nonneg_nonneg
      add_nonneg_nonneg divide_nonneg_nonneg) (use assms in auto)

lemma rawCost_bound:
  assumes "0 \<le> px" "px \<le> 2 ^ 40" "0 \<le> kb" "kb \<le> 2 ^ 40" "0 \<le> cm" "cm \<le> 2" "0 \<le> wm" "wm \<le> 1000"
  shows "rawCost px kb cm wm \<le> of_int (2 ^ 47)"
proof -
  let ?m = "rnd64 (rnd64 (of_int px) / 1000000)" and ?b = "rnd64 (rnd64 (of_int kb) / 1000)"
  have px: "rnd64 (of_int px) = of_int px" and kb: "rnd64 (of_int kb) = of_int kb"
    using assms by (auto intro!: rnd64_of_int)
  have px': "(of_int px :: rat) \<le> 2 ^ 40" and kb': "(of_int kb :: rat) \<le> 2 ^ 40"
    using assms by (metis of_int_le_iff of_int_numeral of_int_power)+
  have m: "?m \<le> of_int (2 ^ 21)" unfolding px
    using assms px' by (intro rnd64_le_int) auto
  have b: "?b \<le> of_int (2 ^ 31)" unfolding kb
    using assms kb' by (intro rnd64_le_int) auto
  have nn: "0 \<le> ?m" "0 \<le> ?b" using assms by auto
  have m2: "rnd64 (?m * 32) \<le> of_int (2 ^ 26)" using m nn by (intro rnd64_le_int) auto
  have b2: "rnd64 (?b * 6) \<le> of_int (2 ^ 34)" using b nn by (intro rnd64_le_int) auto
  have s: "rnd64 (rnd64 (?m * 32) + rnd64 (?b * 6)) \<le> of_int (2 ^ 35)"
    using m2 b2 nn by (intro rnd64_le_int) auto
  have t: "rnd64 (rnd64 (rnd64 (?m * 32) + rnd64 (?b * 6)) + 8) \<le> of_int (2 ^ 36)"
    using s nn by (intro rnd64_le_int) auto
  let ?t = "rnd64 (rnd64 (rnd64 (?m * 32) + rnd64 (?b * 6)) + 8)"
  have t0: "0 \<le> ?t" using nn by auto
  have "?t * cm \<le> of_int (2 ^ 36) * 2" using t t0 assms by (intro mult_mono) auto
  then have u: "rnd64 (?t * cm) \<le> of_int (2 ^ 37)" using t0 assms by (intro rnd64_le_int) auto
  have u0: "0 \<le> rnd64 (?t * cm)" using t0 assms by auto
  have "rnd64 (?t * cm) * wm \<le> of_int (2 ^ 37) * 1000" using u u0 assms by (intro mult_mono) auto
  then show ?thesis unfolding rawCost_def using u0 assms by (intro rnd64_le_int) auto
qed

lemma estimate_mono:
  assumes "0 < pWidthMax p" "0 < pHeightMax p" "0 < pBitrateKbps p" "pCodec q = pCodec p"
    "pWidthMax p \<le> pWidthMax q" "pHeightMax p \<le> pHeightMax q" "pBitrateKbps p \<le> pBitrateKbps q"
    "pWidthMax q * pHeightMax q \<le> 2 ^ 40" "pBitrateKbps q \<le> 2 ^ 40" "0 \<le> wm" "wm \<le> 1000"
  shows "estimate p wm \<le> estimate q wm"
proof -
  let ?c = "codecMultiplier (pCodec p)"
  let ?P = "pWidthMax p * pHeightMax p" and ?Q = "pWidthMax q * pHeightMax q"
  have PQ: "?P \<le> ?Q" "0 < ?P" using assms by (auto intro!: mult_mono)
  note cr = codecMultiplier_range [of "pCodec p"]
  let ?x = "rawCost ?P (pBitrateKbps p) ?c wm" and ?y = "rawCost ?Q (pBitrateKbps q) ?c wm"
  have xy: "?x \<le> ?y" using assms PQ cr by (intro rawCost_mono) auto
  have x0: "0 \<le> ?x" using assms PQ cr by (intro rawCost_nonneg) auto
  have "?y \<le> of_int (2 ^ 47)" using assms PQ cr by (intro rawCost_bound) auto
  then have "\<lceil>?y\<rceil> \<le> 2 ^ 47" by (simp add: ceiling_le_iff)
  then have y: "\<lceil>?y\<rceil> < 2 ^ 63" by simp
  have "int_of_float (of_int \<lceil>?x\<rceil>) \<le> int_of_float (of_int \<lceil>?y\<rceil>)"
    using x0 xy y by (intro int_of_float_mono ceiling_mono) auto
  moreover have "estimate p wm = clampCost (int_of_float (of_int \<lceil>?x\<rceil>))"
    using assms PQ by (intro estimate_rawCost) auto
  moreover have "estimate q wm = clampCost (int_of_float (of_int \<lceil>?y\<rceil>))"
    using assms PQ estimate_rawCost [of q wm] by auto
  ultimately show ?thesis by (simp add: clampCost_mono)
qed


definition h264_720p :: preset where
  "h264_720p = zero_preset\<lparr>pName := ''h264-720p'', pCodec := ''h264'', pWidthMax := 1280,
     pHeightMax := 720, pBitrateKbps := 2500\<rparr>"

definition h264_1080p :: preset where
  "h264_1080p = zero_preset\<lparr>pName := ''h264-1080p'', pCodec := ''h264'', pWidthMax := 1920,
     pHeightMax := 1080, pBitrateKbps := 5000\<rparr>"


end
