(* ===== verification/Runner_World.thy ===== *)
theory Runner_World
  imports Go_Comp Go_Path Jobs_Repo Scheduler Payment_Broker Workload_Cost
begin

text \<open>
  What the VOD and the ABR runner share: the world they act on and the calls into it.

  The world holds the store, the GPU scheduler, the payment broker, a clock and the trace of the
  calls made so far. Everything outside the repository (object storage, \<open>ffprobe\<close>, \<open>ffmpeg\<close>,
  the file system, the caller's context) answers as the environment part of \<open>deps\<close> says, where
  an answer may depend on the whole trace before the call. Every such call is an event of the
  trace with whether it succeeded; a webhook is an event with its full content.
\<close>

datatype event =
    EvMkdir string bool
  | EvRemoveAll string
  | EvFetch string string bool
  | EvProbe string bool
  | EvAcquire int bool
  | EvRelease
  | EvEncode string string string bool
  | EvStat string bool
  | EvWriteFile string bool
  | EvUpload string string string bool
  | EvDebit bytes string int u64 bool
  | EvWebhook string string string "(string \<times> json) list"

record ('s, 'b) world =
  wStore :: 's
  wSched :: "controller option"
  wBroker :: 'b
  wTrace :: "event list"
  wClock :: nat

record ('s, 'b) deps =
  dStore :: "('s, json) store_ops"
  dPayment :: "'b broker_ops option"
  dWebhook :: bool
  dPresets :: "event list \<Rightarrow> catalogue"
  dGPU :: gpu_profile
  dCostModel :: cost_model
  dTempDir :: string
  dMax :: int
  envNow :: "nat \<Rightarrow> time"
  envCtxErr :: "event list \<Rightarrow> go_error option"
  envMkdir :: "event list \<Rightarrow> string \<Rightarrow> unit result"
  envFetch :: "event list \<Rightarrow> string \<Rightarrow> string \<Rightarrow> unit result"
  envProbe :: "event list \<Rightarrow> string \<Rightarrow> unit result"
  envFFmpeg :: "event list \<Rightarrow> preset \<Rightarrow> string \<Rightarrow> string \<Rightarrow> unit result"
  envStat :: "event list \<Rightarrow> string \<Rightarrow> unit result"
  envWriteFile :: "event list \<Rightarrow> string \<Rightarrow> string \<Rightarrow> unit result"
  envUpload :: "event list \<Rightarrow> string \<Rightarrow> string \<Rightarrow> string \<Rightarrow> unit result"

subsection \<open>Calls\<close>

definition emit :: "event \<Rightarrow> ('s, 'b) world \<Rightarrow> ('s, 'b) world" where
  "emit e w = w\<lparr>wTrace := wTrace w @ [e]\<rparr>"

definition call ::
  "(event list \<Rightarrow> unit result) \<Rightarrow> (bool \<Rightarrow> event) \<Rightarrow> (('s, 'b) world, unit) comp" where
  "call ans ev = step_of (\<lambda>w. let r = ans (wTrace w) in (emit (ev (is_ok r)) w, r))"

definition lookupPreset :: "('s, 'b) deps \<Rightarrow> ('s, 'b) world \<Rightarrow> string \<Rightarrow> preset option" where
  "lookupPreset D w name = Lookup (dPresets D (wTrace w)) name"

definition getJob :: "('s, 'b) deps \<Rightarrow> string \<Rightarrow> (('s, 'b) world, job) comp" where
  "getJob D jid = step_of (\<lambda>w. (w, Repo_Get (dStore D) (wStore w) jid))"

definition saveJob :: "('s, 'b) deps \<Rightarrow> job \<Rightarrow> (('s, 'b) world, unit) comp" where
  "saveJob D j =
     step_of (\<lambda>w. case Save (dStore D) (wStore w) (envNow D (wClock w)) j of
       (s, r) \<Rightarrow> (w\<lparr>wStore := s, wClock := wClock w + 1\<rparr>, r))"

definition transition :: "('s, 'b) deps \<Rightarrow> string \<Rightarrow> job_phase \<Rightarrow> (('s, 'b) world, job) comp" where
  "transition D jid to =
     step_of (\<lambda>w.
       case Transition (dStore D) (wStore w) jid to (envNow D (wClock w)) (envNow D (wClock w + 1)) of
         (s, r) \<Rightarrow> (w\<lparr>wStore := s, wClock := wClock w + 2\<rparr>, r))"

definition markError :: "('s, 'b) deps \<Rightarrow> string \<Rightarrow> string \<Rightarrow> string \<Rightarrow> (('s, 'b) world, job) comp" where
  "markError D jid code msg =
     step_of (\<lambda>w.
       case MarkError (dStore D) (wStore w) jid code msg (envNow D (wClock w)) (envNow D (wClock w + 1)) of
         (s, r) \<Rightarrow> (w\<lparr>wStore := s, wClock := wClock w + 2\<rparr>, r))"

text \<open>
  \<open>Scheduler.Acquire\<close> of one batch slot; without a scheduler there is no lease and nothing to
  release.
\<close>

definition batchRequest :: "int \<Rightarrow> request" where
  "batchRequest cost = \<lparr>rWorkload = WorkloadBatch, rSlots = 1, rCost = cost\<rparr>"

definition acquireBatch :: "('s, 'b) deps \<Rightarrow> int \<Rightarrow> (('s, 'b) world, slotLease option) comp" where
  "acquireBatch D cost w =
     (case wSched w of
        None \<Rightarrow> (w, Some (Inr None))
      | Some c \<Rightarrow>
          (case ctl_Acquire c (envCtxErr D (wTrace w)) (batchRequest cost) of
             (c, None) \<Rightarrow> (w\<lparr>wSched := Some c\<rparr>, None)
           | (c, Some (Inl e)) \<Rightarrow> (emit (EvAcquire cost False) (w\<lparr>wSched := Some c\<rparr>), Some (Inl e))
           | (c, Some (Inr l)) \<Rightarrow> (emit (EvAcquire cost True) (w\<lparr>wSched := Some c\<rparr>), Some (Inr (Some l)))))"

definition releaseLease :: "slotLease option \<Rightarrow> ('s, 'b) world \<Rightarrow> ('s, 'b) world" where
  "releaseLease l w =
     (case (l, wSched w) of
        (Some l, Some c) \<Rightarrow> emit EvRelease (w\<lparr>wSched := Some (ctl_Release c l)\<rparr>)
      | _ \<Rightarrow> w)"

definition debit ::
  "'b broker_ops \<Rightarrow> bytes \<Rightarrow> string \<Rightarrow> int \<Rightarrow> u64 \<Rightarrow> (('s, 'b) world, bytes) comp" where
  "debit bk sender workID units seq =
     step_of (\<lambda>w. case bkDebitBalance bk (wBroker w) sender workID units seq of
       (b, r) \<Rightarrow> (emit (EvDebit sender workID units seq (is_ok r)) (w\<lparr>wBroker := b\<rparr>), r))"

text \<open>The goroutine of \<open>fireWebhook\<close>: delivery is fire-and-forget.\<close>

definition fireWebhook ::
  "('s, 'b) deps \<Rightarrow> job \<Rightarrow> string \<Rightarrow> (string \<times> json) list \<Rightarrow> ('s, 'b) world \<Rightarrow> ('s, 'b) world" where
  "fireWebhook D j event payload w =
     (if \<not> dWebhook D \<or> jWebhookURL j = [] then w
      else emit (EvWebhook (jWebhookURL j) (jWebhookSecret j) event payload) w)"

subsection \<open>The effects that matter\<close>

text \<open>The work a run performs: everything but bookkeeping and webhooks.\<close>

fun is_work :: "event \<Rightarrow> bool" where
  "is_work (EvFetch _ _ _) = True"
| "is_work (EvProbe _ _) = True"
| "is_work (EvEncode _ _ _ _) = True"
| "is_work (EvUpload _ _ _ _) = True"
| "is_work (EvDebit _ _ _ _ _) = True"
| "is_work _ = False"

definition work :: "event list \<Rightarrow> event list" where
  "work tr = filter is_work tr"

fun is_webhook :: "event \<Rightarrow> bool" where
  "is_webhook (EvWebhook _ _ _ _) = True"
| "is_webhook _ = False"

fun webhook_secret :: "event \<Rightarrow> string" where
  "webhook_secret (EvWebhook _ secret _ _) = secret"
| "webhook_secret _ = []"

lemma work_simps [simp]:
  "work [] = []" "work (xs @ ys) = work xs @ work ys"
  "work (e # es) = (if is_work e then e # work es else work es)"
  by (simp_all add: work_def)

lemma emit_simps [simp]:
  "wTrace (emit e w) = wTrace w @ [e]" "wStore (emit e w) = wStore w" "wSched (emit e w) = wSched w"
  "wBroker (emit e w) = wBroker w" "wClock (emit e w) = wClock w"
  by (simp_all add: emit_def)

lemma fireWebhook_simps [simp]:
  "wStore (fireWebhook D j ev p w) = wStore w" "wSched (fireWebhook D j ev p w) = wSched w"
  "wBroker (fireWebhook D j ev p w) = wBroker w" "wClock (fireWebhook D j ev p w) = wClock w"
  "work (wTrace (fireWebhook D j ev p w)) = work (wTrace w)"
  by (simp_all add: fireWebhook_def)

lemma releaseLease_simps [simp]:
  "wStore (releaseLease l w) = wStore w" "wBroker (releaseLease l w) = wBroker w"
  "work (wTrace (releaseLease l w)) = work (wTrace w)" "wClock (releaseLease l w) = wClock w"
  by (simp_all add: releaseLease_def split: option.splits)

lemma wp_call [wp_rules]:
  "wp (call ans ev) w Q = Q (emit (ev (is_ok (ans (wTrace w)))) w) (Some (ans (wTrace w)))"
  by (simp add: call_def wp_rules Let_def)

lemma wp_getJob [wp_rules]:
  "wp (getJob D jid) w Q = Q w (Some (Repo_Get (dStore D) (wStore w) jid))"
  by (simp add: getJob_def wp_rules)

lemma wp_acquireBatch:
  assumes "\<And>c. wSched w = Some c \<Longrightarrow> ctl_good c"
    and "\<And>w'. wStore w' = wStore w \<Longrightarrow> wBroker w' = wBroker w \<Longrightarrow> wTrace w' = wTrace w \<Longrightarrow> wClock w' = wClock w \<Longrightarrow> Q w' None"
    and "\<And>w' e. wStore w' = wStore w \<Longrightarrow> wBroker w' = wBroker w \<Longrightarrow> wSched w' = wSched w \<Longrightarrow>
      wClock w' = wClock w \<Longrightarrow> wTrace w' = wTrace w @ [EvAcquire cost False] \<Longrightarrow> Q w' (Some (Inl e))"
    and "\<And>w' l. wStore w' = wStore w \<Longrightarrow> wBroker w' = wBroker w \<Longrightarrow> wClock w' = wClock w \<Longrightarrow>
      wTrace w' = wTrace w @ (if l = None then [] else [EvAcquire cost True]) \<Longrightarrow>
      wSched (releaseLease l w') = wSched w \<Longrightarrow>
      Q w' (Some (Inr l))"
  shows "wp (acquireBatch D cost) w Q"
proof (cases "wSched w")
  case None
  then show ?thesis
    by (auto simp: wp_def acquireBatch_def releaseLease_def intro!: assms(4))
next
  case (Some c)
  obtain c' a where ca: "ctl_Acquire c (envCtxErr D (wTrace w)) (batchRequest cost) = (c', a)" by fastforce
  have good: "ctl_good c" using assms(1) Some by blast
  show ?thesis
  proof (cases a)
    case None
    with Some ca show ?thesis by (auto simp: wp_def acquireBatch_def intro!: assms(2))
  next
    case (Some r)
    show ?thesis
    proof (cases r)
      case (Inl e)
      with sched.acquire_error [OF good] Some ca \<open>wSched w = Some c\<close> show ?thesis
        by (auto simp: wp_def acquireBatch_def intro!: assms(3))
    next
      case (Inr l)
      with sched.acquire_release [OF good] Some ca \<open>wSched w = Some c\<close> show ?thesis
        by (auto simp: wp_def acquireBatch_def releaseLease_def intro!: assms(4))
    qed
  qed
qed

end
