(* ===== verification/Runner_Logic.thy ===== *)
theory Runner_Logic
  imports Runner_World
begin

text \<open>
  The proof rules of the batch runners: what a phase transition, an error mark and a debit do to the
  world, over any reliable store (the locale \<open>json_store\<close>). \<open>job_at\<close> says that the world's store
  holds a job; \<open>same_request\<close> that two versions of a job carry the same request; \<open>hooks_unsigned\<close>
  that no webhook of a trace carries a secret.
\<close>

definition same_request :: "job \<Rightarrow> job \<Rightarrow> bool" where
  "same_request j k \<longleftrightarrow>
     jID j = jID k \<and> jInputURL j = jInputURL k \<and> jOutputURL j = jOutputURL k \<and>
     jPreset j = jPreset k \<and> jWebhookURL j = jWebhookURL k \<and> jWorkID j = jWorkID k \<and>
     jSender j = jSender k \<and> jUnitsPer j = jUnitsPer k"

definition phase_names :: "job \<Rightarrow> job_phase list" where
  "phase_names j = map ptPhase (jPhases j)"

definition hooks_unsigned :: "event list \<Rightarrow> bool" where
  "hooks_unsigned tr \<longleftrightarrow> (\<forall>e \<in> set tr. webhook_secret e = [])"

lemma same_request_refl [simp]: "same_request j j"
  by (simp add: same_request_def)

lemma same_request_trans: "same_request a b \<Longrightarrow> same_request b c \<Longrightarrow> same_request a c"
  by (simp add: same_request_def)

lemma same_request_updates [simp]:
  "same_request (enterPhase now to j) j" "same_request (errorJob now code msg j) j"
  "same_request (j\<lparr>jUpdatedAt := t, jWebhookSecret := w\<rparr>) k = same_request j k"
  by (simp_all add: same_request_def enterPhase_eq errorJob_def)

lemma phase_names_closeLast: "map ptPhase (closeLast now ts) = map ptPhase ts"
  by (cases ts rule: rev_cases) auto

lemma phase_names_simps [simp]:
  "phase_names (enterPhase now to j) = phase_names j @ [to]"
  "phase_names (errorJob now code msg j) = phase_names j @ [PhaseError]"
  "phase_names (j\<lparr>jUpdatedAt := t, jWebhookSecret := w\<rparr>) = phase_names j"
  by (simp_all add: phase_names_def enterPhase_eq errorJob_def phase_names_closeLast)

lemma hooks_unsigned_simps [simp]:
  "hooks_unsigned []" "hooks_unsigned (xs @ ys) \<longleftrightarrow> hooks_unsigned xs \<and> hooks_unsigned ys"
  "hooks_unsigned (e # es) \<longleftrightarrow> webhook_secret e = [] \<and> hooks_unsigned es"
  by (auto simp: hooks_unsigned_def)

lemma hooks_unsigned_releaseLease [simp]:
  "hooks_unsigned (wTrace (releaseLease l w)) = hooks_unsigned (wTrace w)"
  by (simp add: releaseLease_def split: option.splits)

lemma hooks_unsigned_fireWebhook:
  "hooks_unsigned (wTrace w) \<Longrightarrow> jWebhookSecret j = [] \<Longrightarrow> hooks_unsigned (wTrace (fireWebhook D j ev p w))"
  by (simp add: fireWebhook_def)

lemma decode_job_no_secret: "decode_job v = Inr j \<Longrightarrow> jWebhookSecret j = []"
  by (cases v rule: decode_job.cases) (auto simp: rbind_eq_Inr zero_job_def)

lemma Repo_Get_no_secret: "Repo_Get st s jid = Inr j \<Longrightarrow> jWebhookSecret j = []"
  by (auto simp: Repo_Get_def GetJSON_def rbind_eq_Inr dest: decode_job_no_secret)

lemma secret_updates [simp]:
  "jWebhookSecret (enterPhase now to j) = jWebhookSecret j"
  "jWebhookSecret (errorJob now code msg j) = jWebhookSecret j"
  by (simp_all add: enterPhase_eq errorJob_def)

text \<open>The parts of the world that bookkeeping leaves alone.\<close>

definition quiet :: "('s, 'b) world \<Rightarrow> ('s, 'b) world \<Rightarrow> bool" where
  "quiet w w' \<longleftrightarrow>
     wSched w' = wSched w \<and> wBroker w' = wBroker w \<and> work (wTrace w') = work (wTrace w) \<and>
     (hooks_unsigned (wTrace w) \<longrightarrow> hooks_unsigned (wTrace w'))"

lemma quietI:
  "wSched w' = wSched w \<Longrightarrow> wBroker w' = wBroker w \<Longrightarrow> work (wTrace w') = work (wTrace w) \<Longrightarrow>
   (hooks_unsigned (wTrace w) \<Longrightarrow> hooks_unsigned (wTrace w')) \<Longrightarrow> quiet w w'"
  by (simp add: quiet_def)

lemma fireWebhook_quiet: "jWebhookSecret j = [] \<Longrightarrow> quiet w (fireWebhook D j ev p w)"
  by (rule quietI) (simp_all add: hooks_unsigned_fireWebhook)

lemma wp_debit [wp_rules]:
  "wp (debit bk sender workID units seq) w Q =
     (case bkDebitBalance bk (wBroker w) sender workID units seq of (b, r) \<Rightarrow>
        Q (emit (EvDebit sender workID units seq (is_ok r)) (w\<lparr>wBroker := b\<rparr>)) (Some r))"
  by (simp add: debit_def wp_rules split: prod.splits)

context json_store
begin

definition job_at :: "('s, 'b) world \<Rightarrow> string \<Rightarrow> job \<Rightarrow> bool" where
  "job_at w jid j \<longleftrightarrow>
     inv (wStore w) \<and> Repo_Get st (wStore w) jid = Inr j \<and> jID j = jid \<and> jid \<noteq> [] \<and> job_wf j"

lemma job_at_same_store: "wStore w' = wStore w \<Longrightarrow> job_at w' jid j = job_at w jid j"
  by (simp add: job_at_def)

lemma job_at_simps [simp]:
  "job_at (emit e w) jid j = job_at w jid j"
  "job_at (fireWebhook D k ev p w) jid j = job_at w jid j"
  "job_at (releaseLease l w) jid j = job_at w jid j"
  "job_at (w\<lparr>wBroker := b\<rparr>) jid j = job_at w jid j"
  by (simp_all add: job_at_def)

lemma wp_transition:
  assumes "dStore D = st" "job_at w jid j" "phase_canonical to"
    and "\<And>w' j'. job_at w' jid j' \<Longrightarrow> same_request j' j \<Longrightarrow> jPhase j' = to \<Longrightarrow>
      phase_names j' = phase_names j @ [to] \<Longrightarrow> jErrorCode j' = jErrorCode j \<Longrightarrow>
      wTrace w' = wTrace w \<Longrightarrow> wSched w' = wSched w \<Longrightarrow> wBroker w' = wBroker w \<Longrightarrow>
      Q w' (Some (Inr (enterPhase (envNow D (wClock w)) to j)))"
  shows "wp (transition D jid to) w Q"
proof -
  let ?now = "envNow D (wClock w)" and ?now' = "envNow D (wClock w + 1)"
  have a: "inv (wStore w)" "Repo_Get st (wStore w) jid = Inr j" "jID j = jid" "jid \<noteq> []" "job_wf j"
    using assms(2) by (auto simp: job_at_def)
  obtain s' where s': "Transition st (wStore w) jid to ?now ?now' = (s', Inr (enterPhase ?now to j))"
    "inv s'" "\<And>k. Repo_Get st s' k =
      (if k = jid then Inr ((enterPhase ?now to j)\<lparr>jUpdatedAt := ?now', jWebhookSecret := []\<rparr>)
       else Repo_Get st (wStore w) k)"
    using Transition_ok [OF a assms(3)] by blast
  let ?w = "w\<lparr>wStore := s', wClock := wClock w + 2\<rparr>"
  let ?j = "(enterPhase ?now to j)\<lparr>jUpdatedAt := ?now', jWebhookSecret := []\<rparr>"
  have "job_at ?w jid ?j"
    using s' a job_wf_enterPhase [OF a(5) assms(3)]
    by (simp add: job_at_def enterPhase_eq job_wf_def)
  then have "Q ?w (Some (Inr (enterPhase ?now to j)))"
    by (rule assms(4)) (simp_all add: enterPhase_eq phase_names_def phase_names_closeLast same_request_def)
  then show ?thesis using s'(1) assms(1) by (simp add: transition_def wp_rules)
qed

lemma wp_markError:
  assumes "dStore D = st" "job_at w jid j"
    and "\<And>w' j'. job_at w' jid j' \<Longrightarrow> same_request j' j \<Longrightarrow> jPhase j' = PhaseError \<Longrightarrow>
      phase_names j' = phase_names j @ [PhaseError] \<Longrightarrow> jErrorCode j' = code \<Longrightarrow> jErrorMessage j' = msg \<Longrightarrow>
      wTrace w' = wTrace w \<Longrightarrow> wSched w' = wSched w \<Longrightarrow> wBroker w' = wBroker w \<Longrightarrow>
      Q w' (Some (Inr (errorJob (envNow D (wClock w)) code msg j)))"
  shows "wp (markError D jid code msg) w Q"
proof -
  let ?now = "envNow D (wClock w)" and ?now' = "envNow D (wClock w + 1)"
  have a: "inv (wStore w)" "Repo_Get st (wStore w) jid = Inr j" "jID j = jid" "jid \<noteq> []" "job_wf j"
    using assms(2) by (auto simp: job_at_def)
  obtain s' where s': "MarkError st (wStore w) jid code msg ?now ?now' = (s', Inr (errorJob ?now code msg j))"
    "inv s'" "\<And>k. Repo_Get st s' k =
      (if k = jid then Inr ((errorJob ?now code msg j)\<lparr>jUpdatedAt := ?now', jWebhookSecret := []\<rparr>)
       else Repo_Get st (wStore w) k)"
    using MarkError_ok [OF a] by blast
  let ?w = "w\<lparr>wStore := s', wClock := wClock w + 2\<rparr>"
  let ?j = "(errorJob ?now code msg j)\<lparr>jUpdatedAt := ?now', jWebhookSecret := []\<rparr>"
  have "job_at ?w jid ?j"
    using s' a job_wf_errorJob [OF a(5), of ?now code msg]
    by (simp add: job_at_def errorJob_def job_wf_def)
  then have "Q ?w (Some (Inr (errorJob ?now code msg j)))"
    by (rule assms(3)) (simp_all add: errorJob_def phase_names_def phase_names_closeLast same_request_def)
  then show ?thesis using s'(1) assms(1) by (simp add: markError_def wp_rules)
qed

end

end
