(* ===== verification/Job_Runner.thy ===== *)
theory Job_Runner
  imports Runner_Logic
begin

text \<open>
  \<open>internal/service/jobrunner/jobrunner.go\<close>: the VOD runner. \<open>runOne\<close> is composed as the
  code is: look up the job and its preset, make the temporary directory and remove it on every
  way out, then download, probe, encode under a scheduler lease that is held to the end of the
  function, upload, debit, complete. The queue and the set of active ids (\<open>pop\<close>, \<open>finish\<close>) are the
  record \<open>job_runner\<close>; \<open>pool_step\<close> interleaves submitters and workers.
\<close>

record job_runner =
  jrQueue :: "string list"
  jrActive :: "string list"

subsection \<open>Construction and the queue\<close>

text \<open>The defaults of \<open>New\<close>; the flags tell which mandatory dependencies are present.\<close>

definition jobrunner_New ::
  "bool \<Rightarrow> bool \<Rightarrow> bool \<Rightarrow> bool \<Rightarrow> string \<Rightarrow> ('s, 'b) deps \<Rightarrow> (('s, 'b) deps \<times> job_runner) result" where
  "jobrunner_New hasRepo hasFFmpeg hasStorage hasPresets osTempDir D =
     (if \<not> hasRepo then Inl (Err ''jobrunner: Repo is required'')
      else if \<not> hasFFmpeg then Inl (Err ''jobrunner: FFmpeg is required'')
      else if \<not> hasStorage then Inl (Err ''jobrunner: Storage is required'')
      else if \<not> hasPresets then Inl (Err ''jobrunner: Presets is required'')
      else Inr (D\<lparr>dMax := (if dMax D \<le> 0 then 5 else dMax D),
                  dTempDir := (if dTempDir D = [] then osTempDir else dTempDir D),
                  dCostModel := Normalized (dCostModel D)\<rparr>,
                \<lparr>jrQueue = [], jrActive = []\<rparr>))"

definition Submit ::
  "('s, 'b) deps \<Rightarrow> job_runner \<Rightarrow> job \<Rightarrow> ('s, 'b) world \<Rightarrow> ('s, 'b) world \<times> job_runner \<times> job result" where
  "Submit D r j w =
     (if jID j = [] then (w, r, Inl (Err ''jobrunner: job ID required''))
      else if lookupPreset D w (jPreset j) = None
      then (w, r, Inl (JobErrorOf ErrCodeJobInvalidPreset (''unknown preset: '' @ jPreset j)))
      else
        (let j = j\<lparr>jMode := ModeVOD, jPhase := PhaseQueued\<rparr>;
             (j, w) = (if jCreatedAt j = zero_time
                       then (j\<lparr>jCreatedAt := envNow D (wClock w)\<rparr>, w\<lparr>wClock := wClock w + 1\<rparr>)
                       else (j, w)) in
         case saveJob D j w of
           (w, Some (Inr _)) \<Rightarrow> (w, r\<lparr>jrQueue := jrQueue r @ [jID j]\<rparr>, Inr j)
         | (w, Some (Inl err)) \<Rightarrow> (w, r, Inl err)
         | (w, None) \<Rightarrow> (w, r, Inr j)))"

text \<open>\<open>pop\<close> drops ids that are already active; the empty string is \<open>None\<close>.\<close>

function pop :: "job_runner \<Rightarrow> job_runner \<times> string option" where
  "pop r =
     (case jrQueue r of
        [] \<Rightarrow> (r, None)
      | jid # q \<Rightarrow>
          if jid \<in> set (jrActive r) then pop (r\<lparr>jrQueue := q\<rparr>)
          else (r\<lparr>jrQueue := q, jrActive := List.insert jid (jrActive r)\<rparr>, Some jid))"
  by auto
termination by (relation "measure (\<lambda>r. length (jrQueue r))") auto

declare pop.simps [simp del]

definition finish :: "job_runner \<Rightarrow> string \<Rightarrow> job_runner" where
  "finish r jid = r\<lparr>jrActive := removeAll jid (jrActive r)\<rparr>"

definition QueueDepth :: "job_runner \<Rightarrow> nat" where "QueueDepth r = length (jrQueue r)"
definition ActiveCount :: "job_runner \<Rightarrow> nat" where "ActiveCount r = length (jrActive r)"
definition MaxConcurrent :: "('s, 'b) deps \<Rightarrow> int" where "MaxConcurrent D = dMax D"

definition ResumeAll :: "('s, 'b) deps \<Rightarrow> job_runner \<Rightarrow> ('s, 'b) world \<Rightarrow> job_runner \<times> unit result" where
  "ResumeAll D r w =
     (case ListNonTerminal (dStore D) (wStore w) of
        Inl err \<Rightarrow> (r, Inl err)
      | Inr js \<Rightarrow>
          (r\<lparr>jrQueue := jrQueue r @ map jID (filter (\<lambda>j. jMode j = ModeVOD) js)\<rparr>, Inr ()))"

subsection \<open>One job\<close>

definition phasePayload :: "job \<Rightarrow> (string \<times> json) list" where
  "phasePayload j =
     [(''job_id'', JStr (jID j)), (''phase'', JStr (JobPhase_string (jPhase j))),
      (''work_id'', JStr (jWorkID j))]"

definition advance :: "('s, 'b) deps \<Rightarrow> job \<Rightarrow> job_phase \<Rightarrow> (('s, 'b) world, job) comp" where
  "advance D j to =
     andThen (transition D (jID j) to) (\<lambda>updated.
       modifying (fireWebhook D updated ''job.phase'' (phasePayload updated)) (returns updated))"

definition failJob :: "('s, 'b) deps \<Rightarrow> string \<Rightarrow> string \<Rightarrow> go_error \<Rightarrow> (('s, 'b) world, unit) comp" where
  "failJob D jid code err =
     onError (markError D jid code (error_text err)) fails (\<lambda>j.
       modifying (fireWebhook D j ''job.error'' (phasePayload j)) (fails err))"

definition encodeErrCode :: "go_error \<Rightarrow> string" where
  "encodeErrCode err =
     (case errors_As_JobError err of Some je \<Rightarrow> eCode je | None \<Rightarrow> ErrCodeEncodingFailed)"

definition completeJob :: "('s, 'b) deps \<Rightarrow> job \<Rightarrow> (('s, 'b) world, unit) comp" where
  "completeJob D j =
     andThen (advance D j PhaseComplete) (\<lambda>j.
       modifying (fireWebhook D j ''job.complete'' (phasePayload j)) (returns ()))"

text \<open>The debit is skipped when payment is not wired, without a work id, or without units.\<close>

definition charged :: "('s, 'b) deps \<Rightarrow> job \<Rightarrow> bool" where
  "charged D j \<longleftrightarrow> dPayment D \<noteq> None \<and> jWorkID j \<noteq> [] \<and> jUnitsPer j > 0"

definition settle :: "('s, 'b) deps \<Rightarrow> string \<Rightarrow> job \<Rightarrow> (('s, 'b) world, unit) comp" where
  "settle D jid j =
     (case dPayment D of
        Some bk \<Rightarrow>
          if jWorkID j \<noteq> [] \<and> jUnitsPer j > 0
          then onError (debit bk (jSender j) (jWorkID j) (jUnitsPer j) 1)
                 (failJob D jid ErrCodePaymentFailed) (\<lambda>_. completeJob D j)
          else completeJob D j
      | None \<Rightarrow> completeJob D j)"

definition uploadAndSettle :: "('s, 'b) deps \<Rightarrow> string \<Rightarrow> job \<Rightarrow> string \<Rightarrow> (('s, 'b) world, unit) comp" where
  "uploadAndSettle D jid j dst =
     andThen (advance D j PhaseUploading) (\<lambda>j.
     onError (call (\<lambda>h. envUpload D h (jOutputURL j) dst ''video/mp4'') (EvUpload (jOutputURL j) dst ''video/mp4''))
       (failJob D jid ErrCodeUploadFailed) (\<lambda>_. settle D jid j))"

definition encodeUnderLease ::
  "('s, 'b) deps \<Rightarrow> string \<Rightarrow> job \<Rightarrow> preset \<Rightarrow> string \<Rightarrow> string \<Rightarrow> (('s, 'b) world, unit) comp" where
  "encodeUnderLease D jid j preset src dst =
     onError (call (\<lambda>h. envFFmpeg D h preset src dst) (EvEncode (pName preset) src dst))
       (\<lambda>err. failJob D jid (encodeErrCode err) err) (\<lambda>_.
     onError (call (\<lambda>h. envStat D h dst) (EvStat dst))
       (\<lambda>_. onError (call (\<lambda>h. envWriteFile D h dst ''encoded'') (EvWriteFile dst))
         (failJob D jid ErrCodeEncodingFailed) (\<lambda>_. uploadAndSettle D jid j dst))
       (\<lambda>_. uploadAndSettle D jid j dst))"

definition encodeAndUpload ::
  "('s, 'b) deps \<Rightarrow> string \<Rightarrow> job \<Rightarrow> preset \<Rightarrow> string \<Rightarrow> string \<Rightarrow> (('s, 'b) world, unit) comp" where
  "encodeAndUpload D jid j preset src dst =
     onError (acquireBatch D (Model_ForPreset (dCostModel D) preset))
       (failJob D jid ErrCodeCapacityExceeded) (\<lambda>lease.
     deferred (releaseLease lease) (encodeUnderLease D jid j preset src dst))"

definition runPhases ::
  "('s, 'b) deps \<Rightarrow> string \<Rightarrow> job \<Rightarrow> preset \<Rightarrow> string \<Rightarrow> string \<Rightarrow> (('s, 'b) world, unit) comp" where
  "runPhases D jid j preset src dst =
     andThen (advance D j PhaseDownloading) (\<lambda>j.
     onError (call (\<lambda>h. envFetch D h (jInputURL j) src) (EvFetch (jInputURL j) src))
       (failJob D jid ErrCodeDownloadFailed) (\<lambda>_.
     andThen (advance D j PhaseProbing) (\<lambda>j.
     onError (call (\<lambda>h. envProbe D h src) (EvProbe src))
       (failJob D jid ErrCodeProbeFailed) (\<lambda>_.
     andThen (advance D j PhaseEncoding) (\<lambda>j.
       encodeAndUpload D jid j preset src dst)))))"

definition jobTempDir :: "('s, 'b) deps \<Rightarrow> string \<Rightarrow> string" where
  "jobTempDir D jid = filepath_Join [dTempDir D, ''job-'' @ jid]"

definition runOne :: "('s, 'b) deps \<Rightarrow> string \<Rightarrow> (('s, 'b) world, unit) comp" where
  "runOne D jid =
     andThen (getJob D jid) (\<lambda>j.
     reading (\<lambda>w.
       case lookupPreset D w (jPreset j) of
         None \<Rightarrow>
           ignoring (markError D jid ErrCodeJobInvalidPreset ''unknown preset'')
             (fails (Err (''unknown preset '' @ Quote (jPreset j))))
       | Some preset \<Rightarrow>
           (let tmpDir = jobTempDir D jid in
            andThen (call (\<lambda>h. envMkdir D h tmpDir) (EvMkdir tmpDir)) (\<lambda>_.
              deferred (emit (EvRemoveAll tmpDir))
                (runPhases D jid j preset (filepath_Join [tmpDir, ''input''])
                  (filepath_Join [tmpDir, ''output'']))))))"

text \<open>One round of a worker that found an id: run it, then free it.\<close>

definition worker_round ::
  "('s, 'b) deps \<Rightarrow> job_runner \<Rightarrow> ('s, 'b) world \<Rightarrow> (('s, 'b) world \<times> job_runner \<times> unit result option)" where
  "worker_round D r w =
     (case pop r of
        (r, None) \<Rightarrow> (w, r, Some (Inr ()))
      | (r, Some jid) \<Rightarrow>
          (case runOne D jid w of
             (w, None) \<Rightarrow> (w, r, None)
           | (w, Some x) \<Rightarrow> (w, finish r jid, Some x)))"

subsection \<open>What a run does\<close>

text \<open>The scheduler, if there is one, is within its limits.\<close>

definition sched_ready :: "('s, 'b) world \<Rightarrow> bool" where
  "sched_ready w \<longleftrightarrow> (\<forall>c. wSched w = Some c \<longrightarrow> ctl_good c)"

text \<open>The work of a complete run, in order, and the same step when it fails.\<close>

definition fullWork :: "('s, 'b) deps \<Rightarrow> job \<Rightarrow> preset \<Rightarrow> string \<Rightarrow> string \<Rightarrow> event list" where
  "fullWork D j preset src dst =
     [EvFetch (jInputURL j) src True, EvProbe src True, EvEncode (pName preset) src dst True,
      EvUpload (jOutputURL j) dst ''video/mp4'' True] @
     (if charged D j then [EvDebit (jSender j) (jWorkID j) (jUnitsPer j) 1 True] else [])"

fun failed :: "event \<Rightarrow> event" where
  "failed (EvFetch u p _) = EvFetch u p False"
| "failed (EvProbe p _) = EvProbe p False"
| "failed (EvEncode n p q _) = EvEncode n p q False"
| "failed (EvUpload u p c _) = EvUpload u p c False"
| "failed (EvDebit s w u q _) = EvDebit s w u q False"
| "failed e = e"

text \<open>
  How a failed run can look: the work \<open>new\<close> it did is an initial part of the full run, then the
  step that failed, with the matching error code.
\<close>

definition stoppedAt :: "event list \<Rightarrow> nat \<Rightarrow> event list" where
  "stoppedAt full n = take n full @ [failed (full ! n)]"

definition failureReport :: "event list \<Rightarrow> event list \<Rightarrow> string \<Rightarrow> go_error \<Rightarrow> bool" where
  "failureReport full new code err \<longleftrightarrow>
     new = stoppedAt full 0 \<and> code = ErrCodeDownloadFailed \<or>
     new = stoppedAt full 1 \<and> code = ErrCodeProbeFailed \<or>
     new = take 2 full \<and> code = ErrCodeCapacityExceeded \<or>
     new = stoppedAt full 2 \<and> code = encodeErrCode err \<or>
     new = take 3 full \<and> code = ErrCodeEncodingFailed \<or>
     new = stoppedAt full 3 \<and> code = ErrCodeUploadFailed \<or>
     length full = 5 \<and> new = stoppedAt full 4 \<and> code = ErrCodePaymentFailed"

lemma same_request_charged: "same_request j k \<Longrightarrow> charged D j = charged D k"
  by (simp add: same_request_def charged_def)

lemma same_request_fields:
  assumes "same_request j k"
  shows "jID j = jID k" "jInputURL j = jInputURL k" "jOutputURL j = jOutputURL k"
    "jWorkID j = jWorkID k" "jSender j = jSender k" "jUnitsPer j = jUnitsPer k"
  using assms by (auto simp: same_request_def)

lemmas error_code_defs = ErrCodeDownloadFailed_def ErrCodeProbeFailed_def
  ErrCodeCapacityExceeded_def ErrCodeEncodingFailed_def ErrCodeUploadFailed_def ErrCodePaymentFailed_def

context json_store
begin

lemma wp_advance:
  assumes "dStore D = st" "job_at w jid k" "same_request j k" "phase_canonical to"
    and "\<And>w' j' k'. job_at w' jid k' \<Longrightarrow> same_request j' k \<Longrightarrow> same_request k' k \<Longrightarrow> jPhase k' = to \<Longrightarrow>
      phase_names k' = phase_names k @ [to] \<Longrightarrow> quiet w w' \<Longrightarrow> jWebhookSecret j' = [] \<Longrightarrow> Q w' (Some (Inr j'))"
  shows "wp (advance D j to) w Q"
proof -
  have jid: "jID j = jid" using assms(2,3) by (simp add: job_at_def same_request_def)
  have sec: "jWebhookSecret k = []" using assms(2) by (auto simp: job_at_def dest: Repo_Get_no_secret)
  show ?thesis
    unfolding advance_def wp_rules jid
    apply (rule wp_transition [OF assms(1,2,4)])
    apply (simp add: wp_rules)
    apply (rule assms(5))
    apply (auto simp: sec quiet_def intro: hooks_unsigned_fireWebhook)
    done
qed

lemma wp_failJob:
  assumes "dStore D = st" "job_at w jid k"
    and "\<And>w' k'. job_at w' jid k' \<Longrightarrow> same_request k' k \<Longrightarrow> jPhase k' = PhaseError \<Longrightarrow> jErrorCode k' = code \<Longrightarrow>
      phase_names k' = phase_names k @ [PhaseError] \<Longrightarrow> quiet w w' \<Longrightarrow> Q w' (Some (Inl err))"
  shows "wp (failJob D jid code err) w Q"
proof -
  have sec: "jWebhookSecret k = []" using assms(2) by (auto simp: job_at_def dest: Repo_Get_no_secret)
  show ?thesis
    unfolding failJob_def wp_rules
    apply (rule wp_markError [OF assms(1,2)])
    apply (simp add: wp_rules)
    apply (rule assms(3))
    apply (auto simp: sec quiet_def intro: hooks_unsigned_fireWebhook)
    done
qed

lemma wp_completeJob:
  assumes "dStore D = st" "job_at w jid k" "same_request j k"
    and "\<And>w' k'. job_at w' jid k' \<Longrightarrow> jPhase k' = PhaseComplete \<Longrightarrow>
      phase_names k' = phase_names k @ [PhaseComplete] \<Longrightarrow> quiet w w' \<Longrightarrow> Q w' (Some (Inr ()))"
  shows "wp (completeJob D j) w Q"
  unfolding completeJob_def wp_rules
  apply (rule wp_advance [OF assms(1-3)])
   apply simp
  apply (simp add: wp_rules)
  apply (rule assms(4))
     apply (auto simp: quiet_def intro: hooks_unsigned_fireWebhook)
  done

text \<open>
  The same world facts at the end of every branch: the job's record, the scheduler, the work done
  since \<open>w\<close>, and unsigned webhooks.
\<close>

definition ended :: "('s, 'b) world \<Rightarrow> string \<Rightarrow> job_phase list \<Rightarrow> ('s, 'b) world \<Rightarrow> job \<Rightarrow> event list \<Rightarrow> bool" where
  "ended w jid names w' k' new \<longleftrightarrow>
     job_at w' jid k' \<and> phase_names k' = names \<and> wSched w' = wSched w \<and>
     work (wTrace w') = work (wTrace w) @ new \<and>
     (hooks_unsigned (wTrace w) \<longrightarrow> hooks_unsigned (wTrace w'))"

lemma wp_settle:
  assumes "dStore D = st" "job_at w jid k" "same_request j k"
    and complete: "\<And>w' k'. jPhase k' = PhaseComplete \<Longrightarrow>
      ended w jid (phase_names k @ [PhaseComplete]) w' k'
        (if charged D k then [EvDebit (jSender k) (jWorkID k) (jUnitsPer k) 1 True] else []) \<Longrightarrow> Q w' (Some (Inr ()))"
    and stopped: "\<And>w' k' err. jPhase k' = PhaseError \<Longrightarrow> charged D k \<Longrightarrow> jErrorCode k' = ErrCodePaymentFailed \<Longrightarrow>
      ended w jid (phase_names k @ [PhaseError]) w' k' [EvDebit (jSender k) (jWorkID k) (jUnitsPer k) 1 False] \<Longrightarrow>
      Q w' (Some (Inl err))"
  shows "wp (settle D jid j) w Q"
proof -
  note f = same_request_fields [OF assms(3)]
  show ?thesis
  proof (cases "charged D k")
    case False
    have "settle D jid j = completeJob D j"
      using False f by (auto simp: settle_def charged_def split: option.splits)
    moreover have "wp (completeJob D j) w Q"
      by (rule wp_completeJob [OF assms(1-3)], rule complete) (use False in \<open>auto simp: quiet_def ended_def\<close>)
    ultimately show ?thesis by simp
  next
    case True
    then obtain bk where bk: "dPayment D = Some bk" "jWorkID k \<noteq> []" "0 < jUnitsPer k"
      by (auto simp: charged_def)
    obtain b r where br: "bkDebitBalance bk (wBroker w) (jSender k) (jWorkID k) (jUnitsPer k) 1 = (b, r)" by fastforce
    let ?w = "emit (EvDebit (jSender k) (jWorkID k) (jUnitsPer k) 1 (is_ok r)) (w\<lparr>wBroker := b\<rparr>)"
    have at: "job_at ?w jid k" using assms(2) by simp
    have "wp (failJob D jid ErrCodePaymentFailed err) ?w Q" if "r = Inl err" for err
      by (rule wp_failJob [OF assms(1) at], rule stopped) (use True that in \<open>auto simp: quiet_def ended_def\<close>)
    moreover have "wp (completeJob D j) ?w Q" if "r = Inr x" for x
      by (rule wp_completeJob [OF assms(1) at assms(3)], rule complete) (use True that in \<open>auto simp: quiet_def ended_def\<close>)
    ultimately show ?thesis
      using bk br f by (cases r) (simp_all add: settle_def wp_rules)
  qed
qed

lemma wp_uploadAndSettle:
  assumes "dStore D = st" "job_at w jid k" "same_request j k"
    and complete: "\<And>w' k'. jPhase k' = PhaseComplete \<Longrightarrow>
      ended w jid (phase_names k @ [PhaseUploading, PhaseComplete]) w' k'
        (EvUpload (jOutputURL k) dst ''video/mp4'' True #
         (if charged D k then [EvDebit (jSender k) (jWorkID k) (jUnitsPer k) 1 True] else [])) \<Longrightarrow> Q w' (Some (Inr ()))"
    and upload_failed: "\<And>w' k' err. jPhase k' = PhaseError \<Longrightarrow> jErrorCode k' = ErrCodeUploadFailed \<Longrightarrow>
      ended w jid (phase_names k @ [PhaseUploading, PhaseError]) w' k' [EvUpload (jOutputURL k) dst ''video/mp4'' False] \<Longrightarrow>
      Q w' (Some (Inl err))"
    and debit_failed: "\<And>w' k' err. jPhase k' = PhaseError \<Longrightarrow> charged D k \<Longrightarrow> jErrorCode k' = ErrCodePaymentFailed \<Longrightarrow>
      ended w jid (phase_names k @ [PhaseUploading, PhaseError]) w' k'
        [EvUpload (jOutputURL k) dst ''video/mp4'' True, EvDebit (jSender k) (jWorkID k) (jUnitsPer k) 1 False] \<Longrightarrow>
      Q w' (Some (Inl err))"
  shows "wp (uploadAndSettle D jid j dst) w Q"
proof -
  have body: "wp (onError (call (\<lambda>h. envUpload D h (jOutputURL j1) dst ''video/mp4'') (EvUpload (jOutputURL j1) dst ''video/mp4''))
       (failJob D jid ErrCodeUploadFailed) (\<lambda>_. settle D jid j1)) w1 Q"
    if 1: "job_at w1 jid k1" "same_request j1 k" "same_request k1 k"
      "phase_names k1 = phase_names k @ [PhaseUploading]" "quiet w w1" for w1 j1 k1
  proof -
    have jk: "same_request j1 k1" using 1(2,3) by (simp add: same_request_def)
    note f = same_request_fields [OF 1(2)] same_request_fields [OF 1(3)] same_request_charged [OF 1(3)]
    let ?r = "envUpload D (wTrace w1) (jOutputURL k) dst ''video/mp4''"
    let ?w = "emit (EvUpload (jOutputURL k) dst ''video/mp4'' (is_ok ?r)) w1"
    have at: "job_at ?w jid k1" using 1(1) by simp
    have "wp (failJob D jid ErrCodeUploadFailed err) ?w Q" if "?r = Inl err" for err
      by (rule wp_failJob [OF assms(1) at], rule upload_failed)
        (use that 1 in \<open>auto simp: quiet_def ended_def\<close>)
    moreover have "wp (settle D jid j1) ?w Q" if "?r = Inr ()"
      by (rule wp_settle [OF assms(1) at jk]; rule complete debit_failed)
        (use that 1 f in \<open>auto simp: quiet_def ended_def\<close>)
    ultimately show ?thesis using f by (cases ?r) (simp_all add: wp_rules)
  qed
  show ?thesis
    unfolding uploadAndSettle_def wp_andThen
    by (rule wp_advance [OF assms(1-3)], simp) (use body in simp)
qed

text \<open>Encoding under the lease.\<close>

lemma wp_encodeUnderLease:
  assumes "dStore D = st" "job_at w jid k" "same_request j k"
    and complete: "\<And>w' k'. jPhase k' = PhaseComplete \<Longrightarrow>
      ended w jid (phase_names k @ [PhaseUploading, PhaseComplete]) w' k' (drop 2 (fullWork D k preset src dst)) \<Longrightarrow>
      Q w' (Some (Inr ()))"
    and stopped: "\<And>w' k' err names new. jPhase k' = PhaseError \<Longrightarrow> ended w jid names w' k' new \<Longrightarrow>
      failureReport (fullWork D k preset src dst) (take 2 (fullWork D k preset src dst) @ new) (jErrorCode k') err \<Longrightarrow>
      Q w' (Some (Inl err))"
  shows "wp (encodeUnderLease D jid j preset src dst) w Q"
proof -
  let ?e = "envFFmpeg D (wTrace w) preset src dst"
  let ?w = "emit (EvEncode (pName preset) src dst (is_ok ?e)) w"
  have at: "job_at ?w jid k" using assms(2) by simp
  have enc: "wp (failJob D jid (encodeErrCode err) err) ?w Q" if "?e = Inl err" for err
    by (rule wp_failJob [OF assms(1) at], rule stopped)
      (use that in \<open>auto simp: quiet_def ended_def failureReport_def stoppedAt_def fullWork_def numeral_2_eq_2\<close>)
  have up: "wp (uploadAndSettle D jid j dst) w1 Q"
    if 1: "job_at w1 jid k" "wSched w1 = wSched w" "hooks_unsigned (wTrace w) \<longrightarrow> hooks_unsigned (wTrace w1)"
      "work (wTrace w1) = work (wTrace w) @ [EvEncode (pName preset) src dst True]" for w1
    by (rule wp_uploadAndSettle [OF assms(1) 1(1) assms(3)]; rule complete stopped)
      (use 1 in \<open>auto simp: ended_def failureReport_def stoppedAt_def fullWork_def error_code_defs
        numeral_2_eq_2 numeral_3_eq_3\<close>)
  have wr: "wp (failJob D jid ErrCodeEncodingFailed err) w1 Q"
    if 1: "job_at w1 jid k" "wSched w1 = wSched w" "hooks_unsigned (wTrace w) \<longrightarrow> hooks_unsigned (wTrace w1)"
      "work (wTrace w1) = work (wTrace w) @ [EvEncode (pName preset) src dst True]" for w1 err
    by (rule wp_failJob [OF assms(1) 1(1)], rule stopped)
      (use 1 in \<open>auto simp: quiet_def ended_def failureReport_def fullWork_def numeral_2_eq_2 numeral_3_eq_3\<close>)
  show ?thesis
    using enc assms(2) by (auto simp: encodeUnderLease_def wp_rules intro!: up wr split: sum.splits)
qed

lemma wp_encodeAndUpload:
  fixes D :: "('s, 'b) deps"
  assumes "dStore D = st" "job_at w jid k" "same_request j k" "sched_ready w"
    and waiting: "\<And>w'. work (wTrace w') = work (wTrace w) \<Longrightarrow> Q w' None"
    and complete: "\<And>w' k'. jPhase k' = PhaseComplete \<Longrightarrow>
      ended w jid (phase_names k @ [PhaseUploading, PhaseComplete]) w' k' (drop 2 (fullWork D k preset src dst)) \<Longrightarrow>
      Q w' (Some (Inr ()))"
    and stopped: "\<And>w' k' err names new. jPhase k' = PhaseError \<Longrightarrow> ended w jid names w' k' new \<Longrightarrow>
      failureReport (fullWork D k preset src dst) (take 2 (fullWork D k preset src dst) @ new) (jErrorCode k') err \<Longrightarrow>
      Q w' (Some (Inl err))"
  shows "wp (encodeAndUpload D jid j preset src dst) w Q"
proof -
  have cap: "wp (failJob D jid ErrCodeCapacityExceeded err) w1 Q"
    if 1: "job_at w1 jid k" "wSched w1 = wSched w" "hooks_unsigned (wTrace w) \<longrightarrow> hooks_unsigned (wTrace w1)"
      "work (wTrace w1) = work (wTrace w)" for w1 err
  proof (rule wp_failJob [OF assms(1) 1(1)])
    fix w' k'
    assume "job_at w' jid k'" "quiet w1 w'" "phase_names k' = phase_names k @ [PhaseError]"
      and e: "jPhase k' = PhaseError" "jErrorCode k' = ErrCodeCapacityExceeded"
    with 1 have "ended w jid (phase_names k @ [PhaseError]) w' k' []"
      by (simp add: ended_def quiet_def)
    from stopped [OF e(1) this] e(2) show "Q w' (Some (Inl err))" by (simp add: failureReport_def)
  qed
  have enc: "wp (deferred (releaseLease l) (encodeUnderLease D jid j preset src dst)) w1 Q"
    if 1: "job_at w1 jid k" "wSched (releaseLease l w1) = wSched w"
      "hooks_unsigned (wTrace w) \<longrightarrow> hooks_unsigned (wTrace w1)" "work (wTrace w1) = work (wTrace w)" for w1 l
  proof -
    have rel: "wSched (releaseLease l w2) = wSched w" if "wSched w2 = wSched w1" for w2 :: "('s, 'b) world"
      using that 1(2) by (simp add: releaseLease_def split: option.splits)
    show ?thesis
      unfolding wp_deferred
      by (rule wp_encodeUnderLease [OF assms(1) 1(1) assms(3)]; simp; rule complete stopped)
        (use 1 rel in \<open>auto simp: ended_def\<close>)
  qed
  show ?thesis
    unfolding encodeAndUpload_def wp_onError
    by (rule wp_acquireBatch)
      (use assms(2,4) in \<open>auto simp: sched_ready_def intro!: waiting cap enc
        iffD2 [OF job_at_same_store [of _ w]] split: if_splits\<close>)
qed


text \<open>The whole body, from a job as it was found.\<close>

lemma wp_runPhases:
  fixes D :: "('s, 'b) deps"
  assumes "dStore D = st" "job_at w jid k" "same_request j k" "sched_ready w"
    and waiting: "\<And>w'. work (wTrace w') = work (wTrace w) @ take 2 (fullWork D k preset src dst) \<Longrightarrow> Q w' None"
    and complete: "\<And>w' k'. jPhase k' = PhaseComplete \<Longrightarrow>
      ended w jid (phase_names k @ [PhaseDownloading, PhaseProbing, PhaseEncoding, PhaseUploading, PhaseComplete])
        w' k' (fullWork D k preset src dst) \<Longrightarrow> Q w' (Some (Inr ()))"
    and stopped: "\<And>w' k' err names new. jPhase k' = PhaseError \<Longrightarrow> ended w jid names w' k' new \<Longrightarrow>
      failureReport (fullWork D k preset src dst) new (jErrorCode k') err \<Longrightarrow> Q w' (Some (Inl err))"
  shows "wp (runPhases D jid j preset src dst) w Q"
proof -
  let ?full = "fullWork D k preset src dst"
  have full: "fullWork D k' preset src dst = ?full" if "same_request k' k" for k'
    using same_request_fields [OF that] same_request_charged [OF that, of D] by (simp add: fullWork_def)
  have full2: "take 2 ?full = [EvFetch (jInputURL k) src True, EvProbe src True]"
    "?full = take 2 ?full @ drop 2 ?full"
    by (simp_all add: fullWork_def numeral_2_eq_2)
  have enc: "wp (encodeAndUpload D jid j3 preset src dst) w3 Q"
    if 3: "job_at w3 jid k3" "same_request j3 k" "same_request k3 k" "wSched w3 = wSched w"
      "phase_names k3 = phase_names k @ [PhaseDownloading, PhaseProbing, PhaseEncoding]"
      "hooks_unsigned (wTrace w) \<longrightarrow> hooks_unsigned (wTrace w3)"
      "work (wTrace w3) = work (wTrace w) @ take 2 ?full" for w3 j3 k3
  proof -
    have jk: "same_request j3 k3" using 3(2,3) by (simp add: same_request_def)
    have rdy: "sched_ready w3" using assms(4) 3(4) by (simp add: sched_ready_def)
    show ?thesis
    proof (rule wp_encodeAndUpload [OF assms(1) 3(1) jk rdy, where preset = preset and src = src and dst = dst,
          unfolded full [OF 3(3)]])
      fix w' :: "('s, 'b) world"
      assume "work (wTrace w') = work (wTrace w3)"
      with 3 show "Q w' None" by (intro waiting) simp
    next
      fix w' k'
      assume "jPhase k' = PhaseComplete"
        and "ended w3 jid (phase_names k3 @ [PhaseUploading, PhaseComplete]) w' k' (drop 2 ?full)"
      with 3 show "Q w' (Some (Inr ()))" by (intro complete) (auto simp: ended_def)
    next
      fix w' k' err names new
      assume a: "jPhase k' = PhaseError" "ended w3 jid names w' k' new"
        "failureReport ?full (take 2 ?full @ new) (jErrorCode k') err"
      with 3 have "ended w jid names w' k' (take 2 ?full @ new)" by (auto simp: ended_def)
      with a show "Q w' (Some (Inl err))" by (intro stopped)
    qed
  qed
  have fail: "wp (failJob D jid code err) w1 Q"
    if 1: "job_at w1 jid k1" "wSched w1 = wSched w" "hooks_unsigned (wTrace w) \<longrightarrow> hooks_unsigned (wTrace w1)"
      "work (wTrace w1) = work (wTrace w) @ new" "failureReport ?full new code err" for w1 k1 code err new
  proof (rule wp_failJob [OF assms(1) 1(1)])
    fix w' k'
    assume "job_at w' jid k'" "quiet w1 w'" and e: "jPhase k' = PhaseError" "jErrorCode k' = code"
    with 1 have "ended w jid (phase_names k') w' k' new" by (simp add: ended_def quiet_def)
    from stopped [OF e(1) this] e(2) 1(5) show "Q w' (Some (Inl err))" by simp
  qed
  have probe: "wp (onError (call (\<lambda>h. envProbe D h src) (EvProbe src)) (failJob D jid ErrCodeProbeFailed)
      (\<lambda>_. andThen (advance D j2 PhaseEncoding) (\<lambda>j. encodeAndUpload D jid j preset src dst))) w2 Q"
    if 2: "job_at w2 jid k2" "same_request j2 k" "same_request k2 k" "wSched w2 = wSched w"
      "phase_names k2 = phase_names k @ [PhaseDownloading, PhaseProbing]"
      "hooks_unsigned (wTrace w) \<longrightarrow> hooks_unsigned (wTrace w2)"
      "work (wTrace w2) = work (wTrace w) @ [EvFetch (jInputURL k) src True]" for w2 j2 k2
  proof -
    let ?r = "envProbe D (wTrace w2) src"
    let ?w = "emit (EvProbe src (is_ok ?r)) w2"
    have at: "job_at ?w jid k2" using 2(1) by simp
    have jk: "same_request j2 k2" using 2(2,3) by (simp add: same_request_def)
    have "wp (failJob D jid ErrCodeProbeFailed err) ?w Q" if "?r = Inl err" for err
    proof -
      have new: "work (wTrace ?w) = work (wTrace w) @ [EvFetch (jInputURL k) src True, EvProbe src False]"
        using that 2 by (simp add: quiet_def)
      show ?thesis
        by (rule fail [OF at _ _ new])
          (use that 2 in \<open>auto simp: failureReport_def stoppedAt_def fullWork_def\<close>)
    qed
    moreover have "wp (advance D j2 PhaseEncoding) ?w (\<lambda>w' r. case r of None \<Rightarrow> Q w' None
        | Some (Inl e) \<Rightarrow> Q w' (Some (Inl e)) | Some (Inr j) \<Rightarrow> wp (encodeAndUpload D jid j preset src dst) w' Q)"
      if "?r = Inr ()"
      by (rule wp_advance [OF assms(1) at jk], simp, simp, rule enc)
        (use that 2 full2 in \<open>auto simp: quiet_def elim: same_request_trans\<close>)
    ultimately show ?thesis by (cases ?r) (simp_all add: wp_rules)
  qed
  have fetch: "wp (onError (call (\<lambda>h. envFetch D h (jInputURL j1) src) (EvFetch (jInputURL j1) src))
      (failJob D jid ErrCodeDownloadFailed) (\<lambda>_. andThen (advance D j1 PhaseProbing) (\<lambda>j.
        onError (call (\<lambda>h. envProbe D h src) (EvProbe src)) (failJob D jid ErrCodeProbeFailed)
      (\<lambda>_. andThen (advance D j PhaseEncoding) (\<lambda>j. encodeAndUpload D jid j preset src dst))))) w1 Q"
    if 1: "job_at w1 jid k1" "same_request j1 k" "same_request k1 k" "quiet w w1"
      "phase_names k1 = phase_names k @ [PhaseDownloading]" for w1 j1 k1
  proof -
    note f = same_request_fields [OF 1(2)]
    let ?r = "envFetch D (wTrace w1) (jInputURL k) src"
    let ?w = "emit (EvFetch (jInputURL k) src (is_ok ?r)) w1"
    have at: "job_at ?w jid k1" using 1(1) by simp
    have jk: "same_request j1 k1" using 1(2,3) by (simp add: same_request_def)
    have "wp (failJob D jid ErrCodeDownloadFailed err) ?w Q" if "?r = Inl err" for err
    proof -
      have new: "work (wTrace ?w) = work (wTrace w) @ [EvFetch (jInputURL k) src False]"
        using that 1 by (simp add: quiet_def)
      show ?thesis
        by (rule fail [OF at _ _ new])
          (use that 1 in \<open>auto simp: quiet_def failureReport_def stoppedAt_def fullWork_def\<close>)
    qed
    moreover have "wp (advance D j1 PhaseProbing) ?w (\<lambda>w' r. case r of None \<Rightarrow> Q w' None
        | Some (Inl e) \<Rightarrow> Q w' (Some (Inl e)) | Some (Inr j) \<Rightarrow>
          wp (onError (call (\<lambda>h. envProbe D h src) (EvProbe src)) (failJob D jid ErrCodeProbeFailed)
      (\<lambda>_. andThen (advance D j PhaseEncoding) (\<lambda>j. encodeAndUpload D jid j preset src dst))) w' Q)"
      if "?r = Inr ()"
      by (rule wp_advance [OF assms(1) at jk], simp, simp, rule probe)
        (use that 1 in \<open>auto simp: quiet_def elim: same_request_trans\<close>)
    ultimately show ?thesis unfolding f by (cases ?r) (simp_all add: wp_rules)
  qed
  show ?thesis
    unfolding runPhases_def wp_andThen [of "advance D j PhaseDownloading"]
    by (rule wp_advance [OF assms(1-3)], simp) (use fetch in simp)
qed


lemma wp_runOne:
  assumes "dStore D = st" "job_at w jid k" "sched_ready w" "lookupPreset D w (jPreset k) = Some preset"
  defines "src \<equiv> filepath_Join [jobTempDir D jid, ''input'']"
    and "dst \<equiv> filepath_Join [jobTempDir D jid, ''output'']"
  assumes waiting: "\<And>w'. work (wTrace w') = work (wTrace w) @ take 2 (fullWork D k preset src dst) \<Longrightarrow> Q w' None"
    and complete: "\<And>w' k'. jPhase k' = PhaseComplete \<Longrightarrow>
      ended w jid (phase_names k @ [PhaseDownloading, PhaseProbing, PhaseEncoding, PhaseUploading, PhaseComplete])
        w' k' (fullWork D k preset src dst) \<Longrightarrow> Q w' (Some (Inr ()))"
    and stopped: "\<And>w' k' err names new. jPhase k' = PhaseError \<Longrightarrow> ended w jid names w' k' new \<Longrightarrow>
      failureReport (fullWork D k preset src dst) new (jErrorCode k') err \<Longrightarrow> Q w' (Some (Inl err))"
    and nodir: "\<And>w' err. ended w jid (phase_names k) w' k [] \<Longrightarrow> Q w' (Some (Inl err))"
  shows "wp (runOne D jid) w Q"
proof -
  let ?dir = "jobTempDir D jid"
  let ?w = "emit (EvMkdir ?dir (is_ok (envMkdir D (wTrace w) ?dir))) w"
  have get: "Repo_Get (dStore D) (wStore w) jid = Inr k" using assms(1,2) by (simp add: job_at_def)
  have at: "job_at ?w jid k" and rdy: "sched_ready ?w"
    using assms(2,3) by (simp_all add: sched_ready_def)
  have body: "wp (runPhases D jid k preset src dst) ?w (\<lambda>w' r. case r of None \<Rightarrow> Q w' None
      | Some x \<Rightarrow> Q (emit (EvRemoveAll ?dir) w') (Some x))"
    by (rule wp_runPhases [OF assms(1) at same_request_refl rdy]; simp; rule waiting complete stopped)
      (auto simp: ended_def)
  have nd: "Q ?w (Some (Inl err))" if "envMkdir D (wTrace w) ?dir = Inl err" for err
    by (rule nodir) (use assms(2) that in \<open>auto simp: ended_def\<close>)
  show ?thesis
    using body nd assms(4)
    by (cases "envMkdir D (wTrace w) ?dir")
      (simp_all add: runOne_def wp_rules get Let_def src_def dst_def)
qed

end

subsection \<open>Properties\<close>

text \<open>No successful debit is part of a failed run.\<close>

lemma failureReport_no_charge:
  assumes "failureReport (fullWork D j preset src dst) new code err"
  shows "EvDebit s w u q True \<notin> set new"
  using assms
  by (auto simp: failureReport_def stoppedAt_def fullWork_def numeral_2_eq_2 numeral_3_eq_3
      numeral_eq_Suc split: if_splits)

text \<open>The in-memory store of a world holds the job \<open>j\<close> under its id.\<close>

definition stored_job :: "(json memStore, 'b) world \<Rightarrow> string \<Rightarrow> job \<Rightarrow> bool" where
  "stored_job w jid j \<longleftrightarrow>
     mem_inv (wStore w) \<and> Repo_Get memStore_ops (wStore w) jid = Inr j \<and> jID j = jid \<and> jid \<noteq> [] \<and> job_wf j"

lemma stored_job_iff: "stored_job w jid j = repo.job_at w jid j"
  by (simp add: stored_job_def repo.job_at_def)

abbreviation (input) inputPath :: "('s, 'b) deps \<Rightarrow> string \<Rightarrow> string" where
  "inputPath D jid \<equiv> filepath_Join [jobTempDir D jid, ''input'']"

abbreviation (input) outputPath :: "('s, 'b) deps \<Rightarrow> string \<Rightarrow> string" where
  "outputPath D jid \<equiv> filepath_Join [jobTempDir D jid, ''output'']"

text \<open>A run of one job in a small world: no scheduler, the in-memory broker, everything succeeds.\<close>

definition demo_deps :: "(json memStore, fake) deps" where
  "demo_deps =
     \<lparr>dStore = memStore_ops, dPayment = Some fake_ops, dWebhook = True,
      dPresets = (\<lambda>_. [zero_preset\<lparr>pName := ''h264-720p''\<rparr>]), dGPU = zero_gpu,
      dCostModel = DefaultModel, dTempDir = ''/tmp'', dMax = 5, envNow = (\<lambda>n. int n + 10),
      envCtxErr = (\<lambda>_. None), envMkdir = (\<lambda>_ _. Inr ()), envFetch = (\<lambda>_ _ _. Inr ()),
      envProbe = (\<lambda>_ _. Inr ()), envFFmpeg = (\<lambda>_ _ _ _. Inr ()), envStat = (\<lambda>_ _. Inr ()),
      envWriteFile = (\<lambda>_ _ _. Inr ()), envUpload = (\<lambda>_ _ _ _. Inr ())\<rparr>"

definition demo_world :: "(json memStore, fake) world" where
  "demo_world = \<lparr>wStore = demo_store, wSched = None, wBroker = NewFake, wTrace = [], wClock = 0\<rparr>"

lemma demo_stored: "stored_job demo_world ''j1'' (demo_job\<lparr>jUpdatedAt := 5, jWebhookSecret := []\<rparr>)"
  using demo_store_inv demo_store_get demo_job_wf
  by (simp add: stored_job_def demo_world_def) (simp add: demo_job_def)

lemma demo_basics:
  "dStore demo_deps = memStore_ops" "sched_ready demo_world" "wTrace demo_world = []"
  by (simp_all add: demo_deps_def demo_world_def sched_ready_def)

lemma demo_run_ok: "snd (runOne demo_deps ''j1'' demo_world) = Some (Inr ())"
  by code_simp

text \<open>
  C4. A VOD job that reports success did all its work, once, in order: the stored job is complete with
  the five phases appended to its history; the input was fetched and probed, the preset encoded,
  the output uploaded; the session was debited exactly once, for the job's units with
  sequence number 1, after the upload (and not at all for an unpaid job); and the GPU lease was
  given back.
\<close>

theorem vod_success:
  assumes "dStore D = memStore_ops" "stored_job w jid j" "sched_ready w"
    "lookupPreset D w (jPreset j) = Some preset" "runOne D jid w = (w', Some (Inr ()))"
  shows "\<exists>j'. Repo_Get memStore_ops (wStore w') jid = Inr j' \<and> jPhase j' = PhaseComplete \<and>
    phase_names j' = phase_names j @ [PhaseDownloading, PhaseProbing, PhaseEncoding, PhaseUploading, PhaseComplete] \<and>
    work (wTrace w') = work (wTrace w) @ fullWork D j preset (inputPath D jid) (outputPath D jid) \<and>
    wSched w' = wSched w"
proof -
  have "wp (runOne D jid) w (\<lambda>w' r. r = Some (Inr ()) \<longrightarrow>
    (\<exists>j'. Repo_Get memStore_ops (wStore w') jid = Inr j' \<and> jPhase j' = PhaseComplete \<and>
    phase_names j' = phase_names j @ [PhaseDownloading, PhaseProbing, PhaseEncoding, PhaseUploading, PhaseComplete] \<and>
    work (wTrace w') = work (wTrace w) @ fullWork D j preset (inputPath D jid) (outputPath D jid) \<and>
    wSched w' = wSched w))"
    by (rule repo.wp_runOne [OF assms(1) assms(2)[unfolded stored_job_iff] assms(3,4)])
      (auto simp: repo.ended_def repo.job_at_def)
  with assms(5) show ?thesis by (auto dest: wpD)
qed

theorem vod_success_witness:
  "\<exists>w'. runOne demo_deps ''j1'' demo_world = (w', Some (Inr ())) \<and>
     EvDebit [] ''w1'' 12 1 True \<in> set (work (wTrace w'))"
proof -
  let ?j = "demo_job\<lparr>jUpdatedAt := 5, jWebhookSecret := []\<rparr>"
  obtain w' where run: "runOne demo_deps ''j1'' demo_world = (w', Some (Inr ()))"
    using demo_run_ok by (cases "runOne demo_deps ''j1'' demo_world") auto
  have l: "lookupPreset demo_deps demo_world (jPreset ?j) = Some (zero_preset\<lparr>pName := ''h264-720p''\<rparr>)"
    by (simp add: lookupPreset_def demo_deps_def demo_world_def demo_job_def)
  have "work (wTrace w') = work (wTrace demo_world) @
      fullWork demo_deps ?j (zero_preset\<lparr>pName := ''h264-720p''\<rparr>) (inputPath demo_deps ''j1'') (outputPath demo_deps ''j1'')"
    using vod_success [OF demo_basics(1) demo_stored demo_basics(2) l run] by blast
  with run show ?thesis
    by (simp add: fullWork_def charged_def demo_deps_def demo_job_def zero_job_def demo_world_def)
qed


definition demo_deps_down :: "(json memStore, fake) deps" where
  "demo_deps_down = demo_deps\<lparr>envUpload := (\<lambda>_ _ _ _. Inl (Err ''503''))\<rparr>"


text \<open>
  C15. Webhooks of stored jobs are never signed: whatever secret a job was submitted with, every webhook
  that a run posts carries the empty secret, because the secret is not part of the stored record
  from which the runner reads the job back.
\<close>

theorem vod_webhooks_unsigned:
  assumes "dStore D = memStore_ops" "stored_job w jid j" "sched_ready w"
    "lookupPreset D w (jPreset j) = Some preset" "runOne D jid w = (w', Some r)"
    "hooks_unsigned (wTrace w)"
  shows "\<forall>e \<in> set (wTrace w'). webhook_secret e = []"
proof -
  have "wp (runOne D jid) w (\<lambda>w' r. r \<noteq> None \<longrightarrow> hooks_unsigned (wTrace w'))"
    by (rule repo.wp_runOne [OF assms(1) assms(2)[unfolded stored_job_iff] assms(3,4)])
      (use assms(6) in \<open>auto simp: repo.ended_def\<close>)
  with assms(5) have "hooks_unsigned (wTrace w')" by (auto dest: wpD)
  then show ?thesis by (simp add: hooks_unsigned_def)
qed

theorem vod_webhooks_unsigned_witness:
  "jWebhookSecret demo_job \<noteq> [] \<and>
   (\<exists>w'. runOne demo_deps ''j1'' demo_world = (w', Some (Inr ())) \<and>
     list_all (\<lambda>e. webhook_secret e = []) (wTrace w'))"
proof -
  let ?j = "demo_job\<lparr>jUpdatedAt := 5, jWebhookSecret := []\<rparr>"
  obtain w' where run: "runOne demo_deps ''j1'' demo_world = (w', Some (Inr ()))"
    using demo_run_ok by (cases "runOne demo_deps ''j1'' demo_world") auto
  have l: "lookupPreset demo_deps demo_world (jPreset ?j) = Some (zero_preset\<lparr>pName := ''h264-720p''\<rparr>)"
    by (simp add: lookupPreset_def demo_deps_def demo_world_def demo_job_def)
  have "jWebhookSecret demo_job \<noteq> []" by (simp add: demo_job_def)
  with vod_webhooks_unsigned [OF demo_basics(1) demo_stored demo_basics(2) l run] run
  show ?thesis by (simp add: demo_basics(3) list_all_iff)
qed

text \<open>
  C16. The directory that a run creates and removes: for an id without a slash it is a direct child of
  the temporary directory; but an id with path elements can escape it, and the deferred
  \<open>os.RemoveAll\<close> then deletes a directory outside.
\<close>

theorem job_temp_dir_confined:
  "(HasPrefix (dTempDir D) ''/'' \<and> CHR ''/'' \<notin> set jid \<longrightarrow>
    jobTempDir D jid = (if Clean (dTempDir D) = ''/'' then [] else Clean (dTempDir D)) @ ''/job-'' @ jid) \<and>
   (dTempDir D = ''/tmp'' \<longrightarrow> jobTempDir D ''/../../etc'' = ''/etc'')"
proof (intro conjI impI)
  assume a: "HasPrefix (dTempDir D) ''/'' \<and> CHR ''/'' \<notin> set jid"
  show "jobTempDir D jid = (if Clean (dTempDir D) = ''/'' then [] else Clean (dTempDir D)) @ ''/job-'' @ jid"
    unfolding jobTempDir_def by (subst Join_child) (use a in auto)
next
  assume "dTempDir D = ''/tmp''"
  moreover have "filepath_Join [''/tmp'', ''job-/../../etc''] = ''/etc''" by code_simp
  ultimately show "jobTempDir D ''/../../etc'' = ''/etc''" by (simp add: jobTempDir_def)
qed

theorem job_temp_dir_confined_witness:
  "jobTempDir demo_deps ''j1'' = ''/tmp/job-j1'' \<and> jobTempDir demo_deps ''/../../etc'' = ''/etc''"
proof -
  have "HasPrefix (dTempDir demo_deps) ''/''" "dTempDir demo_deps = ''/tmp''"
    by (simp_all add: demo_deps_def HasPrefix_def)
  moreover have "Clean ''/tmp'' = ''/tmp''" by code_simp
  ultimately show ?thesis using job_temp_dir_confined [of demo_deps "''j1''"] by simp
qed

subsection \<open>The worker pool\<close>

text \<open>
  \<open>Run\<close> starts \<open>MaxQueue\<close> workers. The queue mutex makes \<open>Submit\<close>'s append, \<open>pop\<close> and \<open>finish\<close>
  atomic; a state of the pool is the runner's record and the ids that workers are running.
\<close>

record pool =
  plRunner :: job_runner
  plRunning :: "string list"

inductive pool_step :: "int \<Rightarrow> pool \<Rightarrow> pool \<Rightarrow> bool" for maxQueue where
  enqueue: "pool_step maxQueue p (p\<lparr>plRunner := (plRunner p)\<lparr>jrQueue := jrQueue (plRunner p) @ [jid]\<rparr>\<rparr>)"
| take: "int (length (plRunning p)) < maxQueue \<Longrightarrow> pop (plRunner p) = (r, Some jid) \<Longrightarrow>
    pool_step maxQueue p \<lparr>plRunner = r, plRunning = jid # plRunning p\<rparr>"
| idle: "pop (plRunner p) = (r, None) \<Longrightarrow> pool_step maxQueue p (p\<lparr>plRunner := r\<rparr>)"
| done_run: "jid \<in> set (plRunning p) \<Longrightarrow>
    pool_step maxQueue p \<lparr>plRunner = finish (plRunner p) jid, plRunning = remove1 jid (plRunning p)\<rparr>"

inductive pool_reach :: "int \<Rightarrow> pool \<Rightarrow> bool" for maxQueue where
  pool_init: "pool_reach maxQueue \<lparr>plRunner = \<lparr>jrQueue = [], jrActive = []\<rparr>, plRunning = []\<rparr>"
| pool_more: "pool_reach maxQueue p \<Longrightarrow> pool_step maxQueue p p' \<Longrightarrow> pool_reach maxQueue p'"

lemma pop_spec:
  "case pop r of
     (r', None) \<Rightarrow> jrQueue r' = [] \<and> jrActive r' = jrActive r \<and> set (jrQueue r) \<subseteq> set (jrActive r)
   | (r', Some jid) \<Rightarrow> jid \<notin> set (jrActive r) \<and> jrActive r' = jid # jrActive r \<and>
       (\<exists>skipped. jrQueue r = skipped @ jid # jrQueue r' \<and> set skipped \<subseteq> set (jrActive r))"
proof (induction r rule: pop.induct)
  case (1 r)
  show ?case
  proof (cases "jrQueue r")
    case Nil
    then show ?thesis by (simp add: pop.simps)
  next
    case (Cons jid q)
    show ?thesis
    proof (cases "jid \<in> set (jrActive r)")
      case True
      have p: "pop r = pop (r\<lparr>jrQueue := q\<rparr>)" using Cons True by (simp add: pop.simps [of r])
      from "1.IH" [OF Cons True] show ?thesis
        unfolding p using Cons True
        by (auto split: prod.splits option.splits)
    next
      case False
      with Cons show ?thesis by (auto simp: pop.simps [of r] intro!: exI [of _ "[]"])
    qed
  qed
qed

lemma pool_inv:
  assumes "pool_reach m p" "0 \<le> m"
  shows "distinct (plRunning p) \<and> distinct (jrActive (plRunner p)) \<and>
    set (plRunning p) = set (jrActive (plRunner p)) \<and> int (length (plRunning p)) \<le> m"
  using assms(1)
proof (induction rule: pool_reach.induct)
  case pool_init
  then show ?case using assms(2) by simp
next
  case (pool_more p p')
  from pool_more.hyps(2) pool_more.IH show ?case
  proof (cases rule: pool_step.cases)
    case (take r jid)
    with pop_spec [of "plRunner p"] pool_more.IH show ?thesis by auto
  next
    case (idle r)
    with pop_spec [of "plRunner p"] pool_more.IH show ?thesis by auto
  next
    case (done_run jid)
    have "length (remove1 jid (plRunning p)) \<le> length (plRunning p)" by (simp add: length_remove1)
    with done_run pool_more.IH show ?thesis
      by (auto simp: finish_def distinct_remove1 distinct_removeAll)
  qed auto
qed

text \<open>
  C12. The pool runs no job twice at the same time: under every interleaving of submissions (repeated
  ids included), pops and finishes, the ids in the hands of workers are distinct, they are
  exactly the active set that \<open>ActiveCount\<close> counts, and there are at most \<open>MaxQueue\<close> of them.
\<close>

theorem pool_mutual_exclusion:
  assumes "pool_reach m p" "0 \<le> m"
  shows "distinct (plRunning p) \<and> set (plRunning p) = set (jrActive (plRunner p)) \<and>
    ActiveCount (plRunner p) = length (plRunning p) \<and> int (ActiveCount (plRunner p)) \<le> m"
proof -
  note inv = pool_inv [OF assms]
  then have "length (jrActive (plRunner p)) = length (plRunning p)"
    by (metis distinct_card)
  with inv show ?thesis by (simp add: ActiveCount_def)
qed

theorem pool_mutual_exclusion_witness:
  "\<exists>p. pool_reach 5 p \<and> plRunning p = [''a''] \<and> ActiveCount (plRunner p) = 1"
proof -
  let ?p0 = "\<lparr>plRunner = \<lparr>jrQueue = [], jrActive = []\<rparr>, plRunning = []\<rparr>"
  let ?p1 = "?p0\<lparr>plRunner := (plRunner ?p0)\<lparr>jrQueue := jrQueue (plRunner ?p0) @ [''a'']\<rparr>\<rparr>"
  let ?r = "\<lparr>jrQueue = [], jrActive = [''a'']\<rparr>"
  have p1: "pool_reach 5 ?p1" by (rule pool_more [OF pool_init enqueue])
  have "pop (plRunner ?p1) = (?r, Some ''a'')" by (simp add: pop.simps)
  then have "pool_reach 5 \<lparr>plRunner = ?r, plRunning = ''a'' # plRunning ?p1\<rparr>"
    by (intro pool_more [OF p1 take]) simp_all
  then have reach: "pool_reach 5 \<lparr>plRunner = ?r, plRunning = [''a'']\<rparr>" by simp
  show ?thesis
    using pool_mutual_exclusion [OF reach] reach
    by (intro exI [of _ "\<lparr>plRunner = ?r, plRunning = [''a'']\<rparr>"]) simp
qed

text \<open>
  Submission: a job with a known preset is stored in phase \<open>queued\<close> and its id joins the end of the
  queue; without an id or with an unknown preset nothing changes.
\<close>

theorem vod_submit:
  assumes "dStore D = memStore_ops" "mem_inv (wStore w)" "job_wf j"
  shows "case Submit D r j w of
      (w', r', Inl err) \<Rightarrow>
        w' = w \<and> r' = r \<and> (jID j = [] \<or> lookupPreset D w (jPreset j) = None)
    | (w', r', Inr j') \<Rightarrow>
        jrQueue r' = jrQueue r @ [jID j] \<and> jrActive r' = jrActive r \<and>
        (\<exists>k. Repo_Get memStore_ops (wStore w') (jID j) = Inr k \<and> jPhase k = PhaseQueued \<and>
           jMode k = ModeVOD \<and> same_request k j)"
proof (cases "jID j = [] \<or> lookupPreset D w (jPreset j) = None")
  case True
  then show ?thesis by (auto simp: Submit_def)
next
  case False
  let ?c = "jCreatedAt j = zero_time"
  let ?j = "j\<lparr>jMode := ModeVOD, jPhase := PhaseQueued,
     jCreatedAt := (if ?c then envNow D (wClock w) else jCreatedAt j)\<rparr>"
  let ?n = "if ?c then wClock w + 1 else wClock w"
  have wf: "job_wf ?j" using assms(3) by (simp add: job_wf_def mode_canonical_def mode_of_string_def)
  have jid: "jID ?j \<noteq> []" using False by simp
  obtain s' where s': "Save memStore_ops (wStore w) (envNow D ?n) ?j = (s', Inr ())"
    "\<And>k. Repo_Get memStore_ops s' k =
      (if k = jID ?j then Inr (?j\<lparr>jUpdatedAt := envNow D ?n, jWebhookSecret := []\<rparr>)
       else Repo_Get memStore_ops (wStore w) k)"
    using repo.Save_ok [OF assms(2) jid wf] by blast
  have sub: "Submit D r j w =
      (w\<lparr>wStore := s', wClock := ?n + 1\<rparr>, r\<lparr>jrQueue := jrQueue r @ [jID j]\<rparr>, Inr ?j)"
    using False s'(1) assms(1)
    by (auto simp: Submit_def saveJob_def step_of_def)
  show ?thesis unfolding sub using s'(2) by (simp add: same_request_def)
qed

theorem vod_submit_witness:
  "case Submit demo_deps \<lparr>jrQueue = [], jrActive = []\<rparr> demo_job (demo_world\<lparr>wStore := Memory\<rparr>) of
     (w', r', Inl err) \<Rightarrow> False
   | (w', r', Inr j') \<Rightarrow> jrQueue r' = [''j1'']"
proof -
  let ?w = "demo_world\<lparr>wStore := Memory\<rparr>"
  have l: "lookupPreset demo_deps ?w (jPreset demo_job) \<noteq> None"
    by (simp add: lookupPreset_def demo_deps_def demo_world_def demo_job_def)
  have jid: "jID demo_job = ''j1''" by (simp add: demo_job_def)
  have "mem_inv (wStore ?w)" by simp
  from vod_submit [OF demo_basics(1) this demo_job_wf(1), of "\<lparr>jrQueue = [], jrActive = []\<rparr>"] l jid
  show ?thesis by (auto split: prod.splits sum.splits)
qed

end
