(* ===== verification/Hls.thy ===== *)
theory Hls
  imports Go_Path Worker_Types
begin

text \<open>
  \<open>internal/providers/hls/hls.go\<close>: the master playlist of an ABR ladder. \<open>sort.Slice\<close> sorts
  ladders of up to twelve variants by insertion, so equal bitrates keep their order there: it is
  the stable \<open>sort_key\<close>.
\<close>

record rendition =
  rnName :: string
  rnBitrateBps :: int
  rnResolutionW :: int
  rnResolutionH :: int
  rnCodec :: string
  rnURI :: string

definition newline :: char where "newline = CHR 0x0A"
definition dquote :: char where "dquote = CHR 0x22"

definition CodecsAttribute :: "rendition \<Rightarrow> string" where
  "CodecsAttribute r =
     (if rnCodec r = ''h264'' then ''avc1.640028,mp4a.40.2''
      else if rnCodec r = ''hevc'' then ''hvc1.1.6.L93.B0,mp4a.40.2''
      else if rnCodec r = ''av1'' then ''av01.0.05M.08,mp4a.40.2''
      else ''mp4a.40.2'')"

definition streamInf :: "rendition \<Rightarrow> string" where
  "streamInf r =
     ''#EXT-X-STREAM-INF:BANDWIDTH='' @ show_int (rnBitrateBps r) @ '',RESOLUTION='' @
     show_int (rnResolutionW r) @ ''x'' @ show_int (rnResolutionH r) @ '',CODECS='' @
     [dquote] @ CodecsAttribute r @ [dquote]"

text \<open>The loop that writes the variants; it stops at a rendition without a URI.\<close>

fun writeVariants :: "rendition list \<Rightarrow> string result" where
  "writeVariants [] = Inr []"
| "writeVariants (r # rs) =
     (if rnURI r = [] then Inl (Err (''hls: rendition '' @ Quote (rnName r) @ '' has empty URI''))
      else rbind (writeVariants rs) (\<lambda>t. Inr (streamInf r @ [newline] @ rnURI r @ [newline] @ t)))"

definition BuildMaster :: "rendition list \<Rightarrow> string result" where
  "BuildMaster rends =
     (if rends = [] then Inl (Err ''hls: no renditions'')
      else
        (let sorted_rends = sort_key rnBitrateBps rends in
         rbind (writeVariants sorted_rends) (\<lambda>t.
           Inr (''#EXTM3U'' @ [newline] @ ''#EXT-X-VERSION:7'' @ [newline] @ t))))"

subsection \<open>Reading the playlist back\<close>

definition playlistLines :: "string \<Rightarrow> string list" where
  "playlistLines out = split_on newline out"

lemma digit_char_not_newline: "d < 10 \<Longrightarrow> digit_char d \<noteq> newline"
proof
  assume "d < 10" "digit_char d = newline"
  then have "of_char (digit_char d) = (10 :: nat)" by (simp add: newline_def)
  with \<open>d < 10\<close> show False by (simp add: of_char_digit)
qed

lemma show_nat_no_newline: "newline \<notin> set (show_nat n)"
proof (induction n rule: show_nat.induct)
  case (1 n)
  then show ?case
    using digit_char_not_newline [of n] digit_char_not_newline [of "n mod 10"]
    by (subst show_nat.simps) auto
qed

lemma show_int_no_newline: "newline \<notin> set (show_int i)"
  using show_nat_no_newline by (simp add: show_int_def newline_def)

lemma CodecsAttribute_no_newline: "newline \<notin> set (CodecsAttribute r)"
  by (simp add: CodecsAttribute_def newline_def)

lemma streamInf_no_newline: "newline \<notin> set (streamInf r)"
  using show_int_no_newline CodecsAttribute_no_newline [of r]
  unfolding streamInf_def by (simp add: newline_def dquote_def)

lemma writeVariants_lines:
  assumes "\<forall>r \<in> set rs. rnURI r \<noteq> [] \<and> newline \<notin> set (rnURI r)"
  shows "\<exists>t. writeVariants rs = Inr t \<and> split_on newline t = concat (map (\<lambda>r. [streamInf r, rnURI r]) rs) @ [[]]"
  using assms
proof (induction rs)
  case Nil
  then show ?case by simp
next
  case (Cons r rs)
  then obtain t where t: "writeVariants rs = Inr t"
    "split_on newline t = concat (map (\<lambda>r. [streamInf r, rnURI r]) rs) @ [[]]" by auto
  have "split_on newline (streamInf r @ newline # rnURI r @ newline # t) =
      [streamInf r, rnURI r] @ split_on newline t"
    using Cons.prems streamInf_no_newline [of r] by (simp add: split_on_append split_on_no_sep)
  with t Cons.prems show ?case by simp
qed

lemma writeVariants_error: "(\<exists>r \<in> set rs. rnURI r = []) \<longleftrightarrow> \<not> is_ok (writeVariants rs)"
  by (induction rs) (auto simp: is_ok_iff rbind_eq_Inr)


definition demo_ladder :: "rendition list" where
  "demo_ladder =
     [\<lparr>rnName = ''hi'', rnBitrateBps = 5000000, rnResolutionW = 1920, rnResolutionH = 1080,
       rnCodec = ''h264'', rnURI = ''hi.m3u8''\<rparr>,
      \<lparr>rnName = ''lo'', rnBitrateBps = 800000, rnResolutionW = 640, rnResolutionH = 360,
       rnCodec = ''h264'', rnURI = ''lo.m3u8''\<rparr>]"


end
