(* ===== verification/Abr_Runner.thy ===== *)
theory Abr_Runner
  imports Job_Runner Hls
begin

text \<open>
  \<open>internal/service/abrrunner/abrrunner.go\<close>: the ABR runner. \<open>abr_RunOne\<close> downloads and probes the
  input once, then encodes, uploads and debits one rendition after the other (the lease is given
  back right after each encode), and finally uploads the master playlist. The queue is the one
  of the VOD runner.
\<close>

record abr_job =
  aJobID :: string
  aInputURL :: string
  aMasterOutputURL :: string
  aWebhookURL :: string
  aWebhookSecret :: string
  aWorkID :: string
  aSender :: bytes
  aUnitsPerRend :: int
  aPresetNames :: "string list"
  aRenditionOutputs :: "(string \<times> string) list"

definition abrrunner_New ::
  "bool \<Rightarrow> bool \<Rightarrow> bool \<Rightarrow> bool \<Rightarrow> string \<Rightarrow> ('s, 'b) deps \<Rightarrow> (('s, 'b) deps \<times> job_runner) result" where
  "abrrunner_New hasRepo hasFFmpeg hasStorage hasPresets osTempDir D =
     (if \<not> hasRepo then Inl (Err ''abrrunner: Repo is required'')
      else if \<not> hasFFmpeg then Inl (Err ''abrrunner: FFmpeg is required'')
      else if \<not> hasStorage then Inl (Err ''abrrunner: Storage is required'')
      else if \<not> hasPresets then Inl (Err ''abrrunner: Presets is required'')
      else Inr (D\<lparr>dTempDir := (if dTempDir D = [] then osTempDir else dTempDir D),
                  dMax := (if dMax D \<le> 0 then 1 else dMax D),
                  dCostModel := Normalized (dCostModel D)\<rparr>,
                \<lparr>jrQueue = [], jrActive = []\<rparr>))"

fun presetListPseudoName :: "string list \<Rightarrow> string" where
  "presetListPseudoName [] = []"
| "presetListPseudoName (n # ns) = foldl (\<lambda>out m. out @ ''+'' @ m) n ns"

text \<open>\<open>fmt.Sprintf("%v")\<close> of a string slice.\<close>

definition show_slice :: "string list \<Rightarrow> string" where
  "show_slice ns = ''['' @ join_with '' '' ns @ '']''"

definition saveRenditionPlan :: "('s, 'b) deps \<Rightarrow> abr_job \<Rightarrow> (('s, 'b) world, unit) comp" where
  "saveRenditionPlan D j =
     andThen (getJob D (aJobID j)) (\<lambda>parent.
       saveJob D (parent\<lparr>jLogs := jLogs parent @
         [''plan: presets='' @ show_slice (aPresetNames j) @ '' outputs='' @
          show_nat (length (aRenditionOutputs j))]\<rparr>))"

definition abr_parent :: "abr_job \<Rightarrow> time \<Rightarrow> job" where
  "abr_parent j now =
     zero_job\<lparr>jID := aJobID j, jMode := ModeABR, jPhase := PhaseQueued, jInputURL := aInputURL j,
       jOutputURL := aMasterOutputURL j, jWebhookURL := aWebhookURL j,
       jWebhookSecret := aWebhookSecret j, jWorkID := aWorkID j, jSender := aSender j,
       jUnitsPer := aUnitsPerRend j, jPreset := presetListPseudoName (aPresetNames j),
       jCreatedAt := now\<rparr>"

text \<open>\<open>Submit\<close>: the id joins the queue between the two writes of the record.\<close>

definition abr_Submit ::
  "('s, 'b) deps \<Rightarrow> job_runner \<Rightarrow> abr_job \<Rightarrow> ('s, 'b) world \<Rightarrow> ('s, 'b) world \<times> job_runner \<times> unit result" where
  "abr_Submit D r j w =
     (if aJobID j = [] then (w, r, Inl (Err ''abrrunner: JobID required''))
      else if aPresetNames j = [] then (w, r, Inl (Err ''abrrunner: PresetNames required''))
      else
        (case find (\<lambda>n. lookupPreset D w n = None) (aPresetNames j) of
           Some n \<Rightarrow> (w, r, Inl (JobErrorOf ErrCodeJobInvalidPreset (''unknown preset: '' @ n)))
         | None \<Rightarrow>
             (case saveJob D (abr_parent j (envNow D (wClock w))) (w\<lparr>wClock := wClock w + 1\<rparr>) of
                (w, Some (Inr _)) \<Rightarrow>
                  (let r = r\<lparr>jrQueue := jrQueue r @ [aJobID j]\<rparr> in
                   case saveRenditionPlan D j w of
                     (w, Some x) \<Rightarrow> (w, r, x) | (w, None) \<Rightarrow> (w, r, Inr ()))
              | (w, Some (Inl err)) \<Rightarrow> (w, r, Inl err)
              | (w, None) \<Rightarrow> (w, r, Inr ()))))"

definition abr_failJob :: "('s, 'b) deps \<Rightarrow> string \<Rightarrow> string \<Rightarrow> go_error \<Rightarrow> (('s, 'b) world, 'a) comp" where
  "abr_failJob D jid code err =
     onError (markError D jid code (error_text err)) fails (\<lambda>j.
       modifying (fireWebhook D j ''job.error''
         [(''job_id'', JStr jid), (''error_code'', JStr code), (''error_message'', JStr (error_text err))])
       (fails err))"

definition rendOutPath :: "string \<Rightarrow> string \<Rightarrow> string" where
  "rendOutPath tmpDir name = filepath_Join [tmpDir, name @ ''.mp4'']"

definition abr_charged :: "('s, 'b) deps \<Rightarrow> abr_job \<Rightarrow> bool" where
  "abr_charged D plan \<longleftrightarrow> dPayment D \<noteq> None \<and> aWorkID plan \<noteq> [] \<and> aUnitsPerRend plan > 0"

definition newRendition :: "string \<Rightarrow> preset \<Rightarrow> rendition" where
  "newRendition name preset =
     \<lparr>rnName = name, rnBitrateBps = wrap64 (pBitrateKbps preset * 1000),
      rnResolutionW = pWidthMax preset, rnResolutionH = pHeightMax preset,
      rnCodec = pCodec preset, rnURI = name @ ''.m3u8''\<rparr>"

definition debitRendition ::
  "('s, 'b) deps \<Rightarrow> string \<Rightarrow> abr_job \<Rightarrow> nat \<Rightarrow> string \<Rightarrow> preset \<Rightarrow> (('s, 'b) world, rendition) comp" where
  "debitRendition D jid plan i name preset =
     (case dPayment D of
        Some bk \<Rightarrow>
          if aWorkID plan \<noteq> [] \<and> aUnitsPerRend plan > 0
          then onError (debit bk (aSender plan) (aWorkID plan) (aUnitsPerRend plan) (word_of_nat (i + 1)))
                 (abr_failJob D jid ErrCodePaymentFailed) (\<lambda>_. returns (newRendition name preset))
          else returns (newRendition name preset)
      | None \<Rightarrow> returns (newRendition name preset))"

definition uploadRendition ::
  "('s, 'b) deps \<Rightarrow> string \<Rightarrow> abr_job \<Rightarrow> nat \<Rightarrow> string \<Rightarrow> preset \<Rightarrow> string \<Rightarrow> (('s, 'b) world, rendition) comp" where
  "uploadRendition D jid plan i name preset rendOut =
     (let url = (case map_of (aRenditionOutputs plan) name of None \<Rightarrow> [] | Some u \<Rightarrow> u) in
      if url = []
      then abr_failJob D jid ErrCodeUploadFailed (Err (''rendition '' @ Quote name @ '': missing output URL''))
      else onError (call (\<lambda>h. envUpload D h url rendOut ''video/mp4'') (EvUpload url rendOut ''video/mp4''))
             (abr_failJob D jid ErrCodeUploadFailed) (\<lambda>_. debitRendition D jid plan i name preset))"

text \<open>One pass of the loop over the preset names.\<close>

definition renditionStep ::
  "('s, 'b) deps \<Rightarrow> string \<Rightarrow> abr_job \<Rightarrow> string \<Rightarrow> string \<Rightarrow> nat \<Rightarrow> string \<Rightarrow> (('s, 'b) world, rendition) comp" where
  "renditionStep D jid plan src tmpDir i name =
     reading (\<lambda>w.
       case lookupPreset D w name of
         None \<Rightarrow> abr_failJob D jid ErrCodeJobInvalidPreset (Err (''unknown preset '' @ Quote name))
       | Some preset \<Rightarrow>
           (let rendOut = rendOutPath tmpDir name in
            onError (acquireBatch D (Model_ForPreset (dCostModel D) preset))
              (abr_failJob D jid ErrCodeCapacityExceeded) (\<lambda>lease.
            onError (call (\<lambda>h. envFFmpeg D h preset src rendOut) (EvEncode name src rendOut))
              (\<lambda>err. modifying (releaseLease lease) (abr_failJob D jid (encodeErrCode err) err)) (\<lambda>_.
            modifying (releaseLease lease)
              (onError (call (\<lambda>h. envStat D h rendOut) (EvStat rendOut))
                (\<lambda>_. ignoring (call (\<lambda>h. envWriteFile D h rendOut ''encoded'') (EvWriteFile rendOut))
                       (uploadRendition D jid plan i name preset rendOut))
                (\<lambda>_. uploadRendition D jid plan i name preset rendOut))))))"

definition encode_rendition :: "rendition \<Rightarrow> json" where
  "encode_rendition r =
     JObj [(''Name'', JStr (rnName r)), (''BitrateBps'', JInt (rnBitrateBps r)),
       (''ResolutionW'', JInt (rnResolutionW r)), (''ResolutionH'', JInt (rnResolutionH r)),
       (''Codec'', JStr (rnCodec r)), (''URI'', JStr (rnURI r))]"

fun renditions ::
  "('s, 'b) deps \<Rightarrow> string \<Rightarrow> job \<Rightarrow> abr_job \<Rightarrow> string \<Rightarrow> string \<Rightarrow> nat \<Rightarrow> string list \<Rightarrow> rendition list \<Rightarrow>
   (('s, 'b) world, rendition list) comp" where
  "renditions D jid parent plan src tmpDir i [] acc = returns acc"
| "renditions D jid parent plan src tmpDir i (name # names) acc =
     andThen (renditionStep D jid plan src tmpDir i name) (\<lambda>r.
       modifying (fireWebhook D parent ''job.rendition.complete''
         [(''job_id'', JStr jid), (''preset'', JStr name), (''rendition'', encode_rendition r)])
       (renditions D jid parent plan src tmpDir (i + 1) names (acc @ [r])))"

definition uploadMaster ::
  "('s, 'b) deps \<Rightarrow> string \<Rightarrow> job \<Rightarrow> abr_job \<Rightarrow> string \<Rightarrow> rendition list \<Rightarrow> (('s, 'b) world, unit) comp" where
  "uploadMaster D jid parent plan tmpDir rendList =
     andThen (transition D jid PhaseUploading) (\<lambda>_.
     case BuildMaster rendList of
       Inl err \<Rightarrow> abr_failJob D jid ErrCodeUploadFailed err
     | Inr masterText \<Rightarrow>
         (let masterPath = filepath_Join [tmpDir, ''master.m3u8''] in
          onError (call (\<lambda>h. envWriteFile D h masterPath masterText) (EvWriteFile masterPath))
            (abr_failJob D jid ErrCodeUploadFailed) (\<lambda>_.
          onError (call (\<lambda>h. envUpload D h (aMasterOutputURL plan) masterPath ''application/vnd.apple.mpegurl'')
                (EvUpload (aMasterOutputURL plan) masterPath ''application/vnd.apple.mpegurl''))
            (abr_failJob D jid ErrCodeUploadFailed) (\<lambda>_.
          andThen (transition D jid PhaseComplete) (\<lambda>_.
            modifying (fireWebhook D parent ''job.complete'' [(''job_id'', JStr jid)]) (returns ()))))))"

definition abr_phases ::
  "('s, 'b) deps \<Rightarrow> string \<Rightarrow> job \<Rightarrow> abr_job \<Rightarrow> string \<Rightarrow> string \<Rightarrow> (('s, 'b) world, unit) comp" where
  "abr_phases D jid parent plan src tmpDir =
     andThen (transition D jid PhaseDownloading) (\<lambda>_.
     onError (call (\<lambda>h. envFetch D h (aInputURL plan) src) (EvFetch (aInputURL plan) src))
       (abr_failJob D jid ErrCodeDownloadFailed) (\<lambda>_.
     andThen (transition D jid PhaseProbing) (\<lambda>_.
     onError (call (\<lambda>h. envProbe D h src) (EvProbe src))
       (abr_failJob D jid ErrCodeProbeFailed) (\<lambda>_.
     andThen (transition D jid PhaseEncoding) (\<lambda>_.
     andThen (renditions D jid parent plan src tmpDir 0 (aPresetNames plan) []) (\<lambda>rendList.
       uploadMaster D jid parent plan tmpDir rendList))))))"

definition abrTempDir :: "('s, 'b) deps \<Rightarrow> string \<Rightarrow> string" where
  "abrTempDir D jid = filepath_Join [dTempDir D, ''abr-'' @ jid]"

definition abr_RunOne :: "('s, 'b) deps \<Rightarrow> string \<Rightarrow> abr_job \<Rightarrow> (('s, 'b) world, unit) comp" where
  "abr_RunOne D jid plan =
     andThen (getJob D jid) (\<lambda>parent.
       (let tmpDir = abrTempDir D jid in
        andThen (call (\<lambda>h. envMkdir D h tmpDir) (EvMkdir tmpDir)) (\<lambda>_.
          deferred (emit (EvRemoveAll tmpDir))
            (abr_phases D jid parent plan (filepath_Join [tmpDir, ''input'']) tmpDir))))"

text \<open>One round of a worker: an id without a plan is dropped.\<close>

definition abr_worker_round ::
  "('s, 'b) deps \<Rightarrow> (string \<Rightarrow> abr_job option) \<Rightarrow> job_runner \<Rightarrow> ('s, 'b) world \<Rightarrow>
   ('s, 'b) world \<times> job_runner \<times> unit result option" where
  "abr_worker_round D plan r w =
     (case pop r of
        (r, None) \<Rightarrow> (w, r, Some (Inr ()))
      | (r, Some jid) \<Rightarrow>
          (case plan jid of
             None \<Rightarrow> (w, finish r jid, Some (Inr ()))
           | Some j \<Rightarrow>
               (case abr_RunOne D jid j w of
                  (w, None) \<Rightarrow> (w, r, None)
                | (w, Some x) \<Rightarrow> (w, finish r jid, Some x))))"

subsection \<open>The work of a run\<close>

definition renditionURL :: "abr_job \<Rightarrow> string \<Rightarrow> string" where
  "renditionURL plan name = (case map_of (aRenditionOutputs plan) name of None \<Rightarrow> [] | Some u \<Rightarrow> u)"

text \<open>The complete work on the rendition number \<open>i\<close>.\<close>

definition renditionWork :: "('s, 'b) deps \<Rightarrow> abr_job \<Rightarrow> string \<Rightarrow> string \<Rightarrow> nat \<Rightarrow> string \<Rightarrow> event list" where
  "renditionWork D plan src tmpDir i name =
     [EvEncode name src (rendOutPath tmpDir name) True,
      EvUpload (renditionURL plan name) (rendOutPath tmpDir name) ''video/mp4'' True] @
     (if abr_charged D plan
      then [EvDebit (aSender plan) (aWorkID plan) (aUnitsPerRend plan) (word_of_nat (i + 1)) True] else [])"

fun ladderWork :: "('s, 'b) deps \<Rightarrow> abr_job \<Rightarrow> string \<Rightarrow> string \<Rightarrow> nat \<Rightarrow> string list \<Rightarrow> event list" where
  "ladderWork D plan src tmpDir i [] = []"
| "ladderWork D plan src tmpDir i (name # names) =
     renditionWork D plan src tmpDir i name @ ladderWork D plan src tmpDir (i + 1) names"

text \<open>An unfinished rendition: its work cut off somewhere, the last step possibly failed.\<close>

definition cutShort :: "event list \<Rightarrow> event list \<Rightarrow> bool" where
  "cutShort full new \<longleftrightarrow> (\<exists>n < length full. new = take n full \<or> new = stoppedAt full n)"

definition abrStart :: "abr_job \<Rightarrow> string \<Rightarrow> event list" where
  "abrStart plan src = [EvFetch (aInputURL plan) src True, EvProbe src True]"

definition masterUpload :: "abr_job \<Rightarrow> string \<Rightarrow> bool \<Rightarrow> event" where
  "masterUpload plan tmpDir ok =
     EvUpload (aMasterOutputURL plan) (filepath_Join [tmpDir, ''master.m3u8'']) ''application/vnd.apple.mpegurl'' ok"

text \<open>How the work of a failed run can look.\<close>

definition abrFailure :: "('s, 'b) deps \<Rightarrow> abr_job \<Rightarrow> string \<Rightarrow> string \<Rightarrow> event list \<Rightarrow> bool" where
  "abrFailure D plan src tmpDir new \<longleftrightarrow>
     new = stoppedAt (abrStart plan src) 0 \<or> new = stoppedAt (abrStart plan src) 1 \<or>
     (\<exists>m < length (aPresetNames plan). \<exists>cut.
        cutShort (renditionWork D plan src tmpDir m (aPresetNames plan ! m)) cut \<and>
        new = abrStart plan src @ ladderWork D plan src tmpDir 0 (take m (aPresetNames plan)) @ cut) \<or>
     (\<exists>rest. set rest \<subseteq> {masterUpload plan tmpDir False} \<and>
        new = abrStart plan src @ ladderWork D plan src tmpDir 0 (aPresetNames plan) @ rest)"

context json_store
begin

lemma wp_abr_failJob:
  assumes "dStore D = st" "job_at w jid k"
    and "\<And>w' k'. job_at w' jid k' \<Longrightarrow> jPhase k' = PhaseError \<Longrightarrow> jErrorCode k' = code \<Longrightarrow>
      quiet w w' \<Longrightarrow> Q w' (Some (Inl err))"
  shows "wp (abr_failJob D jid code err) w Q"
proof -
  have sec: "jWebhookSecret k = []" using assms(2) by (auto simp: job_at_def dest: Repo_Get_no_secret)
  show ?thesis
    unfolding abr_failJob_def wp_rules
    apply (rule wp_markError [OF assms(1,2)])
    apply (simp add: wp_rules)
    apply (rule assms(3))
       apply (auto simp: sec quiet_def intro: hooks_unsigned_fireWebhook)
    done
qed

text \<open>Where a failing branch ends: the job in phase \<open>error\<close>, the work done since \<open>w\<close>.\<close>

definition failedWith :: "('s, 'b) world \<Rightarrow> string \<Rightarrow> ('s, 'b) world \<Rightarrow> event list \<Rightarrow> bool" where
  "failedWith w jid w' new \<longleftrightarrow>
     (\<exists>k'. job_at w' jid k' \<and> jPhase k' = PhaseError) \<and> wSched w' = wSched w \<and>
     work (wTrace w') = work (wTrace w) @ new"

lemma wp_abr_fail_here:
  assumes "dStore D = st" "job_at w1 jid k" "wSched w1 = wSched w" "work (wTrace w1) = work (wTrace w) @ new"
    and "\<And>w'. failedWith w jid w' new \<Longrightarrow> Q w' (Some (Inl err))"
  shows "wp (abr_failJob D jid code err) w1 Q"
  by (rule wp_abr_failJob [OF assms(1,2)], rule assms(5))
    (use assms(3,4) in \<open>auto simp: failedWith_def quiet_def\<close>)

lemma wp_debitRendition:
  assumes "dStore D = st" "job_at w jid k"
    and ok: "\<And>w'. job_at w' jid k \<Longrightarrow> wSched w' = wSched w \<Longrightarrow>
      work (wTrace w') = work (wTrace w) @ drop 2 (renditionWork D plan src tmpDir i name) \<Longrightarrow>
      Q w' (Some (Inr (newRendition name preset)))"
    and bad: "\<And>w' err. abr_charged D plan \<Longrightarrow> failedWith w jid w'
      [EvDebit (aSender plan) (aWorkID plan) (aUnitsPerRend plan) (word_of_nat (i + 1)) False] \<Longrightarrow> Q w' (Some (Inl err))"
  shows "wp (debitRendition D jid plan i name preset) w Q"
proof (cases "abr_charged D plan")
  case False
  then have eq: "debitRendition D jid plan i name preset = returns (newRendition name preset)"
    by (auto simp: debitRendition_def abr_charged_def split: option.splits)
  show ?thesis unfolding eq wp_rules
    by (rule ok) (use False assms(2) in \<open>simp_all add: renditionWork_def numeral_2_eq_2\<close>)
next
  case True
  then obtain bk where bk: "dPayment D = Some bk" "aWorkID plan \<noteq> []" "0 < aUnitsPerRend plan"
    by (auto simp: abr_charged_def)
  let ?q = "word_of_nat (i + 1) :: u64"
  obtain b r where br: "bkDebitBalance bk (wBroker w) (aSender plan) (aWorkID plan) (aUnitsPerRend plan) ?q = (b, r)"
    by fastforce
  let ?w = "emit (EvDebit (aSender plan) (aWorkID plan) (aUnitsPerRend plan) ?q (is_ok r)) (w\<lparr>wBroker := b\<rparr>)"
  have at: "job_at ?w jid k" using assms(2) by simp
  have "wp (abr_failJob D jid ErrCodePaymentFailed err) ?w Q" if "r = Inl err" for err
    by (rule wp_abr_fail_here [OF assms(1) at, where w = w and
          new = "[EvDebit (aSender plan) (aWorkID plan) (aUnitsPerRend plan) ?q False]"])
      (use that True bad in auto)
  moreover have "Q ?w (Some (Inr (newRendition name preset)))" if "r = Inr x" for x
    by (rule ok) (use assms(2) True that in \<open>simp_all add: renditionWork_def numeral_2_eq_2\<close>)
  ultimately show ?thesis
    using bk br by (cases r) (simp_all add: debitRendition_def wp_rules)
qed

lemma wp_uploadRendition:
  fixes D :: "('s, 'b) deps"
  assumes "dStore D = st" "job_at w jid k"
    and ok: "\<And>w'. job_at w' jid k \<Longrightarrow> wSched w' = wSched w \<Longrightarrow>
      work (wTrace w') = work (wTrace w) @ drop 1 (renditionWork D plan src tmpDir i name) \<Longrightarrow>
      Q w' (Some (Inr (newRendition name preset)))"
    and bad: "\<And>w' err n. n \<in> {1..<length (renditionWork D plan src tmpDir i name)} \<Longrightarrow>
      failedWith w jid w' (drop 1 (stoppedAt (renditionWork D plan src tmpDir i name) n)) \<or>
      failedWith w jid w' [] \<Longrightarrow> Q w' (Some (Inl err))"
  shows "wp (uploadRendition D jid plan i name preset (rendOutPath tmpDir name)) w Q"
proof -
  let ?url = "renditionURL plan name" and ?out = "rendOutPath tmpDir name"
  let ?full = "renditionWork D plan src tmpDir i name"
  have one: "(1::nat) \<in> {1..<length ?full}" by (simp add: renditionWork_def)
  have st1: "drop 1 (stoppedAt ?full 1) = [EvUpload ?url ?out ''video/mp4'' False]"
    by (simp add: stoppedAt_def renditionWork_def)
  show ?thesis
  proof (cases "?url = []")
    case True
    have "wp (abr_failJob D jid ErrCodeUploadFailed err) w Q" for err
      by (rule wp_abr_fail_here [OF assms(1,2), where w = w and new = "[]"]) (use bad [OF one] in auto)
    with True show ?thesis by (simp add: uploadRendition_def renditionURL_def Let_def)
  next
    case False
    let ?r = "envUpload D (wTrace w) ?url ?out ''video/mp4''"
    let ?w = "emit (EvUpload ?url ?out ''video/mp4'' (is_ok ?r)) w"
    have at: "job_at ?w jid k" using assms(2) by simp
    have f: "wp (abr_failJob D jid ErrCodeUploadFailed err) ?w Q" if r: "?r = Inl err" for err
      by (rule wp_abr_fail_here [OF assms(1) at, where w = w and new = "[EvUpload ?url ?out ''video/mp4'' False]"])
        (use bad [OF one] st1 r in auto)
    have g: "wp (debitRendition D jid plan i name preset) ?w Q" if r: "?r = Inr ()"
    proof (rule wp_debitRendition [OF assms(1) at, where src = src and tmpDir = tmpDir])
      fix w' :: "('s, 'b) world"
      assume "job_at w' jid k" "wSched w' = wSched ?w"
        "work (wTrace w') = work (wTrace ?w) @ drop 2 ?full"
      then show "Q w' (Some (Inr (newRendition name preset)))"
        by (intro ok) (use r in \<open>simp_all add: renditionWork_def numeral_2_eq_2\<close>)
    next
      fix w' :: "('s, 'b) world" and err
      assume ch: "abr_charged D plan" and fw: "failedWith ?w jid w'
        [EvDebit (aSender plan) (aWorkID plan) (aUnitsPerRend plan) (word_of_nat (i + 1)) False]"
      have two: "(2::nat) \<in> {1..<length ?full}" using ch by (simp add: renditionWork_def)
      have "failedWith w jid w' (drop 1 (stoppedAt ?full 2))"
        using fw ch r by (simp add: failedWith_def stoppedAt_def renditionWork_def numeral_2_eq_2)
      with bad [OF two] show "Q w' (Some (Inl err))" by blast
    qed
    have eq: "uploadRendition D jid plan i name preset ?out =
        onError (call (\<lambda>h. envUpload D h ?url ?out ''video/mp4'') (EvUpload ?url ?out ''video/mp4''))
             (abr_failJob D jid ErrCodeUploadFailed) (\<lambda>_. debitRendition D jid plan i name preset)"
      using False by (simp add: uploadRendition_def renditionURL_def Let_def)
    show ?thesis unfolding eq using f g by (cases ?r) (simp_all add: wp_rules)
  qed
qed

lemma wp_renditionStep:
  fixes D :: "('s, 'b) deps"
  assumes "dStore D = st" "job_at w jid k" "sched_ready w"
    and waiting: "\<And>w'. work (wTrace w') = work (wTrace w) \<Longrightarrow> Q w' None"
    and ok: "\<And>w' r. job_at w' jid k \<Longrightarrow> wSched w' = wSched w \<Longrightarrow>
      work (wTrace w') = work (wTrace w) @ renditionWork D plan src tmpDir i name \<Longrightarrow> Q w' (Some (Inr r))"
    and bad: "\<And>w' err cut. cutShort (renditionWork D plan src tmpDir i name) cut \<Longrightarrow>
      failedWith w jid w' cut \<Longrightarrow> Q w' (Some (Inl err))"
  shows "wp (renditionStep D jid plan src tmpDir i name) w Q"
proof -
  let ?full = "renditionWork D plan src tmpDir i name" and ?out = "rendOutPath tmpDir name"
  have full: "?full = EvEncode name src ?out True # drop 1 ?full" "1 < length ?full"
    by (simp_all add: renditionWork_def)
  have c0: "cutShort ?full []" using full(2) by (auto simp: cutShort_def intro!: exI [of _ 0])
  have c1: "cutShort ?full [EvEncode name src ?out False]"
    using full(2) by (auto simp: cutShort_def stoppedAt_def renditionWork_def intro!: exI [of _ 0])
  have c1t: "cutShort ?full [EvEncode name src ?out True]"
    using full(2) by (auto simp: cutShort_def renditionWork_def intro!: exI [of _ 1])
  have cn: "cutShort ?full (EvEncode name src ?out True # drop 1 (stoppedAt ?full n))"
    if n: "n \<in> {1..<length ?full}" for n
  proof -
    obtain m where "n = Suc m" using n by (cases n) auto
    then have "EvEncode name src ?out True # drop 1 (stoppedAt ?full n) = stoppedAt ?full n"
      by (simp add: stoppedAt_def renditionWork_def)
    with n show ?thesis unfolding cutShort_def by auto
  qed
  have up: "wp (uploadRendition D jid plan i name preset ?out) w1 Q"
    if 1: "job_at w1 jid k" "wSched w1 = wSched w"
      "work (wTrace w1) = work (wTrace w) @ [EvEncode name src ?out True]" for w1 preset
  proof (rule wp_uploadRendition [OF assms(1) 1(1), where src = src])
    fix w' :: "('s, 'b) world"
    assume "job_at w' jid k" "wSched w' = wSched w1" "work (wTrace w') = work (wTrace w1) @ drop 1 ?full"
    with 1 full(1) show "Q w' (Some (Inr (newRendition name preset)))" by (intro ok) simp_all
  next
    fix w' :: "('s, 'b) world" and err n
    assume n: "n \<in> {1..<length ?full}"
      and "failedWith w1 jid w' (drop 1 (stoppedAt ?full n)) \<or> failedWith w1 jid w' []"
    with 1 have "failedWith w jid w' (EvEncode name src ?out True # drop 1 (stoppedAt ?full n)) \<or>
        failedWith w jid w' [EvEncode name src ?out True]"
      by (auto simp: failedWith_def)
    with bad [OF cn [OF n]] bad [OF c1t] show "Q w' (Some (Inl err))" by blast
  qed
  have cap: "wp (abr_failJob D jid code err) w1 Q"
    if 1: "job_at w1 jid k" "wSched w1 = wSched w" "work (wTrace w1) = work (wTrace w)" for w1 code err
    by (rule wp_abr_fail_here [OF assms(1) 1(1), where w = w and new = "[]"]) (use 1 bad [OF c0] in auto)
  have encfail: "wp (abr_failJob D jid code err) w1 Q"
    if 1: "job_at w1 jid k" "wSched w1 = wSched w"
      "work (wTrace w1) = work (wTrace w) @ [EvEncode name src ?out False]" for w1 code err
    by (rule wp_abr_fail_here [OF assms(1) 1(1), where w = w and new = "[EvEncode name src ?out False]"])
      (use 1 bad [OF c1] in auto)
  have rel: "wSched (releaseLease l (emit e w1)) = wSched (releaseLease l w1)" for l e and w1 :: "('s, 'b) world"
    by (simp add: releaseLease_def split: option.splits)
  have enc: "wp (onError (call (\<lambda>h. envFFmpeg D h preset src ?out) (EvEncode name src ?out))
              (\<lambda>err. modifying (releaseLease l) (abr_failJob D jid (encodeErrCode err) err)) (\<lambda>_.
            modifying (releaseLease l)
              (onError (call (\<lambda>h. envStat D h ?out) (EvStat ?out))
                (\<lambda>_. ignoring (call (\<lambda>h. envWriteFile D h ?out ''encoded'') (EvWriteFile ?out))
                       (uploadRendition D jid plan i name preset ?out))
                (\<lambda>_. uploadRendition D jid plan i name preset ?out)))) w1 Q"
    if 1: "job_at w1 jid k" "wSched (releaseLease l w1) = wSched w" "work (wTrace w1) = work (wTrace w)" for w1 l preset
    using 1 by (cases "envFFmpeg D (wTrace w1) preset src ?out")
      (auto simp: wp_rules rel intro!: up encfail split: sum.splits)
  show ?thesis
  proof (cases "lookupPreset D w name")
    case None
    then show ?thesis using assms(2) by (auto simp: renditionStep_def wp_rules intro!: cap)
  next
    case (Some preset)
    have "wp (acquireBatch D (Model_ForPreset (dCostModel D) preset)) w (\<lambda>w' r. case r of None \<Rightarrow> Q w' None
       | Some (Inl e) \<Rightarrow> wp (abr_failJob D jid ErrCodeCapacityExceeded e) w' Q
       | Some (Inr l) \<Rightarrow> wp (onError (call (\<lambda>h. envFFmpeg D h preset src ?out) (EvEncode name src ?out))
              (\<lambda>err. modifying (releaseLease l) (abr_failJob D jid (encodeErrCode err) err)) (\<lambda>_.
            modifying (releaseLease l)
              (onError (call (\<lambda>h. envStat D h ?out) (EvStat ?out))
                (\<lambda>_. ignoring (call (\<lambda>h. envWriteFile D h ?out ''encoded'') (EvWriteFile ?out))
                       (uploadRendition D jid plan i name preset ?out))
                (\<lambda>_. uploadRendition D jid plan i name preset ?out)))) w' Q)"
      by (rule wp_acquireBatch)
        (use assms(2,3) in \<open>auto simp: sched_ready_def intro!: waiting cap enc
          iffD2 [OF job_at_same_store [of _ w]] split: if_splits\<close>)
    then show ?thesis using Some by (simp add: renditionStep_def wp_reading wp_onError [of "acquireBatch D c" for c] Let_def)
  qed
qed

lemma sched_ready_same: "wSched w' = wSched w \<Longrightarrow> sched_ready w \<Longrightarrow> sched_ready w'"
  by (simp add: sched_ready_def)

lemma wp_renditions:
  fixes D :: "('s, 'b) deps"
  assumes "dStore D = st" "job_at w jid k" "sched_ready w"
    and waiting: "\<And>w'. Q w' None"
    and ok: "\<And>w' rl. job_at w' jid k \<Longrightarrow> wSched w' = wSched w \<Longrightarrow>
      work (wTrace w') = work (wTrace w) @ ladderWork D plan src tmpDir i names \<Longrightarrow> Q w' (Some (Inr rl))"
    and bad: "\<And>w' err m cut. m < length names \<Longrightarrow>
      cutShort (renditionWork D plan src tmpDir (i + m) (names ! m)) cut \<Longrightarrow>
      failedWith w jid w' (ladderWork D plan src tmpDir i (take m names) @ cut) \<Longrightarrow> Q w' (Some (Inl err))"
  shows "wp (renditions D jid parent plan src tmpDir i names acc) w Q"
  using assms(2,3) ok bad
proof (induction names arbitrary: w i acc)
  case Nil
  then show ?case by (simp add: wp_rules)
next
  case (Cons name names)
  show ?case
    unfolding renditions.simps wp_andThen
  proof (rule wp_renditionStep [OF assms(1) Cons.prems(1,2)])
    fix w' :: "('s, 'b) world" and err cut
    assume c: "cutShort (renditionWork D plan src tmpDir i name) cut" "failedWith w jid w' cut"
    then have "Q w' (Some (Inl err))" by (intro Cons.prems(4) [of 0 cut]) simp_all
    then show "case Some (Inl err) of None \<Rightarrow> Q w' None | Some (Inl e) \<Rightarrow> Q w' (Some (Inl e))
      | Some (Inr x) \<Rightarrow> wp (modifying (fireWebhook D parent ''job.rendition.complete''
         [(''job_id'', JStr jid), (''preset'', JStr name), (''rendition'', encode_rendition x)])
        (renditions D jid parent plan src tmpDir (i + 1) names (acc @ [x]))) w' Q" by simp
  next
    fix w1 :: "('s, 'b) world" and r
    assume 1: "job_at w1 jid k" "wSched w1 = wSched w"
      "work (wTrace w1) = work (wTrace w) @ renditionWork D plan src tmpDir i name"
    let ?w = "fireWebhook D parent ''job.rendition.complete''
         [(''job_id'', JStr jid), (''preset'', JStr name), (''rendition'', encode_rendition r)] w1"
    have "wp (renditions D jid parent plan src tmpDir (i + 1) names (acc @ [r])) ?w Q"
    proof (rule Cons.IH)
      show "job_at ?w jid k" using 1 by simp
      show "sched_ready ?w" using 1(2) Cons.prems(2) by (simp add: sched_ready_def)
    next
      fix w' :: "('s, 'b) world" and rl
      assume "job_at w' jid k" "wSched w' = wSched ?w"
        "work (wTrace w') = work (wTrace ?w) @ ladderWork D plan src tmpDir (i + 1) names"
      with 1 show "Q w' (Some (Inr rl))" by (intro Cons.prems(3)) simp_all
    next
      fix w' :: "('s, 'b) world" and err m cut
      assume m: "m < length names" "cutShort (renditionWork D plan src tmpDir (i + 1 + m) (names ! m)) cut"
        and "failedWith ?w jid w' (ladderWork D plan src tmpDir (i + 1) (take m names) @ cut)"
      with 1 have "failedWith w jid w' (ladderWork D plan src tmpDir i (take (Suc m) (name # names)) @ cut)"
        by (simp add: failedWith_def)
      with m show "Q w' (Some (Inl err))"
        by (intro Cons.prems(4) [of "Suc m" cut]) simp_all
    qed
    then show "case Some (Inr r) of None \<Rightarrow> Q w1 None | Some (Inl e) \<Rightarrow> Q w1 (Some (Inl e))
      | Some (Inr x) \<Rightarrow> wp (modifying (fireWebhook D parent ''job.rendition.complete''
         [(''job_id'', JStr jid), (''preset'', JStr name), (''rendition'', encode_rendition x)])
        (renditions D jid parent plan src tmpDir (i + 1) names (acc @ [x]))) w1 Q"
      by (simp add: wp_rules)
  qed (simp add: waiting)
qed

lemma wp_uploadMaster:
  fixes D :: "('s, 'b) deps"
  assumes "dStore D = st" "job_at w jid k"
    and ok: "\<And>w' k'. job_at w' jid k' \<Longrightarrow> jPhase k' = PhaseComplete \<Longrightarrow>
      phase_names k' = phase_names k @ [PhaseUploading, PhaseComplete] \<Longrightarrow> wSched w' = wSched w \<Longrightarrow>
      work (wTrace w') = work (wTrace w) @ [EvUpload (aMasterOutputURL plan) (filepath_Join [tmpDir, ''master.m3u8''])
        ''application/vnd.apple.mpegurl'' True] \<Longrightarrow> Q w' (Some (Inr ()))"
    and bad: "\<And>w' err new. failedWith w jid w' new \<Longrightarrow> set new \<subseteq> {EvUpload (aMasterOutputURL plan)
        (filepath_Join [tmpDir, ''master.m3u8'']) ''application/vnd.apple.mpegurl'' False} \<Longrightarrow> Q w' (Some (Inl err))"
  shows "wp (uploadMaster D jid parent plan tmpDir rendList) w Q"
proof -
  let ?p = "filepath_Join [tmpDir, ''master.m3u8'']" and ?m = "''application/vnd.apple.mpegurl''"
  have c: "phase_canonical PhaseUploading" "phase_canonical PhaseComplete" by simp_all
  have fail: "wp (abr_failJob D jid code err) w1 Q"
    if 1: "job_at w1 jid k1" "wSched w1 = wSched w" "work (wTrace w1) = work (wTrace w) @ new"
      "set new \<subseteq> {EvUpload (aMasterOutputURL plan) ?p ?m False}" for w1 k1 code err new
    by (rule wp_abr_fail_here [OF assms(1) 1(1-3)], rule bad [OF _ 1(4)])
  have fail01: "wp (abr_failJob D jid code err) w1 Q"
    if 1: "job_at w1 jid k1" "wSched w1 = wSched w"
      "work (wTrace w1) = work (wTrace w) \<or>
       work (wTrace w1) = work (wTrace w) @ [EvUpload (aMasterOutputURL plan) ?p ?m False]" for w1 k1 code err
    using 1(3) fail [OF 1(1,2), of "[]"] fail [OF 1(1,2), of "[EvUpload (aMasterOutputURL plan) ?p ?m False]"]
    by auto
  have fin: "wp (transition D jid PhaseComplete) w2 (\<lambda>w' r. case r of None \<Rightarrow> Q w' None
      | Some (Inl e) \<Rightarrow> Q w' (Some (Inl e))
      | Some (Inr _) \<Rightarrow> Q (fireWebhook D parent ''job.complete'' [(''job_id'', JStr jid)] w') (Some (Inr ())))"
    if 2: "job_at w2 jid k2" "wSched w2 = wSched w" "phase_names k2 = phase_names k @ [PhaseUploading]"
      "work (wTrace w2) = work (wTrace w) @ [EvUpload (aMasterOutputURL plan) ?p ?m True]" for w2 k2
    by (rule wp_transition [OF assms(1) 2(1) c(2)], simp, rule ok) (use 2 in simp_all)
  have body: "wp (case BuildMaster rendList of
       Inl err \<Rightarrow> abr_failJob D jid ErrCodeUploadFailed err
     | Inr masterText \<Rightarrow>
         (let masterPath = ?p in
          onError (call (\<lambda>h. envWriteFile D h masterPath masterText) (EvWriteFile masterPath))
            (abr_failJob D jid ErrCodeUploadFailed) (\<lambda>_.
          onError (call (\<lambda>h. envUpload D h (aMasterOutputURL plan) masterPath ?m)
                (EvUpload (aMasterOutputURL plan) masterPath ?m))
            (abr_failJob D jid ErrCodeUploadFailed) (\<lambda>_.
          andThen (transition D jid PhaseComplete) (\<lambda>_.
            modifying (fireWebhook D parent ''job.complete'' [(''job_id'', JStr jid)]) (returns ())))))) w1 Q"
    if 1: "job_at w1 jid k1" "wSched w1 = wSched w" "phase_names k1 = phase_names k @ [PhaseUploading]"
      "wTrace w1 = wTrace w" for w1 k1
    using 1
    by (auto simp: wp_rules Let_def split: sum.splits
        intro!: fail01 fin)
  show ?thesis
    unfolding uploadMaster_def wp_andThen [of "transition D jid PhaseUploading"]
    by (rule wp_transition [OF assms(1,2) c(1)], simp, rule body) simp_all
qed

lemma wp_abr_phases:
  fixes D :: "('s, 'b) deps"
  assumes "dStore D = st" "job_at w jid k" "sched_ready w"
    and waiting: "\<And>w'. Q w' None"
    and ok: "\<And>w' k'. job_at w' jid k' \<Longrightarrow> jPhase k' = PhaseComplete \<Longrightarrow>
      phase_names k' = phase_names k @ [PhaseDownloading, PhaseProbing, PhaseEncoding, PhaseUploading, PhaseComplete] \<Longrightarrow>
      wSched w' = wSched w \<Longrightarrow>
      work (wTrace w') = work (wTrace w) @ abrStart plan src @
        ladderWork D plan src tmpDir 0 (aPresetNames plan) @ [masterUpload plan tmpDir True] \<Longrightarrow> Q w' (Some (Inr ()))"
    and bad: "\<And>w' err new. failedWith w jid w' new \<Longrightarrow> abrFailure D plan src tmpDir new \<Longrightarrow> Q w' (Some (Inl err))"
  shows "wp (abr_phases D jid parent plan src tmpDir) w Q"
proof -
  have c: "phase_canonical PhaseDownloading" "phase_canonical PhaseProbing" "phase_canonical PhaseEncoding" by simp_all
  let ?lad = "ladderWork D plan src tmpDir 0 (aPresetNames plan)"
  have master: "wp (uploadMaster D jid parent plan tmpDir rl) w4 Q"
    if 4: "job_at w4 jid k4" "wSched w4 = wSched w"
      "phase_names k4 = phase_names k @ [PhaseDownloading, PhaseProbing, PhaseEncoding]"
      "work (wTrace w4) = work (wTrace w) @ abrStart plan src @ ?lad" for w4 k4 rl
  proof (rule wp_uploadMaster [OF assms(1) 4(1)])
    fix w' :: "('s, 'b) world" and k'
    assume "job_at w' jid k'" "jPhase k' = PhaseComplete" "wSched w' = wSched w4"
      "phase_names k' = phase_names k4 @ [PhaseUploading, PhaseComplete]"
      "work (wTrace w') = work (wTrace w4) @ [EvUpload (aMasterOutputURL plan)
         (filepath_Join [tmpDir, ''master.m3u8'']) ''application/vnd.apple.mpegurl'' True]"
    with 4 show "Q w' (Some (Inr ()))" by (intro ok) (simp_all add: masterUpload_def)
  next
    fix w' :: "('s, 'b) world" and err new
    assume f: "failedWith w4 jid w' new" and n: "set new \<subseteq> {EvUpload (aMasterOutputURL plan)
         (filepath_Join [tmpDir, ''master.m3u8'']) ''application/vnd.apple.mpegurl'' False}"
    from f 4 have "failedWith w jid w' (abrStart plan src @ ?lad @ new)" by (simp add: failedWith_def)
    moreover from n have "abrFailure D plan src tmpDir (abrStart plan src @ ?lad @ new)"
      unfolding abrFailure_def masterUpload_def by blast
    ultimately show "Q w' (Some (Inl err))" by (rule bad)
  qed
  have ladder: "wp (andThen (renditions D jid parent plan src tmpDir 0 (aPresetNames plan) []) (\<lambda>rendList.
       uploadMaster D jid parent plan tmpDir rendList)) w3 Q"
    if 3: "job_at w3 jid k3" "wSched w3 = wSched w"
      "phase_names k3 = phase_names k @ [PhaseDownloading, PhaseProbing, PhaseEncoding]"
      "work (wTrace w3) = work (wTrace w) @ abrStart plan src" for w3 k3
    unfolding wp_andThen
  proof (rule wp_renditions [OF assms(1) 3(1) sched_ready_same [OF 3(2) assms(3)]], goal_cases)
    case (1 w')
    then show ?case by (simp add: waiting)
  next
    case (2 w' rl)
    with 3 show ?case by (auto intro!: master)
  next
    case (3 w' err m cut)
    then have "failedWith w jid w' (abrStart plan src @ ladderWork D plan src tmpDir 0 (take m (aPresetNames plan)) @ cut)"
      using that by (simp add: failedWith_def)
    moreover have "abrFailure D plan src tmpDir
        (abrStart plan src @ ladderWork D plan src tmpDir 0 (take m (aPresetNames plan)) @ cut)"
      unfolding abrFailure_def using 3(1,2) by auto
    ultimately show ?case by (simp add: bad)
  qed
  have start: "abrFailure D plan src tmpDir [EvFetch (aInputURL plan) src False]"
    "abrFailure D plan src tmpDir [EvFetch (aInputURL plan) src True, EvProbe src False]"
    by (simp_all add: abrFailure_def stoppedAt_def abrStart_def)
  have fail: "wp (abr_failJob D jid code err) w1 Q"
    if 1: "job_at w1 jid k1" "wSched w1 = wSched w"
      "work (wTrace w1) = work (wTrace w) @ [EvFetch (aInputURL plan) src False] \<or>
       work (wTrace w1) = work (wTrace w) @ [EvFetch (aInputURL plan) src True, EvProbe src False]" for w1 k1 code err
    using 1(3)
  proof
    assume "work (wTrace w1) = work (wTrace w) @ [EvFetch (aInputURL plan) src False]"
    from wp_abr_fail_here [OF assms(1) 1(1,2) this] bad start(1) show ?thesis by blast
  next
    assume "work (wTrace w1) = work (wTrace w) @ [EvFetch (aInputURL plan) src True, EvProbe src False]"
    from wp_abr_fail_here [OF assms(1) 1(1,2) this] bad start(2) show ?thesis by blast
  qed
  define rest where "rest = andThen (renditions D jid parent plan src tmpDir 0 (aPresetNames plan) [])
      (\<lambda>rendList. uploadMaster D jid parent plan tmpDir rendList)"
  have enc: "wp (andThen (transition D jid PhaseEncoding) (\<lambda>_. rest)) w2 Q"
    if 2: "job_at w2 jid k2" "wSched w2 = wSched w" "phase_names k2 = phase_names k @ [PhaseDownloading, PhaseProbing]"
      "work (wTrace w2) = work (wTrace w) @ abrStart plan src" for w2 k2
    unfolding wp_andThen [of "transition D jid PhaseEncoding"] rest_def
    by (rule wp_transition [OF assms(1) 2(1) c(3)], simp, rule ladder) (use 2 in simp_all)
  have probe: "wp (andThen (transition D jid PhaseProbing) (\<lambda>_.
      onError (call (\<lambda>h. envProbe D h src) (EvProbe src)) (abr_failJob D jid ErrCodeProbeFailed)
        (\<lambda>_. andThen (transition D jid PhaseEncoding) (\<lambda>_. rest)))) w1 Q"
    if 1: "job_at w1 jid k1" "wSched w1 = wSched w" "phase_names k1 = phase_names k @ [PhaseDownloading]"
      "work (wTrace w1) = work (wTrace w) @ [EvFetch (aInputURL plan) src True]" for w1 k1
    unfolding wp_andThen [of "transition D jid PhaseProbing"]
    by (rule wp_transition [OF assms(1) 1(1) c(2)], simp add: wp_onError wp_call split: sum.splits)
      (use 1 in \<open>auto intro!: enc fail simp: abrStart_def\<close>)
  have eq: "abr_phases D jid parent plan src tmpDir = andThen (transition D jid PhaseDownloading) (\<lambda>_.
      onError (call (\<lambda>h. envFetch D h (aInputURL plan) src) (EvFetch (aInputURL plan) src))
       (abr_failJob D jid ErrCodeDownloadFailed) (\<lambda>_. andThen (transition D jid PhaseProbing) (\<lambda>_.
      onError (call (\<lambda>h. envProbe D h src) (EvProbe src)) (abr_failJob D jid ErrCodeProbeFailed)
        (\<lambda>_. andThen (transition D jid PhaseEncoding) (\<lambda>_. rest)))))"
    by (simp add: abr_phases_def rest_def)
  show ?thesis
    unfolding eq wp_andThen [of "transition D jid PhaseDownloading"]
    by (rule wp_transition [OF assms(1,2) c(1)], simp add: wp_onError wp_call split: sum.splits)
      (auto intro!: probe fail)
qed

lemma wp_abr_RunOne:
  fixes D :: "('s, 'b) deps"
  assumes "dStore D = st" "job_at w jid k" "sched_ready w"
  defines "src \<equiv> filepath_Join [abrTempDir D jid, ''input'']" and "tmpDir \<equiv> abrTempDir D jid"
  assumes waiting: "\<And>w'. Q w' None"
    and ok: "\<And>w' k'. job_at w' jid k' \<Longrightarrow> jPhase k' = PhaseComplete \<Longrightarrow>
      phase_names k' = phase_names k @ [PhaseDownloading, PhaseProbing, PhaseEncoding, PhaseUploading, PhaseComplete] \<Longrightarrow>
      wSched w' = wSched w \<Longrightarrow>
      work (wTrace w') = work (wTrace w) @ abrStart plan src @
        ladderWork D plan src tmpDir 0 (aPresetNames plan) @ [masterUpload plan tmpDir True] \<Longrightarrow> Q w' (Some (Inr ()))"
    and bad: "\<And>w' err new. failedWith w jid w' new \<Longrightarrow> abrFailure D plan src tmpDir new \<Longrightarrow> Q w' (Some (Inl err))"
    and nodir: "\<And>w' err. job_at w' jid k \<Longrightarrow> wSched w' = wSched w \<Longrightarrow> work (wTrace w') = work (wTrace w) \<Longrightarrow>
      Q w' (Some (Inl err))"
  shows "wp (abr_RunOne D jid plan) w Q"
proof -
  let ?w = "emit (EvMkdir tmpDir (is_ok (envMkdir D (wTrace w) tmpDir))) w"
  have get: "Repo_Get (dStore D) (wStore w) jid = Inr k" using assms(1,2) by (simp add: job_at_def)
  have at: "job_at ?w jid k" and rdy: "sched_ready ?w" using assms(2,3) by (simp_all add: sched_ready_def)
  have body: "wp (abr_phases D jid k plan src tmpDir) ?w (\<lambda>w' r. case r of None \<Rightarrow> Q w' None
      | Some x \<Rightarrow> Q (emit (EvRemoveAll tmpDir) w') (Some x))"
  proof (rule wp_abr_phases [OF assms(1) at rdy], goal_cases)
    case (3 w' err new)
    then have "failedWith w jid (emit (EvRemoveAll tmpDir) w') new" by (simp add: failedWith_def)
    with 3 show ?case by (simp add: bad)
  qed (auto intro!: waiting ok)
  have nd: "Q ?w (Some (Inl err))" if "envMkdir D (wTrace w) tmpDir = Inl err" for err
    by (rule nodir) (use assms(2) in auto)
  show ?thesis
    using body nd unfolding src_def tmpDir_def
    by (cases "envMkdir D (wTrace w) (abrTempDir D jid)")
      (simp_all add: abr_RunOne_def wp_rules get Let_def)
qed

end

subsection \<open>Properties\<close>

abbreviation (input) abrInput :: "('s, 'b) deps \<Rightarrow> string \<Rightarrow> string" where
  "abrInput D jid \<equiv> filepath_Join [abrTempDir D jid, ''input'']"

text \<open>
  C6. An ABR job that reports success did the whole ladder, in the order of its preset names: input fetched
  and probed once; for the rendition number \<open>i\<close> (from 0) encode, upload to its own URL, and one debit
  with sequence number \<open>i + 1\<close>; then the master playlist; the record is complete and all leases
  are back.
\<close>

theorem abr_success:
  assumes "dStore D = memStore_ops" "stored_job w jid j" "sched_ready w"
    "abr_RunOne D jid plan w = (w', Some (Inr ()))"
  shows "\<exists>j'. Repo_Get memStore_ops (wStore w') jid = Inr j' \<and> jPhase j' = PhaseComplete \<and>
    phase_names j' = phase_names j @ [PhaseDownloading, PhaseProbing, PhaseEncoding, PhaseUploading, PhaseComplete] \<and>
    work (wTrace w') = work (wTrace w) @ abrStart plan (abrInput D jid) @
      ladderWork D plan (abrInput D jid) (abrTempDir D jid) 0 (aPresetNames plan) @
      [masterUpload plan (abrTempDir D jid) True] \<and>
    wSched w' = wSched w"
proof -
  have "wp (abr_RunOne D jid plan) w (\<lambda>w' r. r = Some (Inr ()) \<longrightarrow>
   (\<exists>j'. Repo_Get memStore_ops (wStore w') jid = Inr j' \<and> jPhase j' = PhaseComplete \<and>
    phase_names j' = phase_names j @ [PhaseDownloading, PhaseProbing, PhaseEncoding, PhaseUploading, PhaseComplete] \<and>
    work (wTrace w') = work (wTrace w) @ abrStart plan (abrInput D jid) @
      ladderWork D plan (abrInput D jid) (abrTempDir D jid) 0 (aPresetNames plan) @
      [masterUpload plan (abrTempDir D jid) True] \<and>
    wSched w' = wSched w))"
    by (rule repo.wp_abr_RunOne [OF assms(1) assms(2)[unfolded stored_job_iff] assms(3)])
      (auto simp: repo.job_at_def)
  with assms(4) show ?thesis by (auto dest: wpD)
qed

definition demo_plan :: abr_job where
  "demo_plan = \<lparr>aJobID = ''j1'', aInputURL = ''http://in'', aMasterOutputURL = ''http://out/master.m3u8'',
     aWebhookURL = [], aWebhookSecret = [], aWorkID = ''w1'', aSender = [], aUnitsPerRend = 7,
     aPresetNames = [''h264-720p''], aRenditionOutputs = [(''h264-720p'', ''http://out/720p'')]\<rparr>"

lemma demo_abr_ok: "snd (abr_RunOne demo_deps ''j1'' demo_plan demo_world) = Some (Inr ())"
  by code_simp

theorem abr_success_witness:
  "\<exists>w'. abr_RunOne demo_deps ''j1'' demo_plan demo_world = (w', Some (Inr ())) \<and>
     EvDebit [] ''w1'' 7 1 True \<in> set (work (wTrace w'))"
proof -
  obtain w' where run: "abr_RunOne demo_deps ''j1'' demo_plan demo_world = (w', Some (Inr ()))"
    using demo_abr_ok by (cases "abr_RunOne demo_deps ''j1'' demo_plan demo_world") auto
  have "work (wTrace w') = work (wTrace demo_world) @ abrStart demo_plan (abrInput demo_deps ''j1'') @
      ladderWork demo_deps demo_plan (abrInput demo_deps ''j1'') (abrTempDir demo_deps ''j1'') 0 (aPresetNames demo_plan) @
      [masterUpload demo_plan (abrTempDir demo_deps ''j1'') True]"
    using abr_success [OF demo_basics(1) demo_stored demo_basics(2) run] by blast
  with run show ?thesis
    by (simp add: demo_plan_def renditionWork_def abr_charged_def demo_deps_def)
qed

text \<open>The debits that succeeded.\<close>

fun is_paid :: "event \<Rightarrow> bool" where
  "is_paid (EvDebit _ _ _ _ ok) = ok"
| "is_paid _ = False"

definition paidDebits :: "('s, 'b) deps \<Rightarrow> abr_job \<Rightarrow> nat \<Rightarrow> nat \<Rightarrow> event list" where
  "paidDebits D plan i m =
     (if abr_charged D plan
      then map (\<lambda>n. EvDebit (aSender plan) (aWorkID plan) (aUnitsPerRend plan) (word_of_nat (n + 1)) True) [i..<m]
      else [])"

lemma paid_ladder: "filter is_paid (ladderWork D plan src tmpDir i names) = paidDebits D plan i (i + length names)"
proof (induction names arbitrary: i)
  case Nil
  then show ?case by (simp add: paidDebits_def)
next
  case (Cons name names)
  then show ?case
    by (simp add: renditionWork_def paidDebits_def upt_conv_Cons del: upt_Suc)
qed

lemma paid_cut: "cutShort (renditionWork D plan src tmpDir i name) new \<Longrightarrow> filter is_paid new = []"
  by (auto simp: cutShort_def stoppedAt_def renditionWork_def less_Suc_eq numeral_2_eq_2 split: if_splits)

lemma paid_start [simp]:
  "filter is_paid (abrStart plan src) = []" "\<not> is_paid (masterUpload plan tmpDir b)"
  "filter is_paid (stoppedAt (abrStart plan src) 0) = []" "filter is_paid (stoppedAt (abrStart plan src) (Suc 0)) = []"
  by (simp_all add: abrStart_def masterUpload_def stoppedAt_def)

lemma paid_abrFailure:
  assumes "abrFailure D plan src tmpDir new"
  shows "\<exists>m \<le> length (aPresetNames plan). filter is_paid new = paidDebits D plan 0 m"
proof -
  have z: "paidDebits D plan 0 0 = []" by (simp add: paidDebits_def)
  have r: "filter is_paid rest = []" if "set rest \<subseteq> {masterUpload plan tmpDir False}" for rest
    using that by (induction rest) (auto simp: masterUpload_def)
  from assms show ?thesis
    unfolding abrFailure_def
  proof (elim disjE exE conjE)
    assume "new = stoppedAt (abrStart plan src) 0"
    with z show ?thesis by (intro exI [of _ 0]) simp
  next
    assume "new = stoppedAt (abrStart plan src) 1"
    with z show ?thesis by (intro exI [of _ 0]) simp
  next
    fix m cut
    assume "m < length (aPresetNames plan)" "cutShort (renditionWork D plan src tmpDir m (aPresetNames plan ! m)) cut"
      "new = abrStart plan src @ ladderWork D plan src tmpDir 0 (take m (aPresetNames plan)) @ cut"
    then show ?thesis by (intro exI [of _ m]) (simp add: paid_ladder paid_cut)
  next
    fix rest
    assume "set rest \<subseteq> {masterUpload plan tmpDir False}"
      "new = abrStart plan src @ ladderWork D plan src tmpDir 0 (aPresetNames plan) @ rest"
    then show ?thesis by (intro exI [of _ "length (aPresetNames plan)"]) (simp add: paid_ladder r)
  qed
qed



definition planRegistry_Get :: "(string \<times> abr_job) list \<Rightarrow> string \<Rightarrow> abr_job option" where
  "planRegistry_Get plans jid = map_of plans jid"

text \<open>
  A worker whose plan registry does not know the id drops the job: the id leaves the queue and the
  active set while the record stays in phase \<open>queued\<close>. The production registry is never filled,
  so this is what happens to every submitted ABR job.
\<close>

theorem abr_unplanned_job_dropped:
  assumes "jrQueue r = jid # q" "jid \<notin> set (jrActive r)"
  shows "abr_worker_round D (planRegistry_Get []) r w =
    (w, \<lparr>jrQueue = q, jrActive = jrActive r\<rparr>, Some (Inr ()))"
proof -
  have "pop r = (r\<lparr>jrQueue := q, jrActive := jid # jrActive r\<rparr>, Some jid)"
    using assms by (simp add: pop.simps [of r])
  moreover have "removeAll jid (jrActive r) = jrActive r" using assms(2) by (simp add: removeAll_id)
  ultimately show ?thesis
    by (simp add: abr_worker_round_def planRegistry_Get_def finish_def)
qed

theorem abr_unplanned_job_dropped_witness:
  "abr_worker_round demo_deps (planRegistry_Get []) \<lparr>jrQueue = [''j1''], jrActive = []\<rparr> demo_world =
     (demo_world, \<lparr>jrQueue = [], jrActive = []\<rparr>, Some (Inr ()))"
  using abr_unplanned_job_dropped [of "\<lparr>jrQueue = [''j1''], jrActive = []\<rparr>" "''j1''" "[]" demo_deps demo_world]
  by simp

end
