(* ===== verification/Ffmpeg.thy ===== *)
theory Ffmpeg
  imports Go_Scan Worker_Types
begin

text \<open>
  \<open>internal/providers/ffmpeg\<close>: the command lines of the batch and the live encoder, the capture of their
  output, the parsing of their progress reports, and the run of the subprocess. What the operating
  system and the subprocess do (starting, printing, exiting) is the record \<open>proc\<close>.
\<close>

subsection \<open>Command lines\<close>

record ffjob =
  fjInputURL :: string
  fjOutputURL :: string
  fjPreset :: preset
  fjGPU :: gpu_profile
  fjExtra :: "string list"
  fjMaxLogBytes :: int

fun hwaccelFlags :: "gpu_vendor \<Rightarrow> string list" where
  "hwaccelFlags GPUVendorNVIDIA = [''-hwaccel'', ''cuda'', ''-hwaccel_output_format'', ''cuda'']"
| "hwaccelFlags GPUVendorIntel = [''-hwaccel'', ''qsv'', ''-hwaccel_output_format'', ''qsv'']"
| "hwaccelFlags GPUVendorAMD =
     [''-hwaccel'', ''vaapi'', ''-hwaccel_output_format'', ''vaapi'', ''-vaapi_device'', ''/dev/dri/renderD128'']"
| "hwaccelFlags _ = []"

definition codecFlag :: "string \<Rightarrow> gpu_vendor \<Rightarrow> string" where
  "codecFlag codec vendor =
     (case vendor of
        GPUVendorNVIDIA \<Rightarrow>
          if codec = ''h264'' then ''h264_nvenc'' else if codec = ''hevc'' then ''hevc_nvenc''
          else if codec = ''av1'' then ''av1_nvenc'' else ''lib'' @ codec
      | GPUVendorIntel \<Rightarrow>
          if codec = ''h264'' then ''h264_qsv'' else if codec = ''hevc'' then ''hevc_qsv''
          else if codec = ''av1'' then ''av1_qsv'' else ''lib'' @ codec
      | GPUVendorAMD \<Rightarrow>
          if codec = ''h264'' then ''h264_vaapi'' else if codec = ''hevc'' then ''hevc_vaapi''
          else if codec = ''av1'' then ''av1_vaapi'' else ''lib'' @ codec
      | _ \<Rightarrow> ''lib'' @ codec)"

definition BuildArgs :: "ffjob \<Rightarrow> string list" where
  "BuildArgs j =
     (let p = fjPreset j; v = gVendor (fjGPU j) in
      [''-y'', ''-loglevel'', ''info'', ''-progress'', ''pipe:2''] @ hwaccelFlags v @ [''-i'', fjInputURL j] @
      [''-vf'', ''scale=w='' @ show_int (pWidthMax p) @ '':h='' @ show_int (pHeightMax p) @
                '':force_original_aspect_ratio=decrease''] @
      [''-c:v'', codecFlag (pCodec p) v] @ [''-b:v'', show_int (pBitrateKbps p) @ ''k''] @
      (if pProfile p \<noteq> [] then [''-profile:v'', pProfile p] else []) @
      (if pGOPSeconds p > 0 then [''-g'', show_g (rnd64 (pGOPSeconds p * 30))] else []) @
      [''-c:a'', ''aac'', ''-b:a'', ''128k''] @ fjExtra j @ [fjOutputURL j])"

record live_job =
  ljMediaFormat :: string
  ljLocalDir :: string
  ljLadder :: "preset list"
  ljSegmentSeconds :: int
  ljPlaylistSize :: int
  ljAudioBitrateKbps :: int
  ljGPU :: gpu_profile
  ljMaxLogBytes :: int

definition liveDefaults :: "live_job \<Rightarrow> live_job" where
  "liveDefaults j =
     j\<lparr>ljSegmentSeconds := (if ljSegmentSeconds j \<le> 0 then 4 else ljSegmentSeconds j),
       ljPlaylistSize := (if ljPlaylistSize j \<le> 0 then 6 else ljPlaylistSize j),
       ljAudioBitrateKbps := (if ljAudioBitrateKbps j \<le> 0 then 128 else ljAudioBitrateKbps j),
       ljMediaFormat := (if ljMediaFormat j = [] then ''flv'' else ljMediaFormat j)\<rparr>"

definition rungPlaylist :: "live_job \<Rightarrow> preset \<Rightarrow> string" where
  "rungPlaylist j p = filepath_Join [ljLocalDir j, pCodec p, pName p, ''playlist.m3u8'']"

definition rungArgs :: "live_job \<Rightarrow> preset \<Rightarrow> string list" where
  "rungArgs j p =
     [''-map'', ''0:v:0'', ''-map'', ''0:a:0'', ''-c:v'', codecFlag (pCodec p) (gVendor (ljGPU j)),
      ''-preset'', ''llhq'', ''-tune'', ''ll'',
      ''-s'', show_int (pWidthMax p) @ ''x'' @ show_int (pHeightMax p),
      ''-b:v'', show_int (pBitrateKbps p) @ ''k'', ''-maxrate'', show_int (pBitrateKbps p) @ ''k'',
      ''-bufsize'', show_int (wrap64 (pBitrateKbps p * 2)) @ ''k'',
      ''-g'', show_int (wrap64 (ljSegmentSeconds j * 30)), ''-keyint_min'', show_int (wrap64 (ljSegmentSeconds j * 30)),
      ''-sc_threshold'', ''0'', ''-c:a'', ''aac'', ''-b:a'', show_int (ljAudioBitrateKbps j) @ ''k'',
      ''-f'', ''hls'', ''-hls_time'', show_int (ljSegmentSeconds j), ''-hls_list_size'', show_int (ljPlaylistSize j),
      ''-hls_flags'', ''delete_segments+append_list+omit_endlist+independent_segments'',
      ''-hls_segment_type'', ''mpegts'',
      ''-hls_segment_filename'', filepath_Join [ljLocalDir j, pCodec p, pName p, ''segment_%05d.ts''],
      rungPlaylist j p]"

definition BuildLiveArgs :: "live_job \<Rightarrow> string list" where
  "BuildLiveArgs j =
     (let j = liveDefaults j in
      [''-hide_banner'', ''-loglevel'', ''info'', ''-re'', ''-f'', ljMediaFormat j, ''-i'', ''pipe:0''] @
      concat (map (rungArgs j) (ljLadder j)))"

subsection \<open>Captured output\<close>

record ringBuffer =
  rbBuf :: string
  rbCap :: int

definition newRingBuffer :: "int \<Rightarrow> ringBuffer" where
  "newRingBuffer cap = \<lparr>rbBuf = [], rbCap = cap\<rparr>"

definition ring_Write :: "string \<Rightarrow> ringBuffer \<Rightarrow> ringBuffer" where
  "ring_Write p r =
     (let buf = rbBuf r @ p in
      if int (length buf) > rbCap r then r\<lparr>rbBuf := drop (nat (int (length buf) - rbCap r)) buf\<rparr>
      else r\<lparr>rbBuf := buf\<rparr>)"

definition ring_String :: "ringBuffer \<Rightarrow> string" where
  "ring_String r = rbBuf r"

definition maxLog :: "int \<Rightarrow> int" where
  "maxLog n = (if n \<le> 0 then 128 * 1024 else n)"

definition newline :: string where "newline = [CHR 0x0A]"

subsection \<open>Progress reports\<close>

record progress =
  pgOutTimeSeconds :: rat
  pgFPS :: rat
  pgSpeed :: rat
  pgBitrateKbps :: rat
  pgFrame :: int

definition zero_progress :: progress where
  "zero_progress = \<lparr>pgOutTimeSeconds = 0, pgFPS = 0, pgSpeed = 0, pgBitrateKbps = 0, pgFrame = 0\<rparr>"

definition splitKV :: "string \<Rightarrow> (string \<times> string) option" where
  "splitKV line =
     (let key = takeWhile (\<lambda>c. c \<noteq> CHR ''='') line in
      if key = [] \<or> key = line then None else Some (TrimSpace key, TrimSpace (drop (length key + 1) line)))"

definition TrimSuffix :: "string \<Rightarrow> string \<Rightarrow> string" where
  "TrimSuffix s suf = (if HasSuffix s suf then take (length s - length suf) s else s)"

text \<open>A value that does not scan leaves its field alone, except \<open>out_time_us\<close>, which is then 0.\<close>

definition orElse :: "'a \<Rightarrow> 'a option \<Rightarrow> 'a" where
  "orElse x y = (case y of None \<Rightarrow> x | Some z \<Rightarrow> z)"

definition progressField :: "string \<Rightarrow> string \<Rightarrow> progress \<Rightarrow> progress" where
  "progressField key val cur =
     (if key = ''frame'' then cur\<lparr>pgFrame := orElse (pgFrame cur) (sscanf_d val)\<rparr>
      else if key = ''fps'' then cur\<lparr>pgFPS := orElse (pgFPS cur) (sscanf_f val)\<rparr>
      else if key = ''bitrate''
      then cur\<lparr>pgBitrateKbps := orElse (pgBitrateKbps cur) (sscanf_f (TrimSuffix (TrimSpace val) ''kbits/s''))\<rparr>
      else if key = ''out_time_us''
      then cur\<lparr>pgOutTimeSeconds := rnd64 (rnd64 (of_int (orElse 0 (sscanf_d val))) / 1000000)\<rparr>
      else if key = ''speed''
      then cur\<lparr>pgSpeed := orElse (pgSpeed cur) (sscanf_f (TrimSuffix (TrimSpace val) ''x''))\<rparr>
      else cur)"

text \<open>
  The loop of \<open>ParseProgressStream\<close> over the lines of the stream: the events it sends, what it captured,
  and the lines it left unread because it returned at \<open>progress=end\<close>.
\<close>

fun ParseProgressStream ::
  "string list \<Rightarrow> progress \<Rightarrow> ringBuffer \<Rightarrow> progress list \<times> ringBuffer \<times> string list" where
  "ParseProgressStream [] cur capture = ([], capture, [])"
| "ParseProgressStream (line # ls) cur capture =
     (let capture = ring_Write (line @ newline) capture in
      case splitKV line of
        None \<Rightarrow> ParseProgressStream ls cur capture
      | Some (key, val) \<Rightarrow>
          if key = ''progress'' then
            (if val = ''end'' then ([cur], capture, ls)
             else (case ParseProgressStream ls zero_progress capture of (es, c, rest) \<Rightarrow> (cur # es, c, rest)))
          else ParseProgressStream ls (progressField key val cur) capture)"

subsection \<open>The media clock of the live encoder\<close>

fun after_first :: "string \<Rightarrow> string \<Rightarrow> string option" where
  "after_first sub [] = (if sub = [] then Some [] else None)"
| "after_first sub (c # s) =
     (if HasPrefix (c # s) sub then Some (drop (length sub) (c # s)) else after_first sub s)"

definition cutBlank :: "string \<Rightarrow> string" where
  "cutBlank s =
     (let w = takeWhile (\<lambda>c. c \<noteq> CHR '' '' \<and> c \<noteq> CHR 0x09) s in if w = [] then s else w)"

definition stampTenths :: "string \<Rightarrow> int option" where
  "stampTenths line =
     (case after_first ''time='' line of
        None \<Rightarrow> None
      | Some rest \<Rightarrow>
          (case split_on (CHR '':'') (cutBlank rest) of
             [a, b, c] \<Rightarrow>
               (case (Atoi a, Atoi b, ParseFloat c) of
                  (Some h, Some m, Some s) \<Rightarrow>
                    (let totalSec = rnd64 (rnd64 (of_int (wrap64 (h * 3600 + m * 60))) + s)
                     in Some (int_of_float (rnd64 (totalSec * 10))))
                | _ \<Rightarrow> None)
           | _ \<Rightarrow> None))"

text \<open>The counter has one writer, the goroutine that scans the output, so its compare-and-swap succeeds at once.\<close>

definition parseLiveProgress :: "string \<Rightarrow> int \<Rightarrow> int" where
  "parseLiveProgress line processed =
     (case stampTenths line of
        None \<Rightarrow> processed
      | Some totalTenths \<Rightarrow> if totalTenths \<le> processed then processed else totalTenths)"

definition EncodedSeconds :: "int \<Rightarrow> rat" where
  "EncodedSeconds processed = seconds_of_tenths processed"

subsection \<open>The subprocess\<close>

datatype wait_result = WaitOk | WaitExit int | WaitErr go_error
datatype signal = SIGTERM | SIGKILL

record proc =
  prStderrPipe :: "go_error option"
  prStdoutPipe :: "go_error option"
  prStart :: "go_error option"
  prStderr :: "string list"
  prStdout :: "string list"
  prCtxDone :: bool
  prOutlivesGrace :: bool
  prWait :: wait_result

text \<open>Cancellation: \<open>SIGTERM\<close>, and \<open>SIGKILL\<close> if the process is still there after the grace period.\<close>

definition signals :: "proc \<Rightarrow> signal list" where
  "signals p = (if prCtxDone p then SIGTERM # (if prOutlivesGrace p then [SIGKILL] else []) else [])"

record run_result =
  rrArgv :: "string list"
  rrExitCode :: int
  rrStdout :: string
  rrStderr :: string

definition encodingFailed :: "string \<Rightarrow> int \<Rightarrow> string \<Rightarrow> go_error" where
  "encodingFailed msg code stderr =
     ErrJob \<lparr>eCode = ErrCodeEncodingFailed, eMessage = msg, eExitCode = code, eStderr = stderr\<rparr>"

definition exitCode :: "wait_result \<Rightarrow> int" where
  "exitCode w = (case w of WaitExit n \<Rightarrow> n | _ \<Rightarrow> 0)"

definition bareResult :: "string list \<Rightarrow> run_result" where
  "bareResult args = \<lparr>rrArgv = args, rrExitCode = 0, rrStdout = [], rrStderr = []\<rparr>"

definition System_Run ::
  "string \<Rightarrow> ffjob \<Rightarrow> proc \<Rightarrow> run_result \<times> go_error option \<times> progress list \<times> signal list" where
  "System_Run bin j p =
     (let bin = (if bin = [] then ''ffmpeg'' else bin);
          args = BuildArgs j in
      case (prStderrPipe p, prStdoutPipe p, prStart p) of
        (Some err, _, _) \<Rightarrow> (bareResult args, Some err, [], [])
      | (None, Some err, _) \<Rightarrow> (bareResult args, Some err, [], [])
      | (None, None, Some err) \<Rightarrow> (bareResult args, Some (ErrWrap ''start ffmpeg: '' err), [], [])
      | (None, None, None) \<Rightarrow>
          (let (es, stderrBuf, _) = ParseProgressStream (prStderr p) zero_progress (newRingBuffer (maxLog (fjMaxLogBytes j)));
               stdoutBuf = fold ring_Write (prStdout p) (newRingBuffer (maxLog (fjMaxLogBytes j)));
               res = \<lparr>rrArgv = bin # args, rrExitCode = exitCode (prWait p), rrStdout = ring_String stdoutBuf,
                      rrStderr = ring_String stderrBuf\<rparr>
           in (res,
               if prWait p = WaitOk then None
               else Some (encodingFailed ''ffmpeg subprocess exited non-zero'' (rrExitCode res) (rrStderr res)),
               es, signals p)))"

record live_run =
  lnArgs :: "string list"
  lnProcessed :: int
  lnErr :: "go_error option"
  lnSignals :: "signal list"

definition liveFail :: "go_error \<Rightarrow> live_run" where
  "liveFail e = \<lparr>lnArgs = [], lnProcessed = 0, lnErr = Some e, lnSignals = []\<rparr>"

definition live_Start :: "live_job \<Rightarrow> bool \<Rightarrow> string \<Rightarrow> proc \<Rightarrow> live_run" where
  "live_Start j hasReader mediaFormat p =
     (if \<not> hasReader then liveFail (Err ''ffmpeg.LiveSystemEncoder: nil reader'')
      else if ljLocalDir j = [] then liveFail (Err ''ffmpeg.LiveSystemEncoder: empty LocalDir'')
      else
        (let j = (if ljMediaFormat j = [] then j\<lparr>ljMediaFormat := mediaFormat\<rparr> else j) in
         case (prStderrPipe p, prStart p) of
           (Some err, _) \<Rightarrow> liveFail (ErrWrap ''ffmpeg.LiveSystemEncoder: stderr pipe: '' err)
         | (None, Some err) \<Rightarrow> liveFail (ErrWrap ''ffmpeg.LiveSystemEncoder: start: '' err)
         | (None, None) \<Rightarrow>
             (let stderrBuf = fold (\<lambda>line. ring_Write (line @ newline)) (prStderr p)
                    (newRingBuffer (maxLog (ljMaxLogBytes j)))
              in \<lparr>lnArgs = BuildLiveArgs j, lnProcessed = fold parseLiveProgress (prStderr p) 0,
                  lnErr = (case prWait p of
                             WaitOk \<Rightarrow> None
                           | WaitExit n \<Rightarrow> Some (encodingFailed ''live ffmpeg exited non-zero'' n (ring_String stderrBuf))
                           | WaitErr err \<Rightarrow> Some err),
                  lnSignals = signals p\<rparr>)))"

subsection \<open>Properties\<close>

lemma ring_Write_fold:
  assumes "0 \<le> cap" "rbCap r = cap" "rbBuf r = drop (length w - nat cap) w"
  shows "rbCap (fold ring_Write ps r) = cap \<and>
    rbBuf (fold ring_Write ps r) = drop (length (w @ concat ps) - nat cap) (w @ concat ps)"
  using assms
proof (induction ps arbitrary: r w)
  case (Cons p ps)
  have l: "length (rbBuf r) = min (length w) (nat cap)" using Cons.prems(3) by auto
  have "rbBuf (ring_Write p r) = drop (length (w @ p) - nat cap) (w @ p)"
  proof (cases "int (length (rbBuf r @ p)) > cap")
    case True
    then have "rbBuf (ring_Write p r) = drop (length (rbBuf r @ p) - nat cap) (rbBuf r @ p)"
      using Cons.prems(1,2) by (simp add: ring_Write_def Let_def nat_diff_distrib' nat_add_distrib)
    also have "\<dots> = drop (length (w @ p) - nat cap) (w @ p)"
    proof (cases "length w \<le> nat cap")
      case False
      then have "drop (length p) (rbBuf r @ p) = drop (length p + (length w - nat cap)) (w @ p)"
        using Cons.prems(3) by (simp add: drop_append add.commute)
      then show ?thesis using l False by (simp add: add.commute)
    qed (use Cons.prems(3) in simp)
    finally show ?thesis .
  next
    case False
    then have "length (rbBuf r) + length p \<le> nat cap" by simp
    then have "length w \<le> nat cap \<or> p = []" using l by (cases p) auto
    then show ?thesis using False Cons.prems by (auto simp: ring_Write_def Let_def)
  qed
  moreover have "rbCap (ring_Write p r) = cap" using Cons.prems(2) by (simp add: ring_Write_def Let_def)
  ultimately show ?case using Cons.IH [OF Cons.prems(1), of "ring_Write p r" "w @ p"] by simp
qed simp

text \<open>
  C27. The capture keeps the end of the log: after any sequence of writes the ring buffer holds exactly the last
  \<open>cap\<close> bytes of everything written, or all of it if it is shorter.
\<close>

theorem ring_buffer_tail:
  assumes "0 \<le> cap"
  shows "ring_String (fold ring_Write ps (newRingBuffer cap)) = drop (length (concat ps) - nat cap) (concat ps)"
  using ring_Write_fold [OF assms, of "newRingBuffer cap" "[]" ps] by (simp add: ring_String_def newRingBuffer_def)

theorem ring_buffer_tail_witness:
  "ring_String (fold ring_Write [''frame=1 '', ''frame=2 '', ''failed''] (newRingBuffer 9)) = ''=2 failed''"
  using ring_buffer_tail [of 9 "[''frame=1 '', ''frame=2 '', ''failed'']"] by simp

text \<open>A preset that the GPU supports is encoded by the encoder of that GPU, never by the software fallback.\<close>

lemma hardware_encoder_chosen:
  assumes "SupportedBy p g" "gVendor g \<in> {GPUVendorNVIDIA, GPUVendorIntel, GPUVendorAMD}"
  shows "codecFlag (pCodec p) (gVendor g) =
    pCodec p @ (if gVendor g = GPUVendorNVIDIA then ''_nvenc'' else if gVendor g = GPUVendorIntel then ''_qsv'' else ''_vaapi'')"
  using assms by (auto simp: SupportedBy_def codecFlag_def split: if_splits)

text \<open>The media clock never runs backwards, and only a line with a time stamp moves it.\<close>

lemma parseLiveProgress_ge: "processed \<le> parseLiveProgress line processed"
  by (simp add: parseLiveProgress_def split: option.splits)

lemma clock_ge: "n \<le> fold parseLiveProgress ls n"
proof (induction ls arbitrary: n)
  case (Cons l ls)
  show ?case using order_trans [OF parseLiveProgress_ge Cons.IH] by simp
qed simp

lemma clock_mono: "fold parseLiveProgress ls n \<le> fold parseLiveProgress (ls @ ls') n"
  using clock_ge [of "fold parseLiveProgress ls n" ls'] by simp

lemma clock_bound:
  "list_all (\<lambda>l. case stampTenths l of None \<Rightarrow> True | Some t \<Rightarrow> t < b) ls \<Longrightarrow> n < b \<Longrightarrow> fold parseLiveProgress ls n < b"
  by (induction ls arbitrary: n) (auto simp: parseLiveProgress_def split: option.splits)

end
