(* ===== verification/Live_Cdn.thy ===== *)
theory Live_Cdn
  imports Go_Path Hls
begin

text \<open>
  \<open>internal/service/livecdn\<close>: the mirror that copies the encoder's output directory to a storage
  sink (\<open>livecdn.go\<close>), the two sinks (\<open>sinks.go\<close>) and the live master playlist (\<open>master.go\<close>).

  The interface \<open>Sink\<close> is the record \<open>sink_ops\<close>; the body of an upload is given by what reading it
  to the end yields. One scan sees the local directory through \<open>scan_env\<close>: the files that
  \<open>filepath.Walk\<close> visits with their sizes, what opening and reading a file yields, and the order
  in which Go ranges over a map, which the language leaves open. The locales \<open>sink\<close> and
  \<open>reliable_sink\<close> state what the mirror relies on; both sinks are instances.
\<close>

subsection \<open>The sink interface\<close>

record 's sink_ops =
  skPut :: "'s \<Rightarrow> string \<Rightarrow> string \<Rightarrow> bytes result \<Rightarrow> 's \<times> unit result"
  skDelete :: "'s \<Rightarrow> string \<Rightarrow> 's \<times> unit result"

subsection \<open>The in-memory sink\<close>

record memSink =
  msObjects :: "string \<rightharpoonup> bytes"
  msPuts :: "string list"
  msDeletes :: "string list"

definition NewInMemorySink :: memSink where
  "NewInMemorySink = \<lparr>msObjects = Map.empty, msPuts = [], msDeletes = []\<rparr>"

definition memSink_Put :: "memSink \<Rightarrow> string \<Rightarrow> string \<Rightarrow> bytes result \<Rightarrow> memSink \<times> unit result" where
  "memSink_Put s key ct body =
     (case body of
        Inl err \<Rightarrow> (s, Inl err)
      | Inr b \<Rightarrow> (s\<lparr>msObjects := (msObjects s)(key \<mapsto> b), msPuts := msPuts s @ [key]\<rparr>, Inr ()))"

definition memSink_Delete :: "memSink \<Rightarrow> string \<Rightarrow> memSink \<times> unit result" where
  "memSink_Delete s key =
     (s\<lparr>msObjects := (msObjects s)(key := None), msDeletes := msDeletes s @ [key]\<rparr>, Inr ())"

definition Object :: "memSink \<Rightarrow> string \<Rightarrow> bytes" where
  "Object s key = (case msObjects s key of Some b \<Rightarrow> b | None \<Rightarrow> [])"

definition PutLog :: "memSink \<Rightarrow> string list" where "PutLog s = msPuts s"
definition DeleteLog :: "memSink \<Rightarrow> string list" where "DeleteLog s = msDeletes s"

definition memSink_ops :: "memSink sink_ops" where
  "memSink_ops = \<lparr>skPut = memSink_Put, skDelete = memSink_Delete\<rparr>"

subsection \<open>The file-system sink\<close>

text \<open>
  The files of a file system, and which call on which path fails: \<open>fsFault op path\<close> is the error of
  the system call \<open>op\<close>.
\<close>

datatype fs_op = FsMkdirAll | FsCreate | FsWrite | FsClose | FsRename | FsRemove

record fsys =
  fsFiles :: "string \<rightharpoonup> bytes"
  fsFault :: "fs_op \<Rightarrow> string \<Rightarrow> go_error option"

definition os_Remove :: "fsys \<Rightarrow> string \<Rightarrow> fsys \<times> unit result" where
  "os_Remove fs p =
     (case fsFault fs FsRemove p of
        Some e \<Rightarrow> (fs, Inl e)
      | None \<Rightarrow>
          if fsFiles fs p = None then (fs, Inl ErrNotExist)
          else (fs\<lparr>fsFiles := (fsFiles fs)(p := None)\<rparr>, Inr ()))"

definition os_Rename :: "fsys \<Rightarrow> string \<Rightarrow> string \<Rightarrow> fsys \<times> unit result" where
  "os_Rename fs old new =
     (case fsFault fs FsRename old of
        Some e \<Rightarrow> (fs, Inl e)
      | None \<Rightarrow>
          (case fsFiles fs old of
             None \<Rightarrow> (fs, Inl ErrNotExist)
           | Some b \<Rightarrow> (fs\<lparr>fsFiles := (fsFiles fs)(old := None, new \<mapsto> b)\<rparr>, Inr ())))"

text \<open>\<open>filepath.Dir\<close>.\<close>

definition filepath_Dir :: "string \<Rightarrow> string" where
  "filepath_Dir p = Clean (rev (dropWhile (\<lambda>c. c \<noteq> CHR ''/'') (rev p)))"

definition NewLocalFSSink :: "fsys \<Rightarrow> string \<Rightarrow> string result" where
  "NewLocalFSSink fs rootDir =
     (if rootDir = [] then Inl (Err ''livecdn.LocalFSSink: empty root'')
      else case fsFault fs FsMkdirAll rootDir of Some e \<Rightarrow> Inl e | None \<Rightarrow> Inr rootDir)"

definition sinkPath :: "string \<Rightarrow> string \<Rightarrow> string" where
  "sinkPath rootDir key = filepath_Join [rootDir, key]"

definition LocalFS_Put :: "string \<Rightarrow> fsys \<Rightarrow> string \<Rightarrow> string \<Rightarrow> bytes result \<Rightarrow> fsys \<times> unit result" where
  "LocalFS_Put rootDir fs key ct body =
     (let abs = sinkPath rootDir key; tmp = abs @ ''.tmp'' in
      case fsFault fs FsMkdirAll (filepath_Dir abs) of
        Some e \<Rightarrow> (fs, Inl e)
      | None \<Rightarrow>
      (case fsFault fs FsCreate tmp of
        Some e \<Rightarrow> (fs, Inl e)
      | None \<Rightarrow>
      (let fs = fs\<lparr>fsFiles := (fsFiles fs)(tmp \<mapsto> [])\<rparr> in
       case (body, fsFault fs FsWrite tmp) of
         (Inl e, _) \<Rightarrow> (fst (os_Remove fs tmp), Inl e)
       | (Inr b, Some e) \<Rightarrow> (fst (os_Remove fs tmp), Inl e)
       | (Inr b, None) \<Rightarrow>
         (let fs = fs\<lparr>fsFiles := (fsFiles fs)(tmp \<mapsto> b)\<rparr> in
          case fsFault fs FsClose tmp of
            Some e \<Rightarrow> (fst (os_Remove fs tmp), Inl e)
          | None \<Rightarrow> os_Rename fs tmp abs))))"

definition LocalFS_Delete :: "string \<Rightarrow> fsys \<Rightarrow> string \<Rightarrow> fsys \<times> unit result" where
  "LocalFS_Delete rootDir fs key =
     (case os_Remove fs (sinkPath rootDir key) of
        (fs, Inl e) \<Rightarrow> if \<not> os_IsNotExist e then (fs, Inl e) else (fs, Inr ())
      | (fs, Inr _) \<Rightarrow> (fs, Inr ()))"

definition LocalFS_ops :: "string \<Rightarrow> fsys sink_ops" where
  "LocalFS_ops rootDir = \<lparr>skPut = LocalFS_Put rootDir, skDelete = LocalFS_Delete rootDir\<rparr>"

subsection \<open>The mirror\<close>

record mirror =
  mLocalRoot :: string
  mSinkPrefix :: string
  mKnown :: "(string \<times> int) list"
  mSegments :: "string list"

definition NewMirror :: "string \<Rightarrow> string \<Rightarrow> mirror" where
  "NewMirror localRoot sinkPrefix =
     \<lparr>mLocalRoot = localRoot, mSinkPrefix = TrimRightChar sinkPrefix (CHR ''/''),
      mKnown = [], mSegments = []\<rparr>"

definition isSegment :: "string \<Rightarrow> bool" where
  "isSegment rel \<longleftrightarrow> HasSuffix rel ''.ts'' \<or> HasSuffix rel ''.m4s''"

definition isPlaylist :: "string \<Rightarrow> bool" where
  "isPlaylist rel \<longleftrightarrow> HasSuffix rel ''.m3u8''"

definition contentTypeFor :: "string \<Rightarrow> string" where
  "contentTypeFor rel =
     (if HasSuffix rel ''.m3u8'' then ''application/vnd.apple.mpegurl''
      else if HasSuffix rel ''.ts'' then ''video/mp2t''
      else if HasSuffix rel ''.m4s'' then ''video/iso.segment''
      else ''application/octet-stream'')"

definition keyFor :: "mirror \<Rightarrow> string \<Rightarrow> string" where
  "keyFor m rel = (if mSinkPrefix m = [] then rel else mSinkPrefix m @ ''/'' @ rel)"

definition MasterKey :: "mirror \<Rightarrow> string" where
  "MasterKey m = keyFor m ''master.m3u8''"

record scan_env =
  seWalk :: "(string \<times> int) list"
  seWalkErr :: "go_error option"
  seOpen :: "string \<Rightarrow> bytes result result"
  seRange :: "string list \<Rightarrow> string list"

definition uploadOne ::
  "'s sink_ops \<Rightarrow> scan_env \<Rightarrow> mirror \<Rightarrow> 's \<Rightarrow> string \<Rightarrow> mirror \<times> 's \<times> unit result" where
  "uploadOne K env m s rel =
     (case seOpen env (filepath_Join [mLocalRoot m, rel]) of
        Inl err \<Rightarrow> (m, s, Inl err)
      | Inr body \<Rightarrow>
          (let key = keyFor m rel in
           case skPut K s key (contentTypeFor rel) body of
             (s, Inl err) \<Rightarrow> (m, s, Inl err)
           | (s, Inr _) \<Rightarrow>
               (if isSegment rel then m\<lparr>mSegments := mSegments m @ [key]\<rparr> else m, s, Inr ())))"

text \<open>The two loops of a scan; an error is logged and the loop goes on.\<close>

fun uploadAll ::
  "'s sink_ops \<Rightarrow> scan_env \<Rightarrow> mirror \<Rightarrow> 's \<Rightarrow> string list \<Rightarrow> mirror \<times> 's \<times> go_error list" where
  "uploadAll K env m s [] = (m, s, [])"
| "uploadAll K env m s (rel # rels) =
     (case uploadOne K env m s rel of
        (m, s, r) \<Rightarrow>
          (case uploadAll K env m s rels of
             (m, s, logs) \<Rightarrow>
               (m, s, (case r of Inl err \<Rightarrow> [ErrWrap (''upload '' @ rel @ '': '') err] | Inr _ \<Rightarrow> []) @ logs)))"

fun deleteAll :: "'s sink_ops \<Rightarrow> mirror \<Rightarrow> 's \<Rightarrow> string list \<Rightarrow> 's \<times> go_error list" where
  "deleteAll K m s [] = (s, [])"
| "deleteAll K m s (rel # rels) =
     (case skDelete K s (keyFor m rel) of
        (s, r) \<Rightarrow>
          (case deleteAll K m s rels of
             (s, logs) \<Rightarrow>
               (s, (case r of Inl err \<Rightarrow> [ErrWrap (''delete '' @ keyFor m rel @ '': '') err] | Inr _ \<Rightarrow> []) @ logs)))"

definition needsUpload :: "(string \<times> int) list \<Rightarrow> (string \<times> int) list \<Rightarrow> string \<Rightarrow> bool" where
  "needsUpload prev current rel \<longleftrightarrow>
     \<not> (map_of prev rel \<noteq> None \<and> map_of prev rel = map_of current rel \<and> \<not> isPlaylist rel)"

definition fatalWalk :: "scan_env \<Rightarrow> go_error option" where
  "fatalWalk env =
     (case seWalkErr env of
        Some err \<Rightarrow> if \<not> os_IsNotExist err then Some (ErrWrap ''walk: '' err) else None
      | None \<Rightarrow> None)"

definition scanOnce ::
  "'s sink_ops \<Rightarrow> scan_env \<Rightarrow> mirror \<Rightarrow> 's \<Rightarrow> mirror \<times> 's \<times> go_error list \<times> unit result" where
  "scanOnce K env m s =
     (case fatalWalk env of
        Some err \<Rightarrow> (m, s, [], Inl err)
      | None \<Rightarrow>
          (let current = seWalk env; prev = mKnown m in
           case uploadAll K env m s (filter (needsUpload prev current) (seRange env (map fst current))) of
             (m, s, logs) \<Rightarrow>
               (case deleteAll K m s (filter (\<lambda>rel. map_of current rel = None) (seRange env (map fst prev))) of
                  (s, logs') \<Rightarrow> (m\<lparr>mKnown := current\<rparr>, s, logs @ logs', Inr ()))))"

text \<open>\<open>Run\<close>: a scan per tick, and a final one once the context is done; a scan that fails is logged.\<close>

fun scans :: "'s sink_ops \<Rightarrow> scan_env list \<Rightarrow> mirror \<Rightarrow> 's \<Rightarrow> mirror \<times> 's \<times> go_error list" where
  "scans K [] m s = (m, s, [])"
| "scans K (env # envs) m s =
     (case scanOnce K env m s of
        (m, s, logs, r) \<Rightarrow>
          (case scans K envs m s of
             (m, s, logs') \<Rightarrow> (m, s, logs @ (case r of Inl err \<Rightarrow> [err] | Inr _ \<Rightarrow> []) @ logs')))"

definition mirror_Run ::
  "'s sink_ops option \<Rightarrow> scan_env list \<Rightarrow> scan_env \<Rightarrow> mirror \<Rightarrow> 's \<Rightarrow> mirror \<times> 's \<times> go_error list \<times> unit result" where
  "mirror_Run K ticks final m s =
     (if mLocalRoot m = [] then (m, s, [], Inl (Err ''livecdn.Mirror: empty LocalRoot''))
      else case K of
        None \<Rightarrow> (m, s, [], Inl (Err ''livecdn.Mirror: nil Sink''))
      | Some K \<Rightarrow>
          (case scans K ticks m s of
             (m, s, logs) \<Rightarrow>
               (case scanOnce K final m s of (m, s, logs', _) \<Rightarrow> (m, s, logs @ logs', Inr ()))))"

fun segmentLoop :: "string list \<Rightarrow> string list \<Rightarrow> string list" where
  "segmentLoop seen [] = []"
| "segmentLoop seen (k # ks) =
     (if k \<in> set seen then segmentLoop seen ks else k # segmentLoop (k # seen) ks)"

definition Segments :: "mirror \<Rightarrow> string list" where
  "Segments m = segmentLoop [] (mSegments m)"

subsection \<open>The live master playlist\<close>

definition liveRendition :: "preset \<Rightarrow> rendition" where
  "liveRendition p =
     \<lparr>rnName = pName p, rnBitrateBps = wrap64 (pBitrateKbps p * 1000), rnResolutionW = pWidthMax p,
      rnResolutionH = pHeightMax p, rnCodec = pCodec p,
      rnURI = filepath_Join [pCodec p, pName p, ''playlist.m3u8'']\<rparr>"

definition MasterBytes :: "preset list \<Rightarrow> bytes result" where
  "MasterBytes ladder = rbind (BuildMaster (map liveRendition ladder)) (\<lambda>s. Inr (bytes_of s))"

definition WriteMaster :: "'s sink_ops \<Rightarrow> mirror option \<Rightarrow> preset list \<Rightarrow> 's \<Rightarrow> 's \<times> unit result" where
  "WriteMaster K m ladder s =
     (case m of
        None \<Rightarrow> (s, Inr ())
      | Some m \<Rightarrow>
          (case BuildMaster (map liveRendition ladder) of
             Inl err \<Rightarrow> (s, Inl err)
           | Inr body \<Rightarrow> skPut K s (MasterKey m) ''application/vnd.apple.mpegurl'' (Inr (bytes_of body))))"

subsection \<open>What the mirror relies on\<close>

locale sink =
  fixes K :: "'s sink_ops"
    and object :: "'s \<Rightarrow> string \<Rightarrow> bytes option"
    and good :: "string \<Rightarrow> bool"
    and inv :: "'s \<Rightarrow> bool"
  assumes put_ok: "inv s \<Longrightarrow> good k \<Longrightarrow> skPut K s k ct body = (s', Inr ()) \<Longrightarrow>
      inv s' \<and> (\<exists>b. body = Inr b \<and>
        (\<forall>k'. good k' \<longrightarrow> object s' k' = (if k' = k then Some b else object s k')))"
    and put_err: "inv s \<Longrightarrow> good k \<Longrightarrow> skPut K s k ct body = (s', Inl e) \<Longrightarrow>
      inv s' \<and> (\<forall>k'. good k' \<longrightarrow> object s' k' = object s k')"
    and delete_ok: "inv s \<Longrightarrow> good k \<Longrightarrow> skDelete K s k = (s', Inr ()) \<Longrightarrow>
      inv s' \<and> (\<forall>k'. good k' \<longrightarrow> object s' k' = (if k' = k then None else object s k'))"
    and delete_err: "inv s \<Longrightarrow> good k \<Longrightarrow> skDelete K s k = (s', Inl e) \<Longrightarrow>
      inv s' \<and> (\<forall>k'. good k' \<longrightarrow> object s' k' = object s k')"

locale reliable_sink = sink +
  assumes put_total: "inv s \<Longrightarrow> good k \<Longrightarrow> snd (skPut K s k ct (Inr b)) = Inr ()"
    and delete_total: "inv s \<Longrightarrow> good k \<Longrightarrow> snd (skDelete K s k) = Inr ()"

text \<open>
  The directory as a map from relative paths to contents, and what it means that a scan sees it.
  \<open>grows\<close>: between two scans a file other than a playlist does not change at the same size.
\<close>

definition sees :: "string \<Rightarrow> scan_env \<Rightarrow> (string \<rightharpoonup> bytes) \<Rightarrow> bool" where
  "sees rootDir env dir \<longleftrightarrow>
     seWalkErr env = None \<and>
     map_of (seWalk env) = (\<lambda>rel. map_option (\<lambda>b. int (length b)) (dir rel)) \<and>
     (\<forall>rel b. dir rel = Some b \<longrightarrow> seOpen env (filepath_Join [rootDir, rel]) = Inr (Inr b)) \<and>
     (\<forall>xs. set (seRange env xs) = set xs)"

definition grows :: "(string \<rightharpoonup> bytes) \<Rightarrow> (string \<rightharpoonup> bytes) \<Rightarrow> bool" where
  "grows dir dir' \<longleftrightarrow>
     (\<forall>rel b b'. dir rel = Some b \<longrightarrow> dir' rel = Some b' \<longrightarrow> length b = length b' \<longrightarrow>
       \<not> isPlaylist rel \<longrightarrow> b = b')"

text \<open>The sink holds \<open>dir\<close> below the mirror's prefix, over the paths \<open>E\<close>, and \<open>base\<close> elsewhere.\<close>

definition holds :: "(string \<Rightarrow> bytes option) \<Rightarrow> mirror \<Rightarrow> string set \<Rightarrow> (string \<rightharpoonup> bytes) \<Rightarrow>
    (string \<Rightarrow> bytes option) \<Rightarrow> (string \<Rightarrow> bool) \<Rightarrow> bool" where
  "holds obj m E dir base good \<longleftrightarrow>
     dom dir \<subseteq> E \<and> (\<forall>rel \<in> E. obj (keyFor m rel) = dir rel) \<and>
     (\<forall>k. good k \<longrightarrow> k \<notin> keyFor m ` E \<longrightarrow> obj k = base k)"

lemma grows_empty [simp]: "grows Map.empty dir"
  by (simp add: grows_def)

lemma keyFor_inj [simp]: "keyFor m rel = keyFor m rel' \<longleftrightarrow> rel = rel'"
  by (simp add: keyFor_def)

lemma keyFor_updates [simp]:
  "keyFor (m\<lparr>mSegments := x\<rparr>) = keyFor m" "keyFor (m\<lparr>mKnown := y\<rparr>) = keyFor m"
  by (auto simp: keyFor_def)

lemma set_of_sizes: "map_of xs = (\<lambda>rel. map_option f (dir rel)) \<Longrightarrow> set (map fst xs) = dom dir"
proof -
  assume "map_of xs = (\<lambda>rel. map_option f (dir rel))"
  then have "dom (map_of xs) = dom dir" by (auto simp: dom_def)
  then show ?thesis by (simp add: dom_map_of_conv_image_fst)
qed

context reliable_sink
begin

lemma put_eval:
  assumes "inv s" "good k"
  shows "\<exists>s'. skPut K s k ct (Inr b) = (s', Inr ()) \<and> inv s' \<and>
    (\<forall>k'. good k' \<longrightarrow> object s' k' = (if k' = k then Some b else object s k'))"
  using put_total [OF assms, of ct b] put_ok [OF assms, of ct "Inr b"]
  by (cases "skPut K s k ct (Inr b)") auto

lemma delete_eval:
  assumes "inv s" "good k"
  shows "\<exists>s'. skDelete K s k = (s', Inr ()) \<and> inv s' \<and>
    (\<forall>k'. good k' \<longrightarrow> object s' k' = (if k' = k then None else object s k'))"
  using delete_total [OF assms] delete_ok [OF assms] by (cases "skDelete K s k") auto

lemma uploadAll_eval:
  assumes "inv s"
    "\<forall>rel \<in> set rels. good (keyFor m rel) \<and> seOpen env (filepath_Join [mLocalRoot m, rel]) = Inr (Inr (c rel))"
  shows "\<exists>s'. uploadAll K env m s rels =
      (m\<lparr>mSegments := mSegments m @ map (keyFor m) (filter isSegment rels)\<rparr>, s', []) \<and> inv s' \<and>
    (\<forall>rel. good (keyFor m rel) \<longrightarrow>
      object s' (keyFor m rel) = (if rel \<in> set rels then Some (c rel) else object s (keyFor m rel))) \<and>
    (\<forall>k. good k \<longrightarrow> k \<notin> keyFor m ` set rels \<longrightarrow> object s' k = object s k)"
  using assms
proof (induction rels arbitrary: s m)
  case Nil
  then show ?case by simp
next
  case (Cons rel rels)
  obtain s1 where s1: "skPut K s (keyFor m rel) (contentTypeFor rel) (Inr (c rel)) = (s1, Inr ())" "inv s1"
    "\<forall>k'. good k' \<longrightarrow> object s1 k' = (if k' = keyFor m rel then Some (c rel) else object s k')"
    using put_eval [of s "keyFor m rel"] Cons.prems by fastforce
  let ?m1 = "if isSegment rel then m\<lparr>mSegments := mSegments m @ [keyFor m rel]\<rparr> else m"
  have one: "uploadOne K env m s rel = (?m1, s1, Inr ())"
    using Cons.prems s1(1) by (simp add: uploadOne_def Let_def)
  have "\<forall>rel \<in> set rels. good (keyFor ?m1 rel) \<and>
      seOpen env (filepath_Join [mLocalRoot ?m1, rel]) = Inr (Inr (c rel))" using Cons.prems by auto
  note ih = Cons.IH [OF s1(2) this]
  have kf: "keyFor ?m1 = keyFor m" by simp
  from ih [unfolded kf] obtain s2 where s2: "uploadAll K env ?m1 s1 rels =
      (?m1\<lparr>mSegments := mSegments ?m1 @ map (keyFor m) (filter isSegment rels)\<rparr>, s2, [])" "inv s2"
    "\<forall>rel. good (keyFor m rel) \<longrightarrow>
      object s2 (keyFor m rel) = (if rel \<in> set rels then Some (c rel) else object s1 (keyFor m rel))"
    "\<forall>k. good k \<longrightarrow> k \<notin> keyFor m ` set rels \<longrightarrow> object s2 k = object s1 k" by blast
  show ?case using one s1 s2 by auto
qed

lemma deleteAll_eval:
  assumes "inv s" "\<forall>rel \<in> set rels. good (keyFor m rel)"
  shows "\<exists>s'. deleteAll K m s rels = (s', []) \<and> inv s' \<and>
    (\<forall>rel. good (keyFor m rel) \<longrightarrow>
      object s' (keyFor m rel) = (if rel \<in> set rels then None else object s (keyFor m rel))) \<and>
    (\<forall>k. good k \<longrightarrow> k \<notin> keyFor m ` set rels \<longrightarrow> object s' k = object s k)"
  using assms
proof (induction rels arbitrary: s)
  case Nil
  then show ?case by simp
next
  case (Cons rel rels)
  obtain s1 where s1: "skDelete K s (keyFor m rel) = (s1, Inr ())" "inv s1"
    "\<forall>k'. good k' \<longrightarrow> object s1 k' = (if k' = keyFor m rel then None else object s k')"
    using delete_eval [of s "keyFor m rel"] Cons.prems by fastforce
  from Cons.IH [OF s1(2)] Cons.prems obtain s2 where s2: "deleteAll K m s1 rels = (s2, [])" "inv s2"
    "\<forall>rel. good (keyFor m rel) \<longrightarrow>
      object s2 (keyFor m rel) = (if rel \<in> set rels then None else object s1 (keyFor m rel))"
    "\<forall>k. good k \<longrightarrow> k \<notin> keyFor m ` set rels \<longrightarrow> object s2 k = object s1 k" by auto
  show ?case using s1 s2 by auto
qed

text \<open>One scan brings the sink from one directory to the next.\<close>

lemma scanOnce_eval:
  assumes "inv s" "holds (object s) m E dir base good"
    "map_of (mKnown m) = (\<lambda>rel. map_option (\<lambda>b. int (length b)) (dir rel))"
    "sees (mLocalRoot m) env dir'" "grows dir dir'" "dom dir' \<subseteq> E" "\<forall>rel \<in> E. good (keyFor m rel)"
  shows "\<exists>m' s'. scanOnce K env m s = (m', s', [], Inr ()) \<and> inv s' \<and>
    mLocalRoot m' = mLocalRoot m \<and> mSinkPrefix m' = mSinkPrefix m \<and>
    map_of (mKnown m') = (\<lambda>rel. map_option (\<lambda>b. int (length b)) (dir' rel)) \<and>
    holds (object s') m E dir' base good"
proof -
  let ?size = "\<lambda>dir rel. map_option (\<lambda>b. int (length b)) (dir rel)"
  have dom: "set (map fst (seWalk env)) = dom dir'" "set (map fst (mKnown m)) = dom dir"
    using set_of_sizes [of "seWalk env"] set_of_sizes [OF assms(3)] assms(4) unfolding sees_def by blast+
  let ?ups = "filter (needsUpload (mKnown m) (seWalk env)) (seRange env (map fst (seWalk env)))"
  let ?dels = "filter (\<lambda>rel. map_of (seWalk env) rel = None) (seRange env (map fst (mKnown m)))"
  have ups: "rel \<in> set ?ups \<longleftrightarrow> rel \<in> dom dir' \<and> (?size dir rel \<noteq> ?size dir' rel \<or> isPlaylist rel)" for rel
    using assms(3,4) dom unfolding sees_def by (auto simp: needsUpload_def)
  have dels: "rel \<in> set ?dels \<longleftrightarrow> rel \<in> dom dir \<and> dir' rel = None" for rel
    using assms(4) dom unfolding sees_def by auto
  have "\<forall>rel \<in> set ?ups. good (keyFor m rel) \<and>
      seOpen env (filepath_Join [mLocalRoot m, rel]) = Inr (Inr (the (dir' rel)))"
    using assms(4,6,7) ups unfolding sees_def by auto
  from uploadAll_eval [OF assms(1) this] obtain s1 where s1: "uploadAll K env m s ?ups =
      (m\<lparr>mSegments := mSegments m @ map (keyFor m) (filter isSegment ?ups)\<rparr>, s1, [])" "inv s1"
    "\<And>rel. good (keyFor m rel) \<Longrightarrow>
      object s1 (keyFor m rel) = (if rel \<in> set ?ups then Some (the (dir' rel)) else object s (keyFor m rel))"
    "\<And>k. good k \<Longrightarrow> k \<notin> keyFor m ` set ?ups \<Longrightarrow> object s1 k = object s k" by blast
  let ?m1 = "m\<lparr>mSegments := mSegments m @ map (keyFor m) (filter isSegment ?ups)\<rparr>"
  have "\<forall>rel \<in> set ?dels. good (keyFor ?m1 rel)"
    using assms(2,7) dels by (auto simp: holds_def)
  from deleteAll_eval [OF s1(2) this] obtain s2 where s2: "deleteAll K ?m1 s1 ?dels = (s2, [])" "inv s2"
    "\<And>rel. good (keyFor m rel) \<Longrightarrow>
      object s2 (keyFor m rel) = (if rel \<in> set ?dels then None else object s1 (keyFor m rel))"
    "\<And>k. good k \<Longrightarrow> k \<notin> keyFor m ` set ?dels \<Longrightarrow> object s2 k = object s1 k" by auto
  have eval: "scanOnce K env m s = (?m1\<lparr>mKnown := seWalk env\<rparr>, s2, [], Inr ())"
    using assms(4) s1(1) s2(1) by (simp add: scanOnce_def fatalWalk_def sees_def Let_def)
  have "object s2 (keyFor m rel) = dir' rel" if "rel \<in> E" for rel
  proof -
    have g: "good (keyFor m rel)" and old: "object s (keyFor m rel) = dir rel"
      using that assms(2,7) by (auto simp: holds_def)
    show ?thesis
    proof (cases "rel \<in> set ?ups")
      case True
      then show ?thesis using s2(3) [OF g] s1(3) [OF g] ups [of rel] dels [of rel] by auto
    next
      case False
      then show ?thesis
        using s2(3) [OF g] s1(3) [OF g] ups [of rel] dels [of rel] old assms(5)
        unfolding grows_def by (cases "dir rel"; cases "dir' rel") auto
    qed
  qed
  moreover have "object s2 k = base k" if "good k" "k \<notin> keyFor m ` E" for k
  proof -
    have "set ?ups \<subseteq> E" "set ?dels \<subseteq> E" using ups dels assms(2,6) unfolding holds_def by blast+
    with that(2) have "k \<notin> keyFor m ` set ?ups" "k \<notin> keyFor m ` set ?dels" by blast+
    then have "object s2 k = object s k" using s2(4) [OF that(1)] s1(4) [OF that(1)] by simp
    then show ?thesis using that assms(2) by (simp add: holds_def)
  qed
  ultimately show ?thesis
    using eval s2(2) assms(4,6) by (auto simp: holds_def sees_def)
qed

lemma scans_eval:
  assumes "list_all2 (sees rootDir) envs dirs" "successively grows (dir # dirs)"
    "\<forall>d \<in> set dirs. dom d \<subseteq> E"
    "inv s" "holds (object s) m E dir base good" "mLocalRoot m = rootDir"
    "map_of (mKnown m) = (\<lambda>rel. map_option (\<lambda>b. int (length b)) (dir rel))"
    "\<forall>rel \<in> E. good (keyFor m rel)"
  shows "\<exists>m' s'. scans K envs m s = (m', s', []) \<and> inv s' \<and> mLocalRoot m' = mLocalRoot m \<and>
    mSinkPrefix m' = mSinkPrefix m \<and>
    map_of (mKnown m') = (\<lambda>rel. map_option (\<lambda>b. int (length b)) (last (dir # dirs) rel)) \<and>
    holds (object s') m E (last (dir # dirs)) base good"
  using assms
proof (induction envs dirs arbitrary: m s dir rule: list_all2_induct)
  case Nil
  then show ?case by simp
next
  case (Cons env envs d dirs)
  obtain m1 s1 where 1: "scanOnce K env m s = (m1, s1, [], Inr ())" "inv s1"
    "mLocalRoot m1 = mLocalRoot m" "mSinkPrefix m1 = mSinkPrefix m"
    "map_of (mKnown m1) = (\<lambda>rel. map_option (\<lambda>b. int (length b)) (d rel))"
    "holds (object s1) m E d base good"
    using scanOnce_eval [of s m E dir base env d] Cons.prems Cons.hyps(1)
    by (auto simp: successively_Cons)
  have kf: "keyFor m1 = keyFor m" using 1(4) by (auto simp: keyFor_def)
  have ho: "holds ob m1 = holds ob m" for ob by (intro ext) (simp add: holds_def kf)
  obtain m2 s2 where 2: "scans K envs m1 s1 = (m2, s2, [])" "inv s2" "mLocalRoot m2 = mLocalRoot m1"
    "mSinkPrefix m2 = mSinkPrefix m1"
    "map_of (mKnown m2) = (\<lambda>rel. map_option (\<lambda>b. int (length b)) (last (d # dirs) rel))"
    "holds (object s2) m E (last (d # dirs)) base good"
    using Cons.IH [of d s1 m1] Cons.prems 1 by (auto simp: successively_Cons ho kf)
  show ?case using 1 2 by simp
qed

text \<open>A whole run, the final scan included, leaves in the sink exactly the last directory.\<close>

lemma mirror_Run_eval:
  assumes "list_all2 (sees rootDir) (ticks @ [final]) dirs" "successively grows (Map.empty # dirs)"
    "\<forall>d \<in> set dirs. dom d \<subseteq> E" "\<forall>rel \<in> E. object s (keyFor (NewMirror rootDir pfx) rel) = None"
    "inv s" "rootDir \<noteq> []" "\<forall>rel \<in> E. good (keyFor (NewMirror rootDir pfx) rel)"
  shows "\<exists>m' s'. mirror_Run (Some K) ticks final (NewMirror rootDir pfx) s = (m', s', [], Inr ()) \<and>
    inv s' \<and> holds (object s') (NewMirror rootDir pfx) E (last dirs) (object s) good"
proof -
  let ?m = "NewMirror rootDir pfx"
  have m: "mLocalRoot ?m = rootDir" "mKnown ?m = []" by (simp_all add: NewMirror_def)
  obtain ds d where dirs: "dirs = ds @ [d]" and tk: "list_all2 (sees rootDir) ticks ds" and fin: "sees rootDir final d"
    using assms(1) by (auto simp: list_all2_append1 list_all2_Cons1)
  have gr: "successively grows (Map.empty # ds)" "grows (last (Map.empty # ds)) d"
    using assms(2) unfolding dirs by (auto simp: successively_append_iff successively_Cons split: list.splits)
  have "holds (object s) ?m E Map.empty (object s) good" using assms(4) by (simp add: holds_def)
  then obtain m1 s1 where 1: "scans K ticks ?m s = (m1, s1, [])" "inv s1" "mLocalRoot m1 = rootDir"
    "mSinkPrefix m1 = mSinkPrefix ?m"
    "map_of (mKnown m1) = (\<lambda>rel. map_option (\<lambda>b. int (length b)) (last (Map.empty # ds) rel))"
    "holds (object s1) ?m E (last (Map.empty # ds)) (object s) good"
    using scans_eval [OF tk gr(1), of E s ?m "object s"] assms(3,5,7) m unfolding dirs by auto
  have kf: "keyFor m1 = keyFor ?m" using 1(4) by (auto simp: keyFor_def)
  have ho: "holds ob m1 = holds ob ?m" for ob by (intro ext) (simp add: holds_def kf)
  obtain m2 s2 where "scanOnce K final m1 s1 = (m2, s2, [], Inr ())" "inv s2"
    "holds (object s2) ?m E d (object s) good"
    using scanOnce_eval [of s1 m1 E "last (Map.empty # ds)" "object s" final d] 1 fin gr(2) assms(3,7)
    unfolding ho kf dirs by auto
  then show ?thesis using 1(1) assms(6) m by (simp add: mirror_Run_def dirs)
qed

end

interpretation mem_sink: reliable_sink memSink_ops msObjects "\<lambda>_. True" "\<lambda>_. True"
  by unfold_locales
    (auto simp: memSink_ops_def memSink_Put_def memSink_Delete_def split: sum.splits)

subsection \<open>The file-system sink as a sink\<close>

text \<open>
  Keys that name a file below the root: no empty, \<open>.\<close> or \<open>..\<close> element, and not a name that a
  concurrent upload could use for its temporary file.
\<close>

definition plainKey :: "string \<Rightarrow> bool" where
  "plainKey k \<longleftrightarrow> list_all (\<lambda>e. e \<noteq> [] \<and> e \<noteq> ''.'' \<and> e \<noteq> ''..'') (split_on (CHR ''/'') k)"

definition fsKey :: "string \<Rightarrow> string \<Rightarrow> bool" where
  "fsKey rootDir k \<longleftrightarrow> HasPrefix rootDir ''/'' \<and> plainKey k \<and> \<not> HasSuffix k ''.tmp''"

definition fsObject :: "string \<Rightarrow> fsys \<Rightarrow> string \<Rightarrow> bytes option" where
  "fsObject rootDir fs k = fsFiles fs (sinkPath rootDir k)"

text \<open>A faulty call fails with something else than \<open>not exist\<close>, which is the file system's own answer.\<close>

definition realFaults :: "fsys \<Rightarrow> bool" where
  "realFaults fs \<longleftrightarrow> (\<forall>f p. fsFault fs f p \<noteq> Some ErrNotExist)"

definition noFaults :: "fsys \<Rightarrow> bool" where
  "noFaults fs \<longleftrightarrow> fsFault fs = (\<lambda>_ _. None)"

lemma sinkPath_eq:
  assumes "HasPrefix rootDir ''/''" "plainKey k"
  shows "\<exists>b. \<forall>k. plainKey k \<longrightarrow> sinkPath rootDir k = b @ k"
proof -
  have d: "rootDir \<noteq> []" using assms(1) by (auto simp: HasPrefix_def)
  let ?st = "fold (push_elem True) (split_on CHR ''/'' rootDir) []"
  have "sinkPath rootDir k = (if ?st = [] then ''/'' else ''/'' @ join_with ''/'' (rev ?st) @ ''/'') @ k"
    if "plainKey k" for k
  proof -
    have k: "k \<noteq> []" using that by (auto simp: plainKey_def)
    have r: "HasPrefix (rootDir @ CHR ''/'' # k) ''/''"
      using assms(1) d by (cases rootDir) (auto simp: HasPrefix_def)
    have f: "fold (push_elem True) (split_on CHR ''/'' (rootDir @ CHR ''/'' # k)) [] =
        rev (split_on CHR ''/'' k) @ ?st"
      using that by (simp add: split_on_append fold_push_plain plainKey_def list_all_iff)
    show ?thesis using r k d f
      by (simp add: sinkPath_def filepath_Join_def Clean_def join_with_append join_split)
  qed
  then show ?thesis by blast
qed

lemma sinkPath_inj:
  "fsKey rootDir k \<Longrightarrow> fsKey rootDir k' \<Longrightarrow> sinkPath rootDir k = sinkPath rootDir k' \<longleftrightarrow> k = k'"
  using sinkPath_eq [of rootDir k] by (auto simp: fsKey_def)

lemma sinkPath_not_tmp:
  assumes "fsKey rootDir k" "fsKey rootDir k'"
  shows "sinkPath rootDir k' \<noteq> sinkPath rootDir k @ ''.tmp''"
proof -
  obtain b where "sinkPath rootDir k = b @ k" "sinkPath rootDir k' = b @ k'"
    using sinkPath_eq [of rootDir k] assms by (auto simp: fsKey_def)
  then show ?thesis using assms HasSuffix_append [of k "''.tmp''"] by (auto simp: fsKey_def)
qed

lemmas fs_defs = LocalFS_ops_def LocalFS_Put_def LocalFS_Delete_def os_Remove_def os_Rename_def
  fsObject_def os_IsNotExist_def Let_def

interpretation fs_sink: sink "LocalFS_ops out" "fsObject out" "fsKey out" realFaults
  for out
  by unfold_locales
    (auto simp: fs_defs realFaults_def sinkPath_inj sinkPath_not_tmp split: option.splits sum.splits if_splits)

interpretation fs_reliable: reliable_sink "LocalFS_ops out" "fsObject out" "fsKey out" noFaults
  for out
  by unfold_locales
    (auto simp: fs_defs noFaults_def sinkPath_inj sinkPath_not_tmp split: option.splits sum.splits if_splits)

subsection \<open>Segments for the recording bridge\<close>

lemma segmentLoop_set: "set (segmentLoop seen ks) = set ks - set seen"
  by (induction seen ks rule: segmentLoop.induct) auto

lemma segmentLoop_distinct: "distinct (segmentLoop seen ks)"
  by (induction seen ks rule: segmentLoop.induct) (auto simp: segmentLoop_set)

text \<open>What the list of segments is, whatever fails: the segment keys that reached the sink.\<close>

definition recorded :: "mirror \<Rightarrow> memSink \<Rightarrow> bool" where
  "recorded m s \<longleftrightarrow> set (mSegments m) = {keyFor m rel | rel. isSegment rel \<and> keyFor m rel \<in> set (msPuts s)}"

lemma recorded_known [simp]: "recorded (m\<lparr>mKnown := x\<rparr>) s = recorded m s"
  by (simp add: recorded_def)

lemma recorded_uploadOne:
  "recorded m s \<Longrightarrow> uploadOne memSink_ops env m s rel = (m', s', r) \<Longrightarrow>
   recorded m' s' \<and> mSinkPrefix m' = mSinkPrefix m"
  by (auto simp: recorded_def uploadOne_def memSink_ops_def memSink_Put_def Let_def
      split: sum.splits prod.splits if_splits)

lemma recorded_uploadAll:
  "recorded m s \<Longrightarrow> uploadAll memSink_ops env m s rels = (m', s', l) \<Longrightarrow>
   recorded m' s' \<and> mSinkPrefix m' = mSinkPrefix m"
proof (induction rels arbitrary: m s l)
  case (Cons rel rels)
  obtain m1 s1 r where 1: "uploadOne memSink_ops env m s rel = (m1, s1, r)" by (cases "uploadOne memSink_ops env m s rel")
  obtain l' where 2: "uploadAll memSink_ops env m1 s1 rels = (m', s', l')"
    using Cons.prems(2) 1 by (auto split: prod.splits)
  show ?case using recorded_uploadOne [OF Cons.prems(1) 1] Cons.IH [OF _ 2] by simp
qed simp

lemma deleteAll_puts: "deleteAll memSink_ops m s rels = (s', l) \<Longrightarrow> msPuts s' = msPuts s"
proof (induction rels arbitrary: s l)
  case (Cons rel rels)
  then show ?case by (fastforce simp: memSink_ops_def memSink_Delete_def split: prod.splits)
qed simp

lemma recorded_scanOnce:
  assumes "recorded m s" "scanOnce memSink_ops env m s = (m', s', l, r)"
  shows "recorded m' s' \<and> mSinkPrefix m' = mSinkPrefix m"
proof (cases "fatalWalk env")
  case None
  then obtain m1 s1 l1 l2 rels where 1: "uploadAll memSink_ops env m s
      (filter (needsUpload (mKnown m) (seWalk env)) (seRange env (map fst (seWalk env)))) = (m1, s1, l1)"
    and 2: "deleteAll memSink_ops m1 s1 rels = (s', l2)" and m': "m' = m1\<lparr>mKnown := seWalk env\<rparr>"
    using assms(2) by (auto simp: scanOnce_def Let_def split: prod.splits)
  have "recorded m1 s1" "mSinkPrefix m1 = mSinkPrefix m" using recorded_uploadAll [OF assms(1) 1] by auto
  then show ?thesis using deleteAll_puts [OF 2] m' by (simp add: recorded_def)
qed (use assms in \<open>auto simp: scanOnce_def\<close>)

lemma recorded_scans:
  "recorded m s \<Longrightarrow> scans memSink_ops envs m s = (m', s', l) \<Longrightarrow>
   recorded m' s' \<and> mSinkPrefix m' = mSinkPrefix m"
proof (induction envs arbitrary: m s l)
  case (Cons env envs)
  obtain m1 s1 l1 r where 1: "scanOnce memSink_ops env m s = (m1, s1, l1, r)"
    by (cases "scanOnce memSink_ops env m s")
  obtain l' where 2: "scans memSink_ops envs m1 s1 = (m', s', l')"
    using Cons.prems(2) 1 by (auto split: prod.splits)
  show ?case using recorded_scanOnce [OF Cons.prems(1) 1] Cons.IH [OF _ 2] by simp
qed simp

subsection \<open>Properties\<close>


definition demo_scan :: "(string \<times> bytes) list \<Rightarrow> scan_env" where
  "demo_scan files =
     \<lparr>seWalk = map (\<lambda>(rel, b). (rel, int (length b))) files, seWalkErr = None,
      seOpen = (\<lambda>p. case map_of files (drop 6 p) of Some b \<Rightarrow> Inr (Inr b) | None \<Rightarrow> Inl ErrNotExist),
      seRange = rev\<rparr>"

definition seg1 :: string where "seg1 = ''h264/720p/segment_00001.ts''"
definition seg2 :: string where "seg2 = ''h264/720p/segment_00002.ts''"
definition demo_fs :: fsys where "demo_fs = \<lparr>fsFiles = Map.empty, fsFault = (\<lambda>_ _. None)\<rparr>"

lemma demo_join:
  "filepath_Join [''/live'', seg1] = ''/live/'' @ seg1" "filepath_Join [''/live'', seg2] = ''/live/'' @ seg2"
  by code_simp+

lemma demo_sees:
  assumes "set (map fst files) \<subseteq> {seg1, seg2}"
  shows "sees ''/live'' (demo_scan files) (map_of files)"
proof -
  have "map_of (map (\<lambda>(rel, b). (rel, int (length b))) files) =
      (\<lambda>rel. map_option (\<lambda>b. int (length b)) (map_of files rel))"
    by (intro ext) (simp add: map_of_map)
  moreover have "drop 6 (filepath_Join [''/live'', rel]) = rel" if "map_of files rel = Some b" for rel b
  proof -
    have "rel = seg1 \<or> rel = seg2" using assms map_of_SomeD [OF that] by force
    then show ?thesis by (auto simp: demo_join)
  qed
  ultimately show ?thesis
    by (auto simp: sees_def demo_scan_def)
qed




text \<open>
  The recording bridge gets the right segments: whatever fails during a run, \<open>Segments\<close> lists
  without duplicates exactly the segment keys that were stored in the sink.
\<close>

theorem recorded_segments_exact:
  assumes "mirror_Run (Some memSink_ops) ticks final (NewMirror rootDir pfx) NewInMemorySink = (m', s', l, r)"
  shows "distinct (Segments m') \<and>
    set (Segments m') = {keyFor m' rel | rel. isSegment rel \<and> keyFor m' rel \<in> set (PutLog s')}"
proof -
  have 0: "recorded (NewMirror rootDir pfx) NewInMemorySink"
    by (simp add: recorded_def NewMirror_def NewInMemorySink_def)
  have "recorded m' s'"
  proof (cases "rootDir = []")
    case True
    then show ?thesis using assms 0 by (simp add: mirror_Run_def NewMirror_def)
  next
    case False
    obtain m1 s1 l1 where 1: "scans memSink_ops ticks (NewMirror rootDir pfx) NewInMemorySink = (m1, s1, l1)"
      by (cases "scans memSink_ops ticks (NewMirror rootDir pfx) NewInMemorySink")
    obtain l2 r2 where 2: "scanOnce memSink_ops final m1 s1 = (m', s', l2, r2)"
      using assms 1 False by (auto simp: mirror_Run_def NewMirror_def split: prod.splits)
    show ?thesis using recorded_scanOnce [OF _ 2] recorded_scans [OF 0 1] by simp
  qed
  then show ?thesis by (simp add: Segments_def segmentLoop_distinct segmentLoop_set recorded_def PutLog_def)
qed

definition demo_run :: "mirror \<times> memSink \<times> go_error list \<times> unit result" where
  "demo_run = mirror_Run (Some memSink_ops) [demo_scan [(seg1, [1])], demo_scan [(seg1, [1, 2])]]
     (demo_scan [(seg1, [1, 2]), (seg2, [3])]) (NewMirror ''/live'' ''live/s1'') NewInMemorySink"

theorem recorded_segments_exact_witness:
  "distinct (Segments (fst demo_run)) \<and>
   Segments (fst demo_run) = [''live/s1/'' @ seg1, ''live/s1/'' @ seg2]"
proof -
  have "Segments (fst demo_run) = [''live/s1/'' @ seg1, ''live/s1/'' @ seg2]" by code_simp
  moreover have "distinct (Segments (fst demo_run))"
    using recorded_segments_exact [of "[demo_scan [(seg1, [1])], demo_scan [(seg1, [1, 2])]]"
      "demo_scan [(seg1, [1, 2]), (seg2, [3])]" "''/live''" "''live/s1''" "fst demo_run" "fst (snd demo_run)"
      "fst (snd (snd demo_run))" "snd (snd (snd demo_run))"]
    by (simp add: demo_run_def)
  ultimately show ?thesis by simp
qed

text \<open>
  A failed upload is not retried: a scan remembers the sizes it saw even for files whose upload
  failed, so a later scan that sees the same sizes (and no playlist) leaves the sink as it is.
\<close>

theorem failed_upload_not_retried:
  assumes "seWalkErr env = None" "scanOnce K env m s = (m', s', l, r)"
    "fatalWalk env' = None" "seWalk env' = seWalk env" "\<forall>xs. set (seRange env' xs) = set xs"
    "\<forall>rel \<in> set (map fst (seWalk env)). \<not> isPlaylist rel"
  shows "scanOnce K env' m' s' = (m', s', [], Inr ())"
proof -
  have k: "mKnown m' = seWalk env"
    using assms(1,2) by (auto simp: scanOnce_def fatalWalk_def Let_def split: prod.splits)
  have "filter (needsUpload (mKnown m') (seWalk env')) (seRange env' (map fst (seWalk env'))) = []"
    using assms(4,5,6) k
    by (auto simp: filter_empty_conv needsUpload_def map_of_eq_None_iff)
  moreover have "filter (\<lambda>rel. map_of (seWalk env') rel = None) (seRange env' (map fst (mKnown m'))) = []"
    using assms(4,5) k by (auto simp: filter_empty_conv map_of_eq_None_iff)
  ultimately show ?thesis using assms(3,4) k by (simp add: scanOnce_def Let_def)
qed

definition broken_read :: scan_env where
  "broken_read = (demo_scan [(seg1, [1])])\<lparr>seOpen := \<lambda>_. Inr (Inl (Err ''read error''))\<rparr>"

theorem failed_upload_not_retried_witness:
  "\<exists>m' s' l. scanOnce memSink_ops broken_read (NewMirror ''/live'' []) NewInMemorySink = (m', s', l, Inr ()) \<and>
    length l = 1 \<and> scanOnce memSink_ops (demo_scan [(seg1, [1])]) m' s' = (m', s', [], Inr ()) \<and>
    msObjects s' seg1 = None"
proof -
  have u: "needsUpload [] [(seg1, 1)] seg1" by (simp add: needsUpload_def)
  obtain m' s' l where 1: "scanOnce memSink_ops broken_read (NewMirror ''/live'' []) NewInMemorySink = (m', s', l, Inr ())"
    "length l = 1" "msObjects s' seg1 = None"
    using u by (simp add: scanOnce_def fatalWalk_def broken_read_def demo_scan_def NewMirror_def uploadOne_def
        memSink_ops_def memSink_Put_def NewInMemorySink_def)
  have "\<not> isPlaylist seg1" by code_simp
  then have "scanOnce memSink_ops (demo_scan [(seg1, [1])]) m' s' = (m', s', [], Inr ())"
    by (intro failed_upload_not_retried [OF _ 1(1)])
      (auto simp: broken_read_def demo_scan_def fatalWalk_def)
  then show ?thesis using 1 by blast
qed

end
