(* ===== verification/Shell_Client.thy ===== *)
theory Shell_Client
  imports Job_Json
begin

text \<open>
  \<open>internal/providers/shellclient/shellclient.go\<close>: the worker's calls to the gateway. The interface
  \<open>Client\<close> is the record \<open>shell_client\<close>; its answers may depend on a history \<open>'h\<close>, by which the live
  runner passes what it did before. \<open>httpClient\<close> is the implementation over HTTP: the transport
  (\<open>http.Client.Do\<close> with reading the body) and the JSON parser on the body text are parameters; the
  request bodies follow the struct tags, and \<open>post\<close> classifies the response.
\<close>

subsection \<open>The interface\<close>

record validate_result =
  vAccepted :: bool
  vStreamID :: string
  vProjectID :: string
  vRecordingEnabled :: bool

record worker_event =
  weGatewaySessionID :: string
  weWorkerSessionID :: string
  weWorkID :: string
  weType :: string
  weUsageSeq :: u64
  weUnits :: int
  weUnitType :: string
  weRemainingRunway :: int
  weLowBalance :: bool
  weReason :: string
  weMessage :: string
  weRecoverable :: bool
  weFinalUnits :: int
  weOccurredAt :: time
  weRecordingAssetID :: string
  weMasterStorageKey :: string
  weSegmentStorageKeys :: "string list"
  weTotalDurationSecond :: rat

definition zero_event :: worker_event where
  "zero_event =
     \<lparr>weGatewaySessionID = [], weWorkerSessionID = [], weWorkID = [], weType = [], weUsageSeq = 0,
      weUnits = 0, weUnitType = [], weRemainingRunway = 0, weLowBalance = False, weReason = [],
      weMessage = [], weRecoverable = False, weFinalUnits = 0, weOccurredAt = zero_time,
      weRecordingAssetID = [], weMasterStorageKey = [], weSegmentStorageKeys = [],
      weTotalDurationSecond = 0\<rparr>"

record tick_input =
  tiStreamID :: string
  tiSeq :: u64
  tiDebitSeconds :: rat
  tiCumulativeSeconds :: rat

record tick_result =
  trBalanceCents :: int
  trRunwaySeconds :: int
  trGraceTriggered :: bool

record ended_input =
  eiStreamID :: string
  eiReason :: string
  eiFinalSeq :: u64
  eiFinalSeconds :: rat

record recording_input =
  riStreamID :: string
  riSegmentStorageKeys :: "string list"
  riMasterStorageKey :: string
  riTotalDurationSec :: rat

record topup_result =
  tpSucceeded :: bool
  tpAuthorizedCents :: int
  tpBalanceCents :: int

text \<open>
  \<open>SessionEnded\<close> returns its value beside the error, because its caller looks at the value even
  after an error.
\<close>

record 'h shell_client =
  scValidateKey :: "'h \<Rightarrow> string \<Rightarrow> string \<Rightarrow> validate_result result"
  scPostEvent :: "'h \<Rightarrow> worker_event \<Rightarrow> unit result"
  scSessionActive :: "'h \<Rightarrow> string \<Rightarrow> string \<Rightarrow> time \<Rightarrow> string result"
  scSessionTick :: "'h \<Rightarrow> tick_input \<Rightarrow> tick_result result"
  scSessionEnded :: "'h \<Rightarrow> ended_input \<Rightarrow> bool \<times> go_error option"
  scRecordingFinalized :: "'h \<Rightarrow> recording_input \<Rightarrow> string result"
  scTopup :: "'h \<Rightarrow> string \<Rightarrow> int \<Rightarrow> topup_result result"

subsection \<open>The HTTP client\<close>

record http_request =
  hqURL :: string
  hqHeaders :: "(string \<times> string) list"
  hqBody :: json

record http_response =
  hrStatus :: int
  hrBody :: string

record 'h shell_config =
  hcBaseURL :: string
  hcSecret :: string
  hcRequestTimeout :: duration
  hcDo :: "'h \<Rightarrow> http_request \<Rightarrow> http_response result"
  hcParse :: "string \<Rightarrow> json result"

definition shell_New :: "'h shell_config \<Rightarrow> 'h shell_config result" where
  "shell_New cfg =
     (if hcBaseURL cfg = [] then Inl (Err ''shellclient: BaseURL required'')
      else if hcSecret cfg = [] then Inl (Err ''shellclient: Secret required'')
      else Inr (cfg\<lparr>hcRequestTimeout := (if hcRequestTimeout cfg = 0 then 5 * second else hcRequestTimeout cfg),
                    hcBaseURL := TrimRightChar (hcBaseURL cfg) (CHR ''/'')\<rparr>))"

definition shell_request :: "'h shell_config \<Rightarrow> string \<Rightarrow> json \<Rightarrow> http_request" where
  "shell_request cfg path body =
     \<lparr>hqURL = hcBaseURL cfg @ path,
      hqHeaders = [(''Content-Type'', ''application/json''), (''X-Worker-Secret'', hcSecret cfg)],
      hqBody = body\<rparr>"

text \<open>
  \<open>post\<close>. With \<open>decode = None\<close> the caller passed no result to fill. The members of a result object
  are given to \<open>decode\<close>; a body \<open>null\<close> leaves the result at its zero value.
\<close>

definition unmarshal :: "'h shell_config \<Rightarrow> string \<Rightarrow> (string \<times> json) list result" where
  "unmarshal cfg body =
     (case hcParse cfg body of
        Inl err \<Rightarrow> Inl err
      | Inr (JObj kvs) \<Rightarrow> Inr kvs
      | Inr JNull \<Rightarrow> Inr []
      | Inr _ \<Rightarrow> Inl (type_error ''shellclient response''))"

definition post :: "'h shell_config \<Rightarrow> 'h \<Rightarrow> string \<Rightarrow> json \<Rightarrow> bool \<Rightarrow> (string \<times> json) list result" where
  "post cfg h path body wantOut =
     (case hcDo cfg h (shell_request cfg path body) of
        Inl err \<Rightarrow> Inl (ErrWrap ''shellclient: do: '' err)
      | Inr resp \<Rightarrow>
          if hrStatus resp = 200 then
            (if \<not> wantOut then Inr []
             else case unmarshal cfg (hrBody resp) of
               Inl err \<Rightarrow> Inl (ErrWrap ''shellclient: decode: '' err)
             | Inr kvs \<Rightarrow> Inr kvs)
          else if hrStatus resp = 401 then Inl ErrShellUnauthorized
          else if hrStatus resp = 404 then Inl (ErrNote ErrShellNotFound ('': '' @ hrBody resp))
          else if hrStatus resp = 409 then Inl (ErrNote ErrShellConflict ('': '' @ hrBody resp))
          else if hrStatus resp = 400 then Inl (ErrNote ErrShellBadRequest ('': '' @ hrBody resp))
          else Inl (Err (''shellclient: unexpected status '' @ show_int (hrStatus resp) @ '': '' @ hrBody resp)))"

text \<open>A field of the wrong type makes the whole decode an error.\<close>

definition wrap_decode :: "'a result \<Rightarrow> 'a result" where
  "wrap_decode r = (case r of Inl err \<Rightarrow> Inl (ErrWrap ''shellclient: decode: '' err) | Inr x \<Rightarrow> Inr x)"

text \<open>The wire formats: a request struct is the JSON object it marshals to, a response struct its decoder.\<close>

definition validateKeyReq :: "string \<Rightarrow> string \<Rightarrow> json" where
  "validateKeyReq streamKey workerURL = JObj [(''stream_key'', JStr streamKey), (''worker_url'', JStr workerURL)]"

definition validateKeyResp :: "(string \<times> json) list \<Rightarrow> validate_result result" where
  "validateKeyResp kvs =
     rbind (dec_field dec_bool False kvs ''accepted'') (\<lambda>acc.
     rbind (dec_field dec_str [] kvs ''stream_id'') (\<lambda>sid.
     rbind (dec_field dec_str [] kvs ''project_id'') (\<lambda>pid.
     rbind (dec_field dec_bool False kvs ''recording_enabled'') (\<lambda>rec.
     Inr \<lparr>vAccepted = acc, vStreamID = sid, vProjectID = pid, vRecordingEnabled = rec\<rparr>))))"

definition sessionActiveReq :: "string \<Rightarrow> string \<Rightarrow> time \<Rightarrow> json" where
  "sessionActiveReq streamID workerURL startedAt =
     JObj ([(''stream_id'', JStr streamID), (''worker_url'', JStr workerURL)] @
       jopt (startedAt = zero_time) ''started_at'' (JTime startedAt))"

definition sessionActiveResp :: "(string \<times> json) list \<Rightarrow> string result" where
  "sessionActiveResp kvs =
     rbind (dec_field dec_bool False kvs ''ok'') (\<lambda>_. dec_field dec_str [] kvs ''reservation_id'')"

definition sessionTickReq :: "tick_input \<Rightarrow> json" where
  "sessionTickReq i =
     JObj [(''stream_id'', JStr (tiStreamID i)), (''seq'', enc_u64 (tiSeq i)),
       (''debit_seconds'', JFloat (tiDebitSeconds i)), (''cumulative_seconds'', JFloat (tiCumulativeSeconds i))]"

definition sessionTickResp :: "(string \<times> json) list \<Rightarrow> tick_result result" where
  "sessionTickResp kvs =
     rbind (dec_field dec_bool False kvs ''ok'') (\<lambda>_.
     rbind (dec_field dec_int 0 kvs ''balance_cents'') (\<lambda>bal.
     rbind (dec_field dec_int 0 kvs ''runway_seconds'') (\<lambda>run.
     rbind (dec_field dec_bool False kvs ''grace_triggered'') (\<lambda>grace.
     Inr \<lparr>trBalanceCents = bal, trRunwaySeconds = run, trGraceTriggered = grace\<rparr>))))"

definition sessionEndedReq :: "ended_input \<Rightarrow> json" where
  "sessionEndedReq i =
     JObj [(''stream_id'', JStr (eiStreamID i)), (''reason'', JStr (eiReason i)),
       (''final_seq'', enc_u64 (eiFinalSeq i)), (''final_seconds'', JFloat (eiFinalSeconds i))]"

definition sessionEndedResp :: "(string \<times> json) list \<Rightarrow> bool result" where
  "sessionEndedResp kvs =
     rbind (dec_field dec_bool False kvs ''ok'') (\<lambda>_. dec_field dec_bool False kvs ''recording_processing'')"

definition recordingFinalizedReq :: "recording_input \<Rightarrow> json" where
  "recordingFinalizedReq i =
     JObj [(''stream_id'', JStr (riStreamID i)),
       (''segment_storage_keys'', JArr (map JStr (riSegmentStorageKeys i))),
       (''master_storage_key'', JStr (riMasterStorageKey i)),
       (''total_duration_sec'', JFloat (riTotalDurationSec i))]"

definition recordingFinalizedResp :: "(string \<times> json) list \<Rightarrow> string result" where
  "recordingFinalizedResp kvs =
     rbind (dec_field dec_bool False kvs ''ok'') (\<lambda>_. dec_field dec_str [] kvs ''recording_asset_id'')"

definition topupReq :: "string \<Rightarrow> int \<Rightarrow> json" where
  "topupReq streamID requestSeconds = JObj [(''stream_id'', JStr streamID), (''request_seconds'', JInt requestSeconds)]"

definition topupResp :: "(string \<times> json) list \<Rightarrow> topup_result result" where
  "topupResp kvs =
     rbind (dec_field dec_bool False kvs ''succeeded'') (\<lambda>ok.
     rbind (dec_field dec_int 0 kvs ''authorized_cents'') (\<lambda>auth.
     rbind (dec_field dec_int 0 kvs ''balance_cents'') (\<lambda>bal.
     Inr \<lparr>tpSucceeded = ok, tpAuthorizedCents = auth, tpBalanceCents = bal\<rparr>)))"

definition http_ValidateKey :: "'h shell_config \<Rightarrow> 'h \<Rightarrow> string \<Rightarrow> string \<Rightarrow> validate_result result" where
  "http_ValidateKey cfg h streamKey workerURL =
     rbind (post cfg h ''/internal/live/validate-key'' (validateKeyReq streamKey workerURL) True)
       (\<lambda>kvs. wrap_decode (validateKeyResp kvs))"

definition event_body :: "worker_event \<Rightarrow> json" where
  "event_body e = JObj (
     [(''gateway_session_id'', JStr (weGatewaySessionID e))] @
     jopt (weWorkerSessionID e = []) ''worker_session_id'' (JStr (weWorkerSessionID e)) @
     jopt (weWorkID e = []) ''work_id'' (JStr (weWorkID e)) @
     [(''type'', JStr (weType e))] @
     jopt (weUsageSeq e = 0) ''usage_seq'' (enc_u64 (weUsageSeq e)) @
     jopt (weUnits e = 0) ''units'' (JInt (weUnits e)) @
     jopt (weUnitType e = []) ''unit_type'' (JStr (weUnitType e)) @
     jopt (weRemainingRunway e = 0) ''remaining_runway_units'' (JInt (weRemainingRunway e)) @
     jopt (\<not> weLowBalance e) ''low_balance'' (JBool (weLowBalance e)) @
     jopt (weReason e = []) ''reason'' (JStr (weReason e)) @
     jopt (weMessage e = []) ''message'' (JStr (weMessage e)) @
     jopt (\<not> weRecoverable e) ''recoverable'' (JBool (weRecoverable e)) @
     jopt (weFinalUnits e = 0) ''final_units'' (JInt (weFinalUnits e)) @
     jopt (weOccurredAt e = zero_time) ''occurred_at'' (JTime (weOccurredAt e)) @
     jopt (weRecordingAssetID e = []) ''recording_asset_id'' (JStr (weRecordingAssetID e)) @
     jopt (weMasterStorageKey e = []) ''master_storage_key'' (JStr (weMasterStorageKey e)) @
     jopt (weSegmentStorageKeys e = []) ''segment_storage_keys'' (JArr (map JStr (weSegmentStorageKeys e))) @
     jopt (weTotalDurationSecond e = 0) ''total_duration_sec'' (JFloat (weTotalDurationSecond e)))"

definition http_PostEvent :: "'h shell_config \<Rightarrow> 'h \<Rightarrow> worker_event \<Rightarrow> unit result" where
  "http_PostEvent cfg h e =
     rbind (post cfg h ''/internal/live/events'' (event_body e) False) (\<lambda>_. Inr ())"

definition http_SessionActive :: "'h shell_config \<Rightarrow> 'h \<Rightarrow> string \<Rightarrow> string \<Rightarrow> time \<Rightarrow> string result" where
  "http_SessionActive cfg h streamID workerURL startedAt =
     rbind (post cfg h ''/internal/live/session-active'' (sessionActiveReq streamID workerURL startedAt) True)
       (\<lambda>kvs. wrap_decode (sessionActiveResp kvs))"

definition http_SessionTick :: "'h shell_config \<Rightarrow> 'h \<Rightarrow> tick_input \<Rightarrow> tick_result result" where
  "http_SessionTick cfg h i =
     rbind (post cfg h ''/internal/live/session-tick'' (sessionTickReq i) True)
       (\<lambda>kvs. wrap_decode (sessionTickResp kvs))"

definition http_SessionEnded :: "'h shell_config \<Rightarrow> 'h \<Rightarrow> ended_input \<Rightarrow> bool \<times> go_error option" where
  "http_SessionEnded cfg h i =
     (case post cfg h ''/internal/live/session-ended'' (sessionEndedReq i) True of
        Inl err \<Rightarrow> (False, Some err)
      | Inr kvs \<Rightarrow>
          (case dec_field dec_bool False kvs ''recording_processing'' of Inr b \<Rightarrow> b | Inl _ \<Rightarrow> False,
           case wrap_decode (sessionEndedResp kvs) of Inl err \<Rightarrow> Some err | Inr _ \<Rightarrow> None))"

definition http_RecordingFinalized :: "'h shell_config \<Rightarrow> 'h \<Rightarrow> recording_input \<Rightarrow> string result" where
  "http_RecordingFinalized cfg h i =
     rbind (post cfg h ''/internal/live/recording-finalized'' (recordingFinalizedReq i) True)
       (\<lambda>kvs. wrap_decode (recordingFinalizedResp kvs))"

definition http_Topup :: "'h shell_config \<Rightarrow> 'h \<Rightarrow> string \<Rightarrow> int \<Rightarrow> topup_result result" where
  "http_Topup cfg h streamID requestSeconds =
     rbind (post cfg h ''/internal/live/topup'' (topupReq streamID requestSeconds) True)
       (\<lambda>kvs. wrap_decode (topupResp kvs))"

definition httpClient :: "'h shell_config \<Rightarrow> 'h shell_client" where
  "httpClient cfg =
     \<lparr>scValidateKey = http_ValidateKey cfg, scPostEvent = http_PostEvent cfg,
      scSessionActive = http_SessionActive cfg, scSessionTick = http_SessionTick cfg,
      scSessionEnded = http_SessionEnded cfg, scRecordingFinalized = http_RecordingFinalized cfg,
      scTopup = http_Topup cfg\<rparr>"

subsection \<open>Reading an event back\<close>

text \<open>The gateway's side of the event format, for the round trip: absent members are zero values.\<close>

definition read_event :: "(string \<times> json) list \<Rightarrow> worker_event result" where
  "read_event kvs =
     rbind (dec_field dec_str [] kvs ''gateway_session_id'') (\<lambda>gid.
     rbind (dec_field dec_str [] kvs ''worker_session_id'') (\<lambda>wsid.
     rbind (dec_field dec_str [] kvs ''work_id'') (\<lambda>wid.
     rbind (dec_field dec_str [] kvs ''type'') (\<lambda>ty.
     rbind (dec_field dec_u64 0 kvs ''usage_seq'') (\<lambda>seq.
     rbind (dec_field dec_int 0 kvs ''units'') (\<lambda>units.
     rbind (dec_field dec_str [] kvs ''unit_type'') (\<lambda>ut.
     rbind (dec_field dec_int 0 kvs ''remaining_runway_units'') (\<lambda>run.
     rbind (dec_field dec_bool False kvs ''low_balance'') (\<lambda>low.
     rbind (dec_field dec_str [] kvs ''reason'') (\<lambda>reason.
     rbind (dec_field dec_str [] kvs ''message'') (\<lambda>msg.
     rbind (dec_field dec_bool False kvs ''recoverable'') (\<lambda>rec.
     rbind (dec_field dec_int 0 kvs ''final_units'') (\<lambda>fin.
     rbind (dec_field dec_time zero_time kvs ''occurred_at'') (\<lambda>occ.
     rbind (dec_field dec_str [] kvs ''recording_asset_id'') (\<lambda>asset.
     rbind (dec_field dec_str [] kvs ''master_storage_key'') (\<lambda>master.
     rbind (dec_field (dec_list dec_str) [] kvs ''segment_storage_keys'') (\<lambda>segs.
     rbind (dec_field dec_float 0 kvs ''total_duration_sec'') (\<lambda>dur.
     Inr \<lparr>weGatewaySessionID = gid, weWorkerSessionID = wsid, weWorkID = wid, weType = ty,
          weUsageSeq = seq, weUnits = units, weUnitType = ut, weRemainingRunway = run,
          weLowBalance = low, weReason = reason, weMessage = msg, weRecoverable = rec,
          weFinalUnits = fin, weOccurredAt = occ, weRecordingAssetID = asset,
          weMasterStorageKey = master, weSegmentStorageKeys = segs, weTotalDurationSecond = dur\<rparr>))))))))))))))))))"

definition event_members :: "worker_event \<Rightarrow> (string \<times> json) list" where
  "event_members e = (case event_body e of JObj kvs \<Rightarrow> kvs | _ \<Rightarrow> [])"

definition event_wf :: "worker_event \<Rightarrow> bool" where
  "event_wf e \<longleftrightarrow>
     list_all (\<lambda>i. - (2 ^ 63) \<le> i \<and> i < 2 ^ 63) [weUnits e, weRemainingRunway e, weFinalUnits e]"

lemma dec_str_list [json_simps]: "rmap dec_str (map JStr xs) = Inr xs"
  by (induction xs) auto

lemma dec_event_members:
  assumes "event_wf e"
  shows "dec_field dec_str [] (event_members e) ''gateway_session_id'' = Inr (weGatewaySessionID e)"
    and "dec_field dec_str [] (event_members e) ''worker_session_id'' = Inr (weWorkerSessionID e)"
    and "dec_field dec_str [] (event_members e) ''work_id'' = Inr (weWorkID e)"
    and "dec_field dec_str [] (event_members e) ''type'' = Inr (weType e)"
    and "dec_field dec_u64 0 (event_members e) ''usage_seq'' = Inr (weUsageSeq e)"
    and "dec_field dec_int 0 (event_members e) ''units'' = Inr (weUnits e)"
    and "dec_field dec_str [] (event_members e) ''unit_type'' = Inr (weUnitType e)"
    and "dec_field dec_int 0 (event_members e) ''remaining_runway_units'' = Inr (weRemainingRunway e)"
    and "dec_field dec_bool False (event_members e) ''low_balance'' = Inr (weLowBalance e)"
    and "dec_field dec_str [] (event_members e) ''reason'' = Inr (weReason e)"
    and "dec_field dec_str [] (event_members e) ''message'' = Inr (weMessage e)"
    and "dec_field dec_bool False (event_members e) ''recoverable'' = Inr (weRecoverable e)"
    and "dec_field dec_int 0 (event_members e) ''final_units'' = Inr (weFinalUnits e)"
    and "dec_field dec_time zero_time (event_members e) ''occurred_at'' = Inr (weOccurredAt e)"
    and "dec_field dec_str [] (event_members e) ''recording_asset_id'' = Inr (weRecordingAssetID e)"
    and "dec_field dec_str [] (event_members e) ''master_storage_key'' = Inr (weMasterStorageKey e)"
    and "dec_field (dec_list dec_str) [] (event_members e) ''segment_storage_keys'' = Inr (weSegmentStorageKeys e)"
    and "dec_field dec_float 0 (event_members e) ''total_duration_sec'' = Inr (weTotalDurationSecond e)"
  using assms uint_lt2p [of "weUsageSeq e"]
  by (simp_all add: event_members_def event_body_def dec_field_def json_simps event_wf_def enc_u64_def
      split: option.splits json.splits)


definition demo_shell :: "unit shell_config" where
  "demo_shell = \<lparr>hcBaseURL = ''http://api:8080'', hcSecret = ''s3'', hcRequestTimeout = 0,
     hcDo = (\<lambda>_ _. Inr \<lparr>hrStatus = 409, hrBody = ''closed''\<rparr>), hcParse = (\<lambda>_. Inr JNull)\<rparr>"


end
