(* ===== verification/Live_Session.thy ===== *)
theory Live_Session
  imports Runner_World Live_Cdn Shell_Client
begin

text \<open>
  \<open>internal/service/liverunner/liverunner.go\<close>, first half: one live session, i.e. \<open>runSession\<close> with its
  closures \<open>emitEvent\<close>, \<open>persistStreamUpdate\<close> and \<open>tickAndDecide\<close>, the select loop and the closing
  sequence.

  A session is a state machine. Its state is the record \<open>live\<close>: the local variables of the goroutine,
  the stream control block, the store, the broker, and the trace of the calls made so far. What
  the select statement receives is a list of inputs: a payment tick, the exit of the encoder, the
  cancellation of the context, or a reason set by another goroutine. Answers from outside (the
  gateway, the encoder's media clock, the wall clock) are functions of the trace or of the number of
  clock readings.
\<close>

subsection \<open>Termination reasons\<close>

definition sessionEndReasonGraceful :: string where "sessionEndReasonGraceful = ''graceful''"
definition sessionEndReasonInsufficientBalance :: string where
  "sessionEndReasonInsufficientBalance = ''insufficient_balance''"
definition sessionEndReasonWorkerFailed :: string where "sessionEndReasonWorkerFailed = ''session_worker_failed''"
definition sessionEndReasonPaymentFailed :: string where "sessionEndReasonPaymentFailed = ''payment_path_failed''"
definition sessionEndReasonAdminStop :: string where "sessionEndReasonAdminStop = ''admin_stop''"

lemmas reason_defs = sessionEndReasonGraceful_def sessionEndReasonInsufficientBalance_def
  sessionEndReasonWorkerFailed_def sessionEndReasonPaymentFailed_def sessionEndReasonAdminStop_def

definition terminationReasonPriority :: "string \<Rightarrow> nat" where
  "terminationReasonPriority reason =
     (if reason = sessionEndReasonGraceful then 1
      else if reason = sessionEndReasonAdminStop then 2
      else if reason = sessionEndReasonInsufficientBalance then 3
      else if reason = sessionEndReasonPaymentFailed then 4
      else if reason = sessionEndReasonWorkerFailed then 5
      else 0)"

subsection \<open>The state of a session\<close>

record streamCtl =
  cStream :: stream
  cReason :: string
  cMirror :: "mirror option"
  cLease :: "slotLease option"
  cPatternBSender :: bytes
  cPatternBWorkID :: string
  cWorkerSessionID :: string
  cUsePatternB :: bool
  cRunning :: bool
  cCancel :: nat

definition setReason :: "string \<Rightarrow> streamCtl \<Rightarrow> streamCtl" where
  "setReason reason ctl =
     (if reason = [] then ctl
      else if terminationReasonPriority reason \<ge> terminationReasonPriority (cReason ctl)
      then ctl\<lparr>cReason := reason\<rparr> else ctl)"

text \<open>The calls of a session. \<open>LvCheck\<close> also notes the number of clock readings before the check.\<close>

datatype live_event =
    LvValidate string bool
  | LvActive string bool
  | LvDebit bytes string int u64 bool
  | LvCheck nat bool
  | LvPost worker_event bool
  | LvSleep duration
  | LvTick tick_input bool
  | LvTopup int bool
  | LvEnded ended_input bool
  | LvCloseSession bool
  | LvRecording recording_input bool

record ('s, 'b) live =
  lvStore :: 's
  lvBroker :: 'b
  lvClock :: nat
  lvTrace :: "live_event list"
  lvCtl :: streamCtl
  lvLastDebited :: rat
  lvSeq :: u64
  lvGrace :: time
  lvLow :: bool

record ('s, 'b) live_deps =
  ldRepo :: "('s, json) store_ops option"
  ldPayment :: "'b broker_ops"
  ldHasShell :: bool
  ldShell :: "live_event list shell_client"
  ldPresets :: "catalogue option"
  ldScheduler :: bool
  ldCostModel :: cost_model
  ldWorkerURL :: string
  ldLivePreset :: string
  ldStoragePrefix :: string
  ldMaxConcurrentStreams :: int
  ldLocalDirRoot :: string
  ldHasSink :: bool
  ldLadder :: "preset list"
  ldMirrorPollInterval :: duration
  ldDebitCadence :: duration
  ldRunwaySeconds :: int
  ldGraceSeconds :: int
  ldPreCreditSeconds :: int
  ldDebitRetryBackoff :: duration
  ldRestartLimit :: int
  ldTopupMinInterval :: duration
  leNow :: "nat \<Rightarrow> time"
  leEncoded :: "live_event list \<Rightarrow> rat"
  leCtxErr :: "live_event list \<Rightarrow> bool"
  leFinalErr :: "live_event list \<Rightarrow> bool"
  leDrained :: "mirror \<Rightarrow> mirror"

subsection \<open>Calls\<close>

definition lemit :: "live_event \<Rightarrow> ('s, 'b) live \<Rightarrow> ('s, 'b) live" where
  "lemit e l = l\<lparr>lvTrace := lvTrace l @ [e]\<rparr>"

definition NowFn :: "('s, 'b) live_deps \<Rightarrow> ('s, 'b) live \<Rightarrow> time" where
  "NowFn D l = leNow D (lvClock l)"

definition ticked :: "('s, 'b) live \<Rightarrow> ('s, 'b) live" where
  "ticked l = l\<lparr>lvClock := lvClock l + 1\<rparr>"

definition workerEventPostAttempts :: nat where "workerEventPostAttempts = 3"

fun postLoop ::
  "('s, 'b) live_deps \<Rightarrow> (live_event list \<Rightarrow> bool) \<Rightarrow> worker_event \<Rightarrow> nat \<Rightarrow> ('s, 'b) live \<Rightarrow> ('s, 'b) live" where
  "postLoop D ctxErr e 0 l = l"
| "postLoop D ctxErr e (Suc n) l =
     (let r = scPostEvent (ldShell D) (lvTrace l) e; l = lemit (LvPost e (is_ok r)) l in
      if is_ok r then l
      else if n = 0 \<or> ctxErr (lvTrace l) then l
      else postLoop D ctxErr e n (lemit (LvSleep (ldDebitRetryBackoff D)) l))"

definition stampEvent :: "('s, 'b) live_deps \<Rightarrow> string \<Rightarrow> worker_event \<Rightarrow> ('s, 'b) live \<Rightarrow> worker_event" where
  "stampEvent D sid e l =
     (let e = e\<lparr>weGatewaySessionID := sid, weOccurredAt := NowFn D l\<rparr> in
      if cUsePatternB (lvCtl l)
      then e\<lparr>weWorkerSessionID := cWorkerSessionID (lvCtl l), weWorkID := cPatternBWorkID (lvCtl l)\<rparr> else e)"

definition emitEvent ::
  "('s, 'b) live_deps \<Rightarrow> string \<Rightarrow> (live_event list \<Rightarrow> bool) \<Rightarrow> worker_event \<Rightarrow> ('s, 'b) live \<Rightarrow> ('s, 'b) live" where
  "emitEvent D sid ctxErr e l =
     (if \<not> ldHasShell D then l
      else postLoop D ctxErr (stampEvent D sid e l) workerEventPostAttempts (ticked l))"

text \<open>Read, change and save the stored record; a failure of either call is ignored.\<close>

definition repoUpdate :: "('s, 'b) live_deps \<Rightarrow> string \<Rightarrow> (stream \<Rightarrow> stream) \<Rightarrow> ('s, 'b) live \<Rightarrow> ('s, 'b) live" where
  "repoUpdate D sid f l =
     (case ldRepo D of
        None \<Rightarrow> l
      | Some st \<Rightarrow>
          (case GetStream st (lvStore l) sid of
             Inl _ \<Rightarrow> l
           | Inr cur \<Rightarrow> ticked (l\<lparr>lvStore := fst (SaveStream st (lvStore l) (NowFn D l) (f cur))\<rparr>)))"

definition persistStreamUpdate ::
  "('s, 'b) live_deps \<Rightarrow> string \<Rightarrow> (stream \<Rightarrow> stream) \<Rightarrow> ('s, 'b) live \<Rightarrow> ('s, 'b) live" where
  "persistStreamUpdate D sid f l =
     (let ctl = lvCtl l in
      repoUpdate D sid f (ticked (l\<lparr>lvCtl := ctl\<lparr>cStream := f ((cStream ctl)\<lparr>sUpdatedAt := NowFn D l\<rparr>)\<rparr>\<rparr>)))"

definition bumpSeq :: "('s, 'b) live_deps \<Rightarrow> string \<Rightarrow> ('s, 'b) live \<Rightarrow> ('s, 'b) live" where
  "bumpSeq D sid l =
     (case ldRepo D of
        None \<Rightarrow> l
      | Some st \<Rightarrow> ticked (l\<lparr>lvStore := fst (IncrementDebitSeq st (lvStore l) sid (NowFn D l))\<rparr>))"

definition liveDebit ::
  "('s, 'b) live_deps \<Rightarrow> int \<Rightarrow> ('s, 'b) live \<Rightarrow> ('s, 'b) live \<times> unit result" where
  "liveDebit D units l =
     (let ctl = lvCtl l in
      case bkDebitBalance (ldPayment D) (lvBroker l) (cPatternBSender ctl) (cPatternBWorkID ctl) units (lvSeq l) of
        (b, r) \<Rightarrow>
          (lemit (LvDebit (cPatternBSender ctl) (cPatternBWorkID ctl) units (lvSeq l) (is_ok r)) (l\<lparr>lvBroker := b\<rparr>),
           rbind r (\<lambda>_. Inr ())))"

definition liveCheck :: "('s, 'b) live_deps \<Rightarrow> ('s, 'b) live \<Rightarrow> ('s, 'b) live \<times> bool result" where
  "liveCheck D l =
     (let ctl = lvCtl l in
      case bkSufficientBalance (ldPayment D) (lvBroker l) (cPatternBSender ctl) (cPatternBWorkID ctl) (ldRunwaySeconds D) of
        (b, r) \<Rightarrow> (lemit (LvCheck (lvClock l) (r = Inr True)) (l\<lparr>lvBroker := b\<rparr>), r))"

subsection \<open>The payment tick\<close>

definition graceFrom :: "('s, 'b) live_deps \<Rightarrow> time \<Rightarrow> time" where
  "graceFrom D t = t + wrap64 (ldGraceSeconds D * second)"

text \<open>The units of a debit: \<open>int64(math.Ceil(seconds))\<close>.\<close>

definition unitsOf :: "rat \<Rightarrow> int" where
  "unitsOf seconds = int_of_float (of_int \<lceil>seconds\<rceil>)"

definition paymentFailed ::
  "('s, 'b) live_deps \<Rightarrow> string \<Rightarrow> go_error \<Rightarrow> ('s, 'b) live \<Rightarrow> ('s, 'b) live" where
  "paymentFailed D sid err l =
     emitEvent D sid (leCtxErr D)
       (zero_event\<lparr>weType := ''session.error'', weReason := sessionEndReasonPaymentFailed,
          weMessage := error_text err, weRecoverable := False\<rparr>)
       (persistStreamUpdate D sid
          (\<lambda>s. s\<lparr>sPhase := StreamPhasePaymentLost, sErrorCode := sessionEndReasonPaymentFailed\<rparr>) l)"

definition usageTick :: "u64 \<Rightarrow> int \<Rightarrow> int \<Rightarrow> bool \<Rightarrow> worker_event" where
  "usageTick seq units runway low =
     zero_event\<lparr>weType := ''session.usage.tick'', weUsageSeq := seq, weUnits := units, weUnitType := ''seconds'',
       weRemainingRunway := runway, weLowBalance := low\<rparr>"

text \<open>What a balance check leads to: low balance starts the grace period, enough balance ends it.\<close>

definition lowBalance ::
  "('s, 'b) live_deps \<Rightarrow> string \<Rightarrow> ('s, 'b) live \<Rightarrow> ('s, 'b) live \<times> string option" where
  "lowBalance D sid l =
     (let l = (if lvLow l then l
               else
                 (let l = l\<lparr>lvLow := True\<rparr>;
                      l = (if lvGrace l = zero_time
                           then ticked (l\<lparr>lvGrace := graceFrom D (NowFn D l)\<rparr>) else l);
                      deadline = lvGrace l;
                      l = persistStreamUpdate D sid
                            (\<lambda>s. s\<lparr>sPhase := StreamPhaseLowBalance, sLowBalance := True, sGraceUntil := deadline,
                               sErrorCode := []\<rparr>) l
                  in emitEvent D sid (leCtxErr D)
                       (zero_event\<lparr>weType := ''session.balance.low'', weRemainingRunway := 0, weLowBalance := True\<rparr>) l))
      in (ticked l,
          if NowFn D l > lvGrace l then Some sessionEndReasonInsufficientBalance else None))"

definition enoughBalance ::
  "('s, 'b) live_deps \<Rightarrow> string \<Rightarrow> ('s, 'b) live \<Rightarrow> ('s, 'b) live" where
  "enoughBalance D sid l =
     (let l = (if lvLow l
               then
                 (let l = persistStreamUpdate D sid
                            (\<lambda>s. s\<lparr>sPhase := StreamPhaseStreaming, sLowBalance := False, sGraceUntil := zero_time,
                               sErrorCode := []\<rparr>) (l\<lparr>lvLow := False\<rparr>)
                  in emitEvent D sid (leCtxErr D)
                       (zero_event\<lparr>weType := ''session.balance.refilled'', weRemainingRunway := ldRunwaySeconds D\<rparr>) l)
               else l)
      in l\<lparr>lvGrace := zero_time\<rparr>)"

definition checkRunway ::
  "('s, 'b) live_deps \<Rightarrow> string \<Rightarrow> int \<Rightarrow> ('s, 'b) live \<Rightarrow> ('s, 'b) live \<times> string option" where
  "checkRunway D sid units l =
     (case liveCheck D l of
        (l, Inl err) \<Rightarrow> (paymentFailed D sid err l, Some sessionEndReasonPaymentFailed)
      | (l, Inr ok) \<Rightarrow>
          (let l = emitEvent D sid (leCtxErr D)
                     (usageTick (lvSeq l) units (if ok then ldRunwaySeconds D else 0) (\<not> ok)) l in
           if \<not> ok then lowBalance D sid l else (enoughBalance D sid l, None)))"

definition patternBTick ::
  "('s, 'b) live_deps \<Rightarrow> string \<Rightarrow> rat \<Rightarrow> ('s, 'b) live \<Rightarrow> ('s, 'b) live \<times> string option" where
  "patternBTick D sid encoded l =
     (let d = rnd64 (encoded - lvLastDebited l);
          d = (if d < 0 then 0 else d);
          units = (if d > 0 then unitsOf d else 0) in
      if units > 0 then
        (let l = bumpSeq D sid (l\<lparr>lvSeq := lvSeq l + 1\<rparr>) in
         case liveDebit D units l of
           (l, Inl err) \<Rightarrow> (paymentFailed D sid err l, Some sessionEndReasonPaymentFailed)
         | (l, Inr _) \<Rightarrow> checkRunway D sid units (l\<lparr>lvLastDebited := encoded\<rparr>))
      else (l, None))"

text \<open>The legacy path: the gateway keeps the balance, the worker reports seconds and asks for top-ups.\<close>

definition legacyTopup :: "('s, 'b) live_deps \<Rightarrow> string \<Rightarrow> ('s, 'b) live \<Rightarrow> ('s, 'b) live" where
  "legacyTopup D sid l =
     (case scTopup (ldShell D) (lvTrace l) sid (ldPreCreditSeconds D) of
        Inl err \<Rightarrow> lemit (LvTopup (ldPreCreditSeconds D) False) l
      | Inr res \<Rightarrow>
          (let now = NowFn D l;
               l = ticked (lemit (LvTopup (ldPreCreditSeconds D) True)
                     (l\<lparr>lvCtl := (lvCtl l)\<lparr>cStream := (cStream (lvCtl l))\<lparr>sLastTopupAt := now\<rparr>\<rparr>\<rparr>))
           in repoUpdate D sid (\<lambda>s. s\<lparr>sLastTopupAt := now\<rparr>) l))"

text \<open>\<open>Time.Sub\<close> saturates.\<close>

definition timeSub :: "time \<Rightarrow> time \<Rightarrow> duration" where
  "timeSub a b = max (- (2 ^ 63)) (min (2 ^ 63 - 1) (a - b))"

definition legacyRunway ::
  "('s, 'b) live_deps \<Rightarrow> string \<Rightarrow> tick_result \<Rightarrow> ('s, 'b) live \<Rightarrow> ('s, 'b) live" where
  "legacyRunway D sid res l =
     (if trRunwaySeconds res \<le> ldRunwaySeconds D then
        (let t = sLastTopupAt (cStream (lvCtl l)) in
         if t = zero_time then legacyTopup D sid l
         else if timeSub (NowFn D l) t \<ge> ldTopupMinInterval D then legacyTopup D sid (ticked l)
         else ticked l)
      else l)"

definition legacyTick ::
  "('s, 'b) live_deps \<Rightarrow> string \<Rightarrow> rat \<Rightarrow> ('s, 'b) live \<Rightarrow> ('s, 'b) live \<times> string option" where
  "legacyTick D sid encoded l =
     (let d = rnd64 (encoded - lvLastDebited l);
          d = (if d < 0 then 0 else d);
          l = bumpSeq D sid (l\<lparr>lvSeq := lvSeq l + 1\<rparr>);
          i = \<lparr>tiStreamID = sid, tiSeq = lvSeq l, tiDebitSeconds = d, tiCumulativeSeconds = encoded\<rparr> in
      case scSessionTick (ldShell D) (lvTrace l) i of
        Inl err \<Rightarrow> (lemit (LvTick i False) l, None)
      | Inr res \<Rightarrow>
          (let l = (lemit (LvTick i True) l)\<lparr>lvLastDebited := encoded\<rparr> in
           if trGraceTriggered res then
             (let l = (if lvGrace l = zero_time then ticked (l\<lparr>lvGrace := graceFrom D (NowFn D l)\<rparr>) else l) in
              if NowFn D l > lvGrace l then (ticked l, Some sessionEndReasonInsufficientBalance)
              else (legacyRunway D sid res (ticked l), None))
           else
             (let l = (if lvGrace l \<noteq> zero_time \<and> trRunwaySeconds res > ldRunwaySeconds D
                       then l\<lparr>lvGrace := zero_time\<rparr> else l) in
              (legacyRunway D sid res l, None))))"

definition tickAndDecide ::
  "('s, 'b) live_deps \<Rightarrow> string \<Rightarrow> ('s, 'b) live \<Rightarrow> ('s, 'b) live \<times> string option" where
  "tickAndDecide D sid l =
     (let encoded = leEncoded D (lvTrace l) in
      if cUsePatternB (lvCtl l) then patternBTick D sid encoded l else legacyTick D sid encoded l)"

subsection \<open>The select loop\<close>

datatype live_input = InReason string | InCtxDone | InEncoder "go_error option" | InTick

definition closeReasonOr :: "string \<Rightarrow> ('s, 'b) live \<Rightarrow> string" where
  "closeReasonOr deflt l = (if cReason (lvCtl l) \<noteq> [] then cReason (lvCtl l) else deflt)"

definition cleanExit :: "go_error option \<Rightarrow> bool" where
  "cleanExit err = (case err of None \<Rightarrow> False | Some e \<Rightarrow> errors_Is e ErrEncoderExited \<or> errors_Is e ErrCanceled)"

text \<open>
  The result: the state, the reason once the loop was left (\<open>None\<close> while the session streams on), and the
  inputs that were not consumed.
\<close>

fun sessionLoop ::
  "('s, 'b) live_deps \<Rightarrow> string \<Rightarrow> live_input list \<Rightarrow> ('s, 'b) live \<Rightarrow>
   ('s, 'b) live \<times> string option \<times> live_input list" where
  "sessionLoop D sid [] l = (l, None, [])"
| "sessionLoop D sid (InReason r # is) l = sessionLoop D sid is (l\<lparr>lvCtl := setReason r (lvCtl l)\<rparr>)"
| "sessionLoop D sid (InCtxDone # is) l = (l, Some (closeReasonOr sessionEndReasonWorkerFailed l), InCtxDone # is)"
| "sessionLoop D sid (InEncoder err # is) l =
     (if cleanExit err then (l, Some (closeReasonOr sessionEndReasonGraceful l), is)
      else (l\<lparr>lvCtl := setReason sessionEndReasonWorkerFailed (lvCtl l)\<rparr>, Some sessionEndReasonWorkerFailed, is))"
| "sessionLoop D sid (InTick # is) l =
     (case tickAndDecide D sid l of
        (l, Some reason) \<Rightarrow> (l, Some reason, is)
      | (l, None) \<Rightarrow> sessionLoop D sid is l)"

subsection \<open>Closing\<close>

definition closePatternB ::
  "('s, 'b) live_deps \<Rightarrow> string \<Rightarrow> string \<Rightarrow> rat \<Rightarrow> ('s, 'b) live \<Rightarrow> ('s, 'b) live" where
  "closePatternB D sid reason finalEncoded l =
     (let d = rnd64 (finalEncoded - lvLastDebited l);
          l = (if d > 0 then
                 (let units = unitsOf d;
                      l = bumpSeq D sid (l\<lparr>lvSeq := lvSeq l + 1\<rparr>) in
                  case liveDebit D units l of
                    (l, Inr _) \<Rightarrow> emitEvent D sid (leFinalErr D)
                        (usageTick (lvSeq l) units 0 (reason = sessionEndReasonInsufficientBalance)) l
                  | (l, Inl _) \<Rightarrow> l)
               else l);
          l = emitEvent D sid (leFinalErr D)
                (zero_event\<lparr>weType := ''session.ended'', weReason := reason, weFinalUnits := int_of_float finalEncoded\<rparr>) l
      in case bkCloseSession (ldPayment D) (lvBroker l) (cPatternBSender (lvCtl l)) (cPatternBWorkID (lvCtl l)) of
           (b, r) \<Rightarrow> lemit (LvCloseSession (is_ok r)) (l\<lparr>lvBroker := b\<rparr>))"

definition closeLegacy ::
  "('s, 'b) live_deps \<Rightarrow> string \<Rightarrow> string \<Rightarrow> rat \<Rightarrow> ('s, 'b) live \<Rightarrow> ('s, 'b) live \<times> bool" where
  "closeLegacy D sid reason finalEncoded l =
     (let d = rnd64 (finalEncoded - lvLastDebited l);
          l = (if d > 0 then
                 (let l = l\<lparr>lvSeq := lvSeq l + 1\<rparr>;
                      i = \<lparr>tiStreamID = sid, tiSeq = lvSeq l, tiDebitSeconds = d, tiCumulativeSeconds = finalEncoded\<rparr> in
                  lemit (LvTick i (is_ok (scSessionTick (ldShell D) (lvTrace l) i))) l)
               else l);
          i = \<lparr>eiStreamID = sid, eiReason = reason, eiFinalSeq = lvSeq l, eiFinalSeconds = finalEncoded\<rparr>;
          (recording, err) = scSessionEnded (ldShell D) (lvTrace l) i
      in (lemit (LvEnded i (err = None)) l, recording))"

definition terminalPhase :: "string \<Rightarrow> stream_phase" where
  "terminalPhase reason =
     (if reason = sessionEndReasonInsufficientBalance then StreamPhaseBalanceExhausted
      else if reason = sessionEndReasonWorkerFailed then StreamPhaseEncoderFailed
      else StreamPhaseClosed)"

text \<open>
  From the label \<open>end\<close> to the wait for the mirror: final debit, end of session, terminal record. Only the
  stored record gets the terminal phase; the clock is read for it before the save.
\<close>

definition closeRecord :: "time \<Rightarrow> string \<Rightarrow> rat \<Rightarrow> u64 \<Rightarrow> stream \<Rightarrow> stream" where
  "closeRecord now reason finalEncoded seq s =
     s\<lparr>sPhase := terminalPhase reason, sClosedAt := now, sUnitsDebited := int_of_float finalEncoded,
       sCloseReason := reason, sDebitSeq := seq, sLowBalance := False, sGraceUntil := zero_time\<rparr>"

definition persistTerminal ::
  "('s, 'b) live_deps \<Rightarrow> string \<Rightarrow> string \<Rightarrow> rat \<Rightarrow> ('s, 'b) live \<Rightarrow> ('s, 'b) live" where
  "persistTerminal D sid reason finalEncoded l =
     repoUpdate D sid (closeRecord (NowFn D l) reason finalEncoded (lvSeq l)) (ticked l)"

definition endSession ::
  "('s, 'b) live_deps \<Rightarrow> validate_result \<Rightarrow> string \<Rightarrow> ('s, 'b) live \<Rightarrow> ('s, 'b) live \<times> rat \<times> bool" where
  "endSession D v reason l =
     (let finalEncoded = leEncoded D (lvTrace l);
          (l, recording) =
            (if cUsePatternB (lvCtl l)
             then (closePatternB D (vStreamID v) reason finalEncoded l, vRecordingEnabled v)
             else closeLegacy D (vStreamID v) reason finalEncoded l)
      in (persistTerminal D (vStreamID v) reason finalEncoded l, finalEncoded, recording))"

definition recordingBridge ::
  "('s, 'b) live_deps \<Rightarrow> validate_result \<Rightarrow> rat \<Rightarrow> bool \<Rightarrow> ('s, 'b) live \<Rightarrow> ('s, 'b) live" where
  "recordingBridge D v finalEncoded recording l =
     (case cMirror (lvCtl l) of
        None \<Rightarrow> l
      | Some m \<Rightarrow>
          if \<not> (recording \<and> vRecordingEnabled v) then l
          else if cUsePatternB (lvCtl l)
          then emitEvent D (vStreamID v) (leFinalErr D)
                 (zero_event\<lparr>weType := ''session.recording.ready'', weMasterStorageKey := MasterKey m,
                    weSegmentStorageKeys := Segments m, weTotalDurationSecond := finalEncoded\<rparr>) l
          else
            (let i = \<lparr>riStreamID = vStreamID v, riSegmentStorageKeys = Segments m,
                      riMasterStorageKey = MasterKey m, riTotalDurationSec = finalEncoded\<rparr> in
             lemit (LvRecording i (is_ok (scRecordingFinalized (ldShell D) (lvTrace l) i))) l))"

subsection \<open>A whole session\<close>

datatype outcome = Streaming | WaitingForMirror string | Finished string

definition startSession ::
  "('s, 'b) live_deps \<Rightarrow> validate_result \<Rightarrow> ('s, 'b) live \<Rightarrow> ('s, 'b) live" where
  "startSession D v l =
     (let l = l\<lparr>lvLastDebited := 0, lvGrace := zero_time, lvLow := False,
               lvSeq := (case ldRepo D of
                           None \<Rightarrow> 0
                         | Some st \<Rightarrow> (case GetStream st (lvStore l) (vStreamID v) of Inr s \<Rightarrow> sDebitSeq s | Inl _ \<Rightarrow> 0))\<rparr>
      in if cUsePatternB (lvCtl l)
         then emitEvent D (vStreamID v) (leCtxErr D) (zero_event\<lparr>weType := ''session.ready''\<rparr>) l else l)"

text \<open>
  \<open>mirrorWG.Wait\<close>: the mirror runs until the session's context is cancelled, so with a mirror the
  goroutine goes on only once the cancellation is among the inputs. \<open>leDrained\<close> is the mirror after its
  final scan.
\<close>

definition runSession ::
  "('s, 'b) live_deps \<Rightarrow> validate_result \<Rightarrow> live_input list \<Rightarrow> ('s, 'b) live \<Rightarrow> ('s, 'b) live \<times> outcome" where
  "runSession D v is l =
     (case sessionLoop D (vStreamID v) is (startSession D v l) of
        (l, None, _) \<Rightarrow> (l, Streaming)
      | (l, Some reason, rest) \<Rightarrow>
          (case endSession D v reason l of
             (l, finalEncoded, recording) \<Rightarrow>
               (case cMirror (lvCtl l) of
                  None \<Rightarrow> (recordingBridge D v finalEncoded recording l, Finished reason)
                | Some m \<Rightarrow>
                    if InCtxDone \<notin> set rest then (l, WaitingForMirror reason)
                    else (recordingBridge D v finalEncoded recording
                            (l\<lparr>lvCtl := (lvCtl l)\<lparr>cMirror := Some (leDrained D m)\<rparr>\<rparr>), Finished reason))))"

subsection \<open>What the calls leave alone\<close>

fun debit_of :: "live_event \<Rightarrow> (int \<times> u64 \<times> bool) list" where
  "debit_of (LvDebit s w u q ok) = [(u, q, ok)]"
| "debit_of _ = []"

fun check_of :: "live_event \<Rightarrow> (nat \<times> bool) list" where
  "check_of (LvCheck c ok) = [(c, ok)]"
| "check_of _ = []"

definition debits :: "live_event list \<Rightarrow> (int \<times> u64 \<times> bool) list" where
  "debits tr = concat (map debit_of tr)"

definition checks :: "live_event list \<Rightarrow> (nat \<times> bool) list" where
  "checks tr = concat (map check_of tr)"

lemma debits_simps [simp]:
  "debits [] = []" "debits (e # tr) = debit_of e @ debits tr" "debits (tr @ tr') = debits tr @ debits tr'"
  by (simp_all add: debits_def)

lemma checks_simps [simp]:
  "checks [] = []" "checks (e # tr) = check_of e @ checks tr" "checks (tr @ tr') = checks tr @ checks tr'"
  by (simp_all add: checks_def)

text \<open>\<open>keeps\<close>: the account of the session is unchanged and no debit was made; \<open>quietly\<close>: nor a balance check.\<close>

definition keeps :: "('s, 'b) live \<Rightarrow> ('s, 'b) live \<Rightarrow> bool" where
  "keeps l l' \<longleftrightarrow>
     lvLastDebited l' = lvLastDebited l \<and> lvSeq l' = lvSeq l \<and>
     lvCtl l' = (lvCtl l)\<lparr>cStream := cStream (lvCtl l')\<rparr> \<and> lvClock l \<le> lvClock l' \<and>
     (\<exists>new. lvTrace l' = lvTrace l @ new \<and> debits new = [])"

definition quietly :: "('s, 'b) live \<Rightarrow> ('s, 'b) live \<Rightarrow> bool" where
  "quietly l l' \<longleftrightarrow> keeps l l' \<and> lvGrace l' = lvGrace l \<and> lvLow l' = lvLow l \<and> checks (lvTrace l') = checks (lvTrace l)"

named_theorems quiet_intros \<open>steps that keep the account\<close>

lemma ctl_trans:
  "x = y\<lparr>cStream := s\<rparr> \<Longrightarrow> y = z\<lparr>cStream := s'\<rparr> \<Longrightarrow> x = z\<lparr>cStream := s\<rparr>"
  by simp

lemma keeps_trans [trans]: "keeps l l' \<Longrightarrow> keeps l' l'' \<Longrightarrow> keeps l l''"
  unfolding keeps_def by (auto, metis streamCtl.surjective streamCtl.update_convs(1))

lemma keeps_refl [simp]: "keeps l l"
  by (simp add: keeps_def)

lemma quietly_refl [simp]: "quietly l l"
  by (simp add: quietly_def)

lemma quietly_trans [trans]: "quietly l l' \<Longrightarrow> quietly l' l'' \<Longrightarrow> quietly l l''"
  unfolding quietly_def using keeps_trans by fastforce

lemma quietly_keeps: "quietly l l' \<Longrightarrow> keeps l l'"
  by (simp add: quietly_def)

lemma keeps_static:
  assumes "keeps l l'"
  shows "cUsePatternB (lvCtl l') = cUsePatternB (lvCtl l)" "cMirror (lvCtl l') = cMirror (lvCtl l)"
    "cReason (lvCtl l') = cReason (lvCtl l)" "lvLastDebited l' = lvLastDebited l" "lvSeq l' = lvSeq l"
    "debits (lvTrace l') = debits (lvTrace l)" "lvClock l \<le> lvClock l'"
    "\<exists>new. lvTrace l' = lvTrace l @ new"
proof -
  have c: "lvCtl l' = (lvCtl l)\<lparr>cStream := cStream (lvCtl l')\<rparr>" using assms by (simp add: keeps_def)
  show "cUsePatternB (lvCtl l') = cUsePatternB (lvCtl l)" "cMirror (lvCtl l') = cMirror (lvCtl l)"
    "cReason (lvCtl l') = cReason (lvCtl l)"
    by (subst c, simp)+
  show "lvLastDebited l' = lvLastDebited l" "lvSeq l' = lvSeq l" "debits (lvTrace l') = debits (lvTrace l)"
    "lvClock l \<le> lvClock l'" "\<exists>new. lvTrace l' = lvTrace l @ new"
    using assms by (auto simp: keeps_def)
qed

lemma quietly_postLoop: "quietly l (postLoop D ce e n l)"
proof (induction n arbitrary: l)
  case (Suc n)
  have 1: "quietly l (lemit (LvPost e b) l)" for b by (simp add: quietly_def keeps_def lemit_def)
  have 2: "quietly l (lemit (LvSleep d) l)" for d and l :: "('a, 'b) live"
    by (simp add: quietly_def keeps_def lemit_def)
  show ?case
    using 1 quietly_trans [OF quietly_trans [OF 1 2] Suc.IH] by (simp add: Let_def)
qed simp

lemma quietly_ticked: "quietly l (ticked l)"
  by (simp add: quietly_def keeps_def ticked_def)

lemma quietly_emitEvent: "quietly l (emitEvent D sid ce e l)"
  by (simp add: emitEvent_def quietly_trans [OF quietly_ticked quietly_postLoop])

lemma quietly_repoUpdate: "quietly l (repoUpdate D sid f l)"
  by (simp add: repoUpdate_def quietly_def keeps_def ticked_def split: option.splits sum.splits)

lemma quietly_persist: "quietly l (persistStreamUpdate D sid f l)"
proof -
  have "quietly l (ticked (l\<lparr>lvCtl := (lvCtl l)\<lparr>cStream := s\<rparr>\<rparr>))" for s
    by (simp add: quietly_def keeps_def ticked_def)
  from quietly_trans [OF this quietly_repoUpdate] show ?thesis
    by (simp add: persistStreamUpdate_def Let_def)
qed

lemma quietly_bumpSeq: "quietly l (bumpSeq D sid l)"
  by (simp add: bumpSeq_def quietly_def keeps_def ticked_def split: option.splits)

lemma quietly_paymentFailed: "quietly l (paymentFailed D sid err l)"
  unfolding paymentFailed_def by (rule quietly_trans [OF quietly_persist quietly_emitEvent])

text \<open>The outcome of a balance check, seen in the grace period.\<close>

lemma lowBalance_effect:
  assumes "lowBalance D sid l = (l', r)"
  shows "keeps l l' \<and> lvLow l' \<and> checks (lvTrace l') = checks (lvTrace l) \<and>
    lvGrace l' = (if \<not> lvLow l \<and> lvGrace l = zero_time then graceFrom D (leNow D (lvClock l)) else lvGrace l) \<and>
    (r = None \<or> r = Some sessionEndReasonInsufficientBalance \<and>
      (\<exists>c. lvClock l \<le> c \<and> leNow D c > lvGrace l'))"
proof -
  obtain m where m: "keeps l m" "lvLow m" "checks (lvTrace m) = checks (lvTrace l)"
    "lvGrace m = (if \<not> lvLow l \<and> lvGrace l = zero_time then graceFrom D (leNow D (lvClock l)) else lvGrace l)"
    and l': "l' = ticked m" and r: "r = (if NowFn D m > lvGrace m then Some sessionEndReasonInsufficientBalance else None)"
  proof (cases "lvLow l")
    case True
    then show ?thesis using that [of l] assms by (simp add: lowBalance_def Let_def)
  next
    case False
    define l1 where "l1 = l\<lparr>lvLow := True\<rparr>"
    define l2 where "l2 = (if lvGrace l1 = zero_time then ticked (l1\<lparr>lvGrace := graceFrom D (NowFn D l1)\<rparr>) else l1)"
    define m where "m = emitEvent D sid (leCtxErr D)
        (zero_event\<lparr>weType := ''session.balance.low'', weRemainingRunway := 0, weLowBalance := True\<rparr>)
        (persistStreamUpdate D sid (\<lambda>s. s\<lparr>sPhase := StreamPhaseLowBalance, sLowBalance := True,
           sGraceUntil := lvGrace l2, sErrorCode := []\<rparr>) l2)"
    have q: "quietly l2 m" unfolding m_def by (rule quietly_trans [OF quietly_persist quietly_emitEvent])
    have l2: "keeps l l2" "lvLow l2" "checks (lvTrace l2) = checks (lvTrace l)"
      "lvGrace l2 = (if lvGrace l = zero_time then graceFrom D (leNow D (lvClock l)) else lvGrace l)"
      by (auto simp: l2_def l1_def keeps_def ticked_def NowFn_def)
    have "l' = ticked m" "r = (if NowFn D m > lvGrace m then Some sessionEndReasonInsufficientBalance else None)"
      using assms False unfolding m_def l2_def l1_def lowBalance_def Let_def by (auto split: if_splits)
    moreover have "keeps l m" using keeps_trans [OF l2(1) quietly_keeps [OF q]] .
    ultimately show ?thesis using that [of m] q l2 False by (simp add: quietly_def)
  qed
  have k: "keeps l l'" using keeps_trans [OF m(1) quietly_keeps [OF quietly_ticked]] l' by simp
  have "lvLow l'" "lvGrace l' = lvGrace m" "lvTrace l' = lvTrace m" using l' m(2) by (simp_all add: ticked_def)
  then show ?thesis using k m r keeps_static(7) [OF m(1)]
    by (auto simp: NowFn_def split: if_splits)
qed

lemma enoughBalance_effect:
  "keeps l (enoughBalance D sid l) \<and> \<not> lvLow (enoughBalance D sid l) \<and>
   checks (lvTrace (enoughBalance D sid l)) = checks (lvTrace l) \<and> lvGrace (enoughBalance D sid l) = zero_time"
proof (cases "lvLow l")
  case True
  define m where "m = emitEvent D sid (leCtxErr D)
      (zero_event\<lparr>weType := ''session.balance.refilled'', weRemainingRunway := ldRunwaySeconds D\<rparr>)
      (persistStreamUpdate D sid (\<lambda>s. s\<lparr>sPhase := StreamPhaseStreaming, sLowBalance := False,
         sGraceUntil := zero_time, sErrorCode := []\<rparr>) (l\<lparr>lvLow := False\<rparr>))"
  have q: "quietly (l\<lparr>lvLow := False\<rparr>) m" unfolding m_def by (rule quietly_trans [OF quietly_persist quietly_emitEvent])
  have e: "enoughBalance D sid l = m\<lparr>lvGrace := zero_time\<rparr>" using True by (simp add: enoughBalance_def Let_def m_def)
  show ?thesis using q unfolding e by (auto simp: quietly_def keeps_def)
qed (simp add: enoughBalance_def keeps_def)

lemma checkRunway_effect:
  assumes "checkRunway D sid units l = (l', r)"
  shows "keeps l l' \<and> (\<exists>ok. checks (lvTrace l') = checks (lvTrace l) @ [(lvClock l, ok)] \<and>
    (if ok then r = None \<and> \<not> lvLow l' \<and> lvGrace l' = zero_time
     else r = Some sessionEndReasonPaymentFailed \<and> lvLow l' = lvLow l \<and> lvGrace l' = lvGrace l \<or>
       (\<exists>c. lvClock l \<le> c \<and> c \<le> lvClock l' \<and> lvLow l' \<and>
         lvGrace l' = (if \<not> lvLow l \<and> lvGrace l = zero_time then graceFrom D (leNow D c) else lvGrace l) \<and>
         (r = None \<or> r = Some sessionEndReasonInsufficientBalance \<and> (\<exists>c' \<ge> c. leNow D c' > lvGrace l')))))"
proof -
  obtain l1 x where c: "liveCheck D l = (l1, x)" by (cases "liveCheck D l")
  have l1: "keeps l l1" "checks (lvTrace l1) = checks (lvTrace l) @ [(lvClock l, x = Inr True)]"
    "lvLow l1 = lvLow l" "lvGrace l1 = lvGrace l" "lvClock l1 = lvClock l"
    using c by (auto simp: liveCheck_def lemit_def keeps_def Let_def split: prod.splits)
  show ?thesis
  proof (cases x)
    case (Inl err)
    then have e: "l' = paymentFailed D sid err l1" "r = Some sessionEndReasonPaymentFailed"
      using assms c by (auto simp: checkRunway_def)
    have q: "quietly l1 l'" unfolding e by (rule quietly_paymentFailed)
    show ?thesis using keeps_trans [OF l1(1) quietly_keeps [OF q]] q l1 e(2) Inl by (auto simp: quietly_def)
  next
    case (Inr ok)
    define l2 where "l2 = emitEvent D sid (leCtxErr D)
      (usageTick (lvSeq l1) units (if ok then ldRunwaySeconds D else 0) (\<not> ok)) l1"
    have q: "quietly l1 l2" unfolding l2_def by (rule quietly_emitEvent)
    have k: "keeps l l2" using keeps_trans [OF l1(1) quietly_keeps [OF q]] .
    have l2: "checks (lvTrace l2) = checks (lvTrace l) @ [(lvClock l, ok)]" "lvLow l2 = lvLow l"
      "lvGrace l2 = lvGrace l" "lvClock l \<le> lvClock l2"
      using q l1 Inr keeps_static(7) [OF k] by (auto simp: quietly_def)
    show ?thesis
    proof (cases ok)
      case True
      then have e: "l' = enoughBalance D sid l2" "r = None" using assms c Inr by (auto simp: checkRunway_def l2_def Let_def)
      show ?thesis using keeps_trans [OF k, of l'] enoughBalance_effect [of l2 D sid] l2 e True by auto
    next
      case False
      then have e: "lowBalance D sid l2 = (l', r)" using assms c Inr by (auto simp: checkRunway_def l2_def Let_def)
      note low = lowBalance_effect [OF e]
      have "keeps l l'" using keeps_trans [OF k] low by blast
      moreover have "checks (lvTrace l') = checks (lvTrace l) @ [(lvClock l, False)]" using low l2(1) False by simp
      moreover have "\<exists>c. lvClock l \<le> c \<and> c \<le> lvClock l' \<and> lvLow l' \<and>
         lvGrace l' = (if \<not> lvLow l \<and> lvGrace l = zero_time then graceFrom D (leNow D c) else lvGrace l) \<and>
         (r = None \<or> r = Some sessionEndReasonInsufficientBalance \<and> (\<exists>c' \<ge> c. leNow D c' > lvGrace l'))"
        using low l2(2,3,4) keeps_static(7) [of l2 l'] by (intro exI [of _ "lvClock l2"]) auto
      ultimately show ?thesis by auto
    qed
  qed
qed

text \<open>The units a tick debits.\<close>

definition tickUnits :: "rat \<Rightarrow> ('s, 'b) live \<Rightarrow> int" where
  "tickUnits encoded l = (let d = rnd64 (encoded - lvLastDebited l) in if d > 0 then unitsOf d else 0)"

lemma patternBTick_effect:
  assumes "patternBTick D sid encoded l = (l', r)"
  shows "if tickUnits encoded l \<le> 0 then l' = l \<and> r = None
    else lvSeq l' = lvSeq l + 1 \<and> lvCtl l' = (lvCtl l)\<lparr>cStream := cStream (lvCtl l')\<rparr> \<and>
      lvClock l \<le> lvClock l' \<and> (\<exists>new. lvTrace l' = lvTrace l @ new) \<and>
      (\<exists>ok. debits (lvTrace l') = debits (lvTrace l) @ [(tickUnits encoded l, lvSeq l + 1, ok)] \<and>
        (if \<not> ok then lvLastDebited l' = lvLastDebited l \<and> r = Some sessionEndReasonPaymentFailed \<and>
           checks (lvTrace l') = checks (lvTrace l) \<and> lvLow l' = lvLow l \<and> lvGrace l' = lvGrace l
         else lvLastDebited l' = encoded \<and>
           (\<exists>m. lvClock l \<le> lvClock m \<and> lvLow m = lvLow l \<and> lvGrace m = lvGrace l \<and>
             checks (lvTrace m) = checks (lvTrace l) \<and> checkRunway D sid (tickUnits encoded l) m = (l', r))))"
proof (cases "tickUnits encoded l > 0")
  case False
  then show ?thesis using assms by (auto simp: patternBTick_def tickUnits_def Let_def split: if_splits)
next
  case True
  let ?u = "tickUnits encoded l"
  define l1 where "l1 = bumpSeq D sid (l\<lparr>lvSeq := lvSeq l + 1\<rparr>)"
  have q1: "quietly (l\<lparr>lvSeq := lvSeq l + 1\<rparr>) l1" unfolding l1_def by (rule quietly_bumpSeq)
  obtain l2 x where d: "liveDebit D ?u l1 = (l2, x)" by (cases "liveDebit D ?u l1")
  have u: "(if (if rnd64 (encoded - lvLastDebited l) < 0 then 0 else rnd64 (encoded - lvLastDebited l)) > 0
      then unitsOf (if rnd64 (encoded - lvLastDebited l) < 0 then 0 else rnd64 (encoded - lvLastDebited l)) else 0) = ?u"
    by (auto simp: tickUnits_def Let_def)
  have res: "(l', r) = (case x of Inl err \<Rightarrow> (paymentFailed D sid err l2, Some sessionEndReasonPaymentFailed)
      | Inr _ \<Rightarrow> checkRunway D sid ?u (l2\<lparr>lvLastDebited := encoded\<rparr>))"
    using assms True d unfolding patternBTick_def Let_def u l1_def by (auto split: sum.splits)
  have l2: "lvSeq l2 = lvSeq l + 1" "lvCtl l2 = (lvCtl l)\<lparr>cStream := cStream (lvCtl l2)\<rparr>" "lvClock l \<le> lvClock l2"
    "\<exists>new. lvTrace l2 = lvTrace l @ new" "debits (lvTrace l2) = debits (lvTrace l) @ [(?u, lvSeq l + 1, is_ok x)]"
    "checks (lvTrace l2) = checks (lvTrace l)" "lvLow l2 = lvLow l" "lvGrace l2 = lvGrace l"
    "lvLastDebited l2 = lvLastDebited l"
    using d q1 unfolding quietly_def keeps_def
    by (auto simp: liveDebit_def lemit_def Let_def split: prod.splits sum.splits)
      (metis is_ok.simps rbind.simps old.sum.exhaust)+
  show ?thesis
  proof (cases x)
    case (Inl err)
    then have e: "l' = paymentFailed D sid err l2" "r = Some sessionEndReasonPaymentFailed" using res by auto
    have q: "quietly l2 l'" unfolding e by (rule quietly_paymentFailed)
    have "lvCtl l' = (lvCtl l)\<lparr>cStream := cStream (lvCtl l')\<rparr>"
      using q ctl_trans [OF _ l2(2), of "lvCtl l'"] by (simp add: quietly_def keeps_def)
    moreover have "\<exists>new. lvTrace l' = lvTrace l @ new" "lvClock l \<le> lvClock l'"
      using l2(3,4) q unfolding quietly_def keeps_def by auto
    ultimately show ?thesis using True q e(2) l2 Inl unfolding quietly_def keeps_def
      by (auto intro!: exI [of _ False])
  next
    case (Inr y)
    define m where "m = l2\<lparr>lvLastDebited := encoded\<rparr>"
    have e: "checkRunway D sid ?u m = (l', r)" using res Inr by (simp add: m_def)
    note k = checkRunway_effect [OF e]
    then have km: "keeps m l'" by blast
    have "lvCtl l' = (lvCtl l)\<lparr>cStream := cStream (lvCtl l')\<rparr>"
      using km ctl_trans [OF _ l2(2), of "lvCtl l'"] by (simp add: m_def keeps_def)
    moreover have "\<exists>new. lvTrace l' = lvTrace l @ new" "lvClock l \<le> lvClock l'" "lvSeq l' = lvSeq l + 1"
      "lvLastDebited l' = encoded" "debits (lvTrace l') = debits (lvTrace l) @ [(?u, lvSeq l + 1, True)]"
      using km l2 Inr unfolding keeps_def m_def by auto
    moreover have "lvClock l \<le> lvClock m" "lvLow m = lvLow l" "lvGrace m = lvGrace l" "checks (lvTrace m) = checks (lvTrace l)"
      using l2 by (simp_all add: m_def)
    ultimately show ?thesis using True e by (auto intro!: exI [of _ True])
  qed
qed

end
