(* ===== verification/Live_Billing.thy ===== *)
theory Live_Billing
  imports Live_Session
begin

text \<open>
  What a live session charges and when it ends: the account of a Pattern B session over every sequence
  of inputs (billing bounds, sequence numbers, grace period), and the record it leaves.
\<close>

subsection \<open>The account\<close>

text \<open>
  The encoder's media clock: \<open>EncodedSeconds\<close> is a counter of tenths of a second divided by ten, it never
  runs backwards, and it stays below \<open>2^40\<close> tenths (3,400 years), where the float arithmetic of the
  runner is exact to less than a tenth.
\<close>

definition media_clock :: "('s, 'b) live_deps \<Rightarrow> (live_event list \<Rightarrow> int) \<Rightarrow> bool" where
  "media_clock D T \<longleftrightarrow>
     (\<forall>tr. leEncoded D tr = seconds_of_tenths (T tr) \<and> 0 \<le> T tr \<and> T tr < 2 ^ 40) \<and>
     (\<forall>tr new. T tr \<le> T (tr @ new))"

definition paid :: "live_event list \<Rightarrow> int" where
  "paid tr = sum_list (map fst (filter (\<lambda>(u, q, ok). ok) (debits tr)))"

definition payments :: "live_event list \<Rightarrow> nat" where
  "payments tr = length (filter (\<lambda>(u, q, ok). ok) (debits tr))"

text \<open>
  Everything up to the tenth \<open>n\<close> of the media clock is paid, with at most one unit too much per payment.
\<close>

definition billed :: "(live_event list \<Rightarrow> int) \<Rightarrow> ('s, 'b) live \<Rightarrow> int \<Rightarrow> bool" where
  "billed T l n \<longleftrightarrow>
     0 \<le> n \<and> n \<le> T (lvTrace l) \<and> lvLastDebited l = seconds_of_tenths n \<and>
     n \<le> 10 * paid (lvTrace l) \<and> 10 * paid (lvTrace l) \<le> n + 10 * int (payments (lvTrace l))"

definition numbered :: "u64 \<Rightarrow> ('s, 'b) live \<Rightarrow> bool" where
  "numbered s0 l \<longleftrightarrow>
     (let n = length (debits (lvTrace l)) in
      map (fst \<circ> snd) (debits (lvTrace l)) = map (\<lambda>i. s0 + of_nat i) [1..<Suc n] \<and> lvSeq l = s0 + of_nat n)"

lemma unitsOf_ceil: "0 < d \<Longrightarrow> d < 2 ^ 62 \<Longrightarrow> unitsOf d = \<lceil>d\<rceil>"
proof -
  assume "0 < d" "d < 2 ^ 62"
  then have "0 < \<lceil>d\<rceil>" "\<lceil>d\<rceil> \<le> 2 ^ 62" by (simp_all add: ceiling_le_iff)
  then show ?thesis by (simp add: unitsOf_def int_of_float_def Let_def)
qed

text \<open>One debit, from the tenth \<open>k\<close> to the tenth \<open>n\<close>.\<close>

lemma debit_bounds:
  assumes "0 \<le> k" "k \<le> n" "n < 2 ^ 40"
  defines "d \<equiv> rnd64 (seconds_of_tenths n - seconds_of_tenths k)"
  shows "0 < d \<Longrightarrow> n - k \<le> 10 * unitsOf d \<and> 10 * unitsOf d \<le> n - k + 10" and "d \<le> 0 \<Longrightarrow> n = k"
proof -
  have b: "n - k \<le> 10 * \<lceil>d\<rceil>" "10 * \<lceil>d\<rceil> \<le> n - k + 10"
    using ceil_tenths_diff [OF assms(1-3)] unfolding d_def by blast+
  show "n = k" if "d \<le> 0"
  proof -
    have "\<lceil>d\<rceil> \<le> 0" using that by simp
    then show ?thesis using b(1) assms(2) by linarith
  qed
  show "n - k \<le> 10 * unitsOf d \<and> 10 * unitsOf d \<le> n - k + 10" if "0 < d"
  proof -
    have "n < 1099511627776" using assms(3) by simp
    then have "\<lceil>d\<rceil> \<le> 4000000000000000000" using b(2) assms(1) by linarith
    then have "d \<le> 4000000000000000000" by (simp add: ceiling_le_iff)
    then have "d < 2 ^ 62" by simp
    then show ?thesis using unitsOf_ceil [OF that] b by simp
  qed
qed

text \<open>What a debit does to the account, whoever makes it.\<close>

lemma billed_debit:
  assumes "billed T l n" "n \<le> m" "m \<le> T (lvTrace l')" "m < 2 ^ 40"
    "0 < rnd64 (seconds_of_tenths m - lvLastDebited l)"
    "debits (lvTrace l') = debits (lvTrace l) @ [(unitsOf (rnd64 (seconds_of_tenths m - lvLastDebited l)), q, True)]"
    "lvLastDebited l' = seconds_of_tenths m"
  shows "billed T l' m"
proof -
  have n: "0 \<le> n" "lvLastDebited l = seconds_of_tenths n" using assms(1) by (auto simp: billed_def)
  let ?u = "unitsOf (rnd64 (seconds_of_tenths m - seconds_of_tenths n))"
  have u: "m - n \<le> 10 * ?u" "10 * ?u \<le> m - n + 10" using debit_bounds(1) [OF n(1) assms(2,4)] assms(5) n(2) by auto
  have "paid (lvTrace l') = paid (lvTrace l) + ?u" "payments (lvTrace l') = payments (lvTrace l) + 1"
    using assms(6) n(2) by (simp_all add: paid_def payments_def)
  then show ?thesis using assms(1-3,7) u n(1) by (auto simp: billed_def)
qed

lemma billed_same:
  assumes "billed T l n" "lvLastDebited l' = lvLastDebited l" "T (lvTrace l) \<le> T (lvTrace l')"
    "debits (lvTrace l') = debits (lvTrace l) @ xs" "\<forall>(u, q, ok) \<in> set xs. \<not> ok"
  shows "billed T l' n"
proof -
  have "filter (\<lambda>(u, q, ok). ok) xs = []" using assms(5) by (auto simp: filter_empty_conv)
  then have "paid (lvTrace l') = paid (lvTrace l)" "payments (lvTrace l') = payments (lvTrace l)"
    using assms(4) by (simp_all add: paid_def payments_def)
  then show ?thesis using assms(1-3) by (auto simp: billed_def)
qed

lemma numbered_step:
  assumes "numbered s0 l" "lvSeq l' = lvSeq l + 1" "debits (lvTrace l') = debits (lvTrace l) @ [(u, lvSeq l + 1, ok)]"
  shows "numbered s0 l'"
  using assms by (simp add: numbered_def Let_def add_ac)

lemma numbered_same:
  "numbered s0 l \<Longrightarrow> lvSeq l' = lvSeq l \<Longrightarrow> debits (lvTrace l') = debits (lvTrace l) \<Longrightarrow> numbered s0 l'"
  by (simp add: numbered_def)

lemma account_keeps:
  assumes "media_clock D T" "billed T l n" "numbered s0 l" "keeps l l'"
  shows "billed T l' n" "numbered s0 l'"
proof -
  obtain new where "lvTrace l' = lvTrace l @ new" using keeps_static(8) [OF assms(4)] by blast
  then have "T (lvTrace l) \<le> T (lvTrace l')" using assms(1) by (simp add: media_clock_def)
  then show "billed T l' n" using keeps_static [OF assms(4)] by (intro billed_same [OF assms(2), where xs = "[]"]) auto
  show "numbered s0 l'" using keeps_static [OF assms(4)] by (intro numbered_same [OF assms(3)]) auto
qed

lemma account_tick:
  assumes "media_clock D T" "cUsePatternB (lvCtl l)" "billed T l n" "numbered s0 l" "tickAndDecide D sid l = (l', r)"
  shows "(\<exists>n'. billed T l' n') \<and> numbered s0 l' \<and> cUsePatternB (lvCtl l')"
proof -
  let ?m = "T (lvTrace l)"
  have enc: "leEncoded D (lvTrace l) = seconds_of_tenths ?m" "?m < 2 ^ 40" "n \<le> ?m"
    using assms(1,3) by (auto simp: media_clock_def billed_def)
  have tick: "patternBTick D sid (seconds_of_tenths ?m) l = (l', r)"
    using assms(2,5) enc(1) by (simp add: tickAndDecide_def Let_def)
  note eff = patternBTick_effect [OF tick]
  show ?thesis
  proof (cases "tickUnits (seconds_of_tenths ?m) l \<le> 0")
    case True
    then show ?thesis using eff assms by auto
  next
    case False
    then obtain ok new where e: "lvSeq l' = lvSeq l + 1" "lvCtl l' = (lvCtl l)\<lparr>cStream := cStream (lvCtl l')\<rparr>"
      "lvTrace l' = lvTrace l @ new"
      "debits (lvTrace l') = debits (lvTrace l) @ [(tickUnits (seconds_of_tenths ?m) l, lvSeq l + 1, ok)]"
      "lvLastDebited l' = (if ok then seconds_of_tenths ?m else lvLastDebited l)"
      using eff by (auto split: if_splits)
    have T: "?m \<le> T (lvTrace l')" using assms(1) e(3) by (simp add: media_clock_def)
    have d: "0 < rnd64 (seconds_of_tenths ?m - lvLastDebited l)"
      "tickUnits (seconds_of_tenths ?m) l = unitsOf (rnd64 (seconds_of_tenths ?m - lvLastDebited l))"
      using False by (auto simp: tickUnits_def Let_def split: if_splits)
    have "\<exists>n'. billed T l' n'"
    proof (cases ok)
      case True
      then show ?thesis using billed_debit [OF assms(3) enc(3) T enc(2) d(1)] e d(2) by auto
    next
      case False
      then show ?thesis using billed_same [OF assms(3) _ T e(4)] e(5) by auto
    qed
    moreover have "cUsePatternB (lvCtl l')" by (subst e(2)) (simp add: assms(2))
    ultimately show ?thesis using numbered_step [OF assms(4) e(1,4)] by blast
  qed
qed

lemma setReason_static [simp]:
  "cUsePatternB (setReason r c) = cUsePatternB c" "cMirror (setReason r c) = cMirror c"
  "cPatternBSender (setReason r c) = cPatternBSender c" "cPatternBWorkID (setReason r c) = cPatternBWorkID c"
  "cStream (setReason r c) = cStream c"
  by (simp_all add: setReason_def)

lemma account_reason:
  "billed T (l\<lparr>lvCtl := c\<rparr>) n = billed T l n" "numbered s0 (l\<lparr>lvCtl := c\<rparr>) = numbered s0 l"
  by (simp_all add: billed_def numbered_def)

lemma account_loop:
  "sessionLoop D sid is l = (l', r, rest) \<Longrightarrow> media_clock D T \<Longrightarrow> cUsePatternB (lvCtl l) \<Longrightarrow> billed T l n \<Longrightarrow>
   numbered s0 l \<Longrightarrow> (\<exists>n'. billed T l' n') \<and> numbered s0 l' \<and> cUsePatternB (lvCtl l')"
proof (induction D sid "is" l arbitrary: n rule: sessionLoop.induct)
  case (5 D sid "is" l)
  obtain l1 x where t: "tickAndDecide D sid l = (l1, x)" by (cases "tickAndDecide D sid l")
  from account_tick [OF "5.prems"(2,3,4,5) t] obtain n1 where
    1: "billed T l1 n1" "numbered s0 l1" "cUsePatternB (lvCtl l1)" by blast
  show ?case
  proof (cases x)
    case None
    then show ?thesis using "5.IH" [OF t [symmetric] None] "5.prems"(1,2) t 1 by auto
  next
    case (Some reason)
    then show ?thesis using "5.prems"(1) t 1 by auto
  qed
qed (auto simp: account_reason split: if_splits)

subsection \<open>Closing a session\<close>

lemma closePatternB_effect:
  fixes l :: "('s, 'b) live"
  assumes "l' = closePatternB D sid reason fe l" "d = rnd64 (fe - lvLastDebited l)"
  shows "lvLastDebited l' = lvLastDebited l \<and> (\<exists>new. lvTrace l' = lvTrace l @ new) \<and>
    lvCtl l' = (lvCtl l)\<lparr>cStream := cStream (lvCtl l')\<rparr> \<and>
    (if d > 0 then lvSeq l' = lvSeq l + 1 \<and>
       (\<exists>ok. debits (lvTrace l') = debits (lvTrace l) @ [(unitsOf d, lvSeq l + 1, ok)])
     else lvSeq l' = lvSeq l \<and> debits (lvTrace l') = debits (lvTrace l))"
proof -
  define l1 where "l1 = bumpSeq D sid (l\<lparr>lvSeq := lvSeq l + 1\<rparr>)"
  define lf where "lf = (if d > 0 then
      (case liveDebit D (unitsOf d) l1 of
         (l, Inr _) \<Rightarrow> emitEvent D sid (leFinalErr D)
           (usageTick (lvSeq l) (unitsOf d) 0 (reason = sessionEndReasonInsufficientBalance)) l
       | (l, Inl _) \<Rightarrow> l) else l)"
  define ev where "ev = zero_event\<lparr>weType := ''session.ended'', weReason := reason, weFinalUnits := int_of_float fe\<rparr>"
  define le where "le = emitEvent D sid (leFinalErr D) ev lf"
  have l': "\<exists>b ok. l' = lemit (LvCloseSession ok) (le\<lparr>lvBroker := b\<rparr>)"
    unfolding assms(1) closePatternB_def Let_def assms(2) [symmetric] le_def lf_def l1_def ev_def
    by (auto split: prod.splits)
  have q: "quietly lf le" unfolding le_def by (rule quietly_emitEvent)
  have "keeps le l'" using l' by (auto simp: keeps_def lemit_def)
  then have k: "keeps lf l'" using keeps_trans [OF quietly_keeps [OF q]] by blast
  have lf: "lvLastDebited lf = lvLastDebited l \<and> (\<exists>new. lvTrace lf = lvTrace l @ new) \<and>
    lvCtl lf = (lvCtl l)\<lparr>cStream := cStream (lvCtl lf)\<rparr> \<and>
    (if d > 0 then lvSeq lf = lvSeq l + 1 \<and>
       (\<exists>ok. debits (lvTrace lf) = debits (lvTrace l) @ [(unitsOf d, lvSeq l + 1, ok)])
     else lvSeq lf = lvSeq l \<and> debits (lvTrace lf) = debits (lvTrace l))"
  proof (cases "d > 0")
    case True
    obtain l2 x where x: "liveDebit D (unitsOf d) l1 = (l2, x)" by (cases "liveDebit D (unitsOf d) l1")
    have q1: "quietly (l\<lparr>lvSeq := lvSeq l + 1\<rparr>) l1" unfolding l1_def by (rule quietly_bumpSeq)
    obtain ok where l2: "lvLastDebited l2 = lvLastDebited l" "\<exists>new. lvTrace l2 = lvTrace l @ new"
      "lvCtl l2 = (lvCtl l)\<lparr>cStream := cStream (lvCtl l2)\<rparr>" "lvSeq l2 = lvSeq l + 1"
      "debits (lvTrace l2) = debits (lvTrace l) @ [(unitsOf d, lvSeq l + 1, ok)]"
      using x q1 unfolding quietly_def keeps_def by (auto simp: liveDebit_def lemit_def Let_def split: prod.splits)
    have "quietly l2 lf" using True x quietly_emitEvent by (auto simp: lf_def split: sum.splits)
    then have "keeps l2 lf" by (rule quietly_keeps)
    then show ?thesis using True l2 ctl_trans [OF _ l2(3), of "lvCtl lf"] unfolding keeps_def by auto
  qed (simp add: lf_def)
  then have c: "lvCtl lf = (lvCtl l)\<lparr>cStream := cStream (lvCtl lf)\<rparr>" by blast
  show ?thesis using lf k ctl_trans [OF _ c, of "lvCtl l'"] unfolding keeps_def
    by (auto split: if_splits)
qed

lemma quietly_persistTerminal: "quietly l (persistTerminal D sid reason fe l)"
  unfolding persistTerminal_def by (rule quietly_trans [OF quietly_ticked quietly_repoUpdate])

lemma endSession_account:
  assumes "media_clock D T" "cUsePatternB (lvCtl l)" "billed T l n" "numbered s0 l"
    "endSession D v reason l = (l', fe, rec)"
  shows "fe = seconds_of_tenths (T (lvTrace l)) \<and> numbered s0 l' \<and>
    10 * paid (lvTrace l') \<le> T (lvTrace l) + 10 * int (payments (lvTrace l')) \<and>
    ((\<forall>(u, q, ok) \<in> set (debits (lvTrace l')). ok) \<longrightarrow> T (lvTrace l) \<le> 10 * paid (lvTrace l'))"
proof -
  let ?m = "T (lvTrace l)"
  define c where "c = closePatternB D (vStreamID v) reason fe l"
  have fe: "fe = seconds_of_tenths ?m" and m: "?m < 2 ^ 40" and nm: "0 \<le> n" "n \<le> ?m" "lvLastDebited l = seconds_of_tenths n"
    using assms(1,3,5) by (auto simp: media_clock_def billed_def endSession_def Let_def split: prod.splits)
  have l': "l' = persistTerminal D (vStreamID v) reason fe c"
    using assms(2,5) by (auto simp: endSession_def Let_def c_def split: prod.splits)
  have k: "keeps c l'" unfolding l' by (rule quietly_keeps [OF quietly_persistTerminal])
  note eff = closePatternB_effect [OF c_def refl]
  then obtain new where new: "lvTrace c = lvTrace l @ new" by blast
  have T: "?m \<le> T (lvTrace c)" using assms(1) new by (simp add: media_clock_def)
  have d: "debits (lvTrace l') = debits (lvTrace c)" "lvSeq l' = lvSeq c" using keeps_static [OF k] by auto
  then have p: "paid (lvTrace l') = paid (lvTrace c)" "payments (lvTrace l') = payments (lvTrace c)"
    by (simp_all add: paid_def payments_def)
  show ?thesis
  proof (cases "rnd64 (fe - lvLastDebited l) > 0")
    case True
    then obtain ok where ok: "lvSeq c = lvSeq l + 1"
      "debits (lvTrace c) = debits (lvTrace l) @ [(unitsOf (rnd64 (fe - lvLastDebited l)), lvSeq l + 1, ok)]"
      "lvLastDebited c = lvLastDebited l" using eff by auto
    have num: "numbered s0 l'" by (rule numbered_same [OF numbered_step [OF assms(4) ok(1,2)] d(2,1)])
    show ?thesis
    proof (cases ok)
      case True
      have "billed T (c\<lparr>lvLastDebited := fe\<rparr>) ?m"
        using billed_debit [OF assms(3) nm(2), of "c\<lparr>lvLastDebited := fe\<rparr>" "lvSeq l + 1"] T m ok True
          \<open>rnd64 (fe - lvLastDebited l) > 0\<close> unfolding fe by auto
      then show ?thesis using fe num p by (simp add: billed_def)
    next
      case False
      have "billed T c n" using billed_same [OF assms(3) ok(3) T ok(2)] False by simp
      then show ?thesis using fe num p d ok(2) nm(2) False by (auto simp: billed_def)
    qed
  next
    case False
    then have z: "?m = n" using debit_bounds(2) [OF nm(1,2) m] nm(3) fe by simp
    have b: "billed T c n" using billed_same [OF assms(3) _ T, where xs = "[]"] eff False by simp
    have "numbered s0 l'" using numbered_same [OF assms(4), of l'] eff False d by simp
    then show ?thesis using fe p z b by (simp add: billed_def)
  qed
qed

lemma startSession_account:
  assumes "lvTrace l = []" "media_clock D T" "cUsePatternB (lvCtl l)"
  shows "billed T (startSession D v l) 0 \<and> numbered (lvSeq (startSession D v l)) (startSession D v l) \<and>
    cUsePatternB (lvCtl (startSession D v l))"
proof -
  define l0 where "l0 = l\<lparr>lvLastDebited := 0, lvGrace := zero_time, lvLow := False,
       lvSeq := (case ldRepo D of None \<Rightarrow> 0
         | Some st \<Rightarrow> (case GetStream st (lvStore l) (vStreamID v) of Inr s \<Rightarrow> sDebitSeq s | Inl _ \<Rightarrow> 0))\<rparr>"
  have z: "seconds_of_tenths 0 = 0" by (simp add: seconds_of_tenths_def)
  have "billed T l0 0" using assms(1,2) z by (simp add: l0_def billed_def media_clock_def paid_def payments_def)
  moreover have "numbered (lvSeq l0) l0" using assms(1) by (simp add: l0_def numbered_def)
  moreover have "startSession D v l = emitEvent D (vStreamID v) (leCtxErr D) (zero_event\<lparr>weType := ''session.ready''\<rparr>) l0"
    using assms(3) by (simp add: startSession_def Let_def l0_def)
  then have k: "keeps l0 (startSession D v l)" using quietly_keeps [OF quietly_emitEvent] by simp
  moreover have "cUsePatternB (lvCtl l0)" using assms(3) by (simp add: l0_def)
  ultimately show ?thesis using account_keeps [OF assms(2) _ _ k] keeps_static(1,5) [OF k] by simp
qed


definition demo_shell_client :: "live_event list shell_client" where
  "demo_shell_client =
     \<lparr>scValidateKey = (\<lambda>_ k _. Inr \<lparr>vAccepted = True, vStreamID = k, vProjectID = ''p1'', vRecordingEnabled = True\<rparr>),
      scPostEvent = (\<lambda>_ _. Inr ()), scSessionActive = (\<lambda>_ _ _ _. Inr ''rsv''),
      scSessionTick = (\<lambda>_ _. Inr \<lparr>trBalanceCents = 100, trRunwaySeconds = 100, trGraceTriggered = False\<rparr>),
      scSessionEnded = (\<lambda>_ _. (True, None)), scRecordingFinalized = (\<lambda>_ _. Inr ''asset''),
      scTopup = (\<lambda>_ _ _. Inr \<lparr>tpSucceeded = True, tpAuthorizedCents = 1, tpBalanceCents = 100\<rparr>)\<rparr>"

text \<open>A media clock that advances two seconds with every call.\<close>

definition demo_tenths :: "live_event list \<Rightarrow> int" where
  "demo_tenths tr = min (20 * int (length tr)) 100000"

definition demo_live_deps :: "(json memStore, fake) live_deps" where
  "demo_live_deps =
     \<lparr>ldRepo = None, ldPayment = fake_ops, ldHasShell = True, ldShell = demo_shell_client,
      ldPresets = None, ldScheduler = False, ldCostModel = DefaultModel, ldWorkerURL = ''http://w'',
      ldLivePreset = ''h264-live'', ldStoragePrefix = ''live/{stream_id}'', ldMaxConcurrentStreams = 0,
      ldLocalDirRoot = [], ldHasSink = False, ldLadder = [], ldMirrorPollInterval = second div 2,
      ldDebitCadence = 5 * second, ldRunwaySeconds = 30, ldGraceSeconds = 60, ldPreCreditSeconds = 60,
      ldDebitRetryBackoff = second, ldRestartLimit = 3, ldTopupMinInterval = 5 * second,
      leNow = (\<lambda>n. 1000 + int n * 12 * second), leEncoded = (\<lambda>tr. seconds_of_tenths (demo_tenths tr)),
      leCtxErr = (\<lambda>_. False), leFinalErr = (\<lambda>_. False), leDrained = (\<lambda>m. m)\<rparr>"

definition demo_ctl :: streamCtl where
  "demo_ctl =
     \<lparr>cStream = zero_stream\<lparr>sWorkID := ''s1'', sPhase := StreamPhaseStreaming\<rparr>, cReason = sessionEndReasonGraceful,
      cMirror = None, cLease = None, cPatternBSender = [1], cPatternBWorkID = ''w1'', cWorkerSessionID = ''ws1'',
      cUsePatternB = True, cRunning = True, cCancel = 0\<rparr>"

definition demo_live :: "int \<Rightarrow> (json memStore, fake) live" where
  "demo_live credit =
     \<lparr>lvStore = fst (SaveStream memStore_ops Memory 5 (cStream demo_ctl)), lvBroker = CreditFor NewFake ''w1'' credit,
      lvClock = 0, lvTrace = [], lvCtl = demo_ctl, lvLastDebited = 0, lvSeq = 0, lvGrace = zero_time, lvLow = False\<rparr>"

definition demo_valid :: validate_result where
  "demo_valid = \<lparr>vAccepted = True, vStreamID = ''s1'', vProjectID = ''p1'', vRecordingEnabled = True\<rparr>"

definition demo_loop :: "int \<Rightarrow> live_input list \<Rightarrow> (json memStore, fake) live \<times> string option \<times> live_input list" where
  "demo_loop credit is = sessionLoop demo_live_deps (vStreamID demo_valid) is (startSession demo_live_deps demo_valid (demo_live credit))"

definition demo_end :: "int \<Rightarrow> live_input list \<Rightarrow> (json memStore, fake) live \<times> rat \<times> bool" where
  "demo_end credit is =
     (case demo_loop credit is of (l, r, _) \<Rightarrow> endSession demo_live_deps demo_valid (case r of Some x \<Rightarrow> x | None \<Rightarrow> []) l)"

lemma demo_media_clock: "media_clock demo_live_deps demo_tenths"
  by (auto simp: media_clock_def demo_live_deps_def demo_tenths_def)

lemma demo_live_basics: "cUsePatternB (lvCtl (demo_live c))" "lvTrace (demo_live c) = []"
  by (simp_all add: demo_live_def demo_ctl_def)


subsection \<open>The grace period\<close>

text \<open>
  While the balance is low, the deadline was set at the first of an unbroken series of insufficient
  checks.
\<close>

definition low_since :: "('s, 'b) live_deps \<Rightarrow> ('s, 'b) live \<Rightarrow> nat \<Rightarrow> bool" where
  "low_since D l c \<longleftrightarrow>
     (\<exists>a c0 b. checks (lvTrace l) = a @ (c0, False) # b \<and> (\<forall>(c', ok) \<in> set b. \<not> ok) \<and> c0 \<le> c \<and>
       c \<le> lvClock l \<and> lvGrace l = graceFrom D (leNow D c))"

definition grace_ok :: "('s, 'b) live_deps \<Rightarrow> ('s, 'b) live \<Rightarrow> bool" where
  "grace_ok D l \<longleftrightarrow> (if lvLow l then \<exists>c. low_since D l c else lvGrace l = zero_time)"

lemma low_since_snoc:
  assumes "low_since D l c" "checks (lvTrace l') = checks (lvTrace l) @ xs" "\<forall>(c', ok) \<in> set xs. \<not> ok"
    "lvGrace l' = lvGrace l" "lvClock l \<le> lvClock l'"
  shows "low_since D l' c"
  using assms unfolding low_since_def by fastforce

lemma low_since_ctl: "low_since D (l\<lparr>lvCtl := c\<rparr>) = low_since D l"
  by (rule ext) (simp add: low_since_def)

lemma grace_ok_ctl: "grace_ok D (l\<lparr>lvCtl := c\<rparr>) = grace_ok D l"
  by (simp add: grace_ok_def low_since_ctl)

lemma grace_runway:
  assumes "grace_ok D l" "checkRunway D sid units l = (l', r)"
  shows "grace_ok D l' \<and>
    (r = Some sessionEndReasonInsufficientBalance \<longrightarrow> (\<exists>c c'. low_since D l' c \<and> c \<le> c' \<and> leNow D c' > graceFrom D (leNow D c)))"
proof -
  obtain ok where e: "checks (lvTrace l') = checks (lvTrace l) @ [(lvClock l, ok)]"
    "if ok then r = None \<and> \<not> lvLow l' \<and> lvGrace l' = zero_time
     else r = Some sessionEndReasonPaymentFailed \<and> lvLow l' = lvLow l \<and> lvGrace l' = lvGrace l \<or>
       (\<exists>c. lvClock l \<le> c \<and> c \<le> lvClock l' \<and> lvLow l' \<and>
         lvGrace l' = (if \<not> lvLow l \<and> lvGrace l = zero_time then graceFrom D (leNow D c) else lvGrace l) \<and>
         (r = None \<or> r = Some sessionEndReasonInsufficientBalance \<and> (\<exists>c' \<ge> c. leNow D c' > lvGrace l')))"
    using conjunct2 [OF checkRunway_effect [OF assms(2)]] by (elim exE conjE) (rule that)
  note clk = keeps_static(7) [OF conjunct1 [OF checkRunway_effect [OF assms(2)]]]
  have ne: "sessionEndReasonPaymentFailed \<noteq> sessionEndReasonInsufficientBalance" by (simp add: reason_defs)
  show ?thesis
  proof (cases ok)
    case True
    then show ?thesis using e(2) by (simp add: grace_ok_def)
  next
    case False
    from e(2) False have "r = Some sessionEndReasonPaymentFailed \<and> lvLow l' = lvLow l \<and> lvGrace l' = lvGrace l \<or>
       (\<exists>c. lvClock l \<le> c \<and> c \<le> lvClock l' \<and> lvLow l' \<and>
         lvGrace l' = (if \<not> lvLow l \<and> lvGrace l = zero_time then graceFrom D (leNow D c) else lvGrace l) \<and>
         (r = None \<or> r = Some sessionEndReasonInsufficientBalance \<and> (\<exists>c' \<ge> c. leNow D c' > lvGrace l')))"
      by simp
    then show ?thesis
    proof
      assume "r = Some sessionEndReasonPaymentFailed \<and> lvLow l' = lvLow l \<and> lvGrace l' = lvGrace l"
      then show ?thesis
        using assms(1) False low_since_snoc [OF _ e(1) _ _ clk] ne by (auto simp: grace_ok_def split: if_splits)
    next
      assume "\<exists>c. lvClock l \<le> c \<and> c \<le> lvClock l' \<and> lvLow l' \<and>
         lvGrace l' = (if \<not> lvLow l \<and> lvGrace l = zero_time then graceFrom D (leNow D c) else lvGrace l) \<and>
         (r = None \<or> r = Some sessionEndReasonInsufficientBalance \<and> (\<exists>c' \<ge> c. leNow D c' > lvGrace l'))"
      then obtain c where c: "lvClock l \<le> c" "c \<le> lvClock l'" "lvLow l'"
        "lvGrace l' = (if \<not> lvLow l \<and> lvGrace l = zero_time then graceFrom D (leNow D c) else lvGrace l)"
        "r = None \<or> r = Some sessionEndReasonInsufficientBalance \<and> (\<exists>c' \<ge> c. leNow D c' > lvGrace l')" by (elim exE conjE)
      obtain c1 where "low_since D l' c1" "c1 \<le> c"
      proof (cases "lvLow l")
        case True
        then obtain c0 where c0: "low_since D l c0" using assms(1) by (auto simp: grace_ok_def)
        have "c0 \<le> c" using c0 c(1) by (auto simp: low_since_def)
        then show ?thesis using that low_since_snoc [OF c0 e(1) _ _ clk] c(4) False True by simp
      next
        case nl: False
        then have "lvGrace l' = graceFrom D (leNow D c)" using c(4) assms(1) by (simp add: grace_ok_def)
        then have "low_since D l' c" using e(1) False c(1,2) unfolding low_since_def by force
        then show ?thesis using that by simp
      qed
      moreover from this have "lvGrace l' = graceFrom D (leNow D c1)" by (auto simp: low_since_def)
      ultimately show ?thesis using c(3,5) by (auto simp: grace_ok_def intro: order_trans)
    qed
  qed
qed

lemma grace_tick:
  assumes "cUsePatternB (lvCtl l)" "grace_ok D l" "tickAndDecide D sid l = (l', r)"
  shows "grace_ok D l' \<and> cUsePatternB (lvCtl l') \<and>
    (r = Some sessionEndReasonInsufficientBalance \<longrightarrow> (\<exists>c c'. low_since D l' c \<and> c \<le> c' \<and> leNow D c' > graceFrom D (leNow D c)))"
proof -
  let ?e = "leEncoded D (lvTrace l)"
  have tick: "patternBTick D sid ?e l = (l', r)" using assms(1,3) by (simp add: tickAndDecide_def Let_def)
  note eff = patternBTick_effect [OF tick]
  have ne: "sessionEndReasonPaymentFailed \<noteq> sessionEndReasonInsufficientBalance" by (simp add: reason_defs)
  show ?thesis
  proof (cases "tickUnits ?e l \<le> 0")
    case True
    then show ?thesis using eff assms by auto
  next
    case False
    then have c: "lvCtl l' = (lvCtl l)\<lparr>cStream := cStream (lvCtl l')\<rparr>" and clk: "lvClock l \<le> lvClock l'" using eff by auto
    have pb: "cUsePatternB (lvCtl l')" by (subst c) (simp add: assms(1))
    from False eff consider
      (failed) "r = Some sessionEndReasonPaymentFailed" "checks (lvTrace l') = checks (lvTrace l)" "lvLow l' = lvLow l" "lvGrace l' = lvGrace l"
      | (done_) m where "lvClock l \<le> lvClock m" "lvLow m = lvLow l" "lvGrace m = lvGrace l" "checks (lvTrace m) = checks (lvTrace l)"
        "checkRunway D sid (tickUnits ?e l) m = (l', r)"
      by (auto split: if_splits)
    then show ?thesis
    proof cases
      case failed
      then show ?thesis using assms(2) pb ne clk low_since_snoc [of D l _ l' "[]"] by (auto simp: grace_ok_def split: if_splits)
    next
      case done_
      have "grace_ok D m" using assms(2) done_ low_since_snoc [of D l _ m "[]"] by (auto simp: grace_ok_def split: if_splits)
      from grace_runway [OF this done_(5)] pb show ?thesis by blast
    qed
  qed
qed

lemma setReason_in: "cReason (setReason r c) \<in> {r, cReason c}"
  by (simp add: setReason_def)

lemma grace_loop:
  assumes "sessionLoop D sid is l = (l', Some reason, rest)" "cUsePatternB (lvCtl l)" "grace_ok D l"
    "reason = sessionEndReasonInsufficientBalance" "cReason (lvCtl l) \<noteq> sessionEndReasonInsufficientBalance"
    "InReason sessionEndReasonInsufficientBalance \<notin> set is"
  shows "\<exists>c c'. low_since D l' c \<and> c \<le> c' \<and> leNow D c' > graceFrom D (leNow D c)"
  using assms
proof (induction D sid "is" l rule: sessionLoop.induct)
  case (2 D sid r "is" l)
  have "cReason (setReason r (lvCtl l)) \<noteq> sessionEndReasonInsufficientBalance"
    using setReason_in [of r "lvCtl l"] "2.prems" by auto
  then show ?case using "2.IH" "2.prems" by (simp add: grace_ok_ctl)
next
  case (5 D sid "is" l)
  obtain l1 x where t: "tickAndDecide D sid l = (l1, x)" by (cases "tickAndDecide D sid l")
  note g = grace_tick [OF "5.prems"(2,3) t]
  show ?case
  proof (cases x)
    case None
    have "cReason (lvCtl l1) = cReason (lvCtl l)"
    proof -
      have "patternBTick D sid (leEncoded D (lvTrace l)) l = (l1, x)"
        using "5.prems"(2) t by (simp add: tickAndDecide_def Let_def)
      from patternBTick_effect [OF this] show ?thesis
        by (auto split: if_splits) (metis streamCtl.select_convs(2) streamCtl.surjective streamCtl.update_convs(1))+
    qed
    then show ?thesis using "5.IH" [OF t [symmetric] None] "5.prems" t g None by auto
  next
    case (Some y)
    then show ?thesis using "5.prems"(1,4) t g by auto
  qed
qed (auto simp: closeReasonOr_def reason_defs split: if_splits)



end
