(* ===== verification/Live_Record.thy ===== *)
theory Live_Record
  imports Live_Billing
begin

text \<open>
  The stored record of a live session, the reasons it can end for, and two ways in which closing a session
  goes wrong.
\<close>

subsection \<open>The record stays in the store\<close>

definition stored :: "string \<Rightarrow> json memStore \<Rightarrow> bool" where
  "stored sid s \<longleftrightarrow>
     mem_inv s \<and> sid \<noteq> [] \<and>
     (\<exists>x. GetStream memStore_ops s sid = Inr x \<and> sWorkID x = sid \<and> stream_wf x)"

definition benign :: "(stream \<Rightarrow> stream) \<Rightarrow> bool" where
  "benign f \<longleftrightarrow> (\<forall>x. sWorkID (f x) = sWorkID x \<and> (stream_wf x \<longrightarrow> stream_wf (f x)))"

abbreviation kept :: "string \<Rightarrow> (json memStore, 'b) live \<Rightarrow> bool" where
  "kept sid l \<equiv> stored sid (lvStore l)"

lemma stored_SaveStream:
  assumes "stored sid s" "GetStream memStore_ops s sid = Inr x" "sWorkID y = sid" "stream_wf y"
  shows "stored sid (fst (SaveStream memStore_ops s now y)) \<and>
    GetStream memStore_ops (fst (SaveStream memStore_ops s now y)) sid = Inr (y\<lparr>sUpdatedAt := now, sWebhookSecret := []\<rparr>)"
proof -
  have "mem_inv s" "sWorkID y \<noteq> []" using assms by (auto simp: stored_def)
  from repo.SaveStream_ok [OF this assms(4), of now] obtain s' where
    "SaveStream memStore_ops s now y = (s', Inr ())" "mem_inv s'"
    "GetStream memStore_ops s' sid = Inr (y\<lparr>sUpdatedAt := now, sWebhookSecret := []\<rparr>)"
    using assms(3) by metis
  then show ?thesis using assms by (auto simp: stored_def stream_wf_def)
qed

lemma kept_repoUpdate:
  assumes "ldRepo D = Some memStore_ops" "kept sid l" "benign f"
  shows "kept sid (repoUpdate D sid f l) \<and>
    (\<exists>x t. GetStream memStore_ops (lvStore l) sid = Inr x \<and>
       GetStream memStore_ops (lvStore (repoUpdate D sid f l)) sid = Inr ((f x)\<lparr>sUpdatedAt := t, sWebhookSecret := []\<rparr>))"
proof -
  obtain x where x: "GetStream memStore_ops (lvStore l) sid = Inr x" "sWorkID x = sid" "stream_wf x"
    using assms(2) by (auto simp: stored_def)
  have "sWorkID (f x) = sid" "stream_wf (f x)" using assms(3) x by (auto simp: benign_def)
  from stored_SaveStream [OF assms(2) x(1) this, of "NowFn D l"] x assms(1) show ?thesis
    by (auto simp: repoUpdate_def ticked_def)
qed

lemma kept_bumpSeq:
  assumes "ldRepo D = Some memStore_ops" "kept sid l"
  shows "kept sid (bumpSeq D sid l)"
proof -
  obtain x where x: "GetStream memStore_ops (lvStore l) sid = Inr x" "sWorkID x = sid" "stream_wf x" "mem_inv (lvStore l)" "sid \<noteq> []"
    using assms(2) by (auto simp: stored_def)
  from repo.IncrementDebitSeq_ok [OF x(4,1,2,5,3), of "NowFn D l"] obtain s' where
    "IncrementDebitSeq memStore_ops (lvStore l) sid (NowFn D l) = (s', Inr (sDebitSeq x + 1))" "mem_inv s'"
    "GetStream memStore_ops s' sid = Inr (x\<lparr>sDebitSeq := sDebitSeq x + 1, sUpdatedAt := NowFn D l, sWebhookSecret := []\<rparr>)" .
  then show ?thesis using x assms(1) by (auto simp: bumpSeq_def ticked_def stored_def stream_wf_def)
qed

lemma kept_same_store: "kept sid l \<Longrightarrow> lvStore l' = lvStore l \<Longrightarrow> kept sid l'"
  by (simp add: stored_def)

lemma postLoop_store [simp]: "lvStore (postLoop D ce e n l) = lvStore l"
  by (induction n arbitrary: l) (simp_all add: Let_def lemit_def)

lemma store_frame [simp]:
  "lvStore (ticked l) = lvStore l" "lvStore (lemit e l) = lvStore l" "lvStore (emitEvent D sid ce ev l) = lvStore l"
  by (simp_all add: ticked_def lemit_def emitEvent_def)

lemma liveDebit_store: "liveDebit D u l = (l', r) \<Longrightarrow> lvStore l' = lvStore l"
  by (auto simp: liveDebit_def Let_def split: prod.splits)

lemma liveCheck_store: "liveCheck D l = (l', r) \<Longrightarrow> lvStore l' = lvStore l"
  by (auto simp: liveCheck_def Let_def split: prod.splits)

lemma kept_persist:
  assumes "ldRepo D = Some memStore_ops" "kept sid l" "benign f"
  shows "kept sid (persistStreamUpdate D sid f l)"
  unfolding persistStreamUpdate_def Let_def
  by (rule conjunct1 [OF kept_repoUpdate [OF assms(1) _ assms(3)]]) (rule kept_same_store [OF assms(2)], simp)

lemma benign_updates:
  "stream_phase_canonical p \<Longrightarrow> benign (\<lambda>s. s\<lparr>sPhase := p, sErrorCode := c\<rparr>)"
  "stream_phase_canonical p \<Longrightarrow> benign (\<lambda>s. s\<lparr>sPhase := p, sLowBalance := b, sGraceUntil := g, sErrorCode := c\<rparr>)"
  "benign (\<lambda>s. s\<lparr>sLastTopupAt := t\<rparr>)"
  by (simp_all add: benign_def stream_wf_def)

lemma kept_paymentFailed:
  assumes "ldRepo D = Some memStore_ops" "kept sid l"
  shows "kept sid (paymentFailed D sid err l)"
  unfolding paymentFailed_def
  by (rule kept_same_store [OF kept_persist [OF assms]]) (auto intro: benign_updates)

lemma kept_lowBalance:
  assumes "ldRepo D = Some memStore_ops" "kept sid l"
  shows "kept sid (fst (lowBalance D sid l))"
proof -
  have "kept sid (persistStreamUpdate D sid (\<lambda>s. s\<lparr>sPhase := StreamPhaseLowBalance, sLowBalance := True,
       sGraceUntil := g, sErrorCode := []\<rparr>) l')" if "lvStore l' = lvStore l" for l' :: "(json memStore, 'a) live" and g
    by (rule kept_persist [OF assms(1) kept_same_store [OF assms(2) that]]) (auto intro: benign_updates)
  then show ?thesis using assms(2) by (auto simp: lowBalance_def Let_def)
qed

lemma kept_enoughBalance:
  assumes "ldRepo D = Some memStore_ops" "kept sid l"
  shows "kept sid (enoughBalance D sid l)"
proof -
  have "kept sid (persistStreamUpdate D sid (\<lambda>s. s\<lparr>sPhase := StreamPhaseStreaming, sLowBalance := False,
       sGraceUntil := zero_time, sErrorCode := []\<rparr>) (l\<lparr>lvLow := False\<rparr>))"
    by (rule kept_persist [OF assms(1) kept_same_store [OF assms(2)]]) (auto intro: benign_updates)
  then show ?thesis using assms(2) by (simp add: enoughBalance_def Let_def)
qed

lemma kept_checkRunway:
  assumes "ldRepo D = Some memStore_ops" "kept sid l"
  shows "kept sid (fst (checkRunway D sid u l))"
proof -
  obtain l1 x where c: "liveCheck D l = (l1, x)" by (cases "liveCheck D l")
  have k: "kept sid l1" using kept_same_store [OF assms(2)] liveCheck_store [OF c] by blast
  show ?thesis
  proof (cases x)
    case (Inl err)
    then show ?thesis using c kept_paymentFailed [OF assms(1) k] by (simp add: checkRunway_def)
  next
    case (Inr ok)
    let ?l2 = "emitEvent D sid (leCtxErr D) (usageTick (lvSeq l1) u (if ok then ldRunwaySeconds D else 0) (\<not> ok)) l1"
    have "kept sid ?l2" by (rule kept_same_store [OF k]) simp
    from kept_lowBalance [OF assms(1) this] kept_enoughBalance [OF assms(1) this] show ?thesis
      using c Inr by (cases ok) (simp_all add: checkRunway_def Let_def)
  qed
qed

lemma kept_patternBTick:
  assumes "ldRepo D = Some memStore_ops" "kept sid l"
  shows "kept sid (fst (patternBTick D sid e l))"
proof -
  let ?l1 = "bumpSeq D sid (l\<lparr>lvSeq := lvSeq l + 1\<rparr>)"
  have k1: "kept sid ?l1" by (rule kept_bumpSeq [OF assms(1) kept_same_store [OF assms(2)]]) simp
  have d: "kept sid l2" if "liveDebit D u ?l1 = (l2, x)" for u l2 x
    by (rule kept_same_store [OF k1 liveDebit_store [OF that]])
  have "kept sid (fst (case liveDebit D u ?l1 of (l, Inl err) \<Rightarrow> (paymentFailed D sid err l, Some sessionEndReasonPaymentFailed)
      | (l, Inr _) \<Rightarrow> checkRunway D sid u (l\<lparr>lvLastDebited := e\<rparr>)))" for u
  proof -
    obtain l2 x where x: "liveDebit D u ?l1 = (l2, x)" by (cases "liveDebit D u ?l1")
    have "kept sid (l2\<lparr>lvLastDebited := e\<rparr>)" by (rule kept_same_store [OF d [OF x]]) simp
    then show ?thesis using x kept_paymentFailed [OF assms(1) d [OF x]] kept_checkRunway [OF assms(1)]
      by (cases x) auto
  qed
  then show ?thesis using assms(2) by (simp add: patternBTick_def Let_def)
qed

lemma kept_legacyRunway:
  assumes "ldRepo D = Some memStore_ops" "kept sid l"
  shows "kept sid (legacyRunway D sid res l)"
proof -
  have "kept sid (legacyTopup D sid l')" if "lvStore l' = lvStore l" for l'
  proof (cases "scTopup (ldShell D) (lvTrace l') sid (ldPreCreditSeconds D)")
    case (Inl err)
    then show ?thesis using that assms(2) by (simp add: legacyTopup_def)
  next
    case (Inr tp)
    then show ?thesis unfolding legacyTopup_def Let_def
      by (simp, intro conjunct1 [OF kept_repoUpdate [OF assms(1) kept_same_store [OF assms(2)]]])
        (auto intro: benign_updates simp: that)
  qed
  then show ?thesis using assms(2) by (simp add: legacyRunway_def Let_def)
qed

lemma kept_legacyTick:
  assumes "ldRepo D = Some memStore_ops" "kept sid l"
  shows "kept sid (fst (legacyTick D sid e l))"
proof -
  let ?l1 = "bumpSeq D sid (l\<lparr>lvSeq := lvSeq l + 1\<rparr>)"
  have k1: "kept sid ?l1" by (rule kept_bumpSeq [OF assms(1) kept_same_store [OF assms(2)]]) simp
  have "kept sid (legacyRunway D sid res l')" if "lvStore l' = lvStore ?l1" for l' res
    by (rule kept_legacyRunway [OF assms(1) kept_same_store [OF k1 that]])
  then show ?thesis using k1 by (auto simp: legacyTick_def Let_def split: sum.splits)
qed

lemma kept_tick:
  assumes "ldRepo D = Some memStore_ops" "kept sid l"
  shows "kept sid (fst (tickAndDecide D sid l))"
  using kept_patternBTick [OF assms] kept_legacyTick [OF assms] by (simp add: tickAndDecide_def Let_def)

lemma kept_loop:
  "sessionLoop D sid is l = (l', r, rest) \<Longrightarrow> ldRepo D = Some memStore_ops \<Longrightarrow> kept sid l \<Longrightarrow> kept sid l'"
proof (induction D sid "is" l rule: sessionLoop.induct)
  case (5 D sid "is" l)
  obtain l1 x where t: "tickAndDecide D sid l = (l1, x)" by (cases "tickAndDecide D sid l")
  have k: "kept sid l1" using kept_tick [OF "5.prems"(2,3)] t by simp
  show ?case
  proof (cases x)
    case None
    then show ?thesis using "5.IH" [OF t [symmetric] None _ "5.prems"(2) k] "5.prems"(1) t by simp
  next
    case (Some y)
    then show ?thesis using "5.prems"(1) t k by simp
  qed
qed (auto split: if_splits)

lemma kept_closePatternB:
  assumes "ldRepo D = Some memStore_ops" "kept sid l"
  shows "kept sid (closePatternB D sid reason fe l)"
proof -
  let ?l1 = "bumpSeq D sid (l\<lparr>lvSeq := lvSeq l + 1\<rparr>)"
  have k1: "kept sid ?l1" by (rule kept_bumpSeq [OF assms(1) kept_same_store [OF assms(2)]]) simp
  have d: "kept sid (fst (liveDebit D u ?l1))" for u
  proof -
    obtain l2 x where x: "liveDebit D u ?l1 = (l2, x)" by (cases "liveDebit D u ?l1")
    have "kept sid l2" by (rule kept_same_store [OF k1 liveDebit_store [OF x]])
    then show ?thesis by (simp add: x)
  qed
  have "lvStore (closePatternB D sid reason fe l) =
      (if rnd64 (fe - lvLastDebited l) > 0 then lvStore (fst (liveDebit D (unitsOf (rnd64 (fe - lvLastDebited l))) ?l1))
       else lvStore l)"
    by (cases "liveDebit D (unitsOf (rnd64 (fe - lvLastDebited l))) ?l1")
      (simp add: closePatternB_def Let_def case_prod_unfold split: sum.splits)
  then show ?thesis using d assms(2) by simp
qed

lemma int_of_float_range: "- (2 ^ 63) \<le> int_of_float x \<and> int_of_float x < 2 ^ 63"
  by (auto simp: int_of_float_def Let_def)

lemma terminalPhase_terminal: "StreamPhase_IsTerminal (terminalPhase reason)" "stream_phase_canonical (terminalPhase reason)"
  by (simp_all add: terminalPhase_def StreamPhase_IsTerminal_def)

lemma benign_closeRecord: "benign (closeRecord now reason fe seq)"
  using int_of_float_range [of fe] by (simp add: benign_def closeRecord_def stream_wf_def terminalPhase_terminal)

lemma endSession_record:
  assumes "ldRepo D = Some memStore_ops" "kept (vStreamID v) l" "endSession D v reason l = (l', fe, rec)"
  shows "\<exists>x. GetStream memStore_ops (lvStore l') (vStreamID v) = Inr x \<and> sPhase x = terminalPhase reason \<and>
    sCloseReason x = reason \<and> sDebitSeq x = lvSeq l' \<and> sUnitsDebited x = int_of_float fe \<and> \<not> sLowBalance x \<and> sGraceUntil x = zero_time"
proof -
  let ?sid = "vStreamID v"
  obtain c where c: "l' = persistTerminal D ?sid reason fe c" "kept ?sid c"
  proof (cases "cUsePatternB (lvCtl l)")
    case True
    then show ?thesis using assms(3) that [of "closePatternB D ?sid reason fe l"] kept_closePatternB [OF assms(1,2)]
      by (auto simp: endSession_def Let_def)
  next
    case False
    have "kept ?sid (fst (closeLegacy D ?sid reason (leEncoded D (lvTrace l)) l))"
      by (rule kept_same_store [OF assms(2)]) (simp add: closeLegacy_def Let_def split: prod.splits)
    then show ?thesis using assms(3) that False by (auto simp: endSession_def Let_def split: prod.splits)
  qed
  have q: "lvSeq l' = lvSeq c" using quietly_keeps [OF quietly_persistTerminal] unfolding c(1) keeps_def by blast
  have "kept ?sid (ticked c)" using c(2) by simp
  from kept_repoUpdate [OF assms(1) this benign_closeRecord] obtain x t where
    "GetStream memStore_ops (lvStore l') ?sid =
       Inr ((closeRecord (NowFn D c) reason fe (lvSeq c) x)\<lparr>sUpdatedAt := t, sWebhookSecret := []\<rparr>)"
    unfolding c(1) persistTerminal_def by blast
  then show ?thesis using q by (auto simp: closeRecord_def)
qed

lemma recordingBridge_frame:
  "lvStore (recordingBridge D v fe rec l) = lvStore l \<and> lvSeq (recordingBridge D v fe rec l) = lvSeq l"
  by (simp add: recordingBridge_def Let_def lemit_def keeps_static(5) [OF quietly_keeps [OF quietly_emitEvent]]
      split: option.splits)

lemma startSession_store [simp]: "lvStore (startSession D v l) = lvStore l"
  by (simp add: startSession_def Let_def)

lemma run_record_terminal:
  assumes "ldRepo D = Some memStore_ops" "stored (vStreamID v) (lvStore l)"
    "runSession D v is l = (l', Finished reason) \<or> runSession D v is l = (l', WaitingForMirror reason)"
  shows "\<exists>x. GetStream memStore_ops (lvStore l') (vStreamID v) = Inr x \<and> StreamPhase_IsTerminal (sPhase x) \<and>
    sPhase x = (if reason = ''insufficient_balance'' then StreamPhaseBalanceExhausted
      else if reason = ''session_worker_failed'' then StreamPhaseEncoderFailed else StreamPhaseClosed) \<and>
    sCloseReason x = reason \<and> sDebitSeq x = lvSeq l' \<and> \<not> sLowBalance x \<and> sGraceUntil x = zero_time"
proof -
  obtain l1 r rest where lp: "sessionLoop D (vStreamID v) is (startSession D v l) = (l1, r, rest)"
    by (cases "sessionLoop D (vStreamID v) is (startSession D v l)")
  then have r: "r = Some reason" using assms(3) by (auto simp: runSession_def split: option.splits prod.splits if_splits)
  obtain l2 fe rec where e: "endSession D v reason l1 = (l2, fe, rec)" by (cases "endSession D v reason l1")
  have k: "kept (vStreamID v) l1" using kept_loop [OF lp assms(1)] assms(2) by simp
  have "lvStore l' = lvStore l2 \<and> lvSeq l' = lvSeq l2"
    using assms(3) lp r e
    by (auto simp: runSession_def recordingBridge_frame split: option.splits if_splits)
  with endSession_record [OF assms(1) k e] show ?thesis
    by (auto simp: terminalPhase_def StreamPhase_IsTerminal_def reason_defs)
qed

text \<open>
  C22. A session that ends leaves a terminal record: however it ran, Pattern B or legacy, once the closing
  sequence is through the stored stream is in a terminal phase that fits the reason, carries the
  reason, the last sequence number and no grace period. (A session that lost the payment path ends
  as \<open>closed\<close>: the phase \<open>payment_unreachable\<close> written by the tick does not survive.)
\<close>

theorem live_record_terminal:
  assumes "ldRepo D = Some memStore_ops" "stored (vStreamID v) (lvStore l)"
    "runSession D v is l = (l', Finished reason) \<or> runSession D v is l = (l', WaitingForMirror reason)"
  shows "\<exists>x. GetStream memStore_ops (lvStore l') (vStreamID v) = Inr x \<and> StreamPhase_IsTerminal (sPhase x) \<and>
    sPhase x = (if reason = ''insufficient_balance'' then StreamPhaseBalanceExhausted
      else if reason = ''session_worker_failed'' then StreamPhaseEncoderFailed else StreamPhaseClosed) \<and>
    sCloseReason x = reason \<and> sDebitSeq x = lvSeq l' \<and> \<not> sLowBalance x \<and> sGraceUntil x = zero_time"
  using run_record_terminal [OF assms] .

text \<open>
  Of several termination reasons the gravest wins: whatever the order in which the goroutines of a
  session set reasons, the final one has the highest priority among all of them.
\<close>

theorem reason_priority_max:
  "terminationReasonPriority (cReason (fold setReason rs c)) =
     Max (insert (terminationReasonPriority (cReason c)) (terminationReasonPriority ` set rs)) \<and>
   cReason (fold setReason rs c) \<in> insert (cReason c) (set rs)"
proof (induction rs arbitrary: c)
  case (Cons r rs)
  have p: "terminationReasonPriority (cReason (setReason r c)) =
      max (terminationReasonPriority (cReason c)) (terminationReasonPriority r)"
    by (auto simp: setReason_def max_def terminationReasonPriority_def reason_defs)
  have m: "Max (insert (max a b) A) = Max (insert a (insert b A))" if "finite A" for a b :: nat and A
    using that by (cases "A = {}") (auto simp: max.assoc)
  show ?case using Cons.IH [of "setReason r c"] setReason_in [of r c] by (auto simp: p m)
qed simp

lemma loop_rest: "sessionLoop D sid is l = (l', r, rest) \<Longrightarrow> set rest \<subseteq> set is"
proof (induction D sid "is" l rule: sessionLoop.induct)
  case (5 D sid "is" l)
  obtain l1 x where t: "tickAndDecide D sid l = (l1, x)" by (cases "tickAndDecide D sid l")
  then show ?case using "5.IH" [OF t [symmetric]] "5.prems" by (cases x) auto
qed (auto split: if_splits)

text \<open>The part of the control block that a session does not write while it runs: all but stream and reason.\<close>

definition block ::
  "streamCtl \<Rightarrow> mirror option \<times> slotLease option \<times> bool \<times> nat \<times> bytes \<times> string \<times> bool" where
  "block c = (cMirror c, cLease c, cRunning c, cCancel c, cPatternBSender c, cPatternBWorkID c, cUsePatternB c)"

lemma block_updates [simp]:
  "block (c\<lparr>cStream := x\<rparr>) = block c" "block (setReason rs c) = block c"
  by (simp_all add: block_def setReason_def)

lemma block_stream: "c' = c\<lparr>cStream := cStream c'\<rparr> \<Longrightarrow> block c' = block c"
  by (metis block_updates(1))

lemma block_mirror: "block c' = block c \<Longrightarrow> cMirror c' = cMirror c"
  by (simp add: block_def)

lemma repoUpdate_ctl: "lvCtl (repoUpdate D sid f l) = lvCtl l"
  by (simp add: repoUpdate_def ticked_def split: option.splits sum.splits)

lemma bumpSeq_ctl: "lvCtl (bumpSeq D sid l) = lvCtl l"
  by (simp add: bumpSeq_def ticked_def split: option.splits)

lemma legacyTick_block: "block (lvCtl (fst (legacyTick D sid e l))) = block (lvCtl l)"
proof -
  have t: "block (lvCtl (legacyTopup D sid l')) = block (lvCtl l')" for l'
    by (simp add: legacyTopup_def Let_def repoUpdate_ctl ticked_def lemit_def split: sum.splits)
  have "block (lvCtl (legacyRunway D sid res l')) = block (lvCtl l')" for l' res
    by (simp add: legacyRunway_def Let_def t ticked_def)
  then show ?thesis
    by (simp add: legacyTick_def Let_def ticked_def lemit_def bumpSeq_ctl split: sum.splits)
qed

lemma tick_block: "tickAndDecide D sid l = (l', r) \<Longrightarrow> block (lvCtl l') = block (lvCtl l)"
proof (cases "cUsePatternB (lvCtl l)")
  case True
  assume "tickAndDecide D sid l = (l', r)"
  with True have "patternBTick D sid (leEncoded D (lvTrace l)) l = (l', r)" by (simp add: tickAndDecide_def Let_def)
  from patternBTick_effect [OF this] show ?thesis
    by (cases "tickUnits (leEncoded D (lvTrace l)) l \<le> 0") (auto intro: block_stream)
next
  case False
  assume "tickAndDecide D sid l = (l', r)"
  with False have "l' = fst (legacyTick D sid (leEncoded D (lvTrace l)) l)" by (simp add: tickAndDecide_def Let_def)
  then show ?thesis by (simp add: legacyTick_block)
qed

lemma loop_block: "sessionLoop D sid is l = (l', r, rest) \<Longrightarrow> block (lvCtl l') = block (lvCtl l)"
proof (induction D sid "is" l rule: sessionLoop.induct)
  case (5 D sid "is" l)
  obtain l1 x where t: "tickAndDecide D sid l = (l1, x)" by (cases "tickAndDecide D sid l")
  show ?case
  proof (cases x)
    case None
    then show ?thesis using "5.IH" [OF t [symmetric] None] "5.prems" t tick_block [OF t] by simp
  next
    case (Some y)
    then show ?thesis using "5.prems" t tick_block [OF t] by simp
  qed
qed (auto split: if_splits)

lemma keeps_block: "keeps l l' \<Longrightarrow> block (lvCtl l') = block (lvCtl l)"
  unfolding keeps_def using block_stream by blast

lemma endSession_block: "endSession D v reason l = (l', fe, rec) \<Longrightarrow> block (lvCtl l') = block (lvCtl l)"
proof -
  assume e: "endSession D v reason l = (l', fe, rec)"
  let ?fe = "leEncoded D (lvTrace l)"
  have c: "block (lvCtl (closePatternB D (vStreamID v) reason ?fe l)) = block (lvCtl l)"
    using closePatternB_effect [OF refl refl, of D "vStreamID v" reason ?fe l] by (auto intro: block_stream)
  have "block (lvCtl (fst (closeLegacy D (vStreamID v) reason ?fe l))) = block (lvCtl l)"
    by (simp add: closeLegacy_def Let_def lemit_def split: prod.splits)
  then show ?thesis using e c
    by (auto simp: endSession_def Let_def keeps_block [OF quietly_keeps [OF quietly_persistTerminal]] split: prod.splits if_splits)
qed

lemma startSession_block: "block (lvCtl (startSession D v l)) = block (lvCtl l)"
  by (simp add: startSession_def Let_def keeps_block [OF quietly_keeps [OF quietly_emitEvent]])

lemmas loop_mirror = block_mirror [OF loop_block]
lemmas endSession_mirror = block_mirror [OF endSession_block]
lemmas startSession_mirror = block_mirror [OF startSession_block]

lemma startSession_reason: "cReason (lvCtl (startSession D v l)) = cReason (lvCtl l)"
  by (simp add: startSession_def Let_def keeps_static(3) [OF quietly_keeps [OF quietly_emitEvent]])

text \<open>A session whose encoder exits cleanly before the first tick.\<close>

lemma runSession_clean_exit:
  assumes "cMirror (lvCtl l) = None" "cReason (lvCtl l) = sessionEndReasonGraceful"
  shows "snd (runSession D v [InEncoder (Some ErrEncoderExited)] l) = Finished sessionEndReasonGraceful"
proof -
  obtain l2 fe rec where e: "endSession D v sessionEndReasonGraceful (startSession D v l) = (l2, fe, rec)"
    by (cases "endSession D v sessionEndReasonGraceful (startSession D v l)")
  have "cMirror (lvCtl l2) = None" using endSession_mirror [OF e] assms(1) by (simp add: startSession_mirror)
  then show ?thesis using e assms(2)
    by (simp add: runSession_def cleanExit_def errors_Is_def closeReasonOr_def startSession_reason reason_defs)
qed

definition demo_stored_deps :: "(json memStore, fake) live_deps" where
  "demo_stored_deps = demo_live_deps\<lparr>ldRepo := Some memStore_ops\<rparr>"

lemma demo_live_stored: "stored ''s1'' (lvStore (demo_live c))"
proof -
  let ?x = "cStream demo_ctl"
  have x: "sWorkID ?x = ''s1''" "stream_wf ?x" by (simp_all add: demo_ctl_def stream_wf_def zero_stream_def)
  have "mem_inv (Memory :: json memStore)" by (simp add: mem_inv_def Memory_def)
  moreover have "sWorkID ?x \<noteq> []" by (simp add: x(1))
  ultimately obtain s' where
    "SaveStream memStore_ops Memory 5 ?x = (s', Inr ())" "mem_inv s'"
    "GetStream memStore_ops s' ''s1'' = Inr (?x\<lparr>sUpdatedAt := 5, sWebhookSecret := []\<rparr>)"
    using repo.SaveStream_ok [OF _ _ x(2), of Memory 5] x(1) by metis
  then show ?thesis using x by (simp add: stored_def demo_live_def stream_wf_def)
qed

theorem live_record_terminal_witness:
  "\<exists>x. GetStream memStore_ops
     (lvStore (fst (runSession demo_stored_deps demo_valid [InEncoder (Some ErrEncoderExited)] (demo_live 100)))) ''s1'' = Inr x \<and>
   sPhase x = StreamPhaseClosed \<and> sCloseReason x = ''graceful''"
proof -
  let ?r = "runSession demo_stored_deps demo_valid [InEncoder (Some ErrEncoderExited)] (demo_live 100)"
  have "snd ?r = Finished sessionEndReasonGraceful" by (rule runSession_clean_exit) (simp_all add: demo_live_def demo_ctl_def)
  then have r: "?r = (fst ?r, Finished sessionEndReasonGraceful)" by (simp add: prod_eq_iff)
  have "ldRepo demo_stored_deps = Some memStore_ops" "vStreamID demo_valid = ''s1''"
    by (simp_all add: demo_stored_deps_def demo_valid_def)
  with live_record_terminal [OF _ _ disjI1 [OF r]] demo_live_stored show ?thesis
    by (auto simp: reason_defs)
qed


definition demo_mirrored :: "(json memStore, fake) live" where
  "demo_mirrored = (demo_live 3)\<lparr>lvCtl := demo_ctl\<lparr>cMirror := Some (NewMirror ''/live/s1'' ''live/s1'')\<rparr>\<rparr>"


text \<open>
  A debit that fails is not repeated under its own number: after a tick whose debit failed, the closing
  debit covers the same seconds again, from the same starting point, with the next sequence
  number. A receiver that had applied the failed one takes them for two debits.
\<close>

theorem live_failed_debit_recharged:
  assumes "patternBTick D sid e l = (l1, Some sessionEndReasonPaymentFailed)"
    "debits (lvTrace l1) = debits (lvTrace l) @ [(u, q, False)]"
    "closePatternB D sid sessionEndReasonPaymentFailed fe l1 = l2" "0 < rnd64 (fe - lvLastDebited l)"
  shows "q = lvSeq l + 1 \<and>
    (\<exists>ok. debits (lvTrace l2) = debits (lvTrace l) @ [(u, q, False), (unitsOf (rnd64 (fe - lvLastDebited l)), q + 1, ok)])"
proof -
  have pos: "\<not> tickUnits e l \<le> 0"
    using patternBTick_effect [OF assms(1)] assms(2) by (auto split: if_splits)
  then have eff: "lvSeq l1 = lvSeq l + 1" "q = lvSeq l + 1" "lvLastDebited l1 = lvLastDebited l"
    using patternBTick_effect [OF assms(1)] assms(2) by (auto split: if_splits)
  then show ?thesis
    using closePatternB_effect [OF assms(3) [symmetric] refl] assms(2,4) by (auto simp: add_ac)
qed

definition demo_refusing :: "(json memStore, fake) live" where
  "demo_refusing = (demo_live 100)\<lparr>lvBroker := (lvBroker (demo_live 100))\<lparr>fkFailDebit := Some (Err ''down'')\<rparr>\<rparr>"

theorem live_failed_debit_recharged_witness:
  "debits (lvTrace (closePatternB demo_live_deps ''s1'' sessionEndReasonPaymentFailed 7
     (fst (patternBTick demo_live_deps ''s1'' 5 demo_refusing)))) = [(5, 1, False), (7, 2, False)]"
proof -
  let ?t = "patternBTick demo_live_deps ''s1'' 5 demo_refusing"
  have "snd ?t = Some sessionEndReasonPaymentFailed" by code_simp
  then have t: "?t = (fst ?t, Some sessionEndReasonPaymentFailed)" by (simp add: prod_eq_iff)
  have d: "debits (lvTrace (fst ?t)) = debits (lvTrace demo_refusing) @ [(5, 1, False)]" by code_simp
  have p: "0 < rnd64 (7 - lvLastDebited demo_refusing)" by code_simp
  have u: "unitsOf (rnd64 (7 - lvLastDebited demo_refusing)) = 7" by code_simp
  let ?c = "closePatternB demo_live_deps ''s1'' sessionEndReasonPaymentFailed 7 (fst ?t)"
  have "map (snd \<circ> snd) (debits (lvTrace ?c)) = [False, False]" by code_simp
  moreover have "debits (lvTrace demo_refusing) = []" by code_simp
  ultimately show ?thesis using live_failed_debit_recharged [OF t d refl p] u by auto
qed

end
