(* ===== verification/Live_Runner.thy ===== *)
theory Live_Runner
  imports Live_Record "HOL-Library.AList"
begin

text \<open>
  \<open>internal/service/liverunner/liverunner.go\<close>, second half: the runner that owns the live sessions.
  \<open>Accept\<close> admits a publisher, \<open>Start\<close> opens a session in advance, \<open>Stop\<close>, \<open>Topup\<close>, \<open>Status\<close> and
  \<open>Shutdown\<close> serve the operator.

  The goroutine of a session keeps a pointer to its control block, and so does the table of streams;
  \<open>Accept\<close> writes to a block that it found in the table. The blocks are therefore cells of a heap
  (\<open>rnCtls\<close>, an address is an index), the table maps stream ids to addresses, and \<open>rnRunning\<close> lists the
  goroutines. Contexts are numbered; \<open>rnCancelled\<close> holds the cancelled ones.
\<close>

subsection \<open>Configuration\<close>

definition live_New :: "('s, 'b) live_deps \<Rightarrow> ('s, 'b) live_deps" where
  "live_New cfg =
     cfg\<lparr>ldDebitCadence := (if ldDebitCadence cfg = 0 then 5 * second else ldDebitCadence cfg),
         ldRunwaySeconds := (if ldRunwaySeconds cfg = 0 then 30 else ldRunwaySeconds cfg),
         ldGraceSeconds := (if ldGraceSeconds cfg = 0 then 60 else ldGraceSeconds cfg),
         ldPreCreditSeconds := (if ldPreCreditSeconds cfg = 0 then 60 else ldPreCreditSeconds cfg),
         ldDebitRetryBackoff := (if ldDebitRetryBackoff cfg = 0 then second else ldDebitRetryBackoff cfg),
         ldRestartLimit := (if ldRestartLimit cfg = 0 then 3 else ldRestartLimit cfg),
         ldTopupMinInterval := (if ldTopupMinInterval cfg = 0 then 5 * second else ldTopupMinInterval cfg),
         ldLivePreset := (if ldLivePreset cfg = [] then ''h264-live'' else ldLivePreset cfg),
         ldStoragePrefix := (if ldStoragePrefix cfg = [] then ''live/{stream_id}'' else ldStoragePrefix cfg),
         ldMirrorPollInterval := (if ldMirrorPollInterval cfg = 0 then second div 2 else ldMirrorPollInterval cfg),
         ldCostModel := Normalized (ldCostModel cfg)\<rparr>"

definition streamIDToken :: string where "streamIDToken = ''{stream_id}''"

text \<open>The loop of \<open>storagePrefix\<close>, from position \<open>i\<close> on; \<open>done\<close> is the part before it.\<close>

fun prefixLoop :: "string \<Rightarrow> string \<Rightarrow> string \<Rightarrow> string" where
  "prefixLoop before [] streamID = before"
| "prefixLoop before (c # rest) streamID =
     (if HasPrefix (c # rest) streamIDToken
      then before @ streamID @ drop (length streamIDToken) (c # rest)
      else prefixLoop (before @ [c]) rest streamID)"

definition storagePrefix :: "string \<Rightarrow> string \<Rightarrow> string" where
  "storagePrefix template streamID = prefixLoop [] template streamID"

fun maxLiveCost :: "cost_model \<Rightarrow> preset list \<Rightarrow> int \<Rightarrow> int" where
  "maxLiveCost m [] maxCost = maxCost"
| "maxLiveCost m (p # ps) maxCost =
     (let cost = Model_ForLivePreset m p in maxLiveCost m ps (if cost > maxCost then cost else maxCost))"

definition liveAdmissionCost :: "('s, 'b) live_deps \<Rightarrow> int" where
  "liveAdmissionCost D =
     (case ldPresets D of
        None \<Rightarrow> CostDefault
      | Some ladder \<Rightarrow>
          (case Lookup ladder (ldLivePreset D) of
             Some p \<Rightarrow> Model_ForLivePreset (ldCostModel D) p
           | None \<Rightarrow>
               (let maxCost = maxLiveCost (ldCostModel D) ladder 0 in
                if maxCost > 0 then maxCost else CostDefault)))"

subsection \<open>The runner\<close>

record goroutine =
  gCtl :: nat
  gCtx :: nat
  gValid :: validate_result

record ('s, 'b, 'k) runner =
  rnCtls :: "streamCtl list"
  rnStreams :: "(string \<times> nat) list"
  rnRunning :: "goroutine list"
  rnCtxs :: nat
  rnCancelled :: "nat list"
  rnSched :: controller
  rnStore :: 's
  rnBroker :: 'b
  rnSink :: 'k
  rnClock :: nat
  rnTrace :: "live_event list"

record ingest_session =
  isStreamKey :: string
  isRemoteAddr :: string

record start_request =
  srWorkID :: string
  srSender :: bytes
  srPaymentWorkID :: string
  srWorkerSessionID :: string
  srPreset :: string

definition rnNow :: "('s, 'b) live_deps \<Rightarrow> ('s, 'b, 'k) runner \<Rightarrow> time" where
  "rnNow D r = leNow D (rnClock r)"

definition rnTick :: "('s, 'b, 'k) runner \<Rightarrow> ('s, 'b, 'k) runner" where
  "rnTick r = r\<lparr>rnClock := rnClock r + 1\<rparr>"

definition rnEmit :: "live_event \<Rightarrow> ('s, 'b, 'k) runner \<Rightarrow> ('s, 'b, 'k) runner" where
  "rnEmit e r = r\<lparr>rnTrace := rnTrace r @ [e]\<rparr>"

text \<open>\<open>Repo.SaveStream\<close>, whose clock reading is the one of the repository; without a repository nothing happens.\<close>

definition rnSaveStream ::
  "('s, 'b) live_deps \<Rightarrow> stream \<Rightarrow> ('s, 'b, 'k) runner \<Rightarrow> ('s, 'b, 'k) runner \<times> unit result" where
  "rnSaveStream D x r =
     (case ldRepo D of
        None \<Rightarrow> (r, Inr ())
      | Some st \<Rightarrow>
          (case SaveStream st (rnStore r) (rnNow D r) x of
             (s, a) \<Rightarrow> (rnTick (r\<lparr>rnStore := s\<rparr>), a)))"

definition zero_ctl :: streamCtl where
  "zero_ctl =
     \<lparr>cStream = zero_stream, cReason = [], cMirror = None, cLease = None, cPatternBSender = [], cPatternBWorkID = [],
      cWorkerSessionID = [], cUsePatternB = False, cRunning = False, cCancel = 0\<rparr>"

subsection \<open>Accept\<close>

text \<open>The stream record that \<open>Accept\<close> writes. Everything it does not set is zero, \<open>DebitSeq\<close> included.\<close>

definition acceptStream ::
  "('s, 'b) live_deps \<Rightarrow> ingest_session \<Rightarrow> validate_result \<Rightarrow> time \<Rightarrow> streamCtl option \<Rightarrow> stream" where
  "acceptStream D i v startedAt pending =
     (let x = zero_stream\<lparr>sWorkID := vStreamID v, sGatewaySessionID := vStreamID v, sPhase := StreamPhaseStreaming,
                sPreset := ldLivePreset D, sStartedAt := startedAt, sPublishURL := isRemoteAddr i\<rparr> in
      case pending of
        None \<Rightarrow> x
      | Some ctl \<Rightarrow> x\<lparr>sWorkerSessionID := cWorkerSessionID ctl, sPaymentWorkID := cPatternBWorkID ctl,
                       sSender := cPatternBSender ctl\<rparr>)"

definition liveRequest :: "('s, 'b) live_deps \<Rightarrow> request" where
  "liveRequest D = \<lparr>rWorkload = WorkloadLive, rSlots = 1, rCost = liveAdmissionCost D\<rparr>"

text \<open>A live request is answered at once (\<open>Acquire_live_answers\<close>), so the third case never arises.\<close>

definition acquireLive ::
  "('s, 'b) live_deps \<Rightarrow> ('s, 'b, 'k) runner \<Rightarrow> ('s, 'b, 'k) runner \<times> slotLease option result" where
  "acquireLive D r =
     (if \<not> ldScheduler D then (r, Inr None)
      else
        (case ctl_Acquire (rnSched r) None (liveRequest D) of
           (c, Some (Inr l)) \<Rightarrow> (r\<lparr>rnSched := c\<rparr>, Inr (Some l))
         | (c, Some (Inl err)) \<Rightarrow>
             (r\<lparr>rnSched := c\<rparr>,
              Inl (if errors_Is err ErrSchedCapacity then ErrIngestCapacity else ErrWrap ''scheduler acquire: '' err))
         | (c, None) \<Rightarrow> (r\<lparr>rnSched := c\<rparr>, Inl ErrCanceled)))"

definition openMirror ::
  "('s, 'b) live_deps \<Rightarrow> 'k sink_ops \<Rightarrow> validate_result \<Rightarrow> ('s, 'b, 'k) runner \<Rightarrow> ('s, 'b, 'k) runner \<times> mirror option" where
  "openMirror D K v r =
     (if ldHasSink D \<and> ldLocalDirRoot D \<noteq> [] then
        (let m = NewMirror (filepath_Join [ldLocalDirRoot D, vStreamID v]) (storagePrefix (ldStoragePrefix D) (vStreamID v)) in
         if ldLadder D \<noteq> []
         then (r\<lparr>rnSink := fst (WriteMaster K (Some m) (ldLadder D) (rnSink r))\<rparr>, Some m)
         else (r, Some m))
      else (r, None))"

text \<open>The control block that the goroutine starts with, written over the pending one if there is one.\<close>

definition acceptCtl ::
  "streamCtl option \<Rightarrow> stream \<Rightarrow> mirror option \<Rightarrow> slotLease option \<Rightarrow> nat \<Rightarrow> streamCtl" where
  "acceptCtl pending x m lease ctx =
     (let ctl = (case pending of None \<Rightarrow> zero_ctl\<lparr>cReason := sessionEndReasonGraceful\<rparr> | Some ctl \<Rightarrow> ctl);
          ctl = ctl\<lparr>cStream := x, cCancel := ctx, cMirror := m, cRunning := True, cLease := lease\<rparr>
      in if cReason ctl = [] then ctl\<lparr>cReason := sessionEndReasonGraceful\<rparr> else ctl)"

definition pendingAddr :: "('s, 'b, 'k) runner \<Rightarrow> string \<Rightarrow> nat option" where
  "pendingAddr r sid = map_of (rnStreams r) sid"

definition pendingCtl :: "('s, 'b, 'k) runner \<Rightarrow> string \<Rightarrow> streamCtl option" where
  "pendingCtl r sid = (case pendingAddr r sid of None \<Rightarrow> None | Some a \<Rightarrow> Some (rnCtls r ! a))"

text \<open>\<open>SessionActive\<close> is not called for a session whose payment was opened in advance.\<close>

definition sessionActive ::
  "('s, 'b) live_deps \<Rightarrow> string \<Rightarrow> time \<Rightarrow> ('s, 'b, 'k) runner \<Rightarrow> ('s, 'b, 'k) runner \<times> unit result" where
  "sessionActive D sid startedAt r =
     (if (case pendingCtl r sid of None \<Rightarrow> False | Some ctl \<Rightarrow> cUsePatternB ctl) then (r, Inr ())
      else
        (case scSessionActive (ldShell D) (rnTrace r) sid (ldWorkerURL D) startedAt of
           Inl err \<Rightarrow> (rnEmit (LvActive sid False) r, Inl (ErrWrap ''session-active: '' err))
         | Inr _ \<Rightarrow> (rnEmit (LvActive sid True) r, Inr ())))"

text \<open>The last part: the block is put into the table and the goroutine started.\<close>

definition launch ::
  "validate_result \<Rightarrow> stream \<Rightarrow> mirror option \<Rightarrow> slotLease option \<Rightarrow> nat \<Rightarrow> ('s, 'b, 'k) runner \<Rightarrow>
   ('s, 'b, 'k) runner \<times> goroutine" where
  "launch v x m lease ctx r =
     (let sid = vStreamID v;
          ctl = acceptCtl (pendingCtl r sid) x m lease ctx;
          (a, ctls) = (case pendingAddr r sid of
                         Some a \<Rightarrow> (a, (rnCtls r)[a := ctl])
                       | None \<Rightarrow> (length (rnCtls r), rnCtls r @ [ctl]));
          g = \<lparr>gCtl = a, gCtx = ctx, gValid = v\<rparr>
      in (r\<lparr>rnCtls := ctls, rnStreams := AList.update sid a (rnStreams r), rnRunning := g # rnRunning r\<rparr>, g))"

definition admit ::
  "('s, 'b) live_deps \<Rightarrow> 'k sink_ops \<Rightarrow> ingest_session \<Rightarrow> validate_result \<Rightarrow> ('s, 'b, 'k) runner \<Rightarrow>
   ('s, 'b, 'k) runner \<times> goroutine result" where
  "admit D K i v r =
     (let startedAt = rnNow D r; sid = vStreamID v in
      case sessionActive D sid startedAt (rnTick r) of
        (r, Inl err) \<Rightarrow> (r, Inl err)
      | (r, Inr _) \<Rightarrow>
          (let x = acceptStream D i v startedAt (pendingCtl r sid);
               r = fst (rnSaveStream D x r);
               ctx = rnCtxs r
           in case acquireLive D (r\<lparr>rnCtxs := ctx + 1\<rparr>) of
                (r, Inl err) \<Rightarrow> (r\<lparr>rnCancelled := ctx # rnCancelled r\<rparr>, Inl err)
              | (r, Inr lease) \<Rightarrow>
                  (let (r, m) = openMirror D K v r; (r, g) = launch v x m lease ctx r in (r, Inr g))))"

definition Accept ::
  "('s, 'b) live_deps \<Rightarrow> 'k sink_ops \<Rightarrow> ingest_session \<Rightarrow> ('s, 'b, 'k) runner \<Rightarrow>
   ('s, 'b, 'k) runner \<times> goroutine result" where
  "Accept D K i r =
     (if \<not> ldHasShell D then (r, Inl (Err ''liverunner: no shell client configured''))
      else if ldMaxConcurrentStreams D > 0 \<and> int (length (rnStreams r)) \<ge> ldMaxConcurrentStreams D
      then (r, Inl ErrIngestCapacity)
      else
        (case scValidateKey (ldShell D) (rnTrace r) (isStreamKey i) (ldWorkerURL D) of
           Inl err \<Rightarrow> (rnEmit (LvValidate (isStreamKey i) False) r, Inl (ErrWrap ''validate-key: '' err))
         | Inr v \<Rightarrow>
             (let r = rnEmit (LvValidate (isStreamKey i) True) r in
              if \<not> vAccepted v then (r, Inl ErrStreamKeyInvalid) else admit D K i v r)))"

subsection \<open>The other operations\<close>

definition updCtl :: "nat \<Rightarrow> (streamCtl \<Rightarrow> streamCtl) \<Rightarrow> ('s, 'b, 'k) runner \<Rightarrow> ('s, 'b, 'k) runner" where
  "updCtl a f r = r\<lparr>rnCtls := (rnCtls r)[a := f (rnCtls r ! a)]\<rparr>"

definition cancelCtx :: "nat \<Rightarrow> ('s, 'b, 'k) runner \<Rightarrow> ('s, 'b, 'k) runner" where
  "cancelCtx ctx r = r\<lparr>rnCancelled := ctx # rnCancelled r\<rparr>"

text \<open>The closure that \<open>Accept\<close> hands to the ingest provider; it cancels the context of its own call.\<close>

definition OnEnd :: "goroutine \<Rightarrow> string \<Rightarrow> ('s, 'b, 'k) runner \<Rightarrow> ('s, 'b, 'k) runner" where
  "OnEnd g reason r =
     cancelCtx (gCtx g)
       (updCtl (gCtl g)
         (setReason (if reason = ''close'' then sessionEndReasonGraceful else sessionEndReasonWorkerFailed)) r)"

text \<open>The deferred function of \<open>runSession\<close>: it releases the lease that the block holds then.\<close>

definition releaseCtl :: "nat \<Rightarrow> ('s, 'b, 'k) runner \<Rightarrow> ('s, 'b, 'k) runner" where
  "releaseCtl a r =
     (case cLease (rnCtls r ! a) of
        None \<Rightarrow> r
      | Some l \<Rightarrow> updCtl a (\<lambda>ctl. ctl\<lparr>cLease := Some (l\<lparr>lDone := True\<rparr>)\<rparr>) (r\<lparr>rnSched := ctl_Release (rnSched r) l\<rparr>))"

definition sessionExit :: "goroutine \<Rightarrow> ('s, 'b, 'k) runner \<Rightarrow> ('s, 'b, 'k) runner" where
  "sessionExit g r =
     (let r = releaseCtl (gCtl g) r
      in r\<lparr>rnStreams := AList.delete (vStreamID (gValid g)) (rnStreams r), rnRunning := remove1 g (rnRunning r)\<rparr>)"

definition startStream :: "start_request \<Rightarrow> time \<Rightarrow> stream" where
  "startStream q startedAt =
     zero_stream\<lparr>sWorkID := srWorkID q, sGatewaySessionID := srWorkID q, sWorkerSessionID := srWorkerSessionID q,
       sPaymentWorkID := srPaymentWorkID q, sSender := srSender q, sPhase := StreamPhaseStarting,
       sPreset := srPreset q, sStartedAt := startedAt\<rparr>"

definition Start ::
  "('s, 'b) live_deps \<Rightarrow> start_request \<Rightarrow> ('s, 'b, 'k) runner \<Rightarrow> ('s, 'b, 'k) runner \<times> stream result" where
  "Start D q r =
     (if pendingAddr r (srWorkID q) \<noteq> None
      then (r, Inl (Err (''liverunner: stream '' @ srWorkID q @ '' already started'')))
      else
        (let x = startStream q (rnNow D r) in
         case rnSaveStream D x (rnTick r) of
           (r, Inl err) \<Rightarrow> (r, Inl (ErrWrap ''persist stream: '' err))
         | (r, Inr _) \<Rightarrow>
             (r\<lparr>rnCtls := rnCtls r @
                  [zero_ctl\<lparr>cStream := x, cCancel := rnCtxs r, cPatternBSender := srSender q,
                     cPatternBWorkID := srPaymentWorkID q, cWorkerSessionID := srWorkerSessionID q,
                     cUsePatternB := srPaymentWorkID q \<noteq> [] \<and> srSender q \<noteq> []\<rparr>],
                rnCtxs := rnCtxs r + 1,
                rnStreams := AList.update (srWorkID q) (length (rnCtls r)) (rnStreams r)\<rparr>, Inr x)))"

text \<open>\<open>Stop\<close>; the second component says whether it goes on to wait for the goroutine.\<close>

definition closeInline :: "('s, 'b) live_deps \<Rightarrow> string \<Rightarrow> nat \<Rightarrow> ('s, 'b, 'k) runner \<Rightarrow> ('s, 'b, 'k) runner" where
  "closeInline D workID a r =
     (let now = rnNow D r;
          r = updCtl a (\<lambda>ctl. ctl\<lparr>cStream := (cStream ctl)\<lparr>sPhase := StreamPhaseClosed,
                sCloseReason := sessionEndReasonAdminStop, sClosedAt := now\<rparr>\<rparr>) (rnTick r);
          r = fst (rnSaveStream D (cStream (rnCtls r ! a)) r)
      in r\<lparr>rnStreams := AList.delete workID (rnStreams r)\<rparr>)"

definition Stop :: "('s, 'b) live_deps \<Rightarrow> string \<Rightarrow> ('s, 'b, 'k) runner \<Rightarrow> ('s, 'b, 'k) runner \<times> bool" where
  "Stop D workID r =
     (case pendingAddr r workID of
        None \<Rightarrow> (r, False)
      | Some a \<Rightarrow>
          (let r = (if cRunning (rnCtls r ! a) then r else closeInline D workID a r);
               r = updCtl a (setReason sessionEndReasonAdminStop) r
           in (cancelCtx (cCancel (rnCtls r ! a)) r, cRunning (rnCtls r ! a))))"

definition Topup :: "('s, 'b) live_deps \<Rightarrow> string \<Rightarrow> ('s, 'b, 'k) runner \<Rightarrow> ('s, 'b, 'k) runner" where
  "Topup D workID r =
     (case pendingAddr r workID of
        None \<Rightarrow> r
      | Some a \<Rightarrow>
          (let now = rnNow D r;
               r = updCtl a (\<lambda>ctl. ctl\<lparr>cStream := (cStream ctl)\<lparr>sLastTopupAt := now\<rparr>\<rparr>) (rnTick r)
           in case ldRepo D of
                None \<Rightarrow> r
              | Some st \<Rightarrow>
                  (case GetStream st (rnStore r) workID of
                     Inl _ \<Rightarrow> r
                   | Inr cur \<Rightarrow> fst (rnSaveStream D (cur\<lparr>sLastTopupAt := now\<rparr>) r))))"

definition Status :: "string \<Rightarrow> ('s, 'b, 'k) runner \<Rightarrow> stream result" where
  "Status workID r =
     (case pendingCtl r workID of None \<Rightarrow> Inl ErrStreamNotFound | Some ctl \<Rightarrow> Inr (cStream ctl))"

definition live_ActiveCount :: "('s, 'b, 'k) runner \<Rightarrow> nat" where
  "live_ActiveCount r = length (rnStreams r)"

text \<open>One turn of the loop of \<open>Shutdown\<close>, and the loop; the list says which goroutines are waited for.\<close>

definition shutdownOne :: "string \<times> nat \<Rightarrow> ('s, 'b, 'k) runner \<Rightarrow> ('s, 'b, 'k) runner" where
  "shutdownOne e r =
     (case e of (sid, a) \<Rightarrow>
       (let r = updCtl a (setReason sessionEndReasonAdminStop) r;
            r = cancelCtx (cCancel (rnCtls r ! a)) r
        in if cRunning (rnCtls r ! a) then r else r\<lparr>rnStreams := AList.delete sid (rnStreams r)\<rparr>))"

definition Shutdown :: "('s, 'b, 'k) runner \<Rightarrow> ('s, 'b, 'k) runner \<times> nat list" where
  "Shutdown r =
     (fold shutdownOne (rnStreams r) r,
      map snd (filter (\<lambda>(sid, a). cRunning (rnCtls r ! a)) (rnStreams r)))"

subsection \<open>A session from end to end\<close>

text \<open>
  The goroutine works on the block, the store, the broker, the clock and the trace of the runner; when it
  returns, the deferred function runs. Here it runs without interference.
\<close>

definition enter :: "goroutine \<Rightarrow> ('s, 'b, 'k) runner \<Rightarrow> ('s, 'b) live" where
  "enter g r =
     \<lparr>lvStore = rnStore r, lvBroker = rnBroker r, lvClock = rnClock r, lvTrace = rnTrace r, lvCtl = rnCtls r ! gCtl g,
      lvLastDebited = 0, lvSeq = 0, lvGrace = zero_time, lvLow = False\<rparr>"

definition leave :: "goroutine \<Rightarrow> ('s, 'b) live \<Rightarrow> ('s, 'b, 'k) runner \<Rightarrow> ('s, 'b, 'k) runner" where
  "leave g l r =
     updCtl (gCtl g) (\<lambda>_. lvCtl l)
       (r\<lparr>rnStore := lvStore l, rnBroker := lvBroker l, rnClock := lvClock l, rnTrace := lvTrace l\<rparr>)"

definition goSession ::
  "('s, 'b) live_deps \<Rightarrow> goroutine \<Rightarrow> live_input list \<Rightarrow> ('s, 'b, 'k) runner \<Rightarrow> ('s, 'b, 'k) runner \<times> outcome" where
  "goSession D g is r =
     (case runSession D (gValid g) is (enter g r) of
        (l, Finished reason) \<Rightarrow> (sessionExit g (leave g l r), Finished reason)
      | (l, out) \<Rightarrow> (leave g l r, out))"

subsection \<open>What a session leaves of its block\<close>

subsection \<open>Frames\<close>

named_theorems rn_frame \<open>what the small steps of the runner leave alone\<close>

lemma rnTick_frame [rn_frame]:
  "rnCtls (rnTick r) = rnCtls r" "rnStreams (rnTick r) = rnStreams r" "rnRunning (rnTick r) = rnRunning r"
  "rnSched (rnTick r) = rnSched r" "rnStore (rnTick r) = rnStore r" "rnCtxs (rnTick r) = rnCtxs r"
  "rnBroker (rnTick r) = rnBroker r"
  by (simp_all add: rnTick_def)

lemma rnEmit_frame [rn_frame]:
  "rnCtls (rnEmit e r) = rnCtls r" "rnStreams (rnEmit e r) = rnStreams r" "rnRunning (rnEmit e r) = rnRunning r"
  "rnSched (rnEmit e r) = rnSched r" "rnStore (rnEmit e r) = rnStore r" "rnCtxs (rnEmit e r) = rnCtxs r"
  "rnBroker (rnEmit e r) = rnBroker r"
  by (simp_all add: rnEmit_def)

lemma rnSaveStream_frame [rn_frame]:
  "rnCtls (fst (rnSaveStream D x r)) = rnCtls r" "rnStreams (fst (rnSaveStream D x r)) = rnStreams r"
  "rnRunning (fst (rnSaveStream D x r)) = rnRunning r" "rnSched (fst (rnSaveStream D x r)) = rnSched r"
  "rnCtxs (fst (rnSaveStream D x r)) = rnCtxs r" "rnBroker (fst (rnSaveStream D x r)) = rnBroker r"
  by (simp_all add: rnSaveStream_def rn_frame split: option.splits prod.splits)

lemma sessionActive_frame [rn_frame]:
  "rnCtls (fst (sessionActive D sid t r)) = rnCtls r" "rnStreams (fst (sessionActive D sid t r)) = rnStreams r"
  "rnRunning (fst (sessionActive D sid t r)) = rnRunning r" "rnSched (fst (sessionActive D sid t r)) = rnSched r"
  "rnStore (fst (sessionActive D sid t r)) = rnStore r" "rnCtxs (fst (sessionActive D sid t r)) = rnCtxs r"
  "rnBroker (fst (sessionActive D sid t r)) = rnBroker r"
  by (simp_all add: sessionActive_def rn_frame split: option.splits sum.splits)

lemma openMirror_frame [rn_frame]:
  "rnCtls (fst (openMirror D K v r)) = rnCtls r" "rnStreams (fst (openMirror D K v r)) = rnStreams r"
  "rnRunning (fst (openMirror D K v r)) = rnRunning r" "rnSched (fst (openMirror D K v r)) = rnSched r"
  "rnStore (fst (openMirror D K v r)) = rnStore r" "rnCtxs (fst (openMirror D K v r)) = rnCtxs r"
  "rnBroker (fst (openMirror D K v r)) = rnBroker r"
  by (simp_all add: openMirror_def Let_def)

lemma pending_cong:
  "rnStreams r' = rnStreams r \<Longrightarrow> pendingAddr r' sid = pendingAddr r sid"
  "rnStreams r' = rnStreams r \<Longrightarrow> rnCtls r' = rnCtls r \<Longrightarrow> pendingCtl r' sid = pendingCtl r sid"
  by (simp_all add: pendingAddr_def pendingCtl_def split: option.splits)

lemma Acquire_live_answers: "rWorkload q = WorkloadLive \<Longrightarrow> snd (ctl_Acquire c e q) \<noteq> None"
  by (cases c) (auto simp: Acquire_def Let_def split: prod.splits)

lemma acquireLive_ok:
  assumes "acquireLive D r = (r', Inr lease)"
  obtains c where "r' = r\<lparr>rnSched := c\<rparr>" "\<not> ldScheduler D \<Longrightarrow> c = rnSched r \<and> lease = None"
    "ldScheduler D \<Longrightarrow> \<exists>l. lease = Some l \<and> ctl_Acquire (rnSched r) None (liveRequest D) = (c, Some (Inr l))"
proof (cases "ldScheduler D")
  case True
  then show ?thesis using assms that by (auto simp: acquireLive_def split: prod.splits option.splits sum.splits)
next
  case False
  then show ?thesis using assms that [of "rnSched r"] by (simp add: acquireLive_def)
qed

lemma acquireLive_refused:
  assumes "acquireLive D r = (r', Inl err)"
  obtains err' where "ctl_Acquire (rnSched r) None (liveRequest D) = (rnSched r', Some (Inl err'))" "r' = r\<lparr>rnSched := rnSched r'\<rparr>"
    "ldScheduler D"
proof -
  have s: "ldScheduler D" using assms by (auto simp: acquireLive_def split: if_splits)
  obtain c a where a: "ctl_Acquire (rnSched r) None (liveRequest D) = (c, a)" by (cases "ctl_Acquire (rnSched r) None (liveRequest D)")
  moreover have "a \<noteq> None" using Acquire_live_answers [of "liveRequest D" "rnSched r" None] a by (simp add: liveRequest_def)
  ultimately show ?thesis using assms that s by (auto simp: acquireLive_def split: sum.splits)
qed

text \<open>What a successful \<open>Accept\<close> does, in one place.\<close>

definition accepted ::
  "('s, 'b) live_deps \<Rightarrow> goroutine \<Rightarrow> streamCtl \<Rightarrow> ('s, 'b, 'k) runner \<Rightarrow> ('s, 'b, 'k) runner \<Rightarrow> bool" where
  "accepted D g ctl r r' \<longleftrightarrow>
     gCtl g = (case pendingAddr r (vStreamID (gValid g)) of None \<Rightarrow> length (rnCtls r) | Some a \<Rightarrow> a) \<and>
     rnCtls r' = (case pendingAddr r (vStreamID (gValid g)) of
        None \<Rightarrow> rnCtls r @ [ctl] | Some a \<Rightarrow> (rnCtls r)[a := ctl]) \<and>
     rnStreams r' = AList.update (vStreamID (gValid g)) (gCtl g) (rnStreams r) \<and>
     rnRunning r' = g # rnRunning r \<and> rnCtxs r' = rnCtxs r + 1 \<and> gCtx g = rnCtxs r \<and>
     cRunning ctl \<and> cCancel ctl = gCtx g \<and>
     (if ldScheduler D
      then \<exists>l. cLease ctl = Some l \<and> ctl_Acquire (rnSched r) None (liveRequest D) = (rnSched r', Some (Inr l))
      else cLease ctl = None \<and> rnSched r' = rnSched r)"

lemma acceptCtl_simps [simp]:
  "cRunning (acceptCtl p x m l ctx)" "cCancel (acceptCtl p x m l ctx) = ctx" "cLease (acceptCtl p x m l ctx) = l"
  "cStream (acceptCtl p x m l ctx) = x" "cMirror (acceptCtl p x m l ctx) = m"
  by (simp_all add: acceptCtl_def Let_def)

lemma Accept_ok:
  assumes "Accept D K i r = (r', Inr g)"
  obtains ctl t where "accepted D g ctl r r'" "vAccepted (gValid g)"
    "scValidateKey (ldShell D) (rnTrace r) (isStreamKey i) (ldWorkerURL D) = Inr (gValid g)"
    "cStream ctl = acceptStream D i (gValid g) t (pendingCtl r (vStreamID (gValid g)))"
    "rnStore r' = (case ldRepo D of None \<Rightarrow> rnStore r
      | Some st \<Rightarrow> fst (SaveStream st (rnStore r) (leNow D (rnClock r + 1)) (cStream ctl)))"
    "ldMaxConcurrentStreams D > 0 \<Longrightarrow> int (length (rnStreams r)) < ldMaxConcurrentStreams D"
proof -
  obtain v where v0: "scValidateKey (ldShell D) (rnTrace r) (isStreamKey i) (ldWorkerURL D) = Inr v" and v: "vAccepted v"
    "admit D K i v (rnEmit (LvValidate (isStreamKey i) True) r) = (r', Inr g)"
    "ldMaxConcurrentStreams D > 0 \<Longrightarrow> int (length (rnStreams r)) < ldMaxConcurrentStreams D"
    using assms by (auto simp: Accept_def Let_def split: if_splits sum.splits)
  define r0 where "r0 = rnEmit (LvValidate (isStreamKey i) True) r"
  define t where "t = rnNow D r0"
  define r1 where "r1 = fst (sessionActive D (vStreamID v) t (rnTick r0))"
  define x where "x = acceptStream D i v t (pendingCtl r1 (vStreamID v))"
  define r2 where "r2 = fst (rnSaveStream D x r1)"
  obtain r3 lease where r3: "acquireLive D (r2\<lparr>rnCtxs := rnCtxs r2 + 1\<rparr>) = (r3, Inr lease)" and
    r': "(r', g) = launch v x (snd (openMirror D K v r3)) lease (rnCtxs r2) (fst (openMirror D K v r3))"
  proof -
    obtain a where a: "sessionActive D (vStreamID v) t (rnTick r0) = (r1, Inr a)"
      using v(2) unfolding admit_def r0_def [symmetric] Let_def t_def [symmetric]
      by (cases "sessionActive D (vStreamID v) t (rnTick r0)") (auto simp: r1_def split: sum.splits)
    have adm: "(case acquireLive D (r2\<lparr>rnCtxs := rnCtxs r2 + 1\<rparr>) of
        (r, Inl err) \<Rightarrow> (r\<lparr>rnCancelled := rnCtxs r2 # rnCancelled r\<rparr>, Inl err)
      | (r, Inr lease) \<Rightarrow>
          (let (r, m) = openMirror D K v r; (r, g) = launch v x m lease (rnCtxs r2) r in (r, Inr g))) = (r', Inr g)"
      using v(2) a unfolding admit_def r0_def [symmetric] Let_def t_def [symmetric] x_def r2_def by simp
    then show ?thesis
      by (cases "acquireLive D (r2\<lparr>rnCtxs := rnCtxs r2 + 1\<rparr>)")
        (auto simp: case_prod_unfold Let_def intro!: that split: sum.splits)
  qed
  have clk: "rnClock r1 = rnClock r + 1"
    by (simp add: r1_def r0_def sessionActive_def rnTick_def rnEmit_def split: option.splits sum.splits)
  obtain c where c: "r3 = (r2\<lparr>rnCtxs := rnCtxs r2 + 1\<rparr>)\<lparr>rnSched := c\<rparr>" "\<not> ldScheduler D \<Longrightarrow> c = rnSched r2 \<and> lease = None"
    "ldScheduler D \<Longrightarrow> \<exists>l. lease = Some l \<and> ctl_Acquire (rnSched r2) None (liveRequest D) = (c, Some (Inr l))"
    using acquireLive_ok [OF r3] by (metis runner.select_convs(6) runner.surjective runner.update_convs(4))
  have fr: "rnCtls r2 = rnCtls r" "rnStreams r2 = rnStreams r" "rnRunning r2 = rnRunning r" "rnSched r2 = rnSched r"
    "rnCtxs r2 = rnCtxs r" by (simp_all add: r2_def r1_def r0_def rn_frame)
  have pend: "pendingCtl r1 sid = pendingCtl r sid" "pendingAddr (fst (openMirror D K v r3)) sid = pendingAddr r sid"
    "pendingCtl (fst (openMirror D K v r3)) sid = pendingCtl r sid" for sid
    by (rule pending_cong; simp add: r1_def r0_def rn_frame fr c(1))+
  define ctl where "ctl = acceptCtl (pendingCtl r (vStreamID v)) x (snd (openMirror D K v r3)) lease (rnCtxs r)"
  have g: "gValid g = v" using r' by (auto simp: launch_def Let_def split: prod.splits)
  have "accepted D g ctl r r'"
    using r' c(2,3) unfolding accepted_def g launch_def Let_def pend fr ctl_def [symmetric]
    by (auto simp: rn_frame c(1) fr ctl_def split: option.splits)
  moreover have "cStream ctl = acceptStream D i (gValid g) t (pendingCtl r (vStreamID (gValid g)))"
    by (simp add: ctl_def x_def g pend)
  moreover have "rnStore r' = (case ldRepo D of None \<Rightarrow> rnStore r
      | Some st \<Rightarrow> fst (SaveStream st (rnStore r) (leNow D (rnClock r + 1)) (cStream ctl)))"
  proof -
    have "rnStore r' = rnStore r2" using r' by (auto simp: launch_def Let_def rn_frame c(1) split: prod.splits)
    moreover have "rnStore r1 = rnStore r" by (simp add: r1_def r0_def rn_frame)
    ultimately show ?thesis
      by (auto simp: r2_def rnSaveStream_def rn_frame rnNow_def clk ctl_def split: option.splits prod.splits)
  qed
  ultimately show ?thesis using that v(1,3) v0 g by blast
qed

text \<open>A refused publisher leaves everything but the trace and the stored record alone.\<close>

lemma live_refused_same:
  assumes "ctl_Acquire c e q = (c', Some (Inl err))" "rWorkload q = WorkloadLive"
  shows "c' = c"
  using assms by (cases c) (auto simp: Acquire_def Let_def split: prod.splits if_splits)

lemma Accept_error:
  assumes "Accept D K i r = (r', Inl err)"
  shows "rnCtls r' = rnCtls r \<and> rnStreams r' = rnStreams r \<and> rnRunning r' = rnRunning r \<and> rnSched r' = rnSched r"
proof -
  have "rnCtls r' = rnCtls r \<and> rnStreams r' = rnStreams r \<and> rnRunning r' = rnRunning r \<and> rnSched r' = rnSched r"
    if adm: "admit D K i v r = (r', Inl err)" for v and r :: "('a, 'b, 'c) runner"
  proof -
    obtain r1 a where a: "sessionActive D (vStreamID v) (rnNow D r) (rnTick r) = (r1, a)" by fastforce
    have fr: "rnCtls r1 = rnCtls r" "rnStreams r1 = rnStreams r" "rnRunning r1 = rnRunning r" "rnSched r1 = rnSched r"
      using sessionActive_frame [of D "vStreamID v" "rnNow D r" "rnTick r"] by (simp_all add: a rn_frame)
    show ?thesis
    proof (cases a)
      case Inl
      then show ?thesis using adm a fr by (simp add: admit_def Let_def)
    next
      case Inr
      define x where "x = acceptStream D i v (rnNow D r) (pendingCtl r1 (vStreamID v))"
      define r2 where "r2 = (fst (rnSaveStream D x r1))\<lparr>rnCtxs := rnCtxs r1 + 1\<rparr>"
      obtain r3 b where b: "acquireLive D r2 = (r3, b)" by fastforce
      then have "\<exists>e. b = Inl e \<and> r' = r3\<lparr>rnCancelled := rnCtxs r1 # rnCancelled r3\<rparr>"
        using adm a Inr by (cases b) (auto simp: admit_def Let_def x_def r2_def rn_frame case_prod_unfold)
      moreover have "rnSched r3 = rnSched r2 \<and> (\<exists>c. r3 = r2\<lparr>rnSched := c\<rparr>)" if "b = Inl e" for e
        using that b acquireLive_refused [of D r2 r3 e] live_refused_same
        by (metis liveRequest_def request.select_convs(1))
      ultimately show ?thesis using fr by (auto simp: r2_def rn_frame)
    qed
  qed
  from this [of _ "rnEmit (LvValidate (isStreamKey i) True) r"] assms show ?thesis
    by (auto simp: Accept_def Let_def rn_frame split: if_splits sum.splits)
qed

subsection \<open>One session, from its publisher to its record\<close>

lemma recordingBridge_block: "block (lvCtl (recordingBridge D v fe rec l)) = block (lvCtl l)"
  by (simp add: recordingBridge_def Let_def lemit_def keeps_block [OF quietly_keeps [OF quietly_emitEvent]]
      split: option.splits)

text \<open>A session keeps its lease, its context and its place in the table; only the deferred function ends them.\<close>

definition own :: "streamCtl \<Rightarrow> slotLease option \<times> bool \<times> nat" where
  "own c = (cLease c, cRunning c, cCancel c)"

lemma block_own: "block c' = block c \<Longrightarrow> own c' = own c"
  by (simp add: block_def own_def)

lemma own_updates [simp]:
  "own (c\<lparr>cStream := x\<rparr>) = own c" "own (c\<lparr>cMirror := m\<rparr>) = own c" "own (setReason rs c) = own c"
  by (simp_all add: own_def setReason_def)

lemma runSession_own: "runSession D v is l = (l', out) \<Longrightarrow> own (lvCtl l') = own (lvCtl l)"
proof -
  assume run: "runSession D v is l = (l', out)"
  obtain l1 r rest where lp: "sessionLoop D (vStreamID v) is (startSession D v l) = (l1, r, rest)"
    by (cases "sessionLoop D (vStreamID v) is (startSession D v l)")
  have 1: "own (lvCtl l1) = own (lvCtl l)"
    using block_own [OF loop_block [OF lp]] block_own [OF startSession_block] by metis
  show ?thesis
  proof (cases r)
    case None
    then show ?thesis using run lp 1 by (simp add: runSession_def)
  next
    case (Some reason)
    obtain l2 fe rec where e: "endSession D v reason l1 = (l2, fe, rec)" by (cases "endSession D v reason l1")
    have "own (lvCtl l2) = own (lvCtl l)" using block_own [OF endSession_block [OF e]] 1 by simp
    then show ?thesis using run lp Some e
      by (auto simp: runSession_def block_own [OF recordingBridge_block] split: option.splits if_splits)
  qed
qed

definition table_ok :: "('s, 'b, 'k) runner \<Rightarrow> bool" where
  "table_ok r \<longleftrightarrow> distinct (map fst (rnStreams r)) \<and> (\<forall>a \<in> snd ` set (rnStreams r). a < length (rnCtls r))"

lemma table_ok_addr: "table_ok r \<Longrightarrow> pendingAddr r sid = Some a \<Longrightarrow> a < length (rnCtls r)"
  unfolding table_ok_def pendingAddr_def by (metis image_eqI map_of_SomeD snd_conv)

lemma accepted_ctl:
  assumes "accepted D g ctl r r'" "table_ok r"
  shows "gCtl g < length (rnCtls r')" "rnCtls r' ! gCtl g = ctl"
  using assms table_ok_addr [OF assms(2), of "vStreamID (gValid g)"] by (auto simp: accepted_def split: option.splits)

lemma acceptStream_simps [simp]:
  "sWorkID (acceptStream D i v t p) = vStreamID v" "sPhase (acceptStream D i v t p) = StreamPhaseStreaming"
  "sDebitSeq (acceptStream D i v t p) = 0" "sUnitsDebited (acceptStream D i v t p) = 0"
  "stream_wf (acceptStream D i v t p)"
  by (simp_all add: acceptStream_def Let_def zero_stream_def stream_wf_def split: option.splits)

lemma Accept_stores:
  assumes "Accept D K i r = (r', Inr g)" "ldRepo D = Some memStore_ops" "mem_inv (rnStore r)" "vStreamID (gValid g) \<noteq> []"
  shows "stored (vStreamID (gValid g)) (rnStore r') \<and>
    (\<exists>x. GetStream memStore_ops (rnStore r') (vStreamID (gValid g)) = Inr x \<and> sDebitSeq x = 0)"
proof -
  obtain ctl :: streamCtl and t where c: "cStream ctl = acceptStream D i (gValid g) t (pendingCtl r (vStreamID (gValid g)))"
    "rnStore r' = fst (SaveStream memStore_ops (rnStore r) (leNow D (rnClock r + 1)) (cStream ctl))"
    by (rule Accept_ok [OF assms(1), unfolded assms(2) option.simps]) blast
  have w: "sWorkID (cStream ctl) = vStreamID (gValid g)" "sWorkID (cStream ctl) \<noteq> []" "stream_wf (cStream ctl)"
    "sDebitSeq (cStream ctl) = 0" using c(1) assms(4) by simp_all
  from repo.SaveStream_ok [OF assms(3) w(2,3), of "leNow D (rnClock r + 1)"] obtain s' where
    "SaveStream memStore_ops (rnStore r) (leNow D (rnClock r + 1)) (cStream ctl) = (s', Inr ())" "mem_inv s'"
    "GetStream memStore_ops s' (vStreamID (gValid g)) =
       Inr ((cStream ctl)\<lparr>sUpdatedAt := leNow D (rnClock r + 1), sWebhookSecret := []\<rparr>)"
    using w(1) by metis
  then show ?thesis using c(2) w assms(4) by (simp add: stored_def stream_wf_def)
qed

text \<open>
  The number under which the last debit of an earlier process was made is gone: \<open>Accept\<close> has overwritten
  the record before the goroutine reads it.
\<close>

lemma accepted_session_starts_at_zero:
  assumes "Accept D K i r = (r', Inr g)" "ldRepo D = Some memStore_ops" "mem_inv (rnStore r)" "vStreamID (gValid g) \<noteq> []"
  shows "lvSeq (startSession D (gValid g) (enter g r')) = 0"
  using Accept_stores [OF assms] assms(2)
  by (auto simp: startSession_def Let_def enter_def keeps_static(5) [OF quietly_keeps [OF quietly_emitEvent]])

lemma updCtl_frame [rn_frame]:
  "rnStreams (updCtl a f r) = rnStreams r" "rnRunning (updCtl a f r) = rnRunning r" "rnSched (updCtl a f r) = rnSched r"
  "rnStore (updCtl a f r) = rnStore r" "length (rnCtls (updCtl a f r)) = length (rnCtls r)"
  "a < length (rnCtls r) \<Longrightarrow> rnCtls (updCtl a f r) ! a = f (rnCtls r ! a)"
  by (simp_all add: updCtl_def)

lemma releaseCtl_frame [rn_frame]:
  "rnStreams (releaseCtl a r) = rnStreams r" "rnRunning (releaseCtl a r) = rnRunning r" "rnStore (releaseCtl a r) = rnStore r"
  by (simp_all add: releaseCtl_def rn_frame split: option.splits)

lemma releaseCtl_sched:
  "rnSched (releaseCtl a r) = (case cLease (rnCtls r ! a) of None \<Rightarrow> rnSched r | Some l \<Rightarrow> ctl_Release (rnSched r) l)"
  by (simp add: releaseCtl_def rn_frame split: option.splits)

lemma sessionExit_frame:
  "rnSched (sessionExit g r) = rnSched (releaseCtl (gCtl g) r)" "rnStore (sessionExit g r) = rnStore r"
  "pendingAddr (sessionExit g r) = (pendingAddr r)(vStreamID (gValid g) := None)"
  "rnRunning (sessionExit g r) = remove1 g (rnRunning r)"
  by (simp_all add: sessionExit_def Let_def rn_frame pendingAddr_def delete_conv' fun_eq_iff)

text \<open>The runner as \<open>New\<close> makes it, with the scheduler it shares.\<close>

definition newRunner :: "controller \<Rightarrow> 's \<Rightarrow> 'b \<Rightarrow> 'k \<Rightarrow> ('s, 'b, 'k) runner" where
  "newRunner c s b k =
     \<lparr>rnCtls = [], rnStreams = [], rnRunning = [], rnCtxs = 0, rnCancelled = [], rnSched = c, rnStore = s,
      rnBroker = b, rnSink = k, rnClock = 0, rnTrace = []\<rparr>"

definition demo_run_deps :: "(json memStore, fake) live_deps" where
  "demo_run_deps = demo_stored_deps\<lparr>ldScheduler := True\<rparr>"

definition demo_publish :: ingest_session where
  "demo_publish = \<lparr>isStreamKey = ''s1'', isRemoteAddr = ''192.0.2.1:4000''\<rparr>"

definition demo_runner :: "(json memStore, fake, memSink) runner" where
  "demo_runner = newRunner (SlotController ctl4) Memory NewFake NewInMemorySink"

definition demo_accept :: "(json memStore, fake, memSink) runner" where
  "demo_accept = fst (Accept demo_run_deps memSink_ops demo_publish demo_runner)"

definition demo_g :: "nat \<Rightarrow> goroutine" where
  "demo_g ctx = \<lparr>gCtl = 0, gCtx = ctx, gValid = demo_valid\<rparr>"

lemma demo_accepts: "Accept demo_run_deps memSink_ops demo_publish demo_runner = (demo_accept, Inr (demo_g 0))"
proof -
  have "snd (Accept demo_run_deps memSink_ops demo_publish demo_runner) = Inr (demo_g 0)" by code_simp
  then show ?thesis by (simp add: demo_accept_def prod_eq_iff)
qed

lemma demo_accepts_again:
  "Accept demo_run_deps memSink_ops demo_publish demo_accept =
     (fst (Accept demo_run_deps memSink_ops demo_publish demo_accept), Inr (demo_g 1))"
proof -
  have "snd (Accept demo_run_deps memSink_ops demo_publish demo_accept) = Inr (demo_g 1)" by code_simp
  then show ?thesis by (simp add: prod_eq_iff)
qed

lemma demo_runner_ok: "table_ok demo_runner" "mem_inv (rnStore demo_runner)" "ctl_good (rnSched demo_runner)"
  by (simp_all add: demo_runner_def newRunner_def table_ok_def mem_inv_def Memory_def ctl4_eq slot_good_def limits_ok_def within_ok_def)

lemma demo_accept_ctl:
  "cMirror (rnCtls demo_accept ! 0) = None" "cReason (rnCtls demo_accept ! 0) = sessionEndReasonGraceful"
  by code_simp+

text \<open>
  C24. From publisher to record: a stream that was accepted and whose session has ended leaves the runner as it
  was. The scheduler has its capacity back, the stream is no longer in the table, its goroutine is
  gone, and the stored record is terminal and carries the reason; other streams keep their place.
\<close>

theorem live_session_lifecycle:
  assumes "ldRepo D = Some memStore_ops" "mem_inv (rnStore r)" "ctl_good (rnSched r)" "table_ok r"
    "Accept D K i r = (r1, Inr g)" "vStreamID (gValid g) \<noteq> []" "goSession D g is r1 = (r2, Finished reason)"
  shows "rnSched r2 = rnSched r \<and> pendingAddr r2 = (pendingAddr r)(vStreamID (gValid g) := None) \<and>
    rnRunning r2 = rnRunning r \<and>
    (\<exists>x. GetStream memStore_ops (rnStore r2) (vStreamID (gValid g)) = Inr x \<and> StreamPhase_IsTerminal (sPhase x) \<and>
      sCloseReason x = reason)"
proof -
  let ?sid = "vStreamID (gValid g)"
  obtain ctl where acc: "accepted D g ctl r r1" using Accept_ok [OF assms(5)] by metis
  note at = accepted_ctl [OF acc assms(4)]
  obtain l where run: "runSession D (gValid g) is (enter g r1) = (l, Finished reason)" and r2: "r2 = sessionExit g (leave g l r1)"
    using assms(7) by (auto simp: goSession_def split: prod.splits outcome.splits)
  have own: "own (lvCtl l) = own ctl" using runSession_own [OF run] at(2) by (simp add: enter_def)
  have lv: "rnCtls (leave g l r1) ! gCtl g = lvCtl l" "rnSched (leave g l r1) = rnSched r1" "rnStore (leave g l r1) = lvStore l"
    "rnRunning (leave g l r1) = rnRunning r1" "pendingAddr (leave g l r1) = pendingAddr r1"
    using at(1) by (simp_all add: leave_def rn_frame pendingAddr_def fun_eq_iff)
  have "rnSched r2 = rnSched r"
  proof (cases "ldScheduler D")
    case True
    then obtain lease where "cLease ctl = Some lease"
      "ctl_Acquire (rnSched r) None (liveRequest D) = (rnSched r1, Some (Inr lease))"
      using acc by (auto simp: accepted_def)
    then show ?thesis using own sched.acquire_release [OF assms(3)] unfolding r2 sessionExit_frame releaseCtl_sched lv
      by (simp add: own_def)
  next
    case False
    then have "cLease ctl = None" "rnSched r1 = rnSched r" using acc by (simp_all add: accepted_def)
    then show ?thesis using own unfolding r2 sessionExit_frame releaseCtl_sched lv by (simp add: own_def)
  qed
  moreover have "pendingAddr r2 = (pendingAddr r)(?sid := None)" "rnRunning r2 = rnRunning r"
    using acc unfolding r2 sessionExit_frame lv
    by (auto simp: accepted_def pendingAddr_def update_conv' fun_eq_iff)
  moreover have "stored ?sid (lvStore (enter g r1))"
    using Accept_stores [OF assms(5,1,2,6)] by (simp add: enter_def)
  then have "\<exists>x. GetStream memStore_ops (lvStore l) ?sid = Inr x \<and> StreamPhase_IsTerminal (sPhase x) \<and> sCloseReason x = reason"
    using run_record_terminal [OF assms(1) _ disjI1 [OF run]] by blast
  then have "\<exists>x. GetStream memStore_ops (rnStore r2) ?sid = Inr x \<and> StreamPhase_IsTerminal (sPhase x) \<and> sCloseReason x = reason"
    unfolding r2 sessionExit_frame lv .
  ultimately show ?thesis by blast
qed

theorem live_session_lifecycle_witness:
  "rnSched demo_accept \<noteq> SlotController ctl4 \<and>
   rnSched (fst (goSession demo_run_deps (demo_g 0) [InEncoder (Some ErrEncoderExited)] demo_accept)) = SlotController ctl4 \<and>
   pendingAddr (fst (goSession demo_run_deps (demo_g 0) [InEncoder (Some ErrEncoderExited)] demo_accept)) ''s1'' = None"
proof -
  let ?s = "goSession demo_run_deps (demo_g 0) [InEncoder (Some ErrEncoderExited)] demo_accept"
  have "snd (runSession demo_run_deps demo_valid [InEncoder (Some ErrEncoderExited)] (enter (demo_g 0) demo_accept)) =
    Finished sessionEndReasonGraceful"
    by (rule runSession_clean_exit) (simp_all add: enter_def demo_g_def demo_accept_ctl)
  then have "snd ?s = Finished sessionEndReasonGraceful"
    by (simp add: goSession_def demo_g_def case_prod_unfold split: outcome.splits)
  then have s: "?s = (fst ?s, Finished sessionEndReasonGraceful)" by (simp add: prod_eq_iff)
  have "ldRepo demo_run_deps = Some memStore_ops" "vStreamID (gValid (demo_g 0)) \<noteq> []"
    by (simp_all add: demo_run_deps_def demo_stored_deps_def demo_g_def demo_valid_def)
  note th = live_session_lifecycle [OF this(1) demo_runner_ok(2,3,1) demo_accepts this(2) s]
  have "rnSched demo_accept \<noteq> SlotController ctl4" by code_simp
  then show ?thesis using th by (simp add: demo_runner_def newRunner_def demo_g_def demo_valid_def)
qed

subsection \<open>Interleaved operations\<close>

text \<open>
  A publisher that connects again while the session of the same stream is running takes over its control
  block.
\<close>

definition takeover :: "('s, 'b) live_deps \<Rightarrow> ingest_session \<Rightarrow> ('s, 'b, 'k) runner \<Rightarrow> bool" where
  "takeover D i r =
     (case scValidateKey (ldShell D) (rnTrace r) (isStreamKey i) (ldWorkerURL D) of
        Inl _ \<Rightarrow> False
      | Inr v \<Rightarrow> (case pendingCtl r (vStreamID v) of None \<Rightarrow> False | Some ctl \<Rightarrow> cRunning ctl))"

text \<open>
  The steps: every operation of the runner, a session that makes progress (it may change the store, the
  broker, the clock, the trace, and of its block everything it does not own), and the end of a session.
\<close>

inductive runner_step ::
  "('s, 'b) live_deps \<Rightarrow> 'k sink_ops \<Rightarrow> ('s, 'b, 'k) runner \<Rightarrow> ('s, 'b, 'k) runner \<Rightarrow> bool"
  for D :: "('s, 'b) live_deps" and K :: "'k sink_ops" where
  accept: "\<not> takeover D i r \<Longrightarrow> runner_step D K r (fst (Accept D K i r))"
| start: "runner_step D K r (fst (Start D q r))"
| stop: "runner_step D K r (fst (Stop D w r))"
| topup: "runner_step D K r (Topup D w r)"
| shutdown: "runner_step D K r (fst (Shutdown r))"
| onEnd: "runner_step D K r (OnEnd g reason r)"
| progress: "g \<in> set (rnRunning r) \<Longrightarrow> own (lvCtl l) = own (rnCtls r ! gCtl g) \<Longrightarrow> runner_step D K r (leave g l r)"
| exit: "g \<in> set (rnRunning r) \<Longrightarrow> runner_step D K r (sessionExit g r)"

inductive runner_reach ::
  "('s, 'b) live_deps \<Rightarrow> 'k sink_ops \<Rightarrow> ('s, 'b, 'k) runner \<Rightarrow> ('s, 'b, 'k) runner \<Rightarrow> bool"
  for D K r0 where
  init: "runner_reach D K r0 r0"
| step: "runner_reach D K r0 r \<Longrightarrow> runner_step D K r r' \<Longrightarrow> runner_reach D K r0 r'"

text \<open>
  The invariant: the table points into the heap, every goroutine has a block of its own, which the table knows
  under its stream id, and the scheduler holds exactly one live lease per goroutine.
\<close>

definition one_lease :: "('s, 'b) live_deps \<Rightarrow> streamCtl \<Rightarrow> bool" where
  "one_lease D c \<longleftrightarrow> cRunning c \<and> cLease c = Some (newLease (liveRequest D))"

definition run_inv :: "('s, 'b) live_deps \<Rightarrow> ('s, 'b, 'k) runner \<Rightarrow> bool" where
  "run_inv D r \<longleftrightarrow> table_ok r \<and> distinct (map gCtl (rnRunning r)) \<and>
     (\<forall>g \<in> set (rnRunning r). pendingAddr r (vStreamID (gValid g)) = Some (gCtl g) \<and> one_lease D (rnCtls r ! gCtl g)) \<and>
     (\<exists>c. rnSched r = SlotController c \<and> ctl_ok c (replicate (length (rnRunning r)) (newLease (liveRequest D))))"

lemma set_alist_delete: "set (AList.delete k al) \<subseteq> set al"
  by (induction al) auto

lemma alist_update_bound:
  "\<forall>a \<in> snd ` set al. a < n \<Longrightarrow> v < m \<Longrightarrow> n \<le> m \<Longrightarrow> \<forall>a \<in> snd ` set (AList.update k v al). a < (m::nat)"
  by (induction al) auto

lemma run_inv_cong:
  "rnCtls r' = rnCtls r \<Longrightarrow> rnStreams r' = rnStreams r \<Longrightarrow> rnRunning r' = rnRunning r \<Longrightarrow> rnSched r' = rnSched r \<Longrightarrow>
   run_inv D r' = run_inv D r"
  by (simp add: run_inv_def table_ok_def pendingAddr_def)

lemma run_inv_updCtl:
  assumes "run_inv D r" "\<And>c. c = rnCtls r ! a \<Longrightarrow> own (f c) = own c"
  shows "run_inv D (updCtl a f r)"
proof -
  have "one_lease D (rnCtls (updCtl a f r) ! x) = one_lease D (rnCtls r ! x)" for x
    using assms(2) [OF refl]
    by (cases "x = a \<and> a < length (rnCtls r)") (auto simp: updCtl_def one_lease_def own_def nth_list_update list_update_beyond)
  then show ?thesis using assms(1) by (simp add: run_inv_def rn_frame table_ok_def pendingAddr_def)
qed

lemma run_inv_delete:
  assumes "run_inv D r" "\<And>a. pendingAddr r sid = Some a \<Longrightarrow> \<not> cRunning (rnCtls r ! a)"
  shows "run_inv D (r\<lparr>rnStreams := AList.delete sid (rnStreams r)\<rparr>)"
  using assms set_alist_delete [of sid "rnStreams r"] distinct_delete [of "rnStreams r" sid]
  by (fastforce simp: run_inv_def table_ok_def pendingAddr_def delete_conv' one_lease_def)

lemma run_inv_fresh:
  assumes "run_inv D r" "pendingAddr r sid = None"
  shows "run_inv D (r\<lparr>rnCtls := rnCtls r @ [c], rnCtxs := n, rnStreams := AList.update sid (length (rnCtls r)) (rnStreams r)\<rparr>)"
proof -
  have lt: "gCtl g < length (rnCtls r)" if "g \<in> set (rnRunning r)" for g
    using assms(1) that table_ok_addr unfolding run_inv_def by blast
  have "pendingAddr r (vStreamID (gValid g)) \<noteq> pendingAddr r sid" if "g \<in> set (rnRunning r)" for g
    using assms that by (auto simp: run_inv_def)
  then have ne: "vStreamID (gValid g) \<noteq> sid" if "g \<in> set (rnRunning r)" for g using that by metis
  have "\<forall>a \<in> snd ` set (AList.update sid (length (rnCtls r)) (rnStreams r)). a < Suc (length (rnCtls r))"
    using assms(1) by (intro alist_update_bound [of _ "length (rnCtls r)"]) (auto simp: run_inv_def table_ok_def)
  then show ?thesis using assms lt ne
    by (simp add: run_inv_def table_ok_def pendingAddr_def update_conv' nth_append distinct_update)
qed

lemma ctl_ok_live:
  assumes "ctl_ok c (replicate n (newLease q))" "ctl_Acquire (SlotController c) e q = (c', Some (Inr l))" "rWorkload q = WorkloadLive"
  shows "l = newLease q \<and> (\<exists>d. c' = SlotController d \<and> ctl_ok d (replicate (Suc n) (newLease q)))"
proof -
  obtain d where d: "Acquire c e q = (d, Some (Inr l))" "c' = SlotController d" using assms(2) by (auto split: prod.splits)
  from d(1) show ?thesis
  proof (cases rule: Acquire_cases)
    case live
    then show ?thesis using ctl_ok_allocLive [OF assms(1,3)] d(2) by simp
  qed (use assms(3) in auto)
qed

lemma ctl_ok_drop: "ctl_ok c (l # ls) \<Longrightarrow> lDone l \<Longrightarrow> ctl_ok c ls"
  by (simp add: ctl_ok_def counts_ok_def lease_val_def)

lemma ctl_ok_release_one:
  assumes "ctl_ok c (replicate n (newLease q))" "0 < n"
  shows "\<exists>d. ctl_Release (SlotController c) (newLease q) = SlotController d \<and> ctl_ok d (replicate (n - 1) (newLease q))"
proof -
  obtain m where m: "n = Suc m" using assms(2) by (cases n) auto
  have "ctl_ok (fst (Release c (newLease q))) (snd (Release c (newLease q)) # replicate m (newLease q))"
    using ctl_ok_Release [OF assms(1), of 0] m by simp
  moreover have "lDone (snd (Release c (newLease q)))" by (simp add: Release_def Let_def)
  ultimately show ?thesis using ctl_ok_drop m by auto
qed

lemma run_inv_Accept:
  assumes "run_inv D r" "ldScheduler D" "\<not> takeover D i r"
  shows "run_inv D (fst (Accept D K i r))"
proof (cases "snd (Accept D K i r)")
  case (Inl err)
  then have "Accept D K i r = (fst (Accept D K i r), Inl err)" by (simp add: prod_eq_iff)
  from Accept_error [OF this] show ?thesis using run_inv_cong assms(1) by blast
next
  case (Inr g)
  define r' where "r' = fst (Accept D K i r)"
  have acc: "Accept D K i r = (r', Inr g)" using Inr by (simp add: r'_def prod_eq_iff)
  let ?sid = "vStreamID (gValid g)"
  obtain ctl where a: "accepted D g ctl r r'" and "scValidateKey (ldShell D) (rnTrace r) (isStreamKey i) (ldWorkerURL D) = Inr (gValid g)"
    by (rule Accept_ok [OF acc]) blast
  with assms(3) have idle: "\<not> cRunning (rnCtls r ! x)" if "pendingAddr r ?sid = Some x" for x
    using that by (auto simp: takeover_def pendingCtl_def)
  have t: "table_ok r" using assms(1) by (simp add: run_inv_def)
  have fresh: "gCtl h \<noteq> gCtl g" "vStreamID (gValid h) \<noteq> ?sid" "gCtl h < length (rnCtls r)" if "h \<in> set (rnRunning r)" for h
  proof -
    have h: "pendingAddr r (vStreamID (gValid h)) = Some (gCtl h)" "cRunning (rnCtls r ! gCtl h)"
      using assms(1) that by (auto simp: run_inv_def one_lease_def)
    show lt: "gCtl h < length (rnCtls r)" using table_ok_addr [OF t h(1)] .
    show "gCtl h \<noteq> gCtl g" using a idle h(2) lt by (auto simp: accepted_def split: option.splits)
    show "vStreamID (gValid h) \<noteq> ?sid" using h idle by auto
  qed
  obtain c l where c: "rnSched r = SlotController c" "ctl_ok c (replicate (length (rnRunning r)) (newLease (liveRequest D)))"
    "cLease ctl = Some l" "ctl_Acquire (SlotController c) None (liveRequest D) = (rnSched r', Some (Inr l))"
    using assms(1,2) a by (auto simp: run_inv_def accepted_def)
  have "rWorkload (liveRequest D) = WorkloadLive" by (simp add: liveRequest_def)
  note q = ctl_ok_live [OF c(2,4) this]
  have "table_ok r'"
  proof -
    have "rnStreams r' = AList.update ?sid (gCtl g) (rnStreams r)" "length (rnCtls r) \<le> length (rnCtls r')"
      using a by (auto simp: accepted_def split: option.splits)
    then show ?thesis using t alist_update_bound [OF _ accepted_ctl(1) [OF a t], of "rnStreams r" "length (rnCtls r)" ?sid]
      unfolding table_ok_def by (metis distinct_update)
  qed
  moreover have "pendingAddr r' (vStreamID (gValid h)) = Some (gCtl h) \<and> one_lease D (rnCtls r' ! gCtl h)"
    if h: "h \<in> set (rnRunning r)" for h
  proof -
    have "pendingAddr r' (vStreamID (gValid h)) = pendingAddr r (vStreamID (gValid h))"
      using a fresh(2) [OF h] by (simp add: accepted_def pendingAddr_def update_conv')
    moreover have "rnCtls r' ! gCtl h = rnCtls r ! gCtl h"
      using a fresh(1,3) [OF h] by (auto simp: accepted_def nth_append split: option.splits)
    ultimately show ?thesis using assms(1) h by (simp add: run_inv_def)
  qed
  moreover have "pendingAddr r' ?sid = Some (gCtl g)" using a by (simp add: accepted_def pendingAddr_def update_conv')
  moreover have "one_lease D (rnCtls r' ! gCtl g)"
    using accepted_ctl [OF a t] a q c(3) by (simp add: one_lease_def accepted_def)
  moreover have run: "rnRunning r' = g # rnRunning r" using a by (simp add: accepted_def)
  moreover have "distinct (map gCtl (rnRunning r'))" 
  proof -
    have "gCtl g \<notin> gCtl ` set (rnRunning r)"
    proof
      assume "gCtl g \<in> gCtl ` set (rnRunning r)"
      then obtain h where "h \<in> set (rnRunning r)" "gCtl g = gCtl h" by (rule imageE)
      then show False using fresh(1) [of h] by simp
    qed
    then show ?thesis using run assms(1) by (simp add: run_inv_def)
  qed
  moreover have "\<exists>d. rnSched r' = SlotController d \<and> ctl_ok d (replicate (length (rnRunning r')) (newLease (liveRequest D)))"
    using q run by simp
  ultimately show ?thesis unfolding r'_def [symmetric] run_inv_def by auto
qed

lemma run_inv_sessionExit:
  assumes "run_inv D r" "g \<in> set (rnRunning r)"
  shows "run_inv D (sessionExit g r)"
proof -
  let ?n = "length (rnRunning r)" and ?q = "newLease (liveRequest D)" and ?r = "sessionExit g r"
  have g: "pendingAddr r (vStreamID (gValid g)) = Some (gCtl g)" "cLease (rnCtls r ! gCtl g) = Some ?q"
    and d: "distinct (map gCtl (rnRunning r))" and t: "table_ok r"
    using assms by (auto simp: run_inv_def one_lease_def)
  obtain c where c: "rnSched r = SlotController c" "ctl_ok c (replicate ?n ?q)" using assms(1) by (auto simp: run_inv_def)
  have "0 < ?n" using assms(2) by (cases "rnRunning r") auto
  from ctl_ok_release_one [OF c(2) this] obtain e where
    e: "ctl_Release (SlotController c) ?q = SlotController e" "ctl_ok e (replicate (?n - 1) ?q)" by blast
  have dr: "distinct (rnRunning r)" using d by (simp add: distinct_map)
  have other: "gCtl h \<noteq> gCtl g \<and> vStreamID (gValid h) \<noteq> vStreamID (gValid g)" if "h \<in> set (rnRunning r)" "h \<noteq> g" for h
  proof -
    have ne: "gCtl h \<noteq> gCtl g" using d assms(2) that by (auto simp: distinct_map inj_on_def)
    moreover have "pendingAddr r (vStreamID (gValid h)) = Some (gCtl h)" using assms(1) that(1) by (simp add: run_inv_def)
    ultimately show ?thesis using g(1) by auto
  qed
  have ctls: "rnCtls ?r ! a = rnCtls r ! a" if "a \<noteq> gCtl g" for a
    using that by (simp add: sessionExit_def Let_def releaseCtl_def g(2) updCtl_def)
  have "table_ok ?r"
    using t set_alist_delete [of "vStreamID (gValid g)" "rnStreams r"] distinct_delete [of "rnStreams r" "vStreamID (gValid g)"]
    by (fastforce simp: table_ok_def sessionExit_def Let_def releaseCtl_def g(2) updCtl_def)
  moreover have "distinct (map gCtl (remove1 g (rnRunning r)))"
    using d dr by (simp add: distinct_map inj_on_def)
  moreover have "rnSched ?r = SlotController e" 
    unfolding sessionExit_frame releaseCtl_sched g(2) c(1) option.case e(1) ..
  moreover have "length (remove1 g (rnRunning r)) = ?n - 1" using assms(2) by (simp add: length_remove1)
  ultimately show ?thesis using assms(1) other ctls e(2) dr
    by (simp add: run_inv_def sessionExit_frame)
qed

lemma run_inv_shutdown:
  "run_inv D r \<Longrightarrow> distinct (map fst es) \<Longrightarrow> \<forall>(sid, a) \<in> set es. pendingAddr r sid \<in> {None, Some a} \<Longrightarrow>
   run_inv D (fold shutdownOne es r)"
proof (induction es arbitrary: r)
  case (Cons e es)
  obtain sid a where e: "e = (sid, a)" by (cases e)
  define r1 where "r1 = cancelCtx (cCancel (rnCtls (updCtl a (setReason sessionEndReasonAdminStop) r) ! a))
    (updCtl a (setReason sessionEndReasonAdminStop) r)"
  have i1: "run_inv D r1"
    using run_inv_cong [of r1 "updCtl a (setReason sessionEndReasonAdminStop) r"] run_inv_updCtl [OF Cons.prems(1)]
    by (simp add: r1_def cancelCtx_def)
  have p: "pendingAddr r1 = pendingAddr r" by (simp add: r1_def cancelCtx_def rn_frame pendingAddr_def fun_eq_iff)
  have s: "shutdownOne e r = (if cRunning (rnCtls r1 ! a) then r1 else r1\<lparr>rnStreams := AList.delete sid (rnStreams r1)\<rparr>)"
    by (simp add: shutdownOne_def e Let_def r1_def)
  have "pendingAddr r1 sid \<in> {None, Some a}" using Cons.prems(3) e p by auto
  then have "run_inv D (shutdownOne e r)" using i1 run_inv_delete [OF i1, of sid] s by auto
  moreover have "pendingAddr (shutdownOne e r) x \<in> {None, pendingAddr r x}" for x
    unfolding s using p by (auto simp: pendingAddr_def delete_conv' fun_eq_iff)
  then have "pendingAddr (shutdownOne e r) x \<in> {None, Some b}" if "(x, b) \<in> set es" for x b
    using Cons.prems(3) that by (metis (no_types, lifting) case_prodD insert_iff list.set_intros(2) singletonD)
  then have "\<forall>(x, b) \<in> set es. pendingAddr (shutdownOne e r) x \<in> {None, Some b}" by blast
  ultimately show ?case using Cons.IH Cons.prems(2) by simp
qed simp

lemma run_inv_Start:
  assumes "run_inv D r"
  shows "run_inv D (fst (Start D q r))"
proof (cases "pendingAddr r (srWorkID q)")
  case None
  define x where "x = startStream q (rnNow D r)"
  define r1 where "r1 = fst (rnSaveStream D x (rnTick r))"
  have i: "run_inv D r1" using run_inv_cong [of r1 r] assms by (simp add: r1_def rn_frame)
  have p: "pendingAddr r1 (srWorkID q) = None" using None by (simp add: r1_def rn_frame pendingAddr_def)
  show ?thesis
  proof (cases "snd (rnSaveStream D x (rnTick r))")
    case Inl
    then show ?thesis using i None by (simp add: Start_def Let_def x_def r1_def case_prod_unfold)
  next
    case Inr
    then show ?thesis using run_inv_fresh [OF i p] None
      by (simp add: Start_def Let_def x_def r1_def case_prod_unfold)
  qed
qed (use assms in \<open>simp add: Start_def\<close>)

lemma run_inv_Stop:
  assumes "run_inv D r"
  shows "run_inv D (fst (Stop D w r))"
proof (cases "pendingAddr r w")
  case (Some a)
  define r1 where "r1 = (if cRunning (rnCtls r ! a) then r else closeInline D w a r)"
  have "run_inv D r1"
  proof (cases "cRunning (rnCtls r ! a)")
    case False
    define now where "now = rnNow D r"
    define u where "u = updCtl a (\<lambda>ctl. ctl\<lparr>cStream := (cStream ctl)\<lparr>sPhase := StreamPhaseClosed,
      sCloseReason := sessionEndReasonAdminStop, sClosedAt := now\<rparr>\<rparr>) (rnTick r)"
    define s where "s = fst (rnSaveStream D (cStream (rnCtls u ! a)) u)"
    have "run_inv D (rnTick r)" using run_inv_cong [of "rnTick r" r] assms by (simp add: rn_frame)
    then have "run_inv D u" unfolding u_def by (rule run_inv_updCtl) simp
    then have i: "run_inv D s" using run_inv_cong [of s u] by (simp add: s_def rn_frame)
    have "a < length (rnCtls r)" using table_ok_addr [OF _ Some] assms by (simp add: run_inv_def)
    then have "pendingAddr s w = Some a" "\<not> cRunning (rnCtls s ! a)"
      using Some False by (simp_all add: s_def u_def rn_frame pendingAddr_def)
    then show ?thesis using run_inv_delete [OF i, of w] False
      by (simp add: r1_def closeInline_def Let_def s_def u_def now_def)
  qed (use assms in \<open>simp add: r1_def\<close>)
  then have "run_inv D (updCtl a (setReason sessionEndReasonAdminStop) r1)" by (rule run_inv_updCtl) simp
  then show ?thesis
    using run_inv_cong [of "fst (Stop D w r)" "updCtl a (setReason sessionEndReasonAdminStop) r1"] Some
    by (simp add: Stop_def Let_def r1_def cancelCtx_def)
qed (use assms in \<open>simp add: Stop_def\<close>)

lemma run_inv_Topup:
  assumes "run_inv D r"
  shows "run_inv D (Topup D w r)"
proof (cases "pendingAddr r w")
  case (Some a)
  let ?u = "updCtl a (\<lambda>ctl. ctl\<lparr>cStream := (cStream ctl)\<lparr>sLastTopupAt := rnNow D r\<rparr>\<rparr>) (rnTick r)"
  have "run_inv D (rnTick r)" using run_inv_cong [of "rnTick r" r] assms by (simp add: rn_frame)
  then have "run_inv D ?u" by (rule run_inv_updCtl) simp
  then show ?thesis using run_inv_cong [of "Topup D w r" ?u] Some
    by (simp add: Topup_def Let_def rn_frame split: option.splits sum.splits)
qed (use assms in \<open>simp add: Topup_def\<close>)

lemma run_inv_step:
  assumes "runner_step D K r r'" "ldScheduler D" "run_inv D r"
  shows "run_inv D r'"
  using assms(1)
proof cases
  case (accept i)
  then show ?thesis using run_inv_Accept assms by blast
next
  case (start q)
  then show ?thesis using run_inv_Start assms(3) by blast
next
  case (stop w)
  then show ?thesis using run_inv_Stop assms(3) by blast
next
  case (topup w)
  then show ?thesis using run_inv_Topup assms(3) by blast
next
  case shutdown
  have "table_ok r" using assms(3) by (simp add: run_inv_def)
  then have "run_inv D (fold shutdownOne (rnStreams r) r)"
    by (intro run_inv_shutdown assms(3)) (auto simp: table_ok_def pendingAddr_def)
  then show ?thesis using shutdown by (simp add: Shutdown_def)
next
  case (onEnd g reason)
  let ?u = "updCtl (gCtl g) (setReason (if reason = ''close'' then sessionEndReasonGraceful else sessionEndReasonWorkerFailed)) r"
  have "run_inv D ?u" using assms(3) by (rule run_inv_updCtl) simp
  then show ?thesis using run_inv_cong [of r' ?u] onEnd by (simp add: OnEnd_def cancelCtx_def)
next
  case (progress g l)
  let ?s = "r\<lparr>rnStore := lvStore l, rnBroker := lvBroker l, rnClock := lvClock l, rnTrace := lvTrace l\<rparr>"
  have "run_inv D ?s" using run_inv_cong [of ?s r] assms(3) by simp
  then show ?thesis unfolding progress(1) leave_def by (rule run_inv_updCtl) (simp add: progress(3))
next
  case (exit g)
  then show ?thesis using run_inv_sessionExit assms(3) by blast
qed

lemma run_inv_reach:
  assumes "runner_reach D K r0 r" "ldScheduler D" "run_inv D r0"
  shows "run_inv D r"
  using assms by (induction rule: runner_reach.induct) (auto intro: run_inv_step)

lemma held_replicate: "\<not> lDone l \<Longrightarrow> lWorkload l = w \<Longrightarrow> held f w (replicate n l) = int n * f l"
  by (induction n) (simp_all add: lease_val_def algebra_simps)

lemma held_replicate_other: "lWorkload l \<noteq> w \<Longrightarrow> held f w (replicate n l) = 0"
  by (induction n) (simp_all add: lease_val_def)



subsection \<open>Publishing twice, and the limit on streams\<close>

text \<open>
  C26. A publisher that connects again while its session runs costs a slot for ever: the second \<open>Accept\<close> writes
  its lease over the first one's in the shared control block. When both sessions have ended, no
  goroutine and no table entry is left, but the scheduler is where it was after the first \<open>Accept\<close>:
  with one lease that nobody can release any more.
\<close>

theorem live_republish_leaks_lease:
  assumes "ldScheduler D" "table_ok r" "ctl_good (rnSched r1)"
    "Accept D K i r = (r1, Inr g)" "Accept D K j r1 = (r2, Inr h)" "vStreamID (gValid h) = vStreamID (gValid g)"
  shows "rnSched (sessionExit h (sessionExit g r2)) = rnSched r1 \<and>
    pendingAddr (sessionExit h (sessionExit g r2)) (vStreamID (gValid g)) = None \<and>
    rnRunning (sessionExit h (sessionExit g r2)) = remove1 h (remove1 g (h # g # rnRunning r))"
proof -
  obtain c1 where a1: "accepted D g c1 r r1" using Accept_ok [OF assms(4)] by metis
  obtain c2 where a2: "accepted D h c2 r1 r2" using Accept_ok [OF assms(5)] by metis
  have p: "pendingAddr r1 (vStreamID (gValid g)) = Some (gCtl g)" using a1 by (simp add: accepted_def pendingAddr_def update_conv')
  have lt: "gCtl g < length (rnCtls r1)" by (rule accepted_ctl(1) [OF a1 assms(2)])
  have same: "gCtl h = gCtl g" "rnCtls r2 ! gCtl g = c2" "gCtl g < length (rnCtls r2)"
    using a2 p assms(6) lt by (auto simp: accepted_def)
  obtain l where l: "cLease c2 = Some l" "ctl_Acquire (rnSched r1) None (liveRequest D) = (rnSched r2, Some (Inr l))"
    using a2 assms(1) by (auto simp: accepted_def)
  have rel: "ctl_Release (rnSched r2) l = rnSched r1" by (rule sched.acquire_release [OF assms(3) l(2)])
  have again: "ctl_Release c (l\<lparr>lDone := True\<rparr>) = c" for c by (cases c) (simp_all add: Release_def)
  have s1: "rnSched (sessionExit g r2) = rnSched r1" unfolding sessionExit_frame releaseCtl_sched same l by (simp add: rel)
  have "cLease (rnCtls (sessionExit g r2) ! gCtl h) = Some (l\<lparr>lDone := True\<rparr>)"
    using same l(1) by (simp add: sessionExit_def Let_def releaseCtl_def rn_frame)
  then have "rnSched (sessionExit h (sessionExit g r2)) = rnSched r1"
    unfolding sessionExit_frame(1) [of h] releaseCtl_sched s1 by (simp add: again)
  moreover have "rnRunning r2 = h # g # rnRunning r" using a1 a2 by (simp add: accepted_def)
  ultimately show ?thesis using assms(6) by (simp add: sessionExit_frame)
qed

theorem live_republish_leaks_lease_witness:
  "rnSched (sessionExit (demo_g 1) (sessionExit (demo_g 0) (fst (Accept demo_run_deps memSink_ops demo_publish demo_accept)))) =
     rnSched demo_accept \<and> rnSched demo_accept \<noteq> SlotController ctl4 \<and>
   rnRunning (sessionExit (demo_g 1) (sessionExit (demo_g 0) (fst (Accept demo_run_deps memSink_ops demo_publish demo_accept)))) = []"
proof -
  have g: "ctl_good (rnSched demo_accept)"
  proof -
    have "case rnSched demo_accept of NoopController \<Rightarrow> True | SlotController c \<Rightarrow>
        active c = 1 \<and> activeLive c = 1 \<and> activeBatch c = 0 \<and> total c = 4 \<and> liveReserved c = 1 \<and> queuedBatch c = 0 \<and>
        activeCost c = 100 \<and> activeLiveCost c = 100 \<and> activeBatchCost c = 0 \<and> totalCost c = 400 \<and> liveCostReserved c = 100"
      by code_simp
    then show ?thesis by (cases "rnSched demo_accept") (auto simp: slot_good_def limits_ok_def within_ok_def)
  qed
  have "ldScheduler demo_run_deps" "vStreamID (gValid (demo_g 1)) = vStreamID (gValid (demo_g 0))"
    by (simp_all add: demo_run_deps_def demo_g_def)
  note th = live_republish_leaks_lease [OF this(1) demo_runner_ok(1) g demo_accepts demo_accepts_again this(2)]
  have "rnSched demo_accept \<noteq> SlotController ctl4" by code_simp
  moreover have "remove1 (demo_g 1) (remove1 (demo_g 0) (demo_g 1 # demo_g 0 # rnRunning demo_runner)) = []" by code_simp
  ultimately show ?thesis using th by simp
qed

text \<open>
  The limit counts the sessions that \<open>Start\<close> opened in advance, and it is tested before the stream id is
  known: when the table is full of opened sessions, the publishers they were opened for are refused.
\<close>

lemma live_limit_refuses_opened:
  assumes "ldHasShell D" "0 < ldMaxConcurrentStreams D" "ldMaxConcurrentStreams D \<le> int (live_ActiveCount r)"
  shows "Accept D K i r = (r, Inl ErrIngestCapacity)"
  using assms by (simp add: Accept_def live_ActiveCount_def)

lemma Start_fills_table:
  assumes "Start D q r = (r', Inr x)"
  shows "live_ActiveCount r' = live_ActiveCount r + 1 \<and> pendingAddr r' (srWorkID q) \<noteq> None"
proof -
  have n: "pendingAddr r (srWorkID q) = None" using assms by (auto simp: Start_def split: if_splits)
  have "length (AList.update k v al) = length al + 1" if "map_of al k = None" for k v and al :: "(string \<times> nat) list"
    using that by (induction al) (auto split: if_splits)
  moreover have "rnStreams r' = AList.update (srWorkID q) (length (rnCtls r)) (rnStreams r)"
    using assms n by (auto simp: Start_def Let_def case_prod_unfold rn_frame split: sum.splits)
  ultimately show ?thesis using n by (simp add: live_ActiveCount_def pendingAddr_def update_conv')
qed

end
