(* ===== verification/Live_Encoder.thy ===== *)
theory Live_Encoder
  imports Ffmpeg Live_Runner
begin

text \<open>
  \<open>internal/service/liverunner/encoder.go\<close> and \<open>ffmpeg_adapter.go\<close>: the encoders behind a live session, and how
  they fit the components around them. The time stamps that ffmpeg prints make the media clock on which
  the session bills, and the playlists ffmpeg writes are the ones that the mirror uploads and the master
  manifest names.
\<close>

subsection \<open>The draining encoder\<close>

definition io_EOF :: go_error where "io_EOF = Err ''EOF''"
definition io_ErrClosedPipe :: go_error where "io_ErrClosedPipe = Err ''io: read/write on closed pipe''"

datatype drain_input = DrCtxDone go_error | DrRead "go_error option" | DrTick

fun drainLoop :: "drain_input list \<Rightarrow> u64 \<Rightarrow> u64 \<times> go_error option" where
  "drainLoop [] n = (n, None)"
| "drainLoop (DrCtxDone e # is) n = (n, Some e)"
| "drainLoop (DrRead err # is) n =
     (n, Some (case err of
        None \<Rightarrow> ErrEncoderExited
      | Some e \<Rightarrow> if errors_Is e io_EOF \<or> errors_Is e io_ErrClosedPipe then ErrEncoderExited else e))"
| "drainLoop (DrTick # is) n = drainLoop is (n + 1)"

definition drain_Start :: "bool \<Rightarrow> drain_input list \<Rightarrow> u64 \<times> go_error option" where
  "drain_Start hasReader is =
     (if \<not> hasReader then (0, Some (Err ''drainEncoder: nil reader'')) else drainLoop is 0)"

definition drain_EncodedSeconds :: "u64 \<Rightarrow> rat" where
  "drain_EncodedSeconds n = rnd64 (rnd64 (of_int (uint n)) / 10)"

subsection \<open>The ffmpeg encoder\<close>

record encoder_config =
  ecLocalDirRoot :: string
  ecLadder :: "preset list"
  ecGPU :: gpu_profile
  ecSegmentSeconds :: int
  ecPlaylistSize :: int
  ecAudioBitrateKbps :: int

definition adapterJob :: "encoder_config \<Rightarrow> string \<Rightarrow> string \<Rightarrow> live_job" where
  "adapterJob cfg streamID mediaFormat =
     \<lparr>ljMediaFormat = mediaFormat, ljLocalDir = filepath_Join [ecLocalDirRoot cfg, streamID], ljLadder = ecLadder cfg,
      ljSegmentSeconds = ecSegmentSeconds cfg, ljPlaylistSize = ecPlaylistSize cfg,
      ljAudioBitrateKbps = ecAudioBitrateKbps cfg, ljGPU = ecGPU cfg, ljMaxLogBytes = 0\<rparr>"

definition adapter_Start :: "encoder_config \<Rightarrow> string \<Rightarrow> bool \<Rightarrow> string \<Rightarrow> proc \<Rightarrow> live_run \<times> go_error" where
  "adapter_Start cfg streamID hasReader mediaFormat p =
     (let run = live_Start (adapterJob cfg streamID mediaFormat) hasReader mediaFormat p
      in (run, case lnErr run of None \<Rightarrow> ErrEncoderExited | Some err \<Rightarrow> err))"

text \<open>\<open>e.enc\<close> is nil until \<open>Start\<close> was called.\<close>

definition adapter_EncodedSeconds :: "live_run option \<Rightarrow> rat" where
  "adapter_EncodedSeconds run = (case run of None \<Rightarrow> 0 | Some run \<Rightarrow> EncodedSeconds (lnProcessed run))"

subsection \<open>The media clock of a session\<close>


lemma list_all_take: "list_all P xs \<Longrightarrow> list_all P (take n xs)"
  by (auto simp: list_all_iff dest: in_set_takeD)

definition demo_output :: "live_event list \<Rightarrow> string list" where
  "demo_output tr = take (length tr) [''time=0:0:2 x'', ''time=0:0:4 x'']"


lemma drain_clock_mono: "drainLoop is n = (m, r) \<Longrightarrow> uint n + int (length is) < 2 ^ 64 \<Longrightarrow> uint n \<le> uint m"
proof (induction "is" n rule: drainLoop.induct)
  case (4 "is" n)
  have "uint n + 1 < 2 ^ 64" using "4.prems"(2) by simp
  then have u: "uint (n + 1) = uint n + 1" by (simp add: uint_word_ariths)
  with "4.IH" "4.prems" show ?case by simp
qed auto

subsection \<open>The playlists that the master manifest names\<close>

lemma rungPlaylist_built:
  assumes "p \<in> set (ljLadder j)"
  shows "rungPlaylist j p \<in> set (BuildLiveArgs j)"
proof -
  let ?j = "liveDefaults j"
  have "rungPlaylist j p = rungPlaylist ?j p" by (simp add: rungPlaylist_def liveDefaults_def)
  moreover have "rungPlaylist ?j p \<in> set (rungArgs ?j p)" by (simp add: rungArgs_def)
  moreover have "p \<in> set (ljLadder ?j)" using assms by (simp add: liveDefaults_def)
  ultimately have "rungPlaylist j p \<in> set (concat (map (rungArgs ?j) (ljLadder ?j)))"
    unfolding set_concat set_map by (metis UN_I imageI)
  then show ?thesis unfolding BuildLiveArgs_def Let_def set_append by (rule UnI2)
qed

text \<open>
  Players find what the encoder writes: for a session whose runner and encoder have the same root directory,
  every rendition of the ladder has its playlist on ffmpeg's command line, this file lies below the
  directory that the mirror uploads, at the very path that the master manifest names, and its key in
  the sink is that path next to the master manifest's.
\<close>

theorem live_variants_mirrored:
  assumes "openMirror D K v r = (r', Some m)" "HasPrefix (ldLocalDirRoot D) ''/''" "plainElem (vStreamID v)"
    "ecLocalDirRoot cfg = ldLocalDirRoot D" "ecLadder cfg = ldLadder D" "p \<in> set (ldLadder D)"
    "plainElem (pCodec p)" "plainElem (pName p)"
  shows "rungPlaylist (adapterJob cfg (vStreamID v) fmt) p \<in> set (BuildLiveArgs (adapterJob cfg (vStreamID v) fmt)) \<and>
    rungPlaylist (adapterJob cfg (vStreamID v) fmt) p = mLocalRoot m @ ''/'' @ rnURI (liveRendition p) \<and>
    rnURI (liveRendition p) = pCodec p @ ''/'' @ pName p @ ''/playlist.m3u8'' \<and>
    (\<exists>dir. MasterKey m = dir @ ''master.m3u8'' \<and> keyFor m (rnURI (liveRendition p)) = dir @ rnURI (liveRendition p))"
proof -
  let ?j = "adapterJob cfg (vStreamID v) fmt" and ?es = "[pCodec p, pName p, ''playlist.m3u8'']"
  have m: "mLocalRoot m = filepath_Join [ldLocalDirRoot D, vStreamID v]"
    using assms(1) by (auto simp: openMirror_def NewMirror_def Let_def split: if_splits)
  obtain qs where qs: "rooted_at qs (ldLocalDirRoot D)" using rooted_exists [OF assms(2)] by blast
  have sid: "list_all plainElem [vStreamID v]" "[vStreamID v] \<noteq> []" using assms(3) by simp_all
  have es: "list_all plainElem ?es" "?es \<noteq> []" using assms(7,8) by (simp_all add: plainElem_def)
  note root = Join_rooted [OF qs sid(2,1)]
  have dir: "ljLocalDir ?j = mLocalRoot m" using assms(4) m by (simp add: adapterJob_def)
  have uri: "rnURI (liveRendition p) = join_with ''/'' ?es"
    using Join_relative [OF es(2,1)] by (simp add: liveRendition_def)
  have "rungPlaylist ?j p = ''/'' @ join_with ''/'' ((qs @ [vStreamID v]) @ ?es)"
    using Join_rooted(1) [OF root(2) es(2,1)] unfolding rungPlaylist_def dir m .
  then have eq: "rungPlaylist ?j p = mLocalRoot m @ ''/'' @ rnURI (liveRendition p)"
    unfolding uri m root(1) by (subst (asm) join_with_append) simp_all
  have "rungPlaylist ?j p \<in> set (BuildLiveArgs ?j)"
    using rungPlaylist_built [of p ?j] assms(5,6) by (simp add: adapterJob_def)
  moreover have "\<exists>dir. MasterKey m = dir @ ''master.m3u8'' \<and> keyFor m (rnURI (liveRendition p)) = dir @ rnURI (liveRendition p)"
    by (rule exI [of _ "if mSinkPrefix m = [] then [] else mSinkPrefix m @ ''/''"]) (simp add: MasterKey_def keyFor_def)
  ultimately show ?thesis using eq uri by simp
qed

definition demo_mirror_deps :: "(json memStore, fake) live_deps" where
  "demo_mirror_deps = demo_live_deps\<lparr>ldHasSink := True, ldLocalDirRoot := ''/tmp//live/'', ldLadder := [h264_720p, h264_1080p]\<rparr>"

definition demo_encoder :: encoder_config where
  "demo_encoder = \<lparr>ecLocalDirRoot = ''/tmp//live/'', ecLadder = [h264_720p, h264_1080p],
     ecGPU = zero_gpu\<lparr>gVendor := GPUVendorNVIDIA\<rparr>, ecSegmentSeconds = 0, ecPlaylistSize = 0, ecAudioBitrateKbps = 0\<rparr>"

theorem live_variants_mirrored_witness:
  "rungPlaylist (adapterJob demo_encoder ''s1'' ''flv'') h264_720p = ''/tmp/live/s1/h264/h264-720p/playlist.m3u8''"
proof -
  obtain r' m where m: "openMirror demo_mirror_deps memSink_ops demo_valid demo_runner = (r', Some m)"
    "mLocalRoot m = filepath_Join [''/tmp//live/'', ''s1'']"
    by (simp add: openMirror_def demo_mirror_deps_def NewMirror_def Let_def demo_valid_def)
  have root: "filepath_Join [''/tmp//live/'', ''s1''] = ''/tmp/live/s1''" by code_simp
  have "HasPrefix (ldLocalDirRoot demo_mirror_deps) ''/''" by code_simp
  moreover have "plainElem (vStreamID demo_valid)" "plainElem (pCodec h264_720p)" "plainElem (pName h264_720p)" by code_simp+
  moreover have "ecLocalDirRoot demo_encoder = ldLocalDirRoot demo_mirror_deps" "ecLadder demo_encoder = ldLadder demo_mirror_deps"
    "h264_720p \<in> set (ldLadder demo_mirror_deps)" by (simp_all add: demo_encoder_def demo_mirror_deps_def)
  ultimately show ?thesis using live_variants_mirrored [OF m(1), of demo_encoder h264_720p "''flv''"] m(2) root
    by (simp add: demo_valid_def h264_720p_def)
qed

end
