(* ===== verification/Http_Server.thy ===== *)
theory Http_Server
  imports Go_Strings Worker_Config Payment_Client Abr_Runner Live_Encoder
begin

text \<open>
  \<open>internal/runtime/http/http.go\<close>, first part: the server with the state it shares with the runners, requests and
  replies, the decoding of request bodies, the registry of live sessions, tickets and prices, and the
  hexadecimal and decimal renderings of the ticket parameters. The handlers are in \<open>Http_Handlers\<close>.

  A request arrives as what \<open>net/http\<close> and the JSON tokenizer make of it: the header values, the path value and
  the first JSON document of the body with what follows it, read with or without a limit. Member names in
  requests are matched without regard to case (in ASCII) and an object may repeat them. SHA-256 and the
  status codes of gRPC errors are parameters.
\<close>

subsection \<open>Requests and replies\<close>

record http_request =
  hqHeader :: "string \<Rightarrow> string"
  hqPathValue :: "string \<Rightarrow> string"
  hqBody :: "nat option \<Rightarrow> json result \<times> json result"

datatype reply = Reply int "json option" | Panicked

definition writeJSON :: "int \<Rightarrow> json \<Rightarrow> reply" where
  "writeJSON status v = Reply status (Some v)"

definition writeError :: "int \<Rightarrow> string \<Rightarrow> string \<Rightarrow> reply" where
  "writeError status code message = writeJSON status (JObj [(''code'', JStr code), (''message'', JStr message)])"

text \<open>
  \<open>Decode\<close> into a struct: the members in the order of the document, each to the field of its folded name;
  \<open>null\<close> leaves a field alone, an unknown name is skipped or, if \<open>strict\<close>, an error. The first error is the
  one returned.
\<close>

type_synonym 'r fields = "(string \<times> (json \<Rightarrow> 'r \<Rightarrow> 'r result)) list"

definition field :: "(json \<Rightarrow> 'a result) \<Rightarrow> ('a \<Rightarrow> 'r \<Rightarrow> 'r) \<Rightarrow> json \<Rightarrow> 'r \<Rightarrow> 'r result" where
  "field d u j r = rbind (d j) (\<lambda>v. Inr (u v r))"

definition setMember :: "bool \<Rightarrow> 'r fields \<Rightarrow> string \<times> json \<Rightarrow> 'r \<Rightarrow> 'r result" where
  "setMember strict fs m r =
     (case map_of fs (ToLower (fst m)) of
        None \<Rightarrow> if strict then Inl (Err (''json: unknown field '' @ Quote (fst m))) else Inr r
      | Some upd \<Rightarrow> if snd m = JNull then Inr r else upd (snd m) r)"

fun setMembers :: "bool \<Rightarrow> 'r fields \<Rightarrow> (string \<times> json) list \<Rightarrow> 'r \<Rightarrow> 'r result" where
  "setMembers strict fs [] r = Inr r"
| "setMembers strict fs (m # ms) r = rbind (setMember strict fs m r) (setMembers strict fs ms)"

definition decodeInto :: "bool \<Rightarrow> 'r fields \<Rightarrow> 'r \<Rightarrow> json result \<Rightarrow> 'r result" where
  "decodeInto strict fs zero doc =
     rbind doc (\<lambda>j. case j of
       JNull \<Rightarrow> Inr zero
     | JObj kvs \<Rightarrow> setMembers strict fs kvs zero
     | _ \<Rightarrow> Inl (type_error ''struct''))"

text \<open>The body of most requests, without a limit.\<close>

definition decodeBody :: "'r fields \<Rightarrow> 'r \<Rightarrow> http_request \<Rightarrow> 'r result" where
  "decodeBody fs zero q = decodeInto False fs zero (fst (hqBody q None))"

text \<open>Slices and maps of strings: \<open>null\<close> elements are empty strings.\<close>

fun dec_str0 :: "json \<Rightarrow> string result" where
  "dec_str0 JNull = Inr []"
| "dec_str0 j = dec_str j"

fun dec_strmap :: "json \<Rightarrow> (string \<times> string) list result" where
  "dec_strmap (JObj kvs) =
     rbind (rmap (\<lambda>(k, v). rbind (dec_str0 v) (\<lambda>x. Inr (k, x))) kvs) (\<lambda>kxs. Inr (fold (\<lambda>(k, x). AList.update k x) kxs []))"
| "dec_strmap _ = Inl (type_error ''map[string]string'')"

subsection \<open>The server\<close>

record probe_result =
  prDurationSeconds :: rat
  prWidth :: int
  prHeight :: int
  prContainer :: string

datatype grpc_code = InvalidArgument | Unavailable | DeadlineExceeded | OtherCode

text \<open>
  The client for ticket parameters is a Go interface: it may be nil, or hold a nil pointer, which is not the
  same.
\<close>

datatype 'b payee = NilClient | Client "'b payee_rpc"

record live_session_info =
  lsGatewaySessionID :: string
  lsWorkerSessionID :: string
  lsWorkID :: string
  lsStreamID :: string
  lsSender :: bytes

text \<open>The immutable part: the wiring of \<open>New\<close>. A runner that is not wired is \<open>None\<close>.\<close>

record ('s, 'b) http_server =
  svMode :: mode
  svDev :: bool
  svRepo :: "('s, json) store_ops"
  svJobRunner :: "('s, 'b) deps option"
  svABRRunner :: "('s, 'b) deps option"
  svLiveRunner :: "('s, 'b) live_deps option"
  svPayment :: "'b broker_ops option"
  svPayee :: "'b payee option"
  svPresets :: catalogue
  svProber :: "(string \<Rightarrow> probe_result result) option"
  svAPIVersion :: int
  svProtocolVersion :: int
  svWorkerEthAddress :: string
  svOfferingsAuthToken :: string
  svPublicRTMP :: string
  svMaxConc :: int
  svRegistryCaps :: "registry_capability list"
  svScheduler :: bool
  svSha256 :: "bytes \<Rightarrow> bytes"
  svStatusCode :: "go_error \<Rightarrow> grpc_code"

text \<open>
  The mutable part. The store, the broker, the scheduler and the clock are shared with the runners: they are the
  ones in the state of the live runner, and the job runners work on a view of it.
\<close>

record ('s, 'b, 'k) http_state =
  stLive :: "('s, 'b, 'k) runner"
  stJobTrace :: "event list"
  stVod :: job_runner
  stAbr :: job_runner
  stSessions :: "(string \<times> live_session_info) list"

definition cloneRegistryCapabilities :: "registry_capability list \<Rightarrow> registry_capability list" where
  "cloneRegistryCapabilities cs = map capability_Clone cs"

definition newLiveSessionRegistry :: "(string \<times> live_session_info) list" where
  "newLiveSessionRegistry = []"

definition http_New :: "bool \<Rightarrow> bool \<Rightarrow> ('s, 'b) http_server \<Rightarrow> ('s, 'b) http_server result" where
  "http_New hasRepo hasPresets cfg =
     (if \<not> hasRepo then Inl (Err ''http: Repo is required'')
      else if \<not> hasPresets then Inl (Err ''http: Presets is required'')
      else Inr (cfg\<lparr>svRegistryCaps := cloneRegistryCapabilities (svRegistryCaps cfg)\<rparr>))"

definition jobWorld :: "('s, 'b) http_server \<Rightarrow> ('s, 'b, 'k) http_state \<Rightarrow> ('s, 'b) world" where
  "jobWorld S s =
     \<lparr>wStore = rnStore (stLive s), wSched = (if svScheduler S then Some (rnSched (stLive s)) else None),
      wBroker = rnBroker (stLive s), wTrace = stJobTrace s, wClock = rnClock (stLive s)\<rparr>"

definition setJobWorld :: "('s, 'b) world \<Rightarrow> ('s, 'b, 'k) http_state \<Rightarrow> ('s, 'b, 'k) http_state" where
  "setJobWorld w s =
     s\<lparr>stLive := (stLive s)\<lparr>rnStore := wStore w, rnBroker := wBroker w, rnClock := wClock w,
         rnSched := (case wSched w of None \<Rightarrow> rnSched (stLive s) | Some c \<Rightarrow> c)\<rparr>,
       stJobTrace := wTrace w\<rparr>"

definition setBroker :: "'b \<Rightarrow> ('s, 'b, 'k) http_state \<Rightarrow> ('s, 'b, 'k) http_state" where
  "setBroker b s = s\<lparr>stLive := (stLive s)\<lparr>rnBroker := b\<rparr>\<rparr>"

subsection \<open>The registry of live sessions\<close>

definition sessions_Upsert :: "live_session_info \<Rightarrow> ('s, 'b, 'k) http_state \<Rightarrow> ('s, 'b, 'k) http_state" where
  "sessions_Upsert info s = s\<lparr>stSessions := AList.update (lsGatewaySessionID info) info (stSessions s)\<rparr>"

definition sessions_Get :: "string \<Rightarrow> ('s, 'b, 'k) http_state \<Rightarrow> live_session_info option" where
  "sessions_Get sid s = map_of (stSessions s) sid"

definition sessions_Delete :: "string \<Rightarrow> ('s, 'b, 'k) http_state \<Rightarrow> ('s, 'b, 'k) http_state" where
  "sessions_Delete sid s = s\<lparr>stSessions := AList.delete sid (stSessions s)\<rparr>"

definition getStream :: "('s, 'b) http_server \<Rightarrow> string \<Rightarrow> ('s, 'b, 'k) http_state \<Rightarrow> stream result" where
  "getStream S sid s = GetStream (svRepo S) (rnStore (stLive s)) sid"

definition sessionInfoForGatewaySession ::
  "('s, 'b) http_server \<Rightarrow> string \<Rightarrow> ('s, 'b, 'k) http_state \<Rightarrow> live_session_info option" where
  "sessionInfoForGatewaySession S gsid s =
     (case sessions_Get gsid s of
        Some info \<Rightarrow> Some info
      | None \<Rightarrow>
          (case getStream S gsid s of
             Inl _ \<Rightarrow> None
           | Inr x \<Rightarrow>
               Some \<lparr>lsGatewaySessionID = (if sGatewaySessionID x = [] then sWorkID x else sGatewaySessionID x),
                     lsWorkerSessionID = sWorkerSessionID x, lsWorkID = firstNonEmpty [sPaymentWorkID x, sWorkID x],
                     lsStreamID = sWorkID x, lsSender = sSender x\<rparr>))"

text \<open>The string is the reason, empty if the stream is not known.\<close>

definition activeSessionInfoForGatewaySession ::
  "('s, 'b) http_server \<Rightarrow> string \<Rightarrow> ('s, 'b, 'k) http_state \<Rightarrow>
   ('s, 'b, 'k) http_state \<times> (string + live_session_info)" where
  "activeSessionInfoForGatewaySession S gsid s =
     (case getStream S gsid s of
        Inl _ \<Rightarrow> (s, Inl [])
      | Inr x \<Rightarrow>
          if StreamPhase_IsTerminal (sPhase x) \<or> sPhase x = StreamPhaseClosing
          then (sessions_Delete gsid s, Inl ''stream_not_active'')
          else (case sessionInfoForGatewaySession S gsid s of None \<Rightarrow> (s, Inl []) | Some info \<Rightarrow> (s, Inr info)))"

subsection \<open>Tickets\<close>

definition paymentTicketFromRequest :: "http_request \<Rightarrow> string \<Rightarrow> string" where
  "paymentTicketFromRequest q bodyTicket =
     (if hqHeader q ''livepeer-payment'' \<noteq> [] then hqHeader q ''livepeer-payment'' else bodyTicket)"

definition decodeTicket :: "string \<Rightarrow> bytes result" where
  "decodeTicket ticketB64 =
     (if ticketB64 = [] then Inr []
      else (case b64_Decode ticketB64 of Inl err \<Rightarrow> Inl (ErrWrap ''bad base64: '' err) | Inr b \<Rightarrow> Inr b))"

text \<open>An error comes with the status code of the reply.\<close>

definition decodeRequestPayment :: "http_request \<Rightarrow> string \<Rightarrow> bool \<Rightarrow> int \<times> go_error + bytes" where
  "decodeRequestPayment q bodyTicket required =
     (let ticketB64 = paymentTicketFromRequest q bodyTicket in
      if ticketB64 = [] then (if required then Inl (402, Err ''missing payment ticket'') else Inr [])
      else (case decodeTicket ticketB64 of Inl err \<Rightarrow> Inl (400, err) | Inr ticket \<Rightarrow> Inr ticket))"

text \<open>The reply to such an error, the same in every handler.\<close>

definition ticketError :: "int \<times> go_error \<Rightarrow> reply" where
  "ticketError e =
     (if fst e = 402 then writeError 402 ''payment'' ''missing payment ticket''
      else writeError (fst e) ''bad_ticket'' (error_text (snd e)))"

text \<open>\<open>s.payment != nil && !s.dev\<close>.\<close>

definition charging :: "('s, 'b) http_server \<Rightarrow> 'b broker_ops option" where
  "charging S = (if svDev S then None else svPayment S)"

definition processPayment ::
  "'b broker_ops \<Rightarrow> bytes \<Rightarrow> string \<Rightarrow> ('s, 'b, 'k) http_state \<Rightarrow> ('s, 'b, 'k) http_state \<times> receipt result" where
  "processPayment bk ticket workID s =
     (case bkProcessPayment bk (rnBroker (stLive s)) ticket workID of (b, r) \<Rightarrow> (setBroker b s, r))"

text \<open>Sender and balance, or the status code of the refusal.\<close>

definition maybeProcessPayment ::
  "('s, 'b) http_server \<Rightarrow> http_request \<Rightarrow> string \<Rightarrow> string \<Rightarrow> ('s, 'b, 'k) http_state \<Rightarrow>
   ('s, 'b, 'k) http_state \<times> (int + bytes \<times> bytes)" where
  "maybeProcessPayment S q bodyTicket workID s =
     (case charging S of
        None \<Rightarrow> (s, Inr ([], []))
      | Some bk \<Rightarrow>
          (case decodeRequestPayment q bodyTicket True of
             Inl e \<Rightarrow> (s, Inl (fst e))
           | Inr ticket \<Rightarrow>
               (case processPayment bk ticket workID s of
                  (s, Inl _) \<Rightarrow> (s, Inl 402)
                | (s, Inr rc) \<Rightarrow> (s, Inr (rcSender rc, rcBalanceWei rc)))))"

definition deriveSessionWorkID :: "('s, 'b) http_server \<Rightarrow> bytes \<Rightarrow> string" where
  "deriveSessionWorkID S paymentBytes =
     (if paymentBytes = [] then [] else hex_Encode (svSha256 S paymentBytes))"

definition deriveWorkerSessionID :: "string \<Rightarrow> string" where
  "deriveWorkerSessionID workID = (if workID = [] then ''worker_session_unknown'' else ''worker_'' @ workID)"

subsection \<open>Prices\<close>

record payment_session_request =
  psWorkID :: string
  psCapability :: string
  psPreset :: string
  psOffering :: string

text \<open>\<open>offering.Constraints["preset"].(string)\<close>, with the empty string if there is none.\<close>

definition presetConstraint :: "registry_offering \<Rightarrow> string" where
  "presetConstraint r =
     (case roConstraints r of
        None \<Rightarrow> []
      | Some kvs \<Rightarrow> (case jget kvs ''preset'' of Some (JStr p) \<Rightarrow> p | _ \<Rightarrow> []))"

definition resolveOffering :: "registry_capability \<Rightarrow> string \<Rightarrow> string \<Rightarrow> registry_offering result" where
  "resolveOffering c requestedOffering presetHint =
     (if requestedOffering \<noteq> []
      then (case find (\<lambda>r. roID r = requestedOffering) (capOfferings c) of
              Some r \<Rightarrow> Inr r
            | None \<Rightarrow> Inl (Err (''offering '' @ Quote requestedOffering @ '' is not configured for capability '' @ Quote (capName c))))
      else
        (case (if presetHint \<noteq> []
               then find (\<lambda>r. roID r = presetHint \<or> presetConstraint r = presetHint) (capOfferings c) else None) of
           Some r \<Rightarrow> Inr r
         | None \<Rightarrow>
             if length (capOfferings c) = 1 then Inr (capOfferings c ! 0)
             else Inl (Err (''offering is required for capability '' @ Quote (capName c) @
                    '' when multiple offerings are configured''))))"

definition resolveSessionBinding ::
  "('s, 'b) http_server \<Rightarrow> payment_session_request \<Rightarrow> session_binding result" where
  "resolveSessionBinding S p =
     (if TrimSpace (psWorkID p) = [] then Inl (Err ''work_id is required'')
      else
        (case find (\<lambda>c. capName c = psCapability p) (svRegistryCaps S) of
           None \<Rightarrow> Inl (Err (''capability '' @ Quote (psCapability p) @ '' is not configured''))
         | Some c \<Rightarrow>
             rbind (resolveOffering c (psOffering p) (psPreset p)) (\<lambda>r.
               Inr \<lparr>bnWorkID = psWorkID p, bnCapability = capName c, bnOffering = roID r,
                    bnPricePerWorkUnitWei = roPricePerWorkUnitWei r, bnWorkUnit = capWorkUnit c\<rparr>)))"

definition openSessionForRequest ::
  "('s, 'b) http_server \<Rightarrow> payment_session_request \<Rightarrow> ('s, 'b, 'k) http_state \<Rightarrow>
   ('s, 'b, 'k) http_state \<times> unit result" where
  "openSessionForRequest S p s =
     (case charging S of
        None \<Rightarrow> (s, Inr ())
      | Some bk \<Rightarrow>
          (case resolveSessionBinding S p of
             Inl err \<Rightarrow> (s, Inl err)
           | Inr bn \<Rightarrow> (case bkOpenSession bk (rnBroker (stLive s)) bn of (b, r) \<Rightarrow> (setBroker b s, r))))"

subsection \<open>Ticket parameters\<close>

record ticket_params_request =
  trSenderETHAddress :: string
  trRecipientETHAddress :: string
  trFaceValueWei :: string
  trCapability :: string
  trOffering :: string

definition parseHexAddress :: "string \<Rightarrow> string \<Rightarrow> bytes result" where
  "parseHexAddress fieldName value =
     (let trimmed = TrimSpace value; raw = drop 2 trimmed in
      if \<not> HasPrefix trimmed ''0x'' \<and> \<not> HasPrefix trimmed ''0X''
      then Inl (Err (fieldName @ '' must be a 0x-prefixed hex address''))
      else if length raw \<noteq> 40 then Inl (Err (fieldName @ '' must be exactly 20 bytes (40 hex chars)''))
      else
        (case hex_Decode raw of
           None \<Rightarrow> Inl (Err (fieldName @ '' must be a valid hex address''))
         | Some b \<Rightarrow> Inr b))"

definition parseTicketParamsRequest :: "ticket_params_request \<Rightarrow> ticket_request result" where
  "parseTicketParamsRequest i =
     rbind (parseHexAddress ''sender_eth_address'' (trSenderETHAddress i)) (\<lambda>sender.
     rbind (parseHexAddress ''recipient_eth_address'' (trRecipientETHAddress i)) (\<lambda>recipient.
       case SetString10 (TrimSpace (trFaceValueWei i)) of
         None \<Rightarrow> Inl (Err ''face_value_wei must be a decimal integer'')
       | Some faceValue \<Rightarrow>
           if faceValue \<le> 0 then Inl (Err ''face_value_wei must be > 0'')
           else if TrimSpace (trCapability i) = [] then Inl (Err ''capability is required'')
           else if TrimSpace (trOffering i) = [] then Inl (Err ''offering is required'')
           else Inr \<lparr>tqSender = sender, tqRecipient = recipient, tqFaceValue = Some faceValue,
                     tqCapability = TrimSpace (trCapability i), tqOffering = TrimSpace (trOffering i)\<rparr>))"

definition bytesToHexString :: "bytes \<Rightarrow> string" where
  "bytesToHexString b = (if b = [] then ''0x'' else ''0x'' @ hex_Encode b)"

definition bytesToDecimalString :: "bytes \<Rightarrow> string" where
  "bytesToDecimalString b = (if b = [] then ''0'' else show_nat (big_SetBytes b))"

definition renderTicketParamsJSON :: "ticket_params \<Rightarrow> json" where
  "renderTicketParamsJSON tp =
     JObj [(''recipient'', JStr (bytesToHexString (tpRecipient tp))),
       (''face_value'', JStr (bytesToDecimalString (tpFaceValueWei tp))),
       (''win_prob'', JStr (bytesToHexString (tpWinProb tp))),
       (''recipient_rand_hash'', JStr (bytesToHexString (tpRecipientRandHash tp))),
       (''seed'', JStr (bytesToHexString (tpSeed tp))),
       (''expiration_block'', JStr (bytesToDecimalString (tpExpirationBlock tp))),
       (''expiration_params'', JObj [(''creation_round'', JInt (tpCreationRound tp)),
          (''creation_round_block_hash'', JStr (bytesToHexString (tpCreationRoundBlockHash tp)))])]"

text \<open>A second document must not follow; it is decoded into an empty struct.\<close>

definition ensureSingleJSONDocument :: "json result \<Rightarrow> unit result" where
  "ensureSingleJSONDocument tail =
     (case decodeInto True [] () tail of
        Inr _ \<Rightarrow> Inl (Err ''request body must contain exactly one JSON object'')
      | Inl err \<Rightarrow> if err = io_EOF then Inr () else Inl (ErrWrap ''invalid JSON body: '' err))"

definition writeTicketParamsProxyError :: "('s, 'b) http_server \<Rightarrow> go_error \<Rightarrow> reply" where
  "writeTicketParamsProxyError S err =
     (case svStatusCode S err of
        InvalidArgument \<Rightarrow> writeError 400 ''invalid_request'' (error_text err)
      | Unavailable \<Rightarrow> writeError 503 ''payment_daemon_unavailable'' (error_text err)
      | DeadlineExceeded \<Rightarrow> writeError 503 ''payment_daemon_unavailable'' (error_text err)
      | OtherCode \<Rightarrow> writeError 500 ''ticket_params_unavailable'' (error_text err))"

definition requireBearerAuth :: "('s, 'b) http_server \<Rightarrow> http_request \<Rightarrow> reply option" where
  "requireBearerAuth S q =
     (if svOfferingsAuthToken S = [] then None
      else if hqHeader q ''Authorization'' \<noteq> ''Bearer '' @ svOfferingsAuthToken S
      then Some (writeError 401 ''unauthorized'' ''missing or invalid bearer token'')
      else None)"

end
