(* ===== verification/Http_Handlers.thy ===== *)
theory Http_Handlers
  imports Http_Server
begin

text \<open>
  \<open>internal/runtime/http/http.go\<close>, second part: the handlers, each from the state before to the state after and the
  reply. The parameter \<open>wait\<close> of the handlers that stop a stream is what the rest of the worker does while
  \<open>Stop\<close> waits for the goroutine of the session. \<open>Stop\<close> and \<open>Topup\<close> of the live runner always return nil, so the
  error branches behind them are never taken.
\<close>

subsection \<open>Read-only endpoints\<close>

definition snapshotJSON :: "snapshot \<Rightarrow> json" where
  "snapshotJSON n =
     JObj [(''active_batch_cost'', JInt (snActiveBatchCost n)), (''active_batch_slots'', JInt (snActiveBatchSlots n)),
       (''active_cost'', JInt (snActiveCost n)), (''active_live_cost'', JInt (snActiveLiveCost n)),
       (''active_live_slots'', JInt (snActiveLiveSlots n)), (''active_slots'', JInt (snActiveSlots n)),
       (''live_reserved_cost'', JInt (snLiveReservedCost n)), (''live_reserved_slots'', JInt (snLiveReservedSlots n)),
       (''queued_batch_jobs'', JInt (snQueuedBatch n)), (''total_cost'', JInt (snTotalCost n)),
       (''total_slots'', JInt (snTotalSlots n))]"

definition handleHealth :: "('s, 'b) http_server \<Rightarrow> ('s, 'b, 'k) http_state \<Rightarrow> ('s, 'b, 'k) http_state \<times> reply" where
  "handleHealth S s =
     (s, writeJSON 200 (JObj (
        jopt (svLiveRunner S = None) ''active_streams'' (JInt (int (live_ActiveCount (stLive s)))) @
        [(''api_version'', JInt (svAPIVersion S)), (''dev'', JBool (svDev S))] @
        jopt (\<not> svScheduler S) ''gpu_scheduler'' (snapshotJSON (ctl_Snapshot (rnSched (stLive s)))) @
        [(''max_concurrent'', JInt (svMaxConc S)), (''mode'', JStr (Mode_String (svMode S))),
         (''protocol_version'', JInt (svProtocolVersion S)), (''status'', JStr ''ok'')])))"

definition jmap :: "(string \<times> json) list option \<Rightarrow> json" where
  "jmap m = (case m of None \<Rightarrow> JNull | Some kvs \<Rightarrow> JObj kvs)"

definition projectedOffering :: "registry_offering \<Rightarrow> json" where
  "projectedOffering r =
     JObj (jopt (roConstraints r = None) ''constraints'' (jmap (roConstraints r)) @
       [(''id'', JStr (roID r)), (''price_per_work_unit_wei'', JStr (roPricePerWorkUnitWei r))])"

definition projectedCapability :: "registry_capability \<Rightarrow> json" where
  "projectedCapability c =
     JObj (jopt (capExtra c = None) ''extra'' (jmap (capExtra c)) @
       [(''name'', JStr (capName c)), (''offerings'', JArr (map projectedOffering (capOfferings c))),
        (''work_unit'', JStr (capWorkUnit c))])"

definition handleRegistryOfferings ::
  "('s, 'b) http_server \<Rightarrow> http_request \<Rightarrow> ('s, 'b, 'k) http_state \<Rightarrow> ('s, 'b, 'k) http_state \<times> reply" where
  "handleRegistryOfferings S q s =
     (case requireBearerAuth S q of
        Some rep \<Rightarrow> (s, rep)
      | None \<Rightarrow>
          (s, writeJSON 200 (JObj ([(''capabilities'', JArr (map projectedCapability (svRegistryCaps S)))] @
             jopt (svWorkerEthAddress S = []) ''worker_eth_address'' (JStr (svWorkerEthAddress S))))))"

definition maxTicketParamsBodyBytes :: nat where "maxTicketParamsBodyBytes = 8192"

definition ticket_params_fields :: "ticket_params_request fields" where
  "ticket_params_fields =
     [(''sender_eth_address'', field dec_str (\<lambda>v. trSenderETHAddress_update (\<lambda>_. v))),
      (''recipient_eth_address'', field dec_str (\<lambda>v. trRecipientETHAddress_update (\<lambda>_. v))),
      (''face_value_wei'', field dec_str (\<lambda>v. trFaceValueWei_update (\<lambda>_. v))),
      (''capability'', field dec_str (\<lambda>v. trCapability_update (\<lambda>_. v))),
      (''offering'', field dec_str (\<lambda>v. trOffering_update (\<lambda>_. v)))]"

definition zero_ticket_params_request :: ticket_params_request where
  "zero_ticket_params_request =
     \<lparr>trSenderETHAddress = [], trRecipientETHAddress = [], trFaceValueWei = [], trCapability = [], trOffering = []\<rparr>"

definition handleTicketParams ::
  "('s, 'b) http_server \<Rightarrow> http_request \<Rightarrow> ('s, 'b, 'k) http_state \<Rightarrow> ('s, 'b, 'k) http_state \<times> reply" where
  "handleTicketParams S q s =
     (case requireBearerAuth S q of
        Some rep \<Rightarrow> (s, rep)
      | None \<Rightarrow>
          (case svPayee S of
             None \<Rightarrow> (s, writeError 503 ''payment_daemon_unavailable'' ''ticket params are not wired'')
           | Some client \<Rightarrow>
               (let (doc, tail) = hqBody q (Some maxTicketParamsBodyBytes) in
                case decodeInto True ticket_params_fields zero_ticket_params_request doc of
                  Inl err \<Rightarrow> (s, writeError 400 ''invalid_request'' (''invalid JSON body: '' @ error_text err))
                | Inr req \<Rightarrow>
                    (case ensureSingleJSONDocument tail of
                       Inl err \<Rightarrow> (s, writeError 400 ''invalid_request'' (error_text err))
                     | Inr _ \<Rightarrow>
                         (case parseTicketParamsRequest req of
                            Inl err \<Rightarrow> (s, writeError 400 ''invalid_request'' (error_text err))
                          | Inr daemonReq \<Rightarrow>
                              (case client of
                                 NilClient \<Rightarrow> (s, Panicked)
                               | Client rpc \<Rightarrow>
                                   (case client_GetTicketParams rpc (rnBroker (stLive s)) daemonReq of
                                      (b, Inl err) \<Rightarrow> (setBroker b s, writeTicketParamsProxyError S err)
                                    | (b, Inr tp) \<Rightarrow>
                                        (setBroker b s,
                                         writeJSON 200 (JObj [(''ticket_params'', renderTicketParamsJSON tp)])))))))))"

definition encode_preset :: "preset \<Rightarrow> json" where
  "encode_preset p =
     JObj ([(''name'', JStr (pName p)), (''codec'', JStr (pCodec p)), (''width_max'', JInt (pWidthMax p)),
        (''height_max'', JInt (pHeightMax p)), (''bitrate_kbps'', JInt (pBitrateKbps p))] @
       jopt (pProfile p = []) ''profile'' (JStr (pProfile p)) @
       jopt (pGOPSeconds p = 0) ''gop_seconds'' (JFloat (pGOPSeconds p)) @
       jopt (pExtra p = []) ''extra'' (JObj (pExtra p)))"

definition handleListPresets :: "('s, 'b) http_server \<Rightarrow> ('s, 'b, 'k) http_state \<Rightarrow> ('s, 'b, 'k) http_state \<times> reply" where
  "handleListPresets S s = (s, writeJSON 200 (JObj [(''presets'', JArr (map encode_preset (svPresets S)))]))"

record probe_request =
  pqInputURL :: string
  pqJobID :: string

definition probe_fields :: "probe_request fields" where
  "probe_fields =
     [(''input_url'', field dec_str (\<lambda>v. pqInputURL_update (\<lambda>_. v))), (''job_id'', field dec_str (\<lambda>v. pqJobID_update (\<lambda>_. v)))]"

text \<open>Every field of the probe result is tagged \<open>json:"-"\<close>, so \<open>raw\<close> is the empty object.\<close>

definition probeResponse :: "probe_result \<Rightarrow> json" where
  "probeResponse r =
     JObj [(''duration_sec'', JFloat (prDurationSeconds r)), (''width'', JInt (prWidth r)), (''height'', JInt (prHeight r)),
       (''frame_rate'', JFloat 30), (''audio_codec'', JStr ''aac''), (''video_codec'', JStr ''h264''), (''raw'', JObj [])]"

definition handleProbe ::
  "('s, 'b) http_server \<Rightarrow> http_request \<Rightarrow> ('s, 'b, 'k) http_state \<Rightarrow> ('s, 'b, 'k) http_state \<times> reply" where
  "handleProbe S q s =
     (case decodeBody probe_fields \<lparr>pqInputURL = [], pqJobID = []\<rparr> q of
        Inl err \<Rightarrow> (s, writeError 400 ''bad_json'' (error_text err))
      | Inr req \<Rightarrow>
          if pqInputURL req = [] then (s, writeError 400 ''missing_fields'' ''input_url is required'')
          else
            (case svProber S of
               None \<Rightarrow> (s, writeError 503 ''no_prober'' ''probe is not wired'')
             | Some probe \<Rightarrow>
                 (case probe (pqInputURL req) of
                    Inl err \<Rightarrow> (s, writeError 500 ''probe_failed'' (error_text err))
                  | Inr r \<Rightarrow> (s, writeJSON 200 (probeResponse r)))))"

subsection \<open>VOD and ABR jobs\<close>

text \<open>An empty byte slice is nil, as the brokers return it, and is rendered as \<open>null\<close>.\<close>

definition jbytes :: "bytes \<Rightarrow> json" where
  "jbytes b = (if b = [] then JNull else JBytes b)"

text \<open>The first two guards of a submission; \<open>k\<close> is the rest of the handler.\<close>

definition withTicket ::
  "('s, 'b) http_server \<Rightarrow> http_request \<Rightarrow> string \<Rightarrow> ('st \<Rightarrow> 'st \<times> reply) \<Rightarrow> 'st \<Rightarrow> 'st \<times> reply" where
  "withTicket S q bodyTicket k s =
     (case charging S of
        None \<Rightarrow> k s
      | Some _ \<Rightarrow> (case decodeRequestPayment q bodyTicket True of Inl e \<Rightarrow> (s, ticketError e) | Inr _ \<Rightarrow> k s))"

definition withSession ::
  "('s, 'b) http_server \<Rightarrow> payment_session_request \<Rightarrow>
   (('s, 'b, 'k) http_state \<Rightarrow> ('s, 'b, 'k) http_state \<times> reply) \<Rightarrow> ('s, 'b, 'k) http_state \<Rightarrow>
   ('s, 'b, 'k) http_state \<times> reply" where
  "withSession S p k s =
     (case openSessionForRequest S p s of
        (s, Inl err) \<Rightarrow> (s, writeError 400 ''session_binding'' (error_text err))
      | (s, Inr _) \<Rightarrow> k s)"

definition submitError :: "go_error \<Rightarrow> reply" where
  "submitError err =
     (case errors_As_JobError err of
        Some je \<Rightarrow>
          if eCode je = ErrCodeJobInvalidPreset then writeError 400 (eCode je) (eMessage je)
          else writeError 500 ''submit_failed'' (error_text err)
      | None \<Rightarrow> writeError 500 ''submit_failed'' (error_text err))"

record vod_request =
  vqJobID :: string
  vqInputURL :: string
  vqOutputURL :: string
  vqPreset :: string
  vqOffering :: string
  vqWebhookURL :: string
  vqWebhookSecret :: string
  vqWorkID :: string
  vqUnitsPer :: int
  vqPaymentTicket :: string

definition zero_vod_request :: vod_request where
  "zero_vod_request =
     \<lparr>vqJobID = [], vqInputURL = [], vqOutputURL = [], vqPreset = [], vqOffering = [], vqWebhookURL = [],
      vqWebhookSecret = [], vqWorkID = [], vqUnitsPer = 0, vqPaymentTicket = []\<rparr>"

definition vod_fields :: "vod_request fields" where
  "vod_fields =
     [(''job_id'', field dec_str (\<lambda>v. vqJobID_update (\<lambda>_. v))),
      (''input_url'', field dec_str (\<lambda>v. vqInputURL_update (\<lambda>_. v))),
      (''output_url'', field dec_str (\<lambda>v. vqOutputURL_update (\<lambda>_. v))),
      (''preset'', field dec_str (\<lambda>v. vqPreset_update (\<lambda>_. v))),
      (''offering'', field dec_str (\<lambda>v. vqOffering_update (\<lambda>_. v))),
      (''webhook_url'', field dec_str (\<lambda>v. vqWebhookURL_update (\<lambda>_. v))),
      (''webhook_secret'', field dec_str (\<lambda>v. vqWebhookSecret_update (\<lambda>_. v))),
      (''work_id'', field dec_str (\<lambda>v. vqWorkID_update (\<lambda>_. v))),
      (''units_per_segment'', field dec_int (\<lambda>v. vqUnitsPer_update (\<lambda>_. v))),
      (''payment_ticket'', field dec_str (\<lambda>v. vqPaymentTicket_update (\<lambda>_. v)))]"

definition vodJob :: "vod_request \<Rightarrow> string \<Rightarrow> bytes \<Rightarrow> job" where
  "vodJob req workID sender =
     zero_job\<lparr>jID := vqJobID req, jMode := ModeVOD, jInputURL := vqInputURL req, jOutputURL := vqOutputURL req,
       jPreset := vqPreset req, jWebhookURL := vqWebhookURL req, jWebhookSecret := vqWebhookSecret req,
       jWorkID := workID, jSender := sender, jUnitsPer := vqUnitsPer req\<rparr>"

definition submitVOD ::
  "('s, 'b) http_server \<Rightarrow> vod_request \<Rightarrow> string \<Rightarrow> bytes \<Rightarrow> bytes \<Rightarrow> ('s, 'b, 'k) http_state \<Rightarrow>
   ('s, 'b, 'k) http_state \<times> reply" where
  "submitVOD S req workID sender balance s =
     (case svJobRunner S of
        None \<Rightarrow> (s, writeError 503 ''no_runner'' ''vod runner is not wired'')
      | Some D \<Rightarrow>
          (case Submit D (stVod s) (vodJob req workID sender) (jobWorld S s) of (w, r, res) \<Rightarrow>
             let s = (setJobWorld w s)\<lparr>stVod := r\<rparr> in
             (case res of
                Inl err \<Rightarrow> (s, submitError err)
              | Inr j \<Rightarrow>
                  (s, writeJSON 202 (JObj [(''balance'', jbytes balance), (''job_id'', JStr (jID j)),
                        (''phase'', JStr (JobPhase_string (jPhase j))), (''work_id'', JStr workID)])))))"

definition handleVODSubmit ::
  "('s, 'b) http_server \<Rightarrow> http_request \<Rightarrow> ('s, 'b, 'k) http_state \<Rightarrow> ('s, 'b, 'k) http_state \<times> reply" where
  "handleVODSubmit S q s =
     (case decodeBody vod_fields zero_vod_request q of
        Inl err \<Rightarrow> (s, writeError 400 ''bad_json'' (error_text err))
      | Inr req \<Rightarrow>
          if vqJobID req = [] \<or> vqInputURL req = [] \<or> vqOutputURL req = [] \<or> vqPreset req = []
          then (s, writeError 400 ''missing_fields'' ''job_id, input_url, output_url, preset are required'')
          else
            (let workID = firstNonEmpty [vqWorkID req, vqJobID req] in
             withTicket S q (vqPaymentTicket req)
               (withSession S \<lparr>psWorkID = workID, psCapability = ''video:transcode.vod'', psPreset = vqPreset req,
                    psOffering = vqOffering req\<rparr>
                 (\<lambda>s. case maybeProcessPayment S q (vqPaymentTicket req) workID s of
                    (s, Inl code) \<Rightarrow> (s, writeError code ''payment'' ''ticket validation failed'')
                  | (s, Inr (sender, balance)) \<Rightarrow> submitVOD S req workID sender balance s)) s))"

definition status_fields :: "string fields" where
  "status_fields = [(''job_id'', field dec_str (\<lambda>v _. v))]"

definition handleVODStatus ::
  "('s, 'b) http_server \<Rightarrow> http_request \<Rightarrow> ('s, 'b, 'k) http_state \<Rightarrow> ('s, 'b, 'k) http_state \<times> reply" where
  "handleVODStatus S q s =
     (case decodeBody status_fields [] q of
        Inl err \<Rightarrow> (s, writeError 400 ''bad_json'' (error_text err))
      | Inr jobID \<Rightarrow>
          (case Repo_Get (svRepo S) (rnStore (stLive s)) jobID of
             Inl _ \<Rightarrow> (s, writeError 404 ErrCodeJobNotFound jobID)
           | Inr j \<Rightarrow> (s, writeJSON 200 (encode_job j))))"

definition handleABRStatus ::
  "('s, 'b) http_server \<Rightarrow> http_request \<Rightarrow> ('s, 'b, 'k) http_state \<Rightarrow> ('s, 'b, 'k) http_state \<times> reply" where
  "handleABRStatus S q s =
     (case decodeBody status_fields [] q of
        Inl err \<Rightarrow> (s, writeError 400 ''bad_json'' (error_text err))
      | Inr jobID \<Rightarrow>
          (case Repo_Get (svRepo S) (rnStore (stLive s)) jobID of
             Inl _ \<Rightarrow> (s, writeError 404 ErrCodeJobNotFound jobID)
           | Inr j \<Rightarrow> (s, writeJSON 200 (encode_job j))))"

record abr_request =
  bqJobID :: string
  bqInputURL :: string
  bqMasterOutputURL :: string
  bqPresetNames :: "string list"
  bqOffering :: string
  bqRenditionOutputs :: "(string \<times> string) list"
  bqWebhookURL :: string
  bqWebhookSecret :: string
  bqWorkID :: string
  bqUnitsPerRend :: int
  bqPaymentTicket :: string

definition zero_abr_request :: abr_request where
  "zero_abr_request =
     \<lparr>bqJobID = [], bqInputURL = [], bqMasterOutputURL = [], bqPresetNames = [], bqOffering = [],
      bqRenditionOutputs = [], bqWebhookURL = [], bqWebhookSecret = [], bqWorkID = [], bqUnitsPerRend = 0,
      bqPaymentTicket = []\<rparr>"

text \<open>A repeated map member adds to the map; a repeated slice member replaces the slice.\<close>

definition abr_fields :: "abr_request fields" where
  "abr_fields =
     [(''job_id'', field dec_str (\<lambda>v. bqJobID_update (\<lambda>_. v))),
      (''input_url'', field dec_str (\<lambda>v. bqInputURL_update (\<lambda>_. v))),
      (''master_output_url'', field dec_str (\<lambda>v. bqMasterOutputURL_update (\<lambda>_. v))),
      (''presets'', field (dec_list dec_str0) (\<lambda>v. bqPresetNames_update (\<lambda>_. v))),
      (''offering'', field dec_str (\<lambda>v. bqOffering_update (\<lambda>_. v))),
      (''rendition_outputs'', field dec_strmap (\<lambda>v. bqRenditionOutputs_update (fold (\<lambda>(k, x). AList.update k x) v))),
      (''webhook_url'', field dec_str (\<lambda>v. bqWebhookURL_update (\<lambda>_. v))),
      (''webhook_secret'', field dec_str (\<lambda>v. bqWebhookSecret_update (\<lambda>_. v))),
      (''work_id'', field dec_str (\<lambda>v. bqWorkID_update (\<lambda>_. v))),
      (''units_per_rendition'', field dec_int (\<lambda>v. bqUnitsPerRend_update (\<lambda>_. v))),
      (''payment_ticket'', field dec_str (\<lambda>v. bqPaymentTicket_update (\<lambda>_. v)))]"

definition abrPlan :: "abr_request \<Rightarrow> string \<Rightarrow> bytes \<Rightarrow> abr_job" where
  "abrPlan req workID sender =
     \<lparr>aJobID = bqJobID req, aInputURL = bqInputURL req, aMasterOutputURL = bqMasterOutputURL req,
      aWebhookURL = bqWebhookURL req, aWebhookSecret = bqWebhookSecret req, aWorkID = workID, aSender = sender,
      aUnitsPerRend = bqUnitsPerRend req, aPresetNames = bqPresetNames req,
      aRenditionOutputs = bqRenditionOutputs req\<rparr>"

definition submitABR ::
  "('s, 'b) http_server \<Rightarrow> abr_request \<Rightarrow> string \<Rightarrow> bytes \<Rightarrow> bytes \<Rightarrow> ('s, 'b, 'k) http_state \<Rightarrow>
   ('s, 'b, 'k) http_state \<times> reply" where
  "submitABR S req workID sender balance s =
     (case svABRRunner S of
        None \<Rightarrow> (s, writeError 503 ''no_runner'' ''abr runner is not wired'')
      | Some D \<Rightarrow>
          (case abr_Submit D (stAbr s) (abrPlan req workID sender) (jobWorld S s) of (w, r, res) \<Rightarrow>
             let s = (setJobWorld w s)\<lparr>stAbr := r\<rparr> in
             (case res of
                Inl err \<Rightarrow> (s, submitError err)
              | Inr _ \<Rightarrow>
                  (s, writeJSON 202 (JObj [(''balance'', jbytes balance), (''job_id'', JStr (bqJobID req)),
                        (''work_id'', JStr workID)])))))"

definition abrPresetHint :: "abr_request \<Rightarrow> string" where
  "abrPresetHint req = (case bqPresetNames req of [n] \<Rightarrow> n | _ \<Rightarrow> [])"

definition handleABRSubmit ::
  "('s, 'b) http_server \<Rightarrow> http_request \<Rightarrow> ('s, 'b, 'k) http_state \<Rightarrow> ('s, 'b, 'k) http_state \<times> reply" where
  "handleABRSubmit S q s =
     (case decodeBody abr_fields zero_abr_request q of
        Inl err \<Rightarrow> (s, writeError 400 ''bad_json'' (error_text err))
      | Inr req \<Rightarrow>
          if bqJobID req = [] \<or> bqInputURL req = [] \<or> bqPresetNames req = []
          then (s, writeError 400 ''missing_fields'' ''job_id, input_url, presets are required'')
          else
            (let workID = firstNonEmpty [bqWorkID req, bqJobID req] in
             withTicket S q (bqPaymentTicket req)
               (withSession S \<lparr>psWorkID = workID, psCapability = ''video:transcode.abr'', psPreset = abrPresetHint req,
                    psOffering = bqOffering req\<rparr>
                 (\<lambda>s. case maybeProcessPayment S q (bqPaymentTicket req) workID s of
                    (s, Inl code) \<Rightarrow> (s, writeError code ''payment'' ''ticket validation failed'')
                  | (s, Inr (sender, balance)) \<Rightarrow> submitABR S req workID sender balance s)) s))"

end
