(* ===== verification/Http_Live.thy ===== *)
theory Http_Live
  imports Http_Handlers
begin

text \<open>
  \<open>internal/runtime/http/http.go\<close>, third part: the handlers of \<open>/stream\<close> and \<open>/api/sessions\<close>, and the table of
  routes. A nil live runner that is called panics; \<open>net/http\<close> recovers and drops the connection.
\<close>

record stream_request =
  sqWorkID :: string
  sqStreamID :: string
  sqPreset :: string
  sqOffering :: string
  sqPaymentTicket :: string

definition zero_stream_request :: stream_request where
  "zero_stream_request =
     \<lparr>sqWorkID = [], sqStreamID = [], sqPreset = [], sqOffering = [], sqPaymentTicket = []\<rparr>"

text \<open>The webhook fields of a start request are decoded and then not used by the live runner.\<close>

definition no_field :: "string \<Rightarrow> string \<times> (json \<Rightarrow> 'r \<Rightarrow> 'r result)" where
  "no_field k = (k, field dec_str (\<lambda>_ r. r))"

definition stream_start_fields :: "stream_request fields" where
  "stream_start_fields =
     [(''work_id'', field dec_str (\<lambda>v. sqWorkID_update (\<lambda>_. v))),
      (''stream_id'', field dec_str (\<lambda>v. sqStreamID_update (\<lambda>_. v))),
      (''preset'', field dec_str (\<lambda>v. sqPreset_update (\<lambda>_. v))),
      (''offering'', field dec_str (\<lambda>v. sqOffering_update (\<lambda>_. v))),
      no_field ''webhook_url'', no_field ''webhook_secret'',
      (''payment_ticket'', field dec_str (\<lambda>v. sqPaymentTicket_update (\<lambda>_. v)))]"

definition stream_id_fields :: "stream_request fields" where
  "stream_id_fields =
     [(''work_id'', field dec_str (\<lambda>v. sqWorkID_update (\<lambda>_. v))),
      (''stream_id'', field dec_str (\<lambda>v. sqStreamID_update (\<lambda>_. v)))]"

definition stream_topup_fields :: "stream_request fields" where
  "stream_topup_fields =
     stream_id_fields @ [(''payment_ticket'', field dec_str (\<lambda>v. sqPaymentTicket_update (\<lambda>_. v)))]"

record session_request =
  ssGatewaySessionID :: string
  ssSessionID :: string
  ssPreset :: string
  ssOffering :: string

definition zero_session_request :: session_request where
  "zero_session_request = \<lparr>ssGatewaySessionID = [], ssSessionID = [], ssPreset = [], ssOffering = []\<rparr>"

definition session_fields :: "session_request fields" where
  "session_fields =
     [(''gateway_session_id'', field dec_str (\<lambda>v. ssGatewaySessionID_update (\<lambda>_. v))),
      (''session_id'', field dec_str (\<lambda>v. ssSessionID_update (\<lambda>_. v))),
      (''preset'', field dec_str (\<lambda>v. ssPreset_update (\<lambda>_. v))),
      (''offering'', field dec_str (\<lambda>v. ssOffering_update (\<lambda>_. v))),
      no_field ''webhook_url'', no_field ''webhook_secret'']"

subsection \<open>Starting\<close>

definition setLive :: "('s, 'b, 'k) runner \<Rightarrow> ('s, 'b, 'k) http_state \<Rightarrow> ('s, 'b, 'k) http_state" where
  "setLive r s = s\<lparr>stLive := r\<rparr>"

text \<open>The payment of a start: the sender of the receipt, nothing if nobody is charged.\<close>

definition chargeStart ::
  "('s, 'b) http_server \<Rightarrow> bytes \<Rightarrow> string \<Rightarrow> ('s, 'b, 'k) http_state \<Rightarrow> ('s, 'b, 'k) http_state \<times> (reply + bytes)" where
  "chargeStart S ticket workID s =
     (case charging S of
        None \<Rightarrow> (s, Inr [])
      | Some bk \<Rightarrow>
          (case processPayment bk ticket workID s of
             (s, Inl err) \<Rightarrow> (s, Inl (writeError 402 ErrCodeInvalidPayment (error_text err)))
           | (s, Inr rc) \<Rightarrow> (s, Inr (rcSender rc))))"

definition startError :: "go_error \<Rightarrow> reply" where
  "startError err =
     (case errors_As_JobError err of
        Some je \<Rightarrow>
          if eCode je = ErrCodeInvalidPayment \<or> eCode je = ErrCodeInsufficientBalance
          then writeError 402 (eCode je) (eMessage je)
          else if eCode je = ErrCodeJobInvalidPreset then writeError 400 (eCode je) (eMessage je)
          else writeError 500 ''start_failed'' (error_text err)
      | None \<Rightarrow> writeError 500 ''start_failed'' (error_text err))"

definition streamStartResponse :: "('s, 'b) http_server \<Rightarrow> string \<Rightarrow> stream \<Rightarrow> json" where
  "streamStartResponse S workID x =
     JObj (jopt (workID = []) ''work_id'' (JStr workID) @ jopt (workID = []) ''stream_id'' (JStr workID) @
       [(''rtmp_url'', JStr (svPublicRTMP S)), (''stream'', encode_stream x)])"

definition handleStreamStart ::
  "('s, 'b) http_server \<Rightarrow> http_request \<Rightarrow> ('s, 'b, 'k) http_state \<Rightarrow> ('s, 'b, 'k) http_state \<times> reply" where
  "handleStreamStart S q s =
     (case decodeBody stream_start_fields zero_stream_request q of
        Inl err \<Rightarrow> (s, writeError 400 ''bad_json'' (error_text err))
      | Inr req \<Rightarrow>
          (let workID = firstNonEmpty [sqWorkID req, sqStreamID req] in
           if workID = [] \<or> sqPreset req = []
           then (s, writeError 400 ''missing_fields'' ''work_id or stream_id, and preset are required'')
           else
             (case svLiveRunner S of
                None \<Rightarrow> (s, writeError 503 ''no_runner'' ''live runner is not wired'')
              | Some D \<Rightarrow>
                  (case decodeRequestPayment q (sqPaymentTicket req) (charging S \<noteq> None) of
                     Inl e \<Rightarrow> (s, ticketError e)
                   | Inr ticket \<Rightarrow>
                       withSession S \<lparr>psWorkID = workID, psCapability = ''video:live.rtmp'', psPreset = sqPreset req,
                            psOffering = sqOffering req\<rparr>
                         (\<lambda>s. case chargeStart S ticket workID s of
                            (s, Inl rep) \<Rightarrow> (s, rep)
                          | (s, Inr sender) \<Rightarrow>
                              (case Start D \<lparr>srWorkID = workID, srSender = sender, srPaymentWorkID = workID,
                                      srWorkerSessionID = deriveWorkerSessionID workID, srPreset = sqPreset req\<rparr> (stLive s) of
                                 (r, Inl err) \<Rightarrow> (setLive r s, startError err)
                               | (r, Inr x) \<Rightarrow> (setLive r s, writeJSON 202 (streamStartResponse S workID x)))) s))))"

definition sessionStartResponse :: "('s, 'b) http_server \<Rightarrow> live_session_info \<Rightarrow> stream \<Rightarrow> json" where
  "sessionStartResponse S info x =
     JObj ([(''status'', JStr ''starting''), (''gateway_session_id'', JStr (lsGatewaySessionID info)),
        (''worker_session_id'', JStr (lsWorkerSessionID info)), (''work_id'', JStr (lsWorkID info))] @
       jopt (svPublicRTMP S = []) ''rtmp_url'' (JStr (svPublicRTMP S)) @ [(''stream'', encode_stream x)])"

definition sessionStartError :: "go_error \<Rightarrow> reply" where
  "sessionStartError err =
     writeError (if Contains (error_text err) ''already started'' then 409 else 500) ''start_failed'' (error_text err)"

definition handleSessionStart ::
  "('s, 'b) http_server \<Rightarrow> http_request \<Rightarrow> ('s, 'b, 'k) http_state \<Rightarrow> ('s, 'b, 'k) http_state \<times> reply" where
  "handleSessionStart S q s =
     (case decodeBody session_fields zero_session_request q of
        Inl err \<Rightarrow> (s, writeError 400 ''bad_json'' (error_text err))
      | Inr req \<Rightarrow>
          (let gsid = firstNonEmpty [ssGatewaySessionID req, ssSessionID req];
               preset = (if ssPreset req = [] then ''h264-live'' else ssPreset req) in
           if gsid = []
           then (s, writeError 400 ''missing_fields'' ''gateway_session_id or session_id is required'')
           else
             (case svLiveRunner S of
                None \<Rightarrow> (s, writeError 503 ''no_runner'' ''live runner is not wired'')
              | Some D \<Rightarrow>
                  if svPayment S = None \<and> \<not> svDev S
                  then (s, writeError 503 ''payment_unavailable'' ''payment broker is not wired'')
                  else
                    (case decodeRequestPayment q [] (charging S \<noteq> None) of
                       Inl e \<Rightarrow> (s, ticketError e)
                     | Inr ticket \<Rightarrow>
                         (let workID = deriveSessionWorkID S ticket; wsid = deriveWorkerSessionID workID in
                          withSession S \<lparr>psWorkID = workID, psCapability = ''video:live.rtmp'', psPreset = preset,
                               psOffering = ssOffering req\<rparr>
                            (\<lambda>s. case chargeStart S ticket workID s of
                               (s, Inl rep) \<Rightarrow> (s, rep)
                             | (s, Inr sender) \<Rightarrow>
                                 (case Start D \<lparr>srWorkID = gsid, srSender = sender, srPaymentWorkID = workID,
                                         srWorkerSessionID = wsid, srPreset = preset\<rparr> (stLive s) of
                                    (r, Inl err) \<Rightarrow> (setLive r s, sessionStartError err)
                                  | (r, Inr x) \<Rightarrow>
                                      (let info = \<lparr>lsGatewaySessionID = gsid, lsWorkerSessionID = wsid,
                                             lsWorkID = workID, lsStreamID = gsid, lsSender = sender\<rparr>
                                       in (sessions_Upsert info (setLive r s),
                                           writeJSON 202 (sessionStartResponse S info x))))) s)))))"

subsection \<open>Stopping, paying and asking\<close>

definition stopAndWait ::
  "('s, 'b) live_deps \<Rightarrow> (('s, 'b, 'k) runner \<Rightarrow> ('s, 'b, 'k) runner) \<Rightarrow> string \<Rightarrow> ('s, 'b, 'k) runner \<Rightarrow>
   ('s, 'b, 'k) runner" where
  "stopAndWait D wait workID r = (case Stop D workID r of (r, waits) \<Rightarrow> if waits then wait r else r)"

definition handleStreamStop ::
  "('s, 'b) http_server \<Rightarrow> (('s, 'b, 'k) runner \<Rightarrow> ('s, 'b, 'k) runner) \<Rightarrow> http_request \<Rightarrow>
   ('s, 'b, 'k) http_state \<Rightarrow> ('s, 'b, 'k) http_state \<times> reply" where
  "handleStreamStop S wait q s =
     (case decodeBody stream_id_fields zero_stream_request q of
        Inl err \<Rightarrow> (s, writeError 400 ''bad_json'' (error_text err))
      | Inr req \<Rightarrow>
          (let workID = firstNonEmpty [sqWorkID req, sqStreamID req] in
           if workID = [] then (s, writeError 400 ''missing_fields'' ''work_id or stream_id is required'')
           else
             (case svLiveRunner S of
                None \<Rightarrow> (s, Panicked)
              | Some D \<Rightarrow>
                  (setLive (stopAndWait D wait workID (stLive s)) s, Reply 204 None))))"

definition handleStreamTopup ::
  "('s, 'b) http_server \<Rightarrow> http_request \<Rightarrow> ('s, 'b, 'k) http_state \<Rightarrow> ('s, 'b, 'k) http_state \<times> reply" where
  "handleStreamTopup S q s =
     (case decodeBody stream_topup_fields zero_stream_request q of
        Inl err \<Rightarrow> (s, writeError 400 ''bad_json'' (error_text err))
      | Inr req \<Rightarrow>
          (let workID = firstNonEmpty [sqWorkID req, sqStreamID req] in
           if workID = [] then (s, writeError 400 ''missing_fields'' ''work_id or stream_id is required'')
           else
             (case decodeRequestPayment q (sqPaymentTicket req) (charging S \<noteq> None) of
                Inl e \<Rightarrow> (s, ticketError e)
              | Inr ticket \<Rightarrow>
                  (case maybeProcessPayment S q (sqPaymentTicket req) workID s of
                     (s, Inl code) \<Rightarrow> (s, writeError code ''payment'' ''ticket validation failed'')
                   | (s, Inr _) \<Rightarrow>
                       (case svLiveRunner S of
                          None \<Rightarrow> (s, Panicked)
                        | Some D \<Rightarrow> (setLive (Topup D workID (stLive s)) s, Reply 202 None))))))"

definition sessionRefusal :: "string \<Rightarrow> string \<Rightarrow> reply" where
  "sessionRefusal reason gsid =
     (if reason = ''stream_not_active'' then writeError 409 reason ''session is not active''
      else writeError 404 ErrCodeStreamNotFound gsid)"

definition sessionResponse :: "string \<Rightarrow> string \<Rightarrow> live_session_info \<Rightarrow> json" where
  "sessionResponse status gsid info =
     JObj [(''status'', JStr status), (''gateway_session_id'', JStr gsid),
       (''worker_session_id'', JStr (lsWorkerSessionID info)), (''work_id'', JStr (lsWorkID info))]"

text \<open>The payment of a top-up, with the check that the sender is the one of the session.\<close>

definition chargeTopup ::
  "('s, 'b) http_server \<Rightarrow> bytes \<Rightarrow> live_session_info \<Rightarrow> ('s, 'b, 'k) http_state \<Rightarrow>
   ('s, 'b, 'k) http_state \<times> reply option" where
  "chargeTopup S ticket info s =
     (case charging S of
        None \<Rightarrow> (s, None)
      | Some bk \<Rightarrow>
          (case processPayment bk ticket (lsWorkID info) s of
             (s, Inl err) \<Rightarrow> (s, Some (writeError 402 ErrCodeInvalidPayment (error_text err)))
           | (s, Inr rc) \<Rightarrow>
               if lsSender info \<noteq> [] \<and> rcSender rc \<noteq> [] \<and> lsSender info \<noteq> rcSender rc
               then (s, Some (writeError 409 ''sender_mismatch'' ''topup sender does not match session sender''))
               else (s, None)))"

definition handleSessionTopup ::
  "('s, 'b) http_server \<Rightarrow> http_request \<Rightarrow> ('s, 'b, 'k) http_state \<Rightarrow> ('s, 'b, 'k) http_state \<times> reply" where
  "handleSessionTopup S q s =
     (let gsid = TrimSpace (hqPathValue q ''gateway_session_id'') in
      if gsid = [] then (s, writeError 400 ''missing_fields'' ''gateway_session_id is required'')
      else
        (case activeSessionInfoForGatewaySession S gsid s of
           (s, Inl reason) \<Rightarrow> (s, sessionRefusal reason gsid)
         | (s, Inr info) \<Rightarrow>
             if svPayment S = None \<and> \<not> svDev S
             then (s, writeError 503 ''payment_unavailable'' ''payment broker is not wired'')
             else
               (case decodeRequestPayment q [] (charging S \<noteq> None) of
                  Inl e \<Rightarrow> (s, ticketError e)
                | Inr ticket \<Rightarrow>
                    (case chargeTopup S ticket info s of
                       (s, Some rep) \<Rightarrow> (s, rep)
                     | (s, None) \<Rightarrow>
                         (case svLiveRunner S of
                            None \<Rightarrow> (s, Panicked)
                          | Some D \<Rightarrow>
                              (setLive (Topup D (lsStreamID info) (stLive s)) s,
                               writeJSON 202 (sessionResponse ''credited'' gsid info)))))))"

definition handleStreamStatus ::
  "('s, 'b) http_server \<Rightarrow> http_request \<Rightarrow> ('s, 'b, 'k) http_state \<Rightarrow> ('s, 'b, 'k) http_state \<times> reply" where
  "handleStreamStatus S q s =
     (case decodeBody stream_id_fields zero_stream_request q of
        Inl err \<Rightarrow> (s, writeError 400 ''bad_json'' (error_text err))
      | Inr req \<Rightarrow>
          (let workID = firstNonEmpty [sqWorkID req, sqStreamID req] in
           if workID = [] then (s, writeError 400 ''missing_fields'' ''work_id or stream_id is required'')
           else
             (case getStream S workID s of
                Inl _ \<Rightarrow> (s, writeError 404 ErrCodeStreamNotFound workID)
              | Inr x \<Rightarrow> (s, writeJSON 200 (encode_stream x)))))"

text \<open>The payment session of a stream that was never published to is closed here; a running one closes its own.\<close>

definition closeStarting ::
  "('s, 'b) http_server \<Rightarrow> stream \<Rightarrow> live_session_info \<Rightarrow> ('s, 'b, 'k) http_state \<Rightarrow>
   ('s, 'b, 'k) http_state \<times> unit result" where
  "closeStarting S x info s =
     (case charging S of
        None \<Rightarrow> (s, Inr ())
      | Some bk \<Rightarrow>
          if sPhase x = StreamPhaseStarting
          then (case bkCloseSession bk (rnBroker (stLive s)) (lsSender info) (lsWorkID info) of (b, r) \<Rightarrow> (setBroker b s, r))
          else (s, Inr ()))"

definition handleSessionEnd ::
  "('s, 'b) http_server \<Rightarrow> (('s, 'b, 'k) runner \<Rightarrow> ('s, 'b, 'k) runner) \<Rightarrow> http_request \<Rightarrow>
   ('s, 'b, 'k) http_state \<Rightarrow> ('s, 'b, 'k) http_state \<times> reply" where
  "handleSessionEnd S wait q s =
     (let gsid = TrimSpace (hqPathValue q ''gateway_session_id'') in
      if gsid = [] then (s, writeError 400 ''missing_fields'' ''gateway_session_id is required'')
      else
        (case activeSessionInfoForGatewaySession S gsid s of
           (s, Inl reason) \<Rightarrow> (s, sessionRefusal reason gsid)
         | (s, Inr info) \<Rightarrow>
             (case getStream S gsid s of
                Inl _ \<Rightarrow> (s, writeError 404 ErrCodeStreamNotFound gsid)
              | Inr x \<Rightarrow>
                  (case svLiveRunner S of
                     None \<Rightarrow> (s, Panicked)
                   | Some D \<Rightarrow>
                       (case closeStarting S x info (setLive (stopAndWait D wait (lsStreamID info) (stLive s)) s) of
                          (s, Inl err) \<Rightarrow> (s, writeError 502 ''close_session_failed'' (error_text err))
                        | (s, Inr _) \<Rightarrow>
                            (sessions_Delete gsid s, writeJSON 200 (sessionResponse ''ended'' gsid info)))))))"

subsection \<open>The routes\<close>

text \<open>The pattern that \<open>net/http\<close> has chosen; \<open>None\<close> if the server has no such pattern.\<close>

definition Handler ::
  "('s, 'b) http_server \<Rightarrow> (('s, 'b, 'k) runner \<Rightarrow> ('s, 'b, 'k) runner) \<Rightarrow> string \<Rightarrow> http_request \<Rightarrow>
   ('s, 'b, 'k) http_state \<Rightarrow> (('s, 'b, 'k) http_state \<times> reply) option" where
  "Handler S wait pattern q s =
     (if pattern = ''GET /health'' then Some (handleHealth S s)
      else if pattern = ''GET /registry/offerings'' then Some (handleRegistryOfferings S q s)
      else if pattern = ''POST /v1/payment/ticket-params'' then Some (handleTicketParams S q s)
      else if pattern = ''GET /v1/video/transcode/presets'' then Some (handleListPresets S s)
      else if pattern = ''POST /v1/video/transcode/probe'' then Some (handleProbe S q s)
      else if pattern = ''POST /v1/video/transcode'' then Some (handleVODSubmit S q s)
      else if pattern = ''POST /v1/video/transcode/status'' then Some (handleVODStatus S q s)
      else if pattern = ''POST /v1/video/transcode/abr'' then Some (handleABRSubmit S q s)
      else if pattern = ''POST /v1/video/transcode/abr/status'' then Some (handleABRStatus S q s)
      else if pattern = ''POST /api/sessions/start'' then Some (handleSessionStart S q s)
      else if pattern = ''POST /api/sessions/{gateway_session_id}/topup'' then Some (handleSessionTopup S q s)
      else if pattern = ''POST /api/sessions/{gateway_session_id}/end'' then Some (handleSessionEnd S wait q s)
      else if pattern = ''POST /stream/start'' then Some (handleStreamStart S q s)
      else if pattern = ''POST /stream/stop'' then Some (handleStreamStop S wait q s)
      else if pattern = ''POST /stream/topup'' then Some (handleStreamTopup S q s)
      else if pattern = ''POST /stream/status'' then Some (handleStreamStatus S q s)
      else None)"

end
