(* ===== verification/Http_Demo.thy ===== *)
theory Http_Demo
  imports Http_Live
begin

text \<open>
  A concrete server, its state and requests to it: what the witnesses of the HTTP surface evaluate.
\<close>

subsection \<open>A server to try\<close>

definition demo_caps :: "registry_capability list" where
  "demo_caps =
     [\<lparr>capName = ''video:transcode.vod'', capWorkUnit = ''token'', capExtra = None,
       capOfferings = [\<lparr>roID = ''h264-720p'', roPricePerWorkUnitWei = ''7'', roBackendURL = ''http://x'', roConstraints = None\<rparr>]\<rparr>,
      \<lparr>capName = ''video:live.rtmp'', capWorkUnit = ''token'', capExtra = None,
       capOfferings = [\<lparr>roID = ''h264-live'', roPricePerWorkUnitWei = ''9'', roBackendURL = ''http://x'', roConstraints = None\<rparr>]\<rparr>]"

definition demo_http :: "(json memStore, fake) http_server" where
  "demo_http =
     \<lparr>svMode = ModeUnified, svDev = False, svRepo = memStore_ops, svJobRunner = Some demo_deps, svABRRunner = Some demo_deps,
      svLiveRunner = Some demo_run_deps, svPayment = Some fake_ops, svPayee = None, svPresets = [], svProber = None,
      svAPIVersion = 1, svProtocolVersion = 1, svWorkerEthAddress = [], svOfferingsAuthToken = ''secret'',
      svPublicRTMP = [], svMaxConc = 5, svRegistryCaps = demo_caps, svScheduler = True, svSha256 = rev,
      svStatusCode = (\<lambda>_. OtherCode)\<rparr>"

definition demo_http_state :: "(json memStore, fake, memSink) http_state" where
  "demo_http_state =
     \<lparr>stLive = demo_runner, stJobTrace = [], stVod = \<lparr>jrQueue = [], jrActive = []\<rparr>, stAbr = \<lparr>jrQueue = [], jrActive = []\<rparr>,
      stSessions = newLiveSessionRegistry\<rparr>"

definition demo_request :: "string \<Rightarrow> (string \<times> json) list \<Rightarrow> http_request" where
  "demo_request ticket body =
     \<lparr>hqHeader = (\<lambda>h. if h = ''livepeer-payment'' then ticket else []), hqPathValue = (\<lambda>_. ''g1''),
      hqBody = (\<lambda>_. (Inr (JObj body), Inl io_EOF))\<rparr>"

definition demo_vod_body :: "(string \<times> json) list" where
  "demo_vod_body =
     [(''job_id'', JStr ''j1''), (''input_url'', JStr ''http://i''), (''output_url'', JStr ''http://o''),
      (''preset'', JStr ''h264-720p''), (''units_per_segment'', JInt 3)]"

definition demo_submitted :: "(json memStore, fake, memSink) http_state \<times> reply" where
  "demo_submitted = handleVODSubmit demo_http (demo_request ''AQ=='' demo_vod_body) demo_http_state"

definition demo_vod :: vod_request where
  "demo_vod = zero_vod_request\<lparr>vqJobID := ''j1'', vqInputURL := ''http://i'', vqOutputURL := ''http://o'',
     vqPreset := ''h264-720p'', vqUnitsPer := 3\<rparr>"

named_theorems demo_http_eval \<open>evaluation of the demonstration server\<close>

lemma demo_vod_decoded [demo_http_eval]: "decodeBody vod_fields zero_vod_request (demo_request t demo_vod_body) = Inr demo_vod"
  by (simp add: decodeBody_def decodeInto_def demo_request_def demo_vod_body_def setMember_def vod_fields_def field_def
      ToLower_def to_lower_def demo_vod_def zero_vod_request_def)

lemma demo_ticket [demo_http_eval]: "decodeRequestPayment (demo_request ''AQ=='' body) bt b = Inr [1]"
proof -
  have "b64_Encode [1] = ''AQ==''" by (simp add: b64_char_def char_of_def bit_Suc_0_iff)
  then have "b64_Decode ''AQ=='' = Inr [1]" using b64_Decode_Encode [of "[1]"] by simp
  then show ?thesis
    by (simp add: decodeRequestPayment_def paymentTicketFromRequest_def decodeTicket_def demo_request_def)
qed

lemma demo_charging [demo_http_eval]: "charging demo_http = Some fake_ops"
  by (simp add: charging_def demo_http_def)

lemma demo_vod_simps [demo_http_eval]:
  "vqJobID demo_vod = ''j1''" "vqInputURL demo_vod = ''http://i''" "vqOutputURL demo_vod = ''http://o''"
  "vqPreset demo_vod = ''h264-720p''" "vqWorkID demo_vod = []" "vqOffering demo_vod = []" "vqPaymentTicket demo_vod = []"
  by (simp_all add: demo_vod_def zero_vod_request_def)

lemma demo_binding [demo_http_eval]:
  "resolveSessionBinding demo_http \<lparr>psWorkID = ''j1'', psCapability = ''video:transcode.vod'', psPreset = ''h264-720p'',
     psOffering = []\<rparr> =
   Inr \<lparr>bnWorkID = ''j1'', bnCapability = ''video:transcode.vod'', bnOffering = ''h264-720p'', bnPricePerWorkUnitWei = ''7'',
        bnWorkUnit = ''token''\<rparr>"
  by (simp add: resolveSessionBinding_def resolveOffering_def demo_http_def demo_caps_def TrimSpace_def is_space_def)

text \<open>On the in-memory store a submission with a known preset is accepted and queued.\<close>

lemma Submit_queues:
  assumes "dStore D = memStore_ops" "lookupPreset D w (jPreset j) \<noteq> None" "jID j \<noteq> []"
  shows "\<exists>w' j'. Submit D r j w = (w', r\<lparr>jrQueue := jrQueue r @ [jID j]\<rparr>, Inr j')"
  using assms
  by (simp add: Submit_def Let_def saveJob_def step_of_def Save_def PutJSON_def memStore_ops_def mem_Put_def)

lemma demo_runner_broker: "fkFailProcess (rnBroker demo_runner) = None"
  by (simp add: demo_runner_def newRunner_def NewFake_def)

lemma demo_submits: "jrQueue (stVod (fst demo_submitted)) = [''j1'']"
proof -
  have l: "lookupPreset demo_deps w ''h264-720p'' \<noteq> None" for w :: "(json memStore, fake) world"
    by (simp add: lookupPreset_def demo_deps_def)
  have d: "dStore demo_deps = memStore_ops" by (rule demo_basics(1))
  have q: "jrQueue (stVod (fst (submitVOD demo_http demo_vod w sender b s))) = jrQueue (stVod s) @ [''j1'']"
    for w sender b and s :: "(json memStore, fake, memSink) http_state"
  proof -
    have v: "jID (vodJob demo_vod w sender) = ''j1''" "jPreset (vodJob demo_vod w sender) = ''h264-720p''"
      by (simp_all add: vodJob_def demo_vod_simps)
    obtain w' j' where "Submit demo_deps (stVod s) (vodJob demo_vod w sender) (jobWorld demo_http s) =
        (w', (stVod s)\<lparr>jrQueue := jrQueue (stVod s) @ [''j1'']\<rparr>, Inr j')"
      using Submit_queues [OF d, of "jobWorld demo_http s" "vodJob demo_vod w sender" "stVod s"] l v by auto
    then show ?thesis by (simp add: submitVOD_def demo_http_def)
  qed
  show ?thesis
    unfolding demo_submitted_def handleVODSubmit_def
    by (simp add: demo_http_eval withTicket_def withSession_def openSessionForRequest_def fake_ops_def fake_OpenSession_def
        maybeProcessPayment_def processPayment_def fake_ProcessPayment_def Let_def q setBroker_def demo_http_state_def
        demo_runner_broker)
qed

end
