(* ===== verification/Http_Safety.thy ===== *)
theory Http_Safety
  imports Http_Demo
begin

text \<open>
  What the HTTP surface guarantees: nothing is queued or opened without a processed payment, which of its effects
  a refused request leaves behind, and what the registry of live sessions holds.
\<close>

subsection \<open>Frames\<close>

named_theorems st_frame \<open>what the steps of a handler leave alone\<close>

lemma setBroker_frame [st_frame]:
  "stVod (setBroker b s) = stVod s" "stAbr (setBroker b s) = stAbr s" "stSessions (setBroker b s) = stSessions s"
  "rnStreams (stLive (setBroker b s)) = rnStreams (stLive s)" "rnBroker (stLive (setBroker b s)) = b"
  "rnStore (stLive (setBroker b s)) = rnStore (stLive s)" "stJobTrace (setBroker b s) = stJobTrace s"
  by (simp_all add: setBroker_def)

lemma setLive_frame [st_frame]:
  "stVod (setLive r s) = stVod s" "stAbr (setLive r s) = stAbr s" "stSessions (setLive r s) = stSessions s"
  "stLive (setLive r s) = r"
  by (simp_all add: setLive_def)

lemma sessions_frame [st_frame]:
  "stVod (sessions_Upsert i s) = stVod s" "stAbr (sessions_Upsert i s) = stAbr s" "stLive (sessions_Upsert i s) = stLive s"
  "stVod (sessions_Delete k s) = stVod s" "stAbr (sessions_Delete k s) = stAbr s" "stLive (sessions_Delete k s) = stLive s"
  by (simp_all add: sessions_Upsert_def sessions_Delete_def)

lemma setJobWorld_frame [st_frame]:
  "stVod (setJobWorld w s) = stVod s" "stAbr (setJobWorld w s) = stAbr s" "stSessions (setJobWorld w s) = stSessions s"
  "rnStreams (stLive (setJobWorld w s)) = rnStreams (stLive s)" "rnBroker (stLive (setJobWorld w s)) = wBroker w"
  by (simp_all add: setJobWorld_def)

lemma jobWorld_broker [st_frame]: "wBroker (jobWorld S s) = rnBroker (stLive s)"
  by (simp add: jobWorld_def)

lemma saveJob_broker: "saveJob D j w = (w', r) \<Longrightarrow> wBroker w' = wBroker w"
  by (auto simp: saveJob_def step_of_def split: prod.splits)

text \<open>A submission keeps the broker, and its queue grows only if it succeeds.\<close>

lemma Submit_frame:
  assumes "Submit D r j w = (w', r', res)"
  shows "wBroker w' = wBroker w \<and> (r' = r \<or> is_ok res)"
proof -
  define jw where "jw = (if jCreatedAt (j\<lparr>jMode := ModeVOD, jPhase := PhaseQueued\<rparr>) = zero_time
      then (j\<lparr>jMode := ModeVOD, jPhase := PhaseQueued, jCreatedAt := envNow D (wClock w)\<rparr>, w\<lparr>wClock := wClock w + 1\<rparr>)
      else (j\<lparr>jMode := ModeVOD, jPhase := PhaseQueued\<rparr>, w))"
  obtain j1 w1 where jw1: "jw = (j1, w1)" by fastforce
  have w1: "wBroker w1 = wBroker w" using jw1 by (auto simp: jw_def split: if_splits)
  obtain w2 a where a: "saveJob D j1 w1 = (w2, a)" by fastforce
  have "wBroker w2 = wBroker w" using saveJob_broker [OF a] w1 by simp
  then show ?thesis
    using assms jw1 a unfolding Submit_def Let_def jw_def [symmetric]
    by (auto split: if_splits option.splits sum.splits)
qed

lemma saveRenditionPlan_broker: "saveRenditionPlan D j w = (w', r) \<Longrightarrow> wBroker w' = wBroker w"
  by (auto simp: saveRenditionPlan_def andThen_def getJob_def step_of_def dest!: saveJob_broker
      split: prod.splits option.splits sum.splits)

lemma abr_Submit_frame: "abr_Submit D r j w = (w', r', res) \<Longrightarrow> wBroker w' = wBroker w"
  by (auto simp: abr_Submit_def Let_def dest!: saveJob_broker saveRenditionPlan_broker
      split: if_splits prod.splits option.splits sum.splits)

text \<open>The streams that are open, by key.\<close>

definition open_streams :: "('s, 'b, 'k) runner \<Rightarrow> string set" where
  "open_streams r = fst ` set (rnStreams r)"

lemma update_mem: "(a, b) \<in> set (AList.update k v al) \<Longrightarrow> a = k \<or> a \<in> fst ` set al"
  using dom_update [of k v al] by (metis Un_iff fst_conv image_eqI singletonD)

lemma Start_frame:
  assumes "Start D q r = (r', res)"
  shows "rnBroker r' = rnBroker r \<and> open_streams r' \<subseteq> insert (srWorkID q) (open_streams r) \<and>
    (is_ok res \<or> open_streams r' = open_streams r)"
  using assms
  by (auto simp: Start_def Let_def case_prod_unfold rn_frame open_streams_def dest: update_mem
      split: if_splits sum.splits)

lemma updCtl_streams [st_frame]: "rnStreams (updCtl a f r) = rnStreams r" "rnBroker (updCtl a f r) = rnBroker r"
  "rnStreams (cancelCtx c r) = rnStreams r" "rnBroker (cancelCtx c r) = rnBroker r"
  by (simp_all add: updCtl_def cancelCtx_def)

lemma closeInline_streams:
  "open_streams (closeInline D w a r) \<subseteq> open_streams r" "rnBroker (closeInline D w a r) = rnBroker r"
  using dom_delete_subset [of w "rnStreams r"]
  by (auto simp: closeInline_def Let_def open_streams_def rn_frame st_frame)

lemma Stop_frame: "open_streams (fst (Stop D w r)) \<subseteq> open_streams r" "rnBroker (fst (Stop D w r)) = rnBroker r"
  using closeInline_streams(1) [of D w _ r]
  by (auto simp: Stop_def Let_def open_streams_def rn_frame st_frame closeInline_streams(2) split: option.splits)

lemma Topup_frame: "open_streams (Topup D w r) = open_streams r" "rnBroker (Topup D w r) = rnBroker r"
  by (simp_all add: Topup_def Let_def open_streams_def rn_frame st_frame split: option.splits sum.splits)

subsection \<open>No work without a payment\<close>

text \<open>Nothing new to do: no job joins a queue and no stream is opened.\<close>

definition same_work :: "('s, 'b, 'k) http_state \<Rightarrow> ('s, 'b, 'k) http_state \<Rightarrow> bool" where
  "same_work s s' \<longleftrightarrow>
     stVod s' = stVod s \<and> stAbr s' = stAbr s \<and> open_streams (stLive s') \<subseteq> open_streams (stLive s)"

text \<open>A ticket of the request was processed for the work, and nothing was done to the broker afterwards.\<close>

definition charged ::
  "'b broker_ops \<Rightarrow> http_request \<Rightarrow> string \<Rightarrow> ('s, 'b, 'k) http_state \<Rightarrow> ('s, 'b, 'k) http_state \<Rightarrow> bool" where
  "charged bk q workID s s' \<longleftrightarrow>
     (\<exists>bt ticket rc. decodeRequestPayment q bt True = Inr ticket \<and>
        bkProcessPayment bk (rnBroker (stLive s)) ticket workID = (rnBroker (stLive s'), Inr rc))"

text \<open>Before that, a payment session for the work was opened at a configured price.\<close>

definition paid ::
  "('s, 'b) http_server \<Rightarrow> 'b broker_ops \<Rightarrow> http_request \<Rightarrow> ('s, 'b, 'k) http_state \<Rightarrow> ('s, 'b, 'k) http_state \<Rightarrow> bool" where
  "paid S bk q s s' \<longleftrightarrow>
     (\<exists>p bn b. resolveSessionBinding S p = Inr bn \<and> bkOpenSession bk (rnBroker (stLive s)) bn = (b, Inr ()) \<and>
        charged bk q (psWorkID p) (setBroker b s) s')"

lemma same_work_refl [simp]: "same_work s s"
  by (simp add: same_work_def)

lemma same_work_setBroker [simp]: "same_work (setBroker b s) s' \<longleftrightarrow> same_work s s'" "same_work s (setBroker b s') \<longleftrightarrow> same_work s s'"
  by (simp_all add: same_work_def st_frame open_streams_def)

lemma same_work_sessions [simp]: "same_work s (sessions_Delete k s') \<longleftrightarrow> same_work s s'"
  "same_work s (sessions_Upsert i s') \<longleftrightarrow> same_work s s'" "same_work (sessions_Delete k s) s' \<longleftrightarrow> same_work s s'"
  by (simp_all add: same_work_def st_frame)

lemma withSession_paid:
  assumes "charging S = Some bk" "withSession S p k s = (s', rep)"
    "\<And>s1. k s1 = (s', rep) \<Longrightarrow> same_work s1 s' \<or> charged bk q (psWorkID p) s1 s'"
  shows "same_work s s' \<or> paid S bk q s s'"
proof (cases "resolveSessionBinding S p")
  case (Inl e)
  then show ?thesis using assms(1,2) by (simp add: withSession_def openSessionForRequest_def)
next
  case (Inr bn)
  obtain b r where b: "bkOpenSession bk (rnBroker (stLive s)) bn = (b, r)" by fastforce
  show ?thesis
  proof (cases r)
    case (Inl e)
    then show ?thesis using assms(1,2) Inr b by (auto simp: withSession_def openSessionForRequest_def)
  next
    case (Inr u)
    then have "k (setBroker b s) = (s', rep)"
      using assms(1,2) \<open>resolveSessionBinding S p = Inr bn\<close> b by (simp add: withSession_def openSessionForRequest_def)
    from assms(3) [OF this] show ?thesis
    proof
      assume "charged bk q (psWorkID p) (setBroker b s) s'"
      then show ?thesis using \<open>resolveSessionBinding S p = Inr bn\<close> b Inr by (auto simp: paid_def)
    qed simp
  qed
qed

lemma maybeProcessPayment_refused:
  "charging S = Some bk \<Longrightarrow> maybeProcessPayment S q bt w s = (s', Inl c) \<Longrightarrow> same_work s s'"
  by (auto simp: maybeProcessPayment_def processPayment_def split: sum.splits prod.splits)

lemma maybeProcessPayment_charged:
  "charging S = Some bk \<Longrightarrow> maybeProcessPayment S q bt w s = (s', Inr x) \<Longrightarrow> same_work s s' \<and> charged bk q w s s'"
  by (auto simp: maybeProcessPayment_def processPayment_def charged_def st_frame split: sum.splits prod.splits) blast

lemma charged_cong: "rnBroker (stLive s'') = rnBroker (stLive s') \<Longrightarrow> charged bk q w s s'' \<longleftrightarrow> charged bk q w s s'"
  by (simp add: charged_def)

lemma submitVOD_broker: "submitVOD S req w sender bal s = (s', rep) \<Longrightarrow> rnBroker (stLive s') = rnBroker (stLive s)"
  by (auto simp: submitVOD_def Let_def st_frame dest!: Submit_frame split: option.splits prod.splits sum.splits)

lemma submitABR_broker: "submitABR S req w sender bal s = (s', rep) \<Longrightarrow> rnBroker (stLive s') = rnBroker (stLive s)"
  by (auto simp: submitABR_def Let_def st_frame dest!: abr_Submit_frame split: option.splits prod.splits sum.splits)

text \<open>The common middle part of the two submissions.\<close>

lemma charge_then:
  assumes "charging S = Some bk"
    "(case maybeProcessPayment S q bt w s1 of
       (s, Inl code) \<Rightarrow> (s, writeError code ''payment'' ''ticket validation failed'')
     | (s, Inr (sender, balance)) \<Rightarrow> go sender balance s) = (s', rep)"
    "\<And>sender balance s. go sender balance s = (s', rep) \<Longrightarrow> rnBroker (stLive s') = rnBroker (stLive s)"
  shows "same_work s1 s' \<or> charged bk q w s1 s'"
proof (cases "maybeProcessPayment S q bt w s1")
  case (Pair s2 r)
  show ?thesis
  proof (cases r)
    case (Inl c)
    then show ?thesis using Pair assms(2) maybeProcessPayment_refused [OF assms(1), of q bt w s1 s2 c] by simp
  next
    case (Inr x)
    then have c: "charged bk q w s1 s2" using Pair maybeProcessPayment_charged [OF assms(1), of q bt w s1 s2 x] by simp
    obtain sender balance where "x = (sender, balance)" by fastforce
    then have "rnBroker (stLive s') = rnBroker (stLive s2)" using Pair Inr assms(2) by (intro assms(3)) simp
    then show ?thesis using c charged_cong by blast
  qed
qed

lemma handleVODSubmit_paid:
  assumes "charging S = Some bk" "handleVODSubmit S q s = (s', rep)"
  shows "same_work s s' \<or> paid S bk q s s'"
proof -
  have k: "same_work s s' \<or> paid S bk q s s'"
    if "withSession S p (\<lambda>s. case maybeProcessPayment S q bt w s of
        (s, Inl code) \<Rightarrow> (s, writeError code ''payment'' ''ticket validation failed'')
      | (s, Inr (sender, balance)) \<Rightarrow> submitVOD S req w sender balance s) s = (s', rep)" "psWorkID p = w" for p bt req w
    by (rule withSession_paid [OF assms(1) that(1)], unfold that(2), rule charge_then [OF assms(1)], assumption)
      (erule submitVOD_broker)
  show ?thesis using assms by (auto simp: handleVODSubmit_def withTicket_def Let_def dest!: k split: sum.splits if_splits)
qed

lemma handleABRSubmit_paid:
  assumes "charging S = Some bk" "handleABRSubmit S q s = (s', rep)"
  shows "same_work s s' \<or> paid S bk q s s'"
proof -
  have k: "same_work s s' \<or> paid S bk q s s'"
    if "withSession S p (\<lambda>s. case maybeProcessPayment S q bt w s of
        (s, Inl code) \<Rightarrow> (s, writeError code ''payment'' ''ticket validation failed'')
      | (s, Inr (sender, balance)) \<Rightarrow> submitABR S req w sender balance s) s = (s', rep)" "psWorkID p = w" for p bt req w
    by (rule withSession_paid [OF assms(1) that(1)], unfold that(2), rule charge_then [OF assms(1)], assumption)
      (erule submitABR_broker)
  show ?thesis using assms by (auto simp: handleABRSubmit_def withTicket_def Let_def dest!: k split: sum.splits if_splits)
qed

text \<open>The common part of the two ways to open a stream.\<close>

lemma chargeStart_cases:
  assumes "charging S = Some bk" "decodeRequestPayment q bt True = Inr ticket" "chargeStart S ticket w s1 = (s2, r)"
  shows "(\<exists>rep. r = Inl rep \<and> same_work s1 s2) \<or> (\<exists>sender. r = Inr sender \<and> charged bk q w s1 s2)"
  using assms(1,3) assms(2)
  by (auto simp: chargeStart_def processPayment_def charged_def st_frame split: sum.splits prod.splits)

lemma start_then:
  assumes "charging S = Some bk" "decodeRequestPayment q bt True = Inr ticket"
    "(case chargeStart S ticket w s1 of
       (s, Inl rep) \<Rightarrow> (s, rep)
     | (s, Inr sender) \<Rightarrow> (case Start D (req sender) (stLive s) of
         (r, Inl err) \<Rightarrow> (setLive r s, bad err) | (r, Inr x) \<Rightarrow> (upd sender (setLive r s), good sender x))) = (s', rep)"
    "\<And>sender s. stLive (upd sender s) = stLive s"
  shows "same_work s1 s' \<or> charged bk q w s1 s'"
proof (cases "chargeStart S ticket w s1")
  case (Pair s2 r)
  from chargeStart_cases [OF assms(1,2) Pair] show ?thesis
  proof
    assume "\<exists>sender. r = Inr sender \<and> charged bk q w s1 s2"
    then obtain sender where s: "r = Inr sender" "charged bk q w s1 s2" by blast
    obtain r' res where st: "Start D (req sender) (stLive s2) = (r', res)" by fastforce
    from Start_frame [OF st] have "rnBroker r' = rnBroker (stLive s2)" by blast
    then have "rnBroker (stLive s') = rnBroker (stLive s2)"
      using assms(3,4) Pair s(1) st by (auto simp: st_frame split: sum.splits)
    then show ?thesis using s(2) charged_cong by blast
  qed (use assms(3) Pair in auto)
qed

lemma handleStreamStart_paid:
  assumes "charging S = Some bk" "handleStreamStart S q s = (s', rep)"
  shows "same_work s s' \<or> paid S bk q s s'"
proof -
  have k: "same_work s s' \<or> paid S bk q s s'"
    if "withSession S p (\<lambda>s. case chargeStart S ticket w s of
        (s, Inl rep) \<Rightarrow> (s, rep)
      | (s, Inr sender) \<Rightarrow> (case Start D (req sender) (stLive s) of
          (r, Inl err) \<Rightarrow> (setLive r s, startError err)
        | (r, Inr x) \<Rightarrow> (setLive r s, writeJSON 202 (streamStartResponse S w x)))) s = (s', rep)"
      "psWorkID p = w" "decodeRequestPayment q bt True = Inr ticket" for bt ticket p D req w
    by (rule withSession_paid [OF assms(1) that(1)], unfold that(2),
        rule start_then [OF assms(1) that(3), where upd = "\<lambda>_ s. s" and good = "\<lambda>_ x. writeJSON 202 (streamStartResponse S w x)"])
      (assumption, rule refl)
  show ?thesis using assms
    by (auto simp: handleStreamStart_def Let_def dest!: k split: sum.splits if_splits option.splits)
qed

lemma handleSessionStart_paid:
  assumes "charging S = Some bk" "handleSessionStart S q s = (s', rep)"
  shows "same_work s s' \<or> paid S bk q s s'"
proof -
  have k: "same_work s s' \<or> paid S bk q s s'"
    if "withSession S p (\<lambda>s. case chargeStart S ticket w s of
        (s, Inl rep) \<Rightarrow> (s, rep)
      | (s, Inr sender) \<Rightarrow> (case Start D (req sender) (stLive s) of
          (r, Inl err) \<Rightarrow> (setLive r s, sessionStartError err)
        | (r, Inr x) \<Rightarrow> (sessions_Upsert (info sender) (setLive r s), writeJSON 202 (sessionStartResponse S (info sender) x)))) s = (s', rep)"
      "psWorkID p = w" "decodeRequestPayment q bt True = Inr ticket" for bt ticket p D req w info
    by (rule withSession_paid [OF assms(1) that(1)], unfold that(2),
        rule start_then [OF assms(1) that(3), where upd = "\<lambda>sender. sessions_Upsert (info sender)"
          and good = "\<lambda>sender x. writeJSON 202 (sessionStartResponse S (info sender) x)"])
      (assumption, rule st_frame)
  have p: "svPayment S \<noteq> None" using assms(1) by (auto simp: charging_def split: if_splits)
  show ?thesis
  proof (cases "decodeBody session_fields zero_session_request q")
    case (Inr req)
    show ?thesis
    proof (cases "decodeRequestPayment q [] True")
      case (Inr ticket)
      let ?g = "firstNonEmpty [ssGatewaySessionID req, ssSessionID req]" and ?w = "deriveSessionWorkID S ticket"
      note k' = k [where ticket = ticket and w = ?w and bt = "[]" and info = "\<lambda>sender. \<lparr>lsGatewaySessionID = ?g,
          lsWorkerSessionID = deriveWorkerSessionID ?w, lsWorkID = ?w, lsStreamID = ?g, lsSender = sender\<rparr>"]
      show ?thesis
        using assms p \<open>decodeBody session_fields zero_session_request q = Inr req\<close> Inr
        by (auto simp: handleSessionStart_def Let_def simp del: firstNonEmpty_simps dest!: k'
            split: if_split_asm option.splits)
    qed (use assms p Inr in \<open>auto simp: handleSessionStart_def Let_def split: if_splits option.splits\<close>)
  qed (use assms in \<open>simp add: handleSessionStart_def\<close>)
qed

subsection \<open>The other handlers start nothing\<close>

lemma same_work_setLive:
  "same_work s (setLive r s') \<longleftrightarrow> stVod s' = stVod s \<and> stAbr s' = stAbr s \<and> open_streams r \<subseteq> open_streams (stLive s)"
  by (simp add: same_work_def st_frame)

lemma read_only_same_work:
  "handleHealth S s = (s', rep) \<Longrightarrow> same_work s s'" "handleRegistryOfferings S q s = (s', rep) \<Longrightarrow> same_work s s'"
  "handleListPresets S s = (s', rep) \<Longrightarrow> same_work s s'" "handleProbe S q s = (s', rep) \<Longrightarrow> same_work s s'"
  "handleVODStatus S q s = (s', rep) \<Longrightarrow> same_work s s'" "handleABRStatus S q s = (s', rep) \<Longrightarrow> same_work s s'"
  "handleStreamStatus S q s = (s', rep) \<Longrightarrow> same_work s s'"
  by (auto simp: handleHealth_def handleRegistryOfferings_def handleListPresets_def handleProbe_def handleVODStatus_def
      handleABRStatus_def handleStreamStatus_def Let_def split: option.splits sum.splits if_splits)

lemma handleTicketParams_same_work: "handleTicketParams S q s = (s', rep) \<Longrightarrow> same_work s s'"
  by (auto simp: handleTicketParams_def Let_def case_prod_unfold split: option.splits sum.splits payee.splits prod.splits)

lemma activeSession_same:
  assumes "activeSessionInfoForGatewaySession S g s = (s', r)"
  shows "(s' = s \<or> s' = sessions_Delete g s) \<and> stLive s' = stLive s"
  using assms by (auto simp: activeSessionInfoForGatewaySession_def st_frame split: sum.splits if_splits option.splits)

lemma stopAndWait_streams:
  assumes "\<And>r. open_streams (wait r) \<subseteq> open_streams r"
  shows "open_streams (stopAndWait D wait w r) \<subseteq> open_streams r"
proof (cases "Stop D w r")
  case (Pair r' waits)
  then show ?thesis using Stop_frame(1) [of D w r] assms [of r'] by (auto simp: stopAndWait_def)
qed

lemma handleStreamStop_same_work:
  assumes "\<And>r. open_streams (wait r) \<subseteq> open_streams r" "handleStreamStop S wait q s = (s', rep)"
  shows "same_work s s'"
  using assms(2) stopAndWait_streams [of wait, OF assms(1)]
  by (auto simp: handleStreamStop_def Let_def same_work_setLive simp del: firstNonEmpty_simps
      split: sum.splits if_split_asm option.splits)

lemma maybeProcessPayment_same_work: "maybeProcessPayment S q bt w s = (s', r) \<Longrightarrow> same_work s s'"
  by (auto simp: maybeProcessPayment_def processPayment_def split: option.splits sum.splits prod.splits)

lemma handleStreamTopup_same_work:
  assumes "handleStreamTopup S q s = (s', rep)"
  shows "same_work s s'"
proof -
  have "same_work s (setLive (Topup D w (stLive s1)) s1)" if "same_work s s1" for D w s1
    using that by (simp add: same_work_def st_frame Topup_frame)
  then show ?thesis using assms
    by (auto simp: handleStreamTopup_def Let_def dest!: maybeProcessPayment_same_work
        split: sum.splits if_splits option.splits prod.splits)
qed

lemma chargeTopup_same_work: "chargeTopup S ticket info s = (s', r) \<Longrightarrow> same_work s s'"
  by (auto simp: chargeTopup_def processPayment_def split: option.splits sum.splits prod.splits if_splits)

lemma handleSessionTopup_same_work:
  assumes "handleSessionTopup S q s = (s', rep)"
  shows "same_work s s'"
proof -
  let ?g = "TrimSpace (hqPathValue q ''gateway_session_id'')"
  have t: "same_work s1 (setLive (Topup D w (stLive s2)) s2)" if "same_work s1 s2" for D w s1 s2
    using that by (simp add: same_work_def st_frame Topup_frame)
  obtain s1 r where a: "activeSessionInfoForGatewaySession S ?g s = (s1, r)" by fastforce
  have "same_work s1 s'" if "?g \<noteq> []"
    using assms a that t
    by (auto simp: handleSessionTopup_def Let_def dest!: chargeTopup_same_work
        split: sum.splits if_splits option.splits prod.splits)
  then show ?thesis using activeSession_same [OF a] assms
    by (cases "?g = []") (auto simp: handleSessionTopup_def Let_def)
qed

lemma closeStarting_same_work: "closeStarting S x info s = (s', r) \<Longrightarrow> same_work s s'"
  by (auto simp: closeStarting_def split: option.splits if_splits prod.splits)

lemma handleSessionEnd_same_work:
  assumes "\<And>r. open_streams (wait r) \<subseteq> open_streams r" "handleSessionEnd S wait q s = (s', rep)"
  shows "same_work s s'"
proof -
  let ?g = "TrimSpace (hqPathValue q ''gateway_session_id'')"
  have st: "same_work s1 (setLive (stopAndWait D wait w (stLive s1)) s1)" for D w s1
    using stopAndWait_streams [of wait, OF assms(1)] by (simp add: same_work_setLive)
  have tr: "same_work a b \<Longrightarrow> same_work b c \<Longrightarrow> same_work a c" for a b c :: "('a, 'b, 'c) http_state"
    by (auto simp: same_work_def)
  obtain s1 r where a: "activeSessionInfoForGatewaySession S ?g s = (s1, r)" by fastforce
  have "same_work s1 s'" if "?g \<noteq> []"
    using assms(2) a that
    by (auto simp: handleSessionEnd_def Let_def dest!: closeStarting_same_work intro: tr [OF st]
        split: sum.splits if_splits option.splits prod.splits)
  then show ?thesis using activeSession_same [OF a] assms(2)
    by (cases "?g = []") (auto simp: handleSessionEnd_def Let_def)
qed

lemma if_SomeE: "(if b then Some x else e) = Some r \<Longrightarrow> (x = r \<Longrightarrow> P) \<Longrightarrow> (e = Some r \<Longrightarrow> P) \<Longrightarrow> P"
  by (simp split: if_split_asm)



end
