(* ===== verification/Http_Errors.thy ===== *)
theory Http_Errors
  imports Http_Safety
begin

text \<open>
  Further guarantees of the HTTP surface: what reaches the payment daemon for ticket parameters, and what a
  refused submission leaves behind.
\<close>

subsection \<open>Ticket parameters\<close>

lemma parseHexAddress_length: "parseHexAddress n v = Inr b \<Longrightarrow> length b = 20"
  by (auto simp: parseHexAddress_def Let_def dest!: hex_Decode_length split: if_splits option.splits)

lemma dropWhile_id: "xs \<noteq> [] \<Longrightarrow> \<not> P (hd xs) \<Longrightarrow> dropWhile P xs = xs"
  by (cases xs) auto

lemma TrimSpace_id: "s \<noteq> [] \<Longrightarrow> \<not> is_space (hd s) \<Longrightarrow> \<not> is_space (last s) \<Longrightarrow> TrimSpace s = s"
  using dropWhile_id [of s is_space] dropWhile_id [of "rev s" is_space] by (simp add: TrimSpace_def hd_rev)

lemma hex_val_no_space: "hex_val c = Some n \<Longrightarrow> \<not> is_space c"
  by (auto simp: hex_val_def is_space_def Let_def split: if_splits)

lemma hex_Encode_no_space: "c \<in> set (hex_Encode bs) \<Longrightarrow> \<not> is_space c"
proof (induction bs)
  case (Cons b bs)
  have "unat b < 256" using unsigned_less [of b, where 'a = nat] by simp
  then have "unat b div 16 < 16" "unat b mod 16 < 16" by simp_all
  note n = this [THEN hex_val_char, THEN hex_val_no_space]
  from Cons n show ?case by (auto simp: hex_Encode_def hex_digits_def)
qed (simp add: hex_Encode_def)

text \<open>An address that is rendered is read back.\<close>

lemma address_roundtrip:
  assumes "length b = 20"
  shows "parseHexAddress n (bytesToHexString b) = Inr b"
proof -
  have ne: "hex_Encode b \<noteq> []" using assms by (metis length_hex_Encode list.size(3) mult_is_0 zero_neq_numeral)
  have "\<not> is_space (last (''0x'' @ hex_Encode b))" using hex_Encode_no_space [OF last_in_set [OF ne]] ne by simp
  then have "TrimSpace (''0x'' @ hex_Encode b) = ''0x'' @ hex_Encode b" by (intro TrimSpace_id) (simp_all add: is_space_def)
  moreover have "HasPrefix (''0x'' @ hex_Encode b) ''0x''" by (simp add: HasPrefix_def)
  ultimately show ?thesis using assms by (auto simp: parseHexAddress_def bytesToHexString_def Let_def)
qed


definition demo_address :: bytes where
  "demo_address = replicate 20 171"

definition demo_ticket_request :: ticket_params_request where
  "demo_ticket_request =
     \<lparr>trSenderETHAddress = bytesToHexString demo_address, trRecipientETHAddress = bytesToHexString demo_address,
      trFaceValueWei = ''12'', trCapability = '' c '', trOffering = ''o''\<rparr>"


subsection \<open>A refused submission\<close>

text \<open>
  A refused submission keeps the payment: a request for a VOD job whose offering is configured but whose preset
  is not in the catalogue is answered with 400 and queues nothing, but its ticket has already been processed, and
  the payment session that was opened for it stays open.
\<close>

theorem refused_submit_keeps_payment:
  assumes "charging S = Some bk" "svJobRunner S = Some D" "decodeBody vod_fields zero_vod_request q = Inr req"
    "vqJobID req \<noteq> []" "vqInputURL req \<noteq> []" "vqOutputURL req \<noteq> []" "vqPreset req \<noteq> []"
    "workID = firstNonEmpty [vqWorkID req, vqJobID req]"
    "decodeRequestPayment q (vqPaymentTicket req) True = Inr ticket"
    "resolveSessionBinding S \<lparr>psWorkID = workID, psCapability = ''video:transcode.vod'', psPreset = vqPreset req,
       psOffering = vqOffering req\<rparr> = Inr bn"
    "bkOpenSession bk (rnBroker (stLive s)) bn = (b1, Inr ())" "bkProcessPayment bk b1 ticket workID = (b2, Inr rc)"
    "Lookup (dPresets D (stJobTrace s)) (vqPreset req) = None"
  shows "\<exists>s'. Handler S wait ''POST /v1/video/transcode'' q s =
      Some (s', writeError 400 ErrCodeJobInvalidPreset (''unknown preset: '' @ vqPreset req)) \<and>
    rnBroker (stLive s') = b2 \<and> stVod s' = stVod s \<and> rnStore (stLive s') = rnStore (stLive s)"
proof -
  let ?s2 = "setBroker b2 (setBroker b1 s)"
  have sub: "Submit D r (vodJob req workID sender) w = (w, r, Inl (JobErrorOf ErrCodeJobInvalidPreset (''unknown preset: '' @ vqPreset req)))"
    if "wTrace w = stJobTrace s" for r w sender
    using that assms(4,13) by (simp add: Submit_def vodJob_def lookupPreset_def)
  have tr: "wTrace (jobWorld S ?s2) = stJobTrace s" by (simp add: jobWorld_def st_frame)
  have "handleVODSubmit S q s = submitVOD S req workID (rcSender rc) (rcBalanceWei rc) ?s2"
    using assms(1,3-12)
    by (simp add: handleVODSubmit_def Let_def withTicket_def withSession_def openSessionForRequest_def
        maybeProcessPayment_def processPayment_def st_frame)
  also have "\<dots> = ((setJobWorld (jobWorld S ?s2) ?s2)\<lparr>stVod := stVod ?s2\<rparr>,
      writeError 400 ErrCodeJobInvalidPreset (''unknown preset: '' @ vqPreset req))"
    using assms(2) sub [OF tr] by (simp add: submitVOD_def Let_def submitError_def errors_As_JobError_def JobErrorOf_def)
  finally show ?thesis
    by (simp add: Handler_def st_frame jobWorld_def setJobWorld_def setBroker_def)
qed

definition demo_bad_body :: "(string \<times> json) list" where
  "demo_bad_body =
     [(''job_id'', JStr ''j1''), (''input_url'', JStr ''http://i''), (''output_url'', JStr ''http://o''),
      (''preset'', JStr ''x''), (''offering'', JStr ''h264-720p'')]"

theorem refused_submit_keeps_payment_witness:
  "\<exists>s'. Handler demo_http (\<lambda>r. r) ''POST /v1/video/transcode'' (demo_request ''AQ=='' demo_bad_body) demo_http_state =
      Some (s', writeError 400 ''JOB_INVALID_PRESET'' ''unknown preset: x'') \<and>
    fkBalances (rnBroker (stLive demo_http_state)) ''j1'' = 0 \<and> fkBalances (rnBroker (stLive s')) ''j1'' = 100 \<and>
    \<not> fkClosed (rnBroker (stLive s')) ''j1''"
proof -
  let ?q = "demo_request ''AQ=='' demo_bad_body"
  define req where "req = zero_vod_request\<lparr>vqJobID := ''j1'', vqInputURL := ''http://i'', vqOutputURL := ''http://o'',
     vqPreset := ''x'', vqOffering := ''h264-720p''\<rparr>"
  have r: "vqJobID req = ''j1''" "vqInputURL req = ''http://i''" "vqOutputURL req = ''http://o''" "vqPreset req = ''x''"
    "vqWorkID req = []" "vqOffering req = ''h264-720p''" "vqPaymentTicket req = []"
    by (simp_all add: req_def zero_vod_request_def)
  have d: "decodeBody vod_fields zero_vod_request ?q = Inr req"
    by (simp add: decodeBody_def decodeInto_def demo_request_def demo_bad_body_def setMember_def vod_fields_def field_def
        ToLower_def to_lower_def req_def zero_vod_request_def)
  have b: "resolveSessionBinding demo_http \<lparr>psWorkID = ''j1'', psCapability = ''video:transcode.vod'', psPreset = ''x'',
       psOffering = ''h264-720p''\<rparr> =
     Inr \<lparr>bnWorkID = ''j1'', bnCapability = ''video:transcode.vod'', bnOffering = ''h264-720p'', bnPricePerWorkUnitWei = ''7'',
        bnWorkUnit = ''token''\<rparr>" (is "_ = Inr ?bn")
    by (simp add: resolveSessionBinding_def resolveOffering_def demo_http_def demo_caps_def TrimSpace_def is_space_def)
  have f: "rnBroker (stLive demo_http_state) = NewFake" by (simp add: demo_http_state_def demo_runner_def newRunner_def)
  obtain b1 where o: "bkOpenSession fake_ops NewFake ?bn = (b1, Inr ())" "fkFailProcess b1 = None" "fkCreditPerProcess b1 = 100"
    "fkBalances b1 = (\<lambda>_. 0)" "fkClosed b1 = (\<lambda>_. False)"
    by (simp add: fake_ops_def fake_OpenSession_def NewFake_def)
  obtain b2 rc where p: "bkProcessPayment fake_ops b1 [1] ''j1'' = (b2, Inr rc)" "fkBalances b2 ''j1'' = 100" "\<not> fkClosed b2 ''j1''"
    using o by (simp add: fake_ops_def fake_ProcessPayment_def Let_def CreditFor_def wrap64_def)
  have l: "Lookup (dPresets demo_deps (stJobTrace demo_http_state)) ''x'' = None"
    by (simp add: demo_deps_def zero_preset_def)
  have j: "svJobRunner demo_http = Some demo_deps" by (simp add: demo_http_def)
  have ne: "vqJobID req \<noteq> []" "vqInputURL req \<noteq> []" "vqOutputURL req \<noteq> []" "vqPreset req \<noteq> []" by (simp_all add: r)
  have w: "''j1'' = firstNonEmpty [vqWorkID req, vqJobID req]" by (simp add: r)
  have b': "resolveSessionBinding demo_http \<lparr>psWorkID = ''j1'', psCapability = ''video:transcode.vod'', psPreset = vqPreset req,
       psOffering = vqOffering req\<rparr> = Inr ?bn"
    using b by (simp add: r)
  have l': "Lookup (dPresets demo_deps (stJobTrace demo_http_state)) (vqPreset req) = None" using l by (simp add: r)
  from refused_submit_keeps_payment [OF demo_charging j d ne w demo_ticket b' o(1) [folded f] p(1) l']
  obtain s' where s': "Handler demo_http (\<lambda>r. r) ''POST /v1/video/transcode'' ?q demo_http_state =
      Some (s', writeError 400 ErrCodeJobInvalidPreset (''unknown preset: '' @ vqPreset req))" "rnBroker (stLive s') = b2"
    by blast
  have e: "writeError 400 ErrCodeJobInvalidPreset (''unknown preset: '' @ vqPreset req) =
      writeError 400 ''JOB_INVALID_PRESET'' ''unknown preset: x''"
    by (simp add: r ErrCodeJobInvalidPreset_def)
  have z: "fkBalances (rnBroker (stLive demo_http_state)) ''j1'' = 0" by (simp add: f NewFake_def)
  show ?thesis
    by (rule exI [of _ s']) (use s' [unfolded e] z p(2,3) in simp)
qed

end
