(* ===== verification/Http_Sessions.thy ===== *)
theory Http_Sessions
  imports Http_Safety
begin

text \<open>
  The live sessions of the HTTP surface: the registry stays a map from the id that a session carries, a session
  that is over is refused, and two requests that leave a payment behind.
\<close>

subsection \<open>A session that is over\<close>

text \<open>Once the stored stream is terminal, a top-up or an end is refused, and only the registry entry goes.\<close>

lemma session_over_refused:
  assumes "gsid = TrimSpace (hqPathValue q ''gateway_session_id'')" "gsid \<noteq> []"
    "getStream S gsid s = Inr x" "StreamPhase_IsTerminal (sPhase x) \<or> sPhase x = StreamPhaseClosing"
  shows "handleSessionEnd S wait q s = (sessions_Delete gsid s, writeError 409 ''stream_not_active'' ''session is not active'')"
    and "handleSessionTopup S q s = (sessions_Delete gsid s, writeError 409 ''stream_not_active'' ''session is not active'')"
  using assms
  by (simp_all add: handleSessionEnd_def handleSessionTopup_def activeSessionInfoForGatewaySession_def sessionRefusal_def Let_def)

text \<open>What \<open>Stop\<close> does to a stream that nobody has published to yet: it is stored as closed.\<close>

lemma Stop_starting:
  assumes "pendingAddr r gsid = Some a" "a < length (rnCtls r)" "\<not> cRunning (rnCtls r ! a)"
    "ldRepo D = Some memStore_ops" "mem_inv (rnStore r)"
    "sWorkID (cStream (rnCtls r ! a)) = gsid" "gsid \<noteq> []" "stream_wf (cStream (rnCtls r ! a))"
  shows "\<not> snd (Stop D gsid r)"
    and "\<exists>x. GetStream memStore_ops (rnStore (fst (Stop D gsid r))) gsid = Inr x \<and> sPhase x = StreamPhaseClosed"
proof -
  define x where "x = (cStream (rnCtls r ! a))\<lparr>sPhase := StreamPhaseClosed, sCloseReason := sessionEndReasonAdminStop,
    sClosedAt := rnNow D r\<rparr>"
  define r1 where "r1 = updCtl a (\<lambda>ctl. ctl\<lparr>cStream := (cStream ctl)\<lparr>sPhase := StreamPhaseClosed,
    sCloseReason := sessionEndReasonAdminStop, sClosedAt := rnNow D r\<rparr>\<rparr>) (rnTick r)"
  have c: "cStream (rnCtls r1 ! a) = x" "rnStore r1 = rnStore r" "cRunning (rnCtls r1 ! a) = cRunning (rnCtls r ! a)"
    "length (rnCtls r1) = length (rnCtls r)"
    using assms(2) by (simp_all add: r1_def x_def updCtl_def rnTick_def)
  have ci: "closeInline D gsid a r = (fst (rnSaveStream D x r1))\<lparr>rnStreams := AList.delete gsid (rnStreams (fst (rnSaveStream D x r1)))\<rparr>"
    unfolding closeInline_def Let_def r1_def [symmetric] c(1) by simp
  have ctls: "rnCtls (closeInline D gsid a r) = rnCtls r1" by (simp add: ci rn_frame)
  have run: "\<not> cRunning (rnCtls (updCtl a (setReason sessionEndReasonAdminStop) (closeInline D gsid a r)) ! a)"
    using assms(2,3) c(3,4) by (simp add: updCtl_def ctls setReason_def)
  then show "\<not> snd (Stop D gsid r)" using assms(1,3) by (simp add: Stop_def Let_def)
  have wf: "sWorkID x = gsid" "stream_wf x" using assms(6,8) by (simp_all add: x_def stream_wf_def)
  obtain st where st: "SaveStream memStore_ops (rnStore r1) (rnNow D r1) x = (st, Inr ())"
    "GetStream memStore_ops st gsid = Inr (x\<lparr>sUpdatedAt := rnNow D r1, sWebhookSecret := []\<rparr>)"
    using repo.SaveStream_ok [of "rnStore r1" x "rnNow D r1"] assms(5,7) wf c(2) by metis
  have "rnStore (fst (Stop D gsid r)) = st"
    using assms(1,3) by (simp add: Stop_def Let_def updCtl_def cancelCtx_def ci rnSaveStream_def assms(4) st rnTick_def)
  then show "\<exists>x. GetStream memStore_ops (rnStore (fst (Stop D gsid r))) gsid = Inr x \<and> sPhase x = StreamPhaseClosed"
    using st(2) by (auto simp: x_def)
qed

text \<open>
  A session that is ended before anybody has published, while the payment daemon cannot close its payment
  session: the answer is 502, but the stream is already stored as closed. A retry is refused with 409 and does
  not reach the daemon, so the payment session is closed by nobody.
\<close>

theorem session_end_retry_lost:
  assumes "charging S = Some bk" "svLiveRunner S = Some D" "svRepo S = memStore_ops" "ldRepo D = Some memStore_ops"
    "mem_inv (rnStore (stLive s))" "gsid = TrimSpace (hqPathValue q ''gateway_session_id'')" "gsid \<noteq> []"
    "getStream S gsid s = Inr x" "sPhase x = StreamPhaseStarting"
    "sessions_Get gsid s = Some info" "lsStreamID info = gsid"
    "pendingAddr (stLive s) gsid = Some a" "a < length (rnCtls (stLive s))" "\<not> cRunning (rnCtls (stLive s) ! a)"
    "sWorkID (cStream (rnCtls (stLive s) ! a)) = gsid" "stream_wf (cStream (rnCtls (stLive s) ! a))"
    "bkCloseSession bk (rnBroker (stLive s)) (lsSender info) (lsWorkID info) = (b, Inl err)"
  obtains s1 where "handleSessionEnd S wait q s = (s1, writeError 502 ''close_session_failed'' (error_text err))"
    "handleSessionEnd S wait q s1 = (sessions_Delete gsid s1, writeError 409 ''stream_not_active'' ''session is not active'')"
    "rnBroker (stLive (sessions_Delete gsid s1)) = b"
proof -
  let ?r = "fst (Stop D gsid (stLive s))"
  note st = Stop_starting [OF assms(12-14,4,5,15,7,16)]
  have act: "activeSessionInfoForGatewaySession S gsid s = (s, Inr info)"
    using assms(8,9,10) by (simp add: activeSessionInfoForGatewaySession_def sessionInfoForGatewaySession_def StreamPhase_IsTerminal_def)
  have stop: "stopAndWait D wait gsid (stLive s) = ?r"
    using st(1) by (simp add: stopAndWait_def case_prod_unfold)
  define s1 where "s1 = setBroker b (setLive ?r s)"
  have br: "rnBroker ?r = rnBroker (stLive s)" by (rule Stop_frame(2))
  have "handleSessionEnd S wait q s = (s1, writeError 502 ''close_session_failed'' (error_text err))"
    using assms(1,2,7,8,9,11,17) br
    by (simp add: handleSessionEnd_def Let_def assms(6) [symmetric] act stop closeStarting_def s1_def st_frame)
  moreover obtain y where y: "getStream S gsid s1 = Inr y" "sPhase y = StreamPhaseClosed"
    using st(2) assms(3) by (auto simp: getStream_def s1_def st_frame)
  then have "handleSessionEnd S wait q s1 = (sessions_Delete gsid s1, writeError 409 ''stream_not_active'' ''session is not active'')"
    using session_over_refused(1) [OF assms(6,7) y(1)] by (simp add: StreamPhase_IsTerminal_def)
  moreover have "rnBroker (stLive (sessions_Delete gsid s1)) = b" by (simp add: s1_def st_frame)
  ultimately show ?thesis by (rule that)
qed

text \<open>It happens: a session that \<open>Start\<close> has opened, and a daemon that fails to close.\<close>

definition failing_close :: "fake broker_ops" where
  "failing_close = fake_ops\<lparr>bkCloseSession := (\<lambda>f _ _. (f, Inl (Err ''daemon is gone'')))\<rparr>"

definition demo_started :: "(json memStore, fake, memSink) runner" where
  "demo_started = fst (Start demo_run_deps \<lparr>srWorkID = ''g1'', srSender = [1], srPaymentWorkID = ''w1'',
     srWorkerSessionID = deriveWorkerSessionID ''w1'', srPreset = ''h264-live''\<rparr> demo_runner)"

definition demo_open_session :: "(json memStore, fake, memSink) http_state" where
  "demo_open_session = sessions_Upsert \<lparr>lsGatewaySessionID = ''g1'', lsWorkerSessionID = deriveWorkerSessionID ''w1'',
     lsWorkID = ''w1'', lsStreamID = ''g1'', lsSender = [1]\<rparr> (setLive demo_started demo_http_state)"

lemma demo_started_facts:
  "pendingAddr demo_started ''g1'' = Some 0" "length (rnCtls demo_started) = 1" "\<not> cRunning (rnCtls demo_started ! 0)"
  "sWorkID (cStream (rnCtls demo_started ! 0)) = ''g1''" "stream_wf (cStream (rnCtls demo_started ! 0))"
  "map_sum (\<lambda>_. ()) sPhase (GetStream memStore_ops (rnStore demo_started) ''g1'') = Inr StreamPhaseStarting"
  by code_simp+

theorem session_end_retry_lost_witness:
  "\<exists>s1. handleSessionEnd (demo_http\<lparr>svPayment := Some failing_close\<rparr>) id (demo_request [] []) demo_open_session =
          (s1, writeError 502 ''close_session_failed'' ''daemon is gone'') \<and>
        snd (handleSessionEnd (demo_http\<lparr>svPayment := Some failing_close\<rparr>) id (demo_request [] []) s1) =
          writeError 409 ''stream_not_active'' ''session is not active''"
proof -
  let ?S = "demo_http\<lparr>svPayment := Some failing_close\<rparr>"
  have live: "stLive demo_open_session = demo_started" by (simp add: demo_open_session_def st_frame)
  have bk: "charging ?S = Some failing_close" by (simp add: charging_def demo_http_def)
  have gs: "''g1'' = TrimSpace (hqPathValue (demo_request [] []) ''gateway_session_id'')"
    by (simp add: demo_request_def TrimSpace_def is_space_def)
  obtain x where x: "getStream ?S ''g1'' demo_open_session = Inr x" "sPhase x = StreamPhaseStarting"
    using demo_started_facts(6)
    by (cases "GetStream memStore_ops (rnStore demo_started) ''g1''") (auto simp: getStream_def live demo_http_def)
  have ops: "svLiveRunner ?S = Some demo_run_deps" "svRepo ?S = memStore_ops" "ldRepo demo_run_deps = Some memStore_ops"
    by (simp_all add: demo_http_def demo_run_deps_def demo_stored_deps_def)
  have inv: "mem_inv (rnStore (stLive demo_open_session))"
    unfolding live by code_simp
  let ?info = "\<lparr>lsGatewaySessionID = ''g1'', lsWorkerSessionID = deriveWorkerSessionID ''w1'', lsWorkID = ''w1'',
      lsStreamID = ''g1'', lsSender = [1]\<rparr>"
  have sess: "sessions_Get ''g1'' demo_open_session = Some ?info"
    by (simp add: demo_open_session_def sessions_Upsert_def sessions_Get_def update_conv')
  have cl: "bkCloseSession failing_close (rnBroker (stLive demo_open_session)) (lsSender ?info) (lsWorkID ?info) =
      (rnBroker (stLive demo_open_session), Inl (Err ''daemon is gone''))" by (simp add: failing_close_def)
  note st = demo_started_facts [folded live]
  show ?thesis
    by (rule session_end_retry_lost [OF bk ops inv gs _ x sess _ st(1) _ st(3,4,5) cl, where wait = id])
      (use st(2) in auto)
qed

text \<open>A top-up with somebody else's ticket is refused, after the ticket was processed for the session.\<close>

theorem foreign_topup_spends_ticket:
  assumes "charging S = Some bk" "gsid = TrimSpace (hqPathValue q ''gateway_session_id'')" "gsid \<noteq> []"
    "activeSessionInfoForGatewaySession S gsid s = (s, Inr info)" "decodeRequestPayment q [] True = Inr ticket"
    "bkProcessPayment bk (rnBroker (stLive s)) ticket (lsWorkID info) = (b, Inr rc)"
    "lsSender info \<noteq> []" "rcSender rc \<noteq> []" "lsSender info \<noteq> rcSender rc"
  shows "handleSessionTopup S q s =
    (setBroker b s, writeError 409 ''sender_mismatch'' ''topup sender does not match session sender'')"
proof -
  have "svPayment S \<noteq> None" using assms(1) by (auto simp: charging_def split: if_splits)
  then obtain P where "svPayment S = Some P" by blast
  then show ?thesis
    using assms(1,3-) by (simp add: handleSessionTopup_def Let_def assms(2) [symmetric] chargeTopup_def processPayment_def)
qed

subsection \<open>The registry\<close>

definition registry_ok :: "('s, 'b, 'k) http_state \<Rightarrow> bool" where
  "registry_ok s \<longleftrightarrow> (\<forall>k info. sessions_Get k s = Some info \<longrightarrow>
     lsGatewaySessionID info = k \<and> lsStreamID info = k \<and>
     lsWorkerSessionID info = deriveWorkerSessionID (lsWorkID info))"

lemma registry_ok_cong: "stSessions s' = stSessions s \<Longrightarrow> registry_ok s' \<longleftrightarrow> registry_ok s"
  by (simp add: registry_ok_def sessions_Get_def)

lemma registry_ok_new: "stSessions s = newLiveSessionRegistry \<Longrightarrow> registry_ok s"
  by (simp add: registry_ok_def sessions_Get_def newLiveSessionRegistry_def)

lemma registry_ok_Upsert:
  "registry_ok s \<Longrightarrow> registry_ok (sessions_Upsert \<lparr>lsGatewaySessionID = g, lsWorkerSessionID = deriveWorkerSessionID w,
     lsWorkID = w, lsStreamID = g, lsSender = sender\<rparr> s)"
  by (auto simp: registry_ok_def sessions_Upsert_def sessions_Get_def update_conv')

lemma registry_ok_Delete: "registry_ok s \<Longrightarrow> registry_ok (sessions_Delete k s)"
  by (auto simp: registry_ok_def sessions_Delete_def sessions_Get_def delete_conv')

lemma registry_ok_frame [simp]:
  "registry_ok (setBroker b s) \<longleftrightarrow> registry_ok s" "registry_ok (setLive r s) \<longleftrightarrow> registry_ok s"
  "registry_ok (setJobWorld w s) \<longleftrightarrow> registry_ok s"
  "registry_ok (s\<lparr>stVod := v\<rparr>) \<longleftrightarrow> registry_ok s" "registry_ok (s\<lparr>stAbr := a\<rparr>) \<longleftrightarrow> registry_ok s"
  by (rule registry_ok_cong, simp add: setBroker_def setLive_def setJobWorld_def)+

lemma read_only_registry:
  "handleHealth S s = (s', rep) \<Longrightarrow> registry_ok s \<Longrightarrow> registry_ok s'" "handleRegistryOfferings S q s = (s', rep) \<Longrightarrow> registry_ok s \<Longrightarrow> registry_ok s'"
  "handleListPresets S s = (s', rep) \<Longrightarrow> registry_ok s \<Longrightarrow> registry_ok s'" "handleProbe S q s = (s', rep) \<Longrightarrow> registry_ok s \<Longrightarrow> registry_ok s'"
  "handleVODStatus S q s = (s', rep) \<Longrightarrow> registry_ok s \<Longrightarrow> registry_ok s'" "handleABRStatus S q s = (s', rep) \<Longrightarrow> registry_ok s \<Longrightarrow> registry_ok s'"
  "handleStreamStatus S q s = (s', rep) \<Longrightarrow> registry_ok s \<Longrightarrow> registry_ok s'"
  by (auto simp: handleHealth_def handleRegistryOfferings_def handleListPresets_def handleProbe_def handleVODStatus_def
      handleABRStatus_def handleStreamStatus_def Let_def split: option.splits sum.splits if_splits)

lemma handleTicketParams_registry: "handleTicketParams S q s = (s', rep) \<Longrightarrow> registry_ok s \<Longrightarrow> registry_ok s'"
  by (auto simp: handleTicketParams_def Let_def case_prod_unfold split: option.splits sum.splits payee.splits prod.splits)

lemma maybeProcessPayment_registry: "maybeProcessPayment S q bt w s = (s', r) \<Longrightarrow> registry_ok s \<Longrightarrow> registry_ok s'"
  by (auto simp: maybeProcessPayment_def processPayment_def split: option.splits sum.splits prod.splits)

lemma chargeTopup_registry: "chargeTopup S ticket info s = (s', r) \<Longrightarrow> registry_ok s \<Longrightarrow> registry_ok s'"
  by (auto simp: chargeTopup_def processPayment_def split: option.splits sum.splits prod.splits if_splits)

lemma closeStarting_registry: "closeStarting S x info (setLive l s) = (s', r) \<Longrightarrow> registry_ok s \<Longrightarrow> registry_ok s'"
  by (auto simp: closeStarting_def split: option.splits if_splits prod.splits)

lemma activeSession_registry:
  "activeSessionInfoForGatewaySession S g s = (s', r) \<Longrightarrow> registry_ok s \<Longrightarrow> registry_ok s'"
  using activeSession_same [of S g s s' r] by (auto intro: registry_ok_Delete)

lemma handleStreamStop_registry: "handleStreamStop S wait q s = (s', rep) \<Longrightarrow> registry_ok s \<Longrightarrow> registry_ok s'"
  by (auto simp: handleStreamStop_def Let_def simp del: firstNonEmpty_simps split: sum.splits if_split_asm option.splits)

lemma handleStreamTopup_registry: "handleStreamTopup S q s = (s', rep) \<Longrightarrow> registry_ok s \<Longrightarrow> registry_ok s'"
  by (auto simp: handleStreamTopup_def Let_def dest: maybeProcessPayment_registry split: sum.splits if_splits option.splits prod.splits)

lemma handleSessionTopup_registry: "handleSessionTopup S q s = (s', rep) \<Longrightarrow> registry_ok s \<Longrightarrow> registry_ok s'"
  by (auto simp: handleSessionTopup_def Let_def dest: chargeTopup_registry activeSession_registry
      split: sum.splits if_splits option.splits prod.splits)

lemma handleSessionEnd_registry: "handleSessionEnd S wait q s = (s', rep) \<Longrightarrow> registry_ok s \<Longrightarrow> registry_ok s'"
  by (auto simp: handleSessionEnd_def Let_def dest: closeStarting_registry activeSession_registry
      intro!: registry_ok_Delete split: sum.splits if_splits option.splits prod.splits)

lemma withSession_registry:
  assumes "withSession S p k s = (s', rep)" "registry_ok s"
    "\<And>s1. k s1 = (s', rep) \<Longrightarrow> registry_ok s1 \<Longrightarrow> registry_ok s'"
  shows "registry_ok s'"
proof (cases "openSessionForRequest S p s")
  case (Pair s1 r)
  then have "registry_ok s1" using assms(2) by (auto simp: openSessionForRequest_def split: option.splits sum.splits prod.splits)
  then show ?thesis using assms(1,3) Pair by (auto simp: withSession_def split: sum.splits prod.splits option.splits)
qed

lemma submit_registry:
  "submitVOD S vreq w sender bal s = (s', rep) \<Longrightarrow> registry_ok s \<Longrightarrow> registry_ok s'"
  "submitABR S areq w sender bal s = (s', rep) \<Longrightarrow> registry_ok s \<Longrightarrow> registry_ok s'"
  by (auto simp: submitVOD_def submitABR_def Let_def split: option.splits prod.splits sum.splits)

lemma withTicket_registry:
  "withTicket S q t k s = (s', rep) \<Longrightarrow> registry_ok s \<Longrightarrow> (k s = (s', rep) \<Longrightarrow> registry_ok s') \<Longrightarrow> registry_ok s'"
  by (auto simp: withTicket_def split: sum.splits option.splits)

lemma charge_submit_registry:
  assumes "(case maybeProcessPayment S q bt w s of
       (s, Inl code) \<Rightarrow> (s, writeError code ''payment'' ''ticket validation failed'')
     | (s, Inr (sender, balance)) \<Rightarrow> go sender balance s) = (s', rep)" "registry_ok s"
    "\<And>sender balance s. go sender balance s = (s', rep) \<Longrightarrow> registry_ok s \<Longrightarrow> registry_ok s'"
  shows "registry_ok s'"
  using assms maybeProcessPayment_registry by (fastforce split: prod.splits sum.splits)

lemma handleVODSubmit_registry: "handleVODSubmit S q s = (s', rep) \<Longrightarrow> registry_ok s \<Longrightarrow> registry_ok s'"
  unfolding handleVODSubmit_def Let_def
  by (auto split: sum.splits if_split_asm simp del: firstNonEmpty_simps
      elim!: withTicket_registry withSession_registry charge_submit_registry submit_registry)

lemma handleABRSubmit_registry: "handleABRSubmit S q s = (s', rep) \<Longrightarrow> registry_ok s \<Longrightarrow> registry_ok s'"
  unfolding handleABRSubmit_def Let_def
  by (auto split: sum.splits if_split_asm simp del: firstNonEmpty_simps
      elim!: withTicket_registry withSession_registry charge_submit_registry submit_registry)

lemma charge_start_registry:
  assumes "(case chargeStart S ticket w s of
       (s, Inl rep) \<Rightarrow> (s, rep)
     | (s, Inr sender) \<Rightarrow> (case Start D (req sender) (stLive s) of
         (r, Inl err) \<Rightarrow> (setLive r s, bad err) | (r, Inr x) \<Rightarrow> (upd sender (setLive r s), good sender x))) = (s', rep)"
    "registry_ok s" "\<And>sender s. registry_ok s \<Longrightarrow> registry_ok (upd sender s)"
  shows "registry_ok s'"
proof (cases "chargeStart S ticket w s")
  case (Pair s1 r)
  then have "registry_ok s1" using assms(2) by (auto simp: chargeStart_def processPayment_def split: option.splits sum.splits prod.splits)
  then show ?thesis using assms(1,3) Pair by (auto split: sum.splits prod.splits)
qed

lemma handleStreamStart_registry:
  assumes "handleStreamStart S q s = (s', rep)" "registry_ok s"
  shows "registry_ok s'"
proof -
  have k: "registry_ok s'"
    if "withSession S p (\<lambda>s. case chargeStart S ticket w s of
        (s, Inl rep) \<Rightarrow> (s, rep)
      | (s, Inr sender) \<Rightarrow> (case Start D (req sender) (stLive s) of
          (r, Inl err) \<Rightarrow> (setLive r s, startError err)
        | (r, Inr x) \<Rightarrow> (setLive r s, writeJSON 202 (streamStartResponse S w x)))) s = (s', rep)" for ticket p D req w
    by (rule withSession_registry [OF that assms(2)], rule charge_start_registry [where upd = "\<lambda>_ s. s" and
        good = "\<lambda>_ x. writeJSON 202 (streamStartResponse S w x)"])
  show ?thesis using assms
    by (auto simp: handleStreamStart_def Let_def dest!: k split: sum.splits if_split_asm option.splits)
qed

lemma handleSessionStart_registry:
  assumes "handleSessionStart S q s = (s', rep)" "registry_ok s"
  shows "registry_ok s'"
proof -
  have k: "registry_ok s'"
    if "withSession S p (\<lambda>s. case chargeStart S ticket w s of
        (s, Inl rep) \<Rightarrow> (s, rep)
      | (s, Inr sender) \<Rightarrow> (case Start D (req sender) (stLive s) of
          (r, Inl err) \<Rightarrow> (setLive r s, sessionStartError err)
        | (r, Inr x) \<Rightarrow> (sessions_Upsert \<lparr>lsGatewaySessionID = g, lsWorkerSessionID = deriveWorkerSessionID w,
             lsWorkID = w, lsStreamID = g, lsSender = sender\<rparr> (setLive r s),
            writeJSON 202 (sessionStartResponse S \<lparr>lsGatewaySessionID = g, lsWorkerSessionID = deriveWorkerSessionID w,
             lsWorkID = w, lsStreamID = g, lsSender = sender\<rparr> x)))) s = (s', rep)" for ticket p D req w g
    by (rule withSession_registry [OF that assms(2)], rule charge_start_registry [where
        upd = "\<lambda>sender. sessions_Upsert \<lparr>lsGatewaySessionID = g, lsWorkerSessionID = deriveWorkerSessionID w,
             lsWorkID = w, lsStreamID = g, lsSender = sender\<rparr>"
        and good = "\<lambda>sender x. writeJSON 202 (sessionStartResponse S \<lparr>lsGatewaySessionID = g,
             lsWorkerSessionID = deriveWorkerSessionID w, lsWorkID = w, lsStreamID = g, lsSender = sender\<rparr> x)"])
      (assumption, assumption, erule registry_ok_Upsert)
  show ?thesis using assms
    by (auto simp: handleSessionStart_def Let_def simp del: firstNonEmpty_simps dest!: k
        split: sum.splits if_split_asm option.splits)
qed

text \<open>
  Every entry of the registry is under the gateway id it carries, points to the stream of that id and has the
  worker session id of its work id, whatever requests the server has served.
\<close>

theorem registry_invariant:
  assumes "registry_ok s" "Handler S wait pattern q s = Some (s', rep)"
  shows "registry_ok s'"
  using assms(2,1) unfolding Handler_def
  by (elim if_SomeE) (simp_all add: read_only_registry handleTicketParams_registry handleStreamTopup_registry
      handleSessionTopup_registry handleStreamStop_registry handleSessionEnd_registry handleVODSubmit_registry
      handleABRSubmit_registry handleStreamStart_registry handleSessionStart_registry)

end
