(* ===== verification/Gpu_Detect.thy ===== *)
theory Gpu_Detect
  imports Go_Codec Go_Strings Worker_Types
begin

text \<open>
  \<open>internal/providers/gpu/gpu.go\<close> and \<open>internal/service/preflight/preflight.go\<close>: which GPU the host has, and the
  checks before anything listens. The subprocesses (\<open>nvidia-smi\<close>, \<open>vainfo\<close>), the file system and the clock
  answer through parameters.
\<close>

subsection \<open>Numbers\<close>

text \<open>\<open>strconv.ParseUint(s, 10, 64)\<close> with its error thrown away: 0 for a syntax error, the maximum for an overflow.\<close>

definition ParseUint :: "string \<Rightarrow> u64" where
  "ParseUint s = (case read_nat s of None \<Rightarrow> 0 | Some n \<Rightarrow> if n < 2 ^ 64 then word_of_nat n else - 1)"

subsection \<open>Parsers\<close>

definition nvidiaSessions :: "string \<Rightarrow> int" where
  "nvidiaSessions name =
     (if list_ex (Contains (ToLower name)) [''data center'', ''tesla'', ''a100'', ''h100'', ''l40'', ''l4''] then 0 else 8)"

definition isNVIDIAAV1Capable :: "string \<Rightarrow> bool" where
  "isNVIDIAAV1Capable model \<longleftrightarrow>
     list_ex (Contains (ToLower model)) [''rtx 40'', ''rtx 50'', ''l4'', ''l40'', ''h100'', ''h200'', ''ada'']"

definition ParseNVIDIAOutput :: "string \<Rightarrow> time \<Rightarrow> gpu_profile result" where
  "ParseNVIDIAOutput b now =
     (let line = TrimSpace (hd (split_on CHR 0x0A b)); parts = split_on CHR '','' line in
      if line = [] then Inl (Err ''empty nvidia-smi output'')
      else if length parts < 3 then Inl (Err (''malformed nvidia-smi line: '' @ Quote line))
      else
        (let name = TrimSpace (parts ! 0) in
         Inr \<lparr>gVendor = GPUVendorNVIDIA, gModel = name, gDriverVer = TrimSpace (parts ! 1),
              gVRAMBytes = ParseUint (TrimSpace (parts ! 2)) * 1024 * 1024, gMaxSessions = nvidiaSessions name,
              gSupportsH264 = True, gSupportsHEVC = True, gSupportsAV1 = isNVIDIAAV1Capable name, gDetectedAt = now\<rparr>))"

text \<open>The loop over the lines; the last line with a version wins.\<close>

definition driverLine :: "string \<Rightarrow> string \<Rightarrow> string" where
  "driverLine line ver =
     (let line = TrimSpace line;
          ver = (if HasPrefix line ''Driver version:'' then TrimSpace (TrimPrefix line ''Driver version:'') else ver)
      in if HasPrefix line ''vainfo: Driver version:'' then TrimSpace (TrimPrefix line ''vainfo: Driver version:'') else ver)"

definition ParseVAAPIOutput :: "string \<Rightarrow> gpu_vendor \<Rightarrow> time \<Rightarrow> gpu_profile result" where
  "ParseVAAPIOutput b vendor now =
     (if \<not> Contains b ''VAProfile'' then Inl (Err (''vainfo output missing VAProfile lines: '' @ Quote b))
      else
        (let lower = ToLower b in
         Inr (zero_gpu\<lparr>gVendor := vendor, gSupportsH264 := Contains lower ''h264'', gSupportsHEVC := Contains lower ''hevc'',
           gSupportsAV1 := Contains lower ''av1'', gMaxSessions := 16, gDetectedAt := now,
           gDriverVer := fold driverLine (split_on CHR 0x0A b) []\<rparr>)))"

subsection \<open>Detection\<close>

text \<open>\<open>run\<close> is the command runner: the output of a command line, or the error of starting it.\<close>

definition nvidiaSmi :: "string list" where
  "nvidiaSmi = [''nvidia-smi'', ''--query-gpu=name,driver_version,memory.total'', ''--format=csv,noheader,nounits'']"

definition probeNVIDIA :: "(string list \<Rightarrow> string result) \<Rightarrow> time \<Rightarrow> gpu_profile result" where
  "probeNVIDIA run now =
     (case run nvidiaSmi of
        Inl err \<Rightarrow> Inl (ErrWrap (ErrCodePreflightNoGPU @ '': nvidia-smi: '') err)
      | Inr out \<Rightarrow> ParseNVIDIAOutput out now)"

definition probeVAAPI :: "(string list \<Rightarrow> string result) \<Rightarrow> gpu_vendor \<Rightarrow> time \<Rightarrow> gpu_profile result" where
  "probeVAAPI run vendor now =
     (case run [''vainfo''] of
        Inl err \<Rightarrow> Inl (ErrWrap (ErrCodePreflightNoGPU @ '': vainfo: '') err)
      | Inr out \<Rightarrow> ParseVAAPIOutput out vendor now)"

text \<open>The profile that a failed detection returns beside its error is looked at by nobody.\<close>

definition Detect ::
  "(string list \<Rightarrow> string result) \<Rightarrow> gpu_vendor \<Rightarrow> time \<Rightarrow> gpu_profile result" where
  "Detect run vendor now =
     (case vendor of
        GPUVendorAuto \<Rightarrow>
          (case probeNVIDIA run now of
             Inr p \<Rightarrow> Inr p
           | Inl _ \<Rightarrow>
               (case probeVAAPI run GPUVendorIntel now of
                  Inr p \<Rightarrow> Inr p
                | Inl _ \<Rightarrow>
                    (case probeVAAPI run GPUVendorAMD now of
                       Inr p \<Rightarrow> Inr p
                     | Inl _ \<Rightarrow> Inl (Err (ErrCodePreflightNoGPU @ '': no supported GPU detected'')))))
      | GPUVendorNVIDIA \<Rightarrow> probeNVIDIA run now
      | GPUVendorIntel \<Rightarrow> probeVAAPI run GPUVendorIntel now
      | GPUVendorAMD \<Rightarrow> probeVAAPI run GPUVendorAMD now
      | GPUVendorNone \<Rightarrow> Inr (zero_gpu\<lparr>gVendor := GPUVendorNone, gDetectedAt := now\<rparr>)
      | GPUVendorOther v \<Rightarrow> Inl (Err (''unsupported vendor: '' @ v)))"

text \<open>The detector of dev mode.\<close>

definition FakeNVIDIA :: "time \<Rightarrow> gpu_profile" where
  "FakeNVIDIA now =
     \<lparr>gVendor = GPUVendorNVIDIA, gModel = ''fake-nvidia-l40'', gDriverVer = ''555.42.06'',
      gVRAMBytes = 48 * 1024 * 1024 * 1024, gMaxSessions = 0, gSupportsH264 = True, gSupportsHEVC = True,
      gSupportsAV1 = True, gDetectedAt = now\<rparr>"

subsection \<open>Preflight\<close>

text \<open>\<open>detect\<close> is the detector, \<open>None\<close> if there is none; \<open>stat\<close> looks the ffmpeg binary up.\<close>

definition preflight_Run ::
  "bool \<Rightarrow> gpu_vendor \<Rightarrow> string \<Rightarrow> (gpu_vendor \<Rightarrow> gpu_profile result) option \<Rightarrow> (string \<Rightarrow> unit result) \<Rightarrow>
   gpu_profile result" where
  "preflight_Run dev vendor ffmpegBin detector stat =
     (case detector of
        None \<Rightarrow> Inl (Err ''preflight: Detector is required'')
      | Some detect \<Rightarrow>
          rbind
            (if dev then Inr ()
             else if ffmpegBin = [] then Inl (Err (ErrCodePreflightFFmpegMissing @ '': ffmpeg_bin is empty''))
             else
               (case stat ffmpegBin of
                  Inl err \<Rightarrow> Inl (ErrWrap (ErrCodePreflightFFmpegMissing @ '': '' @ ffmpegBin @ '': '') err)
                | Inr _ \<Rightarrow> Inr ()))
            (\<lambda>_. rbind (detect vendor) (\<lambda>g.
               if gVendor g = GPUVendorNone \<and> \<not> dev
               then Inl (Err (ErrCodePreflightNoGPU @ '': detection returned None''))
               else Inr g)))"

text \<open>What preflight lets pass outside dev mode is a GPU of a known vendor, the requested one if one was requested.\<close>

lemma ParseNVIDIAOutput_vendor: "ParseNVIDIAOutput b now = Inr g \<Longrightarrow> gVendor g = GPUVendorNVIDIA"
  by (auto simp: ParseNVIDIAOutput_def Let_def split: if_splits)

lemma ParseVAAPIOutput_vendor: "ParseVAAPIOutput b v now = Inr g \<Longrightarrow> gVendor g = v"
  by (auto simp: ParseVAAPIOutput_def Let_def split: if_splits)

lemma Detect_vendor:
  assumes "Detect run vendor now = Inr g"
  shows "(vendor = GPUVendorAuto \<longrightarrow> gVendor g \<in> {GPUVendorNVIDIA, GPUVendorIntel, GPUVendorAMD}) \<and>
    (vendor \<noteq> GPUVendorAuto \<longrightarrow> gVendor g = vendor)"
  using assms
  by (cases vendor) (auto simp: Detect_def probeNVIDIA_def probeVAAPI_def
      dest: ParseNVIDIAOutput_vendor ParseVAAPIOutput_vendor split: sum.splits)

lemma preflight_vendor:
  assumes "preflight_Run False vendor bin (Some (\<lambda>v. Detect run v now)) stat = Inr g"
  shows "stat bin = Inr () \<and> gVendor g \<in> {GPUVendorNVIDIA, GPUVendorIntel, GPUVendorAMD} \<and>
    (vendor = GPUVendorAuto \<or> gVendor g = vendor)"
proof -
  have "stat bin = Inr ()" "Detect run vendor now = Inr g" "gVendor g \<noteq> GPUVendorNone"
    using assms by (auto simp: preflight_Run_def rbind_eq_Inr split: if_splits sum.splits)
  then show ?thesis using Detect_vendor [of run vendor now g] by (cases vendor) (auto simp: Detect_def)
qed

text \<open>
  The tag \<open>rtx 40\<close> stands for the GeForce 40 series; it also fits the older Quadro RTX 4000, which has no AV1
  encoder.
\<close>

lemma quadro_counts_as_av1: "isNVIDIAAV1Capable ''Quadro RTX 4000''"
  by code_simp

end
