(* ===== verification/Preset_Loader.thy ===== *)
theory Preset_Loader
  imports Worker_Types
begin

text \<open>
  \<open>internal/service/presetloader/presetloader.go\<close>: the catalogue in service and its replacement from the file.
  The file system and the YAML library are parameters: a file arrives as an error or as its bytes, and \<open>yaml\<close>
  decodes bytes into a catalogue.
\<close>

record loader =
  plPath :: string
  plCat :: catalogue

fun validatePresets :: "nat \<Rightarrow> catalogue \<Rightarrow> unit result" where
  "validatePresets i [] = Inr ()"
| "validatePresets i (p # ps) =
     (case Preset_Validate p of
        Inl err \<Rightarrow> Inl (ErrWrap (''preset['' @ show_nat i @ '']: '') err)
      | Inr _ \<Rightarrow> validatePresets (i + 1) ps)"

definition ParseBytes :: "(string \<Rightarrow> catalogue result) \<Rightarrow> string \<Rightarrow> catalogue result" where
  "ParseBytes yaml b =
     (case yaml b of
        Inl err \<Rightarrow> Inl (ErrWrap ''yaml: '' err)
      | Inr c \<Rightarrow>
          if c = [] then Inl (Err ''presetloader: empty catalogue'')
          else rbind (validatePresets 0 c) (\<lambda>_. Inr c))"

definition Reload :: "(string \<Rightarrow> catalogue result) \<Rightarrow> string result \<Rightarrow> loader \<Rightarrow> loader \<times> unit result" where
  "Reload yaml file l =
     (if plPath l = [] then (l, Inl (Err ''presetloader: empty path''))
      else
        (case file of
           Inl err \<Rightarrow> (l, Inl (ErrWrap (''read '' @ plPath l @ '': '') err))
         | Inr b \<Rightarrow>
             (case ParseBytes yaml b of
                Inl err \<Rightarrow> (l, Inl err)
              | Inr cat \<Rightarrow> (l\<lparr>plCat := cat\<rparr>, Inr ()))))"

definition pl_New :: "(string \<Rightarrow> catalogue result) \<Rightarrow> string result \<Rightarrow> string \<Rightarrow> loader result" where
  "pl_New yaml file path =
     (case Reload yaml file \<lparr>plPath = path, plCat = []\<rparr> of
        (l, Inl err) \<Rightarrow> Inl err
      | (l, Inr _) \<Rightarrow> Inr l)"

definition pl_Catalogue :: "loader \<Rightarrow> catalogue" where
  "pl_Catalogue l = plCat l"

definition pl_Lookup :: "loader \<Rightarrow> string \<Rightarrow> preset option" where
  "pl_Lookup l name = Lookup (pl_Catalogue l) name"

definition FilterByGPU :: "loader \<Rightarrow> gpu_profile \<Rightarrow> preset list" where
  "FilterByGPU l g = Catalogue_Filter (pl_Catalogue l) g"

subsection \<open>The catalogue in service\<close>

lemma validatePresets_ok: "validatePresets i c = Inr () \<longleftrightarrow> list_all (\<lambda>p. Preset_Validate p = Inr ()) c"
  by (induction i c rule: validatePresets.induct) (auto split: sum.splits)

lemma ParseBytes_ok:
  "ParseBytes yaml b = Inr c \<longleftrightarrow> yaml b = Inr c \<and> c \<noteq> [] \<and> list_all (\<lambda>p. Preset_Validate p = Inr ()) c"
  by (auto simp: ParseBytes_def rbind_eq_Inr validatePresets_ok split: sum.splits)

lemma Reload_path [simp]: "plPath (fst (Reload yaml file (l :: loader))) = plPath l"
  by (auto simp: Reload_def split: sum.splits)

text \<open>A series of reloads, each with what the file holds at that time.\<close>

definition reloads :: "(string \<Rightarrow> catalogue result) \<Rightarrow> string result list \<Rightarrow> loader \<Rightarrow> loader" where
  "reloads yaml files l = fold (\<lambda>f l. fst (Reload yaml f l)) files l"

lemma reloads_simps [simp]:
  "reloads yaml [] l = l" "reloads yaml (f # fs) l = reloads yaml fs (fst (Reload yaml f l))"
  by (simp_all add: reloads_def)

text \<open>The last of several files that parses.\<close>

definition lastGood :: "(string \<Rightarrow> catalogue result) \<Rightarrow> string result list \<Rightarrow> catalogue \<Rightarrow> catalogue" where
  "lastGood yaml files c =
     foldl (\<lambda>c f. case rbind f (ParseBytes yaml) of Inl _ \<Rightarrow> c | Inr c' \<Rightarrow> c') c files"

lemma reloads_lastGood: "plPath l \<noteq> [] \<Longrightarrow> plCat (reloads yaml files l) = lastGood yaml files (plCat l)"
proof (induction files arbitrary: l)
  case (Cons f fs)
  have "plCat (fst (Reload yaml f l)) = (case rbind f (ParseBytes yaml) of Inl _ \<Rightarrow> plCat l | Inr c' \<Rightarrow> c')"
    using Cons.prems by (cases f) (simp_all add: Reload_def split: sum.splits)
  then show ?case using Cons by (simp add: lastGood_def)
qed (simp add: lastGood_def)

lemma lastGood_valid:
  "c \<noteq> [] \<and> list_all (\<lambda>p. Preset_Validate p = Inr ()) c \<Longrightarrow>
   lastGood yaml files c \<noteq> [] \<and> list_all (\<lambda>p. Preset_Validate p = Inr ()) (lastGood yaml files c)"
proof (induction files arbitrary: c)
  case (Cons f fs)
  let ?c = "case rbind f (ParseBytes yaml) of Inl _ \<Rightarrow> c | Inr c' \<Rightarrow> c'"
  have "?c \<noteq> [] \<and> list_all (\<lambda>p. Preset_Validate p = Inr ()) ?c"
    using Cons.prems by (cases f) (auto simp: ParseBytes_ok split: sum.splits)
  from Cons.IH [OF this] show ?case by (simp add: lastGood_def)
qed (simp add: lastGood_def)

text \<open>
  C32. The catalogue in service is always valid: after the start and any series of reloads, whatever the file
  held at each of them, the catalogue is that of the last file that parsed, it is not empty, and every preset
  that a lookup or the filter by GPU gives out has passed its validation.
\<close>

theorem presets_always_valid:
  assumes "pl_New yaml file path = Inr l0" "l = reloads yaml files l0"
  shows "pl_Catalogue l = lastGood yaml files (pl_Catalogue l0) \<and> pl_Catalogue l \<noteq> [] \<and>
    (\<forall>name p. pl_Lookup l name = Some p \<longrightarrow> pName p = name \<and> Preset_Validate p = Inr ()) \<and>
    list_all (\<lambda>p. Preset_Validate p = Inr () \<and> SupportedBy p g) (FilterByGPU l g)"
proof -
  obtain l1 u where r: "Reload yaml file \<lparr>plPath = path, plCat = []\<rparr> = (l1, Inr u)" "l0 = l1"
    using assms(1) by (auto simp: pl_New_def split: prod.splits sum.splits)
  then obtain b where b: "path \<noteq> []" "ParseBytes yaml b = Inr (plCat l0)"
    by (auto simp: Reload_def split: if_splits sum.splits)
  have "plPath l0 \<noteq> []" using r b(1) Reload_path [of yaml "file" "\<lparr>plPath = path, plCat = []\<rparr>"] by simp
  note c = reloads_lastGood [OF this, of yaml files]
  have v: "plCat l \<noteq> [] \<and> list_all (\<lambda>p. Preset_Validate p = Inr ()) (plCat l)"
    using lastGood_valid [of "plCat l0" yaml files] b(2) c assms(2) by (simp add: ParseBytes_ok)
  then show ?thesis
    using c assms(2) Lookup_Some_name [of "plCat l"]
    by (auto simp: pl_Catalogue_def pl_Lookup_def FilterByGPU_def Catalogue_Filter_eq list_all_iff)
qed

text \<open>The file first holds one preset, then an unreadable catalogue: the first one stays in service.\<close>

definition demo_preset :: preset where
  "demo_preset = zero_preset\<lparr>pName := ''h264-720p'', pCodec := ''h264'', pWidthMax := 1280, pHeightMax := 720, pBitrateKbps := 3000\<rparr>"

definition demo_yaml :: "string \<Rightarrow> catalogue result" where
  "demo_yaml b = (if b = ''ok'' then Inr [demo_preset] else if b = ''none'' then Inr [] else Inl (Err ''bad''))"

theorem presets_always_valid_witness:
  "pl_Catalogue (reloads demo_yaml [Inr ''none'', Inl (Err ''gone''), Inr ''x''] \<lparr>plPath = ''p'', plCat = [demo_preset]\<rparr>) =
     [demo_preset]"
proof -
  have p: "Preset_Validate demo_preset = Inr ()" by (simp add: demo_preset_def Preset_Validate_def zero_preset_def)
  have "pl_New demo_yaml (Inr ''ok'') ''p'' = Inr \<lparr>plPath = ''p'', plCat = [demo_preset]\<rparr>"
    using p by (simp add: pl_New_def Reload_def ParseBytes_def demo_yaml_def)
  from presets_always_valid [OF this refl, of "[Inr ''none'', Inl (Err ''gone''), Inr ''x'']" zero_gpu]
  show ?thesis by (simp add: lastGood_def ParseBytes_def demo_yaml_def pl_Catalogue_def)
qed

end
