(* ===== verification/Grpc_Server.thy ===== *)
theory Grpc_Server
  imports Preset_Loader Http_Live
begin

text \<open>
  \<open>internal/runtime/grpc/server.go\<close>: the operator surface. Its operations read the runners, the repository and
  the catalogue that the HTTP surface and the workers use; \<open>Listen\<close> and \<open>Stop\<close> only serve a socket.
\<close>

record ('s, 'b) grpc_config =
  gsMode :: mode
  gsVersion :: string
  gsDev :: bool
  gsGPU :: gpu_profile
  gsRepo :: "('s, json) store_ops"
  gsJobRunner :: "('s, 'b) deps option"
  gsABRRunner :: "('s, 'b) deps option"
  gsLiveRunner :: bool
  gsScheduler :: bool
  gsStartedAt :: time

record health_status =
  hsMode :: mode
  hsVersion :: string
  hsDev :: bool
  hsGPU :: gpu_profile
  hsUptimeSeconds :: rat

record capacity_report =
  crMode :: mode
  crGPU :: gpu_profile
  crMaxQueueSize :: int
  crActiveJobs :: int
  crQueuedJobs :: int
  crActiveStreams :: int
  crGPUSlotsTotal :: int
  crGPULiveReserved :: int
  crGPUCostTotal :: int
  crGPULiveReservedCost :: int
  crGPUActiveSlots :: int
  crGPUActiveBatch :: int
  crGPUActiveLive :: int
  crGPUActiveCost :: int
  crGPUActiveBatchCost :: int
  crGPUActiveLiveCost :: int
  crGPUQueuedBatchJobs :: int

definition grpc_New :: "bool \<Rightarrow> bool \<Rightarrow> time \<Rightarrow> ('s, 'b) grpc_config \<Rightarrow> ('s, 'b) grpc_config result" where
  "grpc_New hasRepo hasPresets now cfg =
     (if \<not> hasRepo then Inl (Err ''grpc: Repo is required'')
      else if \<not> hasPresets then Inl (Err ''grpc: Presets is required'')
      else Inr (cfg\<lparr>gsStartedAt := (if gsStartedAt cfg = zero_time then now else gsStartedAt cfg)\<rparr>))"

definition grpc_Health :: "('s, 'b) grpc_config \<Rightarrow> time \<Rightarrow> health_status" where
  "grpc_Health G now =
     \<lparr>hsMode = gsMode G, hsVersion = gsVersion G, hsDev = gsDev G, hsGPU = gsGPU G,
      hsUptimeSeconds = of_int (now - gsStartedAt G) / of_int second\<rparr>"

text \<open>The filter by phase; the empty phase is no filter.\<close>

fun keepPhase :: "job_phase \<Rightarrow> job list \<Rightarrow> job list" where
  "keepPhase p [] = []"
| "keepPhase p (j # js) = (if jPhase j = p then j # keepPhase p js else keepPhase p js)"

definition ListJobs :: "('s, 'b) grpc_config \<Rightarrow> job_phase option \<Rightarrow> 's \<Rightarrow> job list result" where
  "ListJobs G phase st =
     rbind (Repo_List (gsRepo G) st) (\<lambda>jobs. Inr (case phase of None \<Rightarrow> jobs | Some p \<Rightarrow> keepPhase p jobs))"

definition grpc_GetJob :: "('s, 'b) grpc_config \<Rightarrow> string \<Rightarrow> 's \<Rightarrow> job result" where
  "grpc_GetJob G jid st =
     (if jid = [] then Inl (Err ''grpc: job id required'') else Repo_Get (gsRepo G) st jid)"

definition ForceCancelJob :: "('s, 'b) grpc_config \<Rightarrow> time \<Rightarrow> time \<Rightarrow> string \<Rightarrow> 's \<Rightarrow> 's \<times> unit result" where
  "ForceCancelJob G now now' jid st =
     (if jid = [] then (st, Inl (Err ''grpc: job id required''))
      else
        (case MarkError (gsRepo G) st jid ''FORCE_CANCELLED'' ''operator forced cancellation'' now now' of
           (st, Inl err) \<Rightarrow> (st, Inl err)
         | (st, Inr _) \<Rightarrow> (st, Inr ())))"

text \<open>\<open>GetCapacity\<close>, runner by runner.\<close>

definition vodCapacity :: "('s, 'b) grpc_config \<Rightarrow> job_runner \<Rightarrow> capacity_report \<Rightarrow> capacity_report" where
  "vodCapacity G r rep =
     (case gsJobRunner G of
        None \<Rightarrow> rep
      | Some D \<Rightarrow> rep\<lparr>crMaxQueueSize := MaxConcurrent D, crActiveJobs := crActiveJobs rep + int (ActiveCount r),
                       crQueuedJobs := int (QueueDepth r)\<rparr>)"

definition abrCapacity :: "('s, 'b) grpc_config \<Rightarrow> job_runner \<Rightarrow> capacity_report \<Rightarrow> capacity_report" where
  "abrCapacity G r rep =
     (case gsABRRunner G of
        None \<Rightarrow> rep
      | Some D \<Rightarrow>
          rep\<lparr>crMaxQueueSize := (if crMaxQueueSize rep = 0 then MaxConcurrent D else crMaxQueueSize rep),
              crActiveJobs := crActiveJobs rep + int (ActiveCount r),
              crQueuedJobs := crQueuedJobs rep + int (QueueDepth r)\<rparr>)"

definition gpuCapacity :: "('s, 'b) grpc_config \<Rightarrow> controller \<Rightarrow> capacity_report \<Rightarrow> capacity_report" where
  "gpuCapacity G c rep =
     (if gsScheduler G
      then (let snap = ctl_Snapshot c in
        rep\<lparr>crGPUSlotsTotal := snTotalSlots snap, crGPULiveReserved := snLiveReservedSlots snap,
            crGPUCostTotal := snTotalCost snap, crGPULiveReservedCost := snLiveReservedCost snap,
            crGPUActiveSlots := snActiveSlots snap, crGPUActiveBatch := snActiveBatchSlots snap,
            crGPUActiveLive := snActiveLiveSlots snap, crGPUActiveCost := snActiveCost snap,
            crGPUActiveBatchCost := snActiveBatchCost snap, crGPUActiveLiveCost := snActiveLiveCost snap,
            crGPUQueuedBatchJobs := snQueuedBatch snap\<rparr>)
      else rep)"

definition GetCapacity :: "('s, 'b) grpc_config \<Rightarrow> ('s, 'b, 'k) http_state \<Rightarrow> capacity_report" where
  "GetCapacity G s =
     (let rep = \<lparr>crMode = gsMode G, crGPU = gsGPU G, crMaxQueueSize = 0, crActiveJobs = 0, crQueuedJobs = 0,
          crActiveStreams = 0, crGPUSlotsTotal = 0, crGPULiveReserved = 0, crGPUCostTotal = 0, crGPULiveReservedCost = 0,
          crGPUActiveSlots = 0, crGPUActiveBatch = 0, crGPUActiveLive = 0, crGPUActiveCost = 0, crGPUActiveBatchCost = 0,
          crGPUActiveLiveCost = 0, crGPUQueuedBatchJobs = 0\<rparr>;
          rep = abrCapacity G (stAbr s) (vodCapacity G (stVod s) rep);
          rep = (if gsLiveRunner G then rep\<lparr>crActiveStreams := int (live_ActiveCount (stLive s))\<rparr> else rep)
      in gpuCapacity G (rnSched (stLive s)) rep)"

definition ListPresets :: "loader \<Rightarrow> preset list" where
  "ListPresets l = pl_Catalogue l"

definition ReloadPresets ::
  "(string \<Rightarrow> catalogue result) \<Rightarrow> string result \<Rightarrow> loader \<Rightarrow> loader \<times> (nat \<times> string) result" where
  "ReloadPresets yaml file l =
     (case Reload yaml file l of
        (l, Inl err) \<Rightarrow> (l, Inl err)
      | (l, Inr _) \<Rightarrow> (l, Inr (length (pl_Catalogue l), ''ok'')))"

subsection \<open>What the operator sees and does\<close>

lemma keepPhase_filter: "keepPhase p js = filter (\<lambda>j. jPhase j = p) js"
  by (induction js) auto

text \<open>The capacity counts what the pools and the scheduler hold.\<close>

lemma GetCapacity_jobs:
  assumes "gsJobRunner G = Some D" "gsABRRunner G = Some A"
  shows "crActiveJobs (GetCapacity G s) = int (length (jrActive (stVod s)) + length (jrActive (stAbr s)))"
    "crQueuedJobs (GetCapacity G s) = int (length (jrQueue (stVod s)) + length (jrQueue (stAbr s)))"
  using assms
  by (simp_all add: GetCapacity_def Let_def gpuCapacity_def vodCapacity_def abrCapacity_def ActiveCount_def QueueDepth_def)

text \<open>A job that an operator cancels is an error in the store, and nothing else has changed.\<close>

lemma ForceCancelJob_stored:
  assumes "gsRepo G = memStore_ops" "stored_job w jid j"
  obtains st where "ForceCancelJob G now now' jid (wStore w) = (st, Inr ())"
    "stored_job (w\<lparr>wStore := st\<rparr>) jid
       ((errorJob now ''FORCE_CANCELLED'' ''operator forced cancellation'' j)\<lparr>jUpdatedAt := now', jWebhookSecret := []\<rparr>)"
proof -
  note a = assms(2) [unfolded stored_job_def]
  obtain st where "MarkError memStore_ops (wStore w) jid ''FORCE_CANCELLED'' ''operator forced cancellation'' now now' =
      (st, Inr (errorJob now ''FORCE_CANCELLED'' ''operator forced cancellation'' j))" "mem_inv st"
    "\<And>k. Repo_Get memStore_ops st k =
      (if k = jid then Inr ((errorJob now ''FORCE_CANCELLED'' ''operator forced cancellation'' j)\<lparr>jUpdatedAt := now', jWebhookSecret := []\<rparr>)
       else Repo_Get memStore_ops (wStore w) k)"
    by (rule repo.MarkError_ok [of "wStore w" jid j "''FORCE_CANCELLED''" "''operator forced cancellation''" now now'])
      (use a in auto)
  moreover have "jID (errorJob now code msg j) = jID j" for code msg by (simp add: errorJob_def)
  ultimately show ?thesis using a assms(1)
    by (intro that [of st]) (auto simp: ForceCancelJob_def stored_job_def job_wf_errorJob)
qed

text \<open>
  C35. A forced cancellation does not stop a job that is still in the queue: the operator's call succeeds and the
  record says error, but the worker that pops the id runs the job all the same; if it succeeds, the record says
  complete again and the customer has been charged for a job that was cancelled.
\<close>

theorem force_cancel_ineffective:
  assumes "gsRepo G = memStore_ops" "dStore D = memStore_ops" "stored_job w jid j" "sched_ready w"
    "lookupPreset D w (jPreset j) = Some preset" "ForceCancelJob G now now' jid (wStore w) = (st, res)"
    "runOne D jid (w\<lparr>wStore := st\<rparr>) = (w', Some (Inr ()))"
  shows "res = Inr () \<and> (\<exists>c. Repo_Get memStore_ops st jid = Inr c \<and> jPhase c = PhaseError) \<and>
    (\<exists>j'. Repo_Get memStore_ops (wStore w') jid = Inr j' \<and> jPhase j' = PhaseComplete) \<and>
    (charged D j \<longrightarrow> EvDebit (jSender j) (jWorkID j) (jUnitsPer j) 1 True \<in> set (work (wTrace w')))"
proof -
  let ?c = "(errorJob now ''FORCE_CANCELLED'' ''operator forced cancellation'' j)\<lparr>jUpdatedAt := now', jWebhookSecret := []\<rparr>"
  have c: "res = Inr ()" "stored_job (w\<lparr>wStore := st\<rparr>) jid ?c"
    using ForceCancelJob_stored [OF assms(1,3), of now now'] assms(6) by auto
  have f: "jPreset ?c = jPreset j" "charged D ?c = charged D j" "jSender ?c = jSender j" "jWorkID ?c = jWorkID j"
    "jUnitsPer ?c = jUnitsPer j" "jPhase ?c = PhaseError"
    by (simp_all add: errorJob_def charged_def)
  have "sched_ready (w\<lparr>wStore := st\<rparr>)" "lookupPreset D (w\<lparr>wStore := st\<rparr>) (jPreset ?c) = Some preset"
    using assms(4,5) f(1) by (simp_all add: sched_ready_def lookupPreset_def)
  from vod_success [OF assms(2) c(2) this assms(7)] obtain j' where
    j': "Repo_Get memStore_ops (wStore w') jid = Inr j'" "jPhase j' = PhaseComplete"
    "work (wTrace w') = work (wTrace w) @ fullWork D ?c preset (inputPath D jid) (outputPath D jid)"
    by auto
  have "Repo_Get memStore_ops st jid = Inr ?c" using c(2) by (simp add: stored_job_def)
  moreover have "charged D j \<longrightarrow> EvDebit (jSender j) (jWorkID j) (jUnitsPer j) 1 True \<in> set (work (wTrace w'))"
    using j'(3) by (simp add: fullWork_def f)
  ultimately show ?thesis using c(1) j'(1,2) f(6) by blast
qed

definition demo_grpc :: "(json memStore, fake) grpc_config" where
  "demo_grpc =
     \<lparr>gsMode = ModeUnified, gsVersion = ''dev'', gsDev = True, gsGPU = zero_gpu, gsRepo = memStore_ops,
      gsJobRunner = Some demo_deps, gsABRRunner = None, gsLiveRunner = True, gsScheduler = True, gsStartedAt = 0\<rparr>"

theorem force_cancel_ineffective_witness:
  "\<exists>st w' j'. ForceCancelJob demo_grpc 6 7 ''j1'' (wStore demo_world) = (st, Inr ()) \<and>
     runOne demo_deps ''j1'' (demo_world\<lparr>wStore := st\<rparr>) = (w', Some (Inr ())) \<and>
     Repo_Get memStore_ops (wStore w') ''j1'' = Inr j' \<and> jPhase j' = PhaseComplete \<and>
     EvDebit [] ''w1'' 12 1 True \<in> set (work (wTrace w'))"
proof -
  let ?j = "demo_job\<lparr>jUpdatedAt := 5, jWebhookSecret := []\<rparr>"
  define st where "st = fst (ForceCancelJob demo_grpc 6 7 ''j1'' (wStore demo_world))"
  have f: "ForceCancelJob demo_grpc 6 7 ''j1'' (wStore demo_world) =
      (st, snd (ForceCancelJob demo_grpc 6 7 ''j1'' (wStore demo_world)))" by (simp add: st_def)
  have "snd (runOne demo_deps ''j1'' (demo_world\<lparr>wStore := st\<rparr>)) = Some (Inr ())" unfolding st_def by code_simp
  then obtain w' where run: "runOne demo_deps ''j1'' (demo_world\<lparr>wStore := st\<rparr>) = (w', Some (Inr ()))"
    by (cases "runOne demo_deps ''j1'' (demo_world\<lparr>wStore := st\<rparr>)") auto
  have l: "lookupPreset demo_deps demo_world (jPreset ?j) = Some (zero_preset\<lparr>pName := ''h264-720p''\<rparr>)"
    by (simp add: lookupPreset_def demo_deps_def demo_world_def demo_job_def)
  have g: "gsRepo demo_grpc = memStore_ops" by (simp add: demo_grpc_def)
  have "charged demo_deps ?j" by (simp add: charged_def demo_deps_def demo_job_def)
  with force_cancel_ineffective [OF g demo_basics(1) demo_stored demo_basics(2) l f run]
  show ?thesis using f run by (auto simp: demo_job_def zero_job_def)
qed

end
