(* ===== verification/Lifecycle.thy ===== *)
theory Lifecycle
  imports Worker_Types
begin

text \<open>
  \<open>internal/runtime/lifecycle/lifecycle.go\<close>: the goroutines of the daemon from start to shutdown, as a machine
  whose actions are what the goroutines, the main goroutine and the outside world can do next. The listeners are
  parameters of the code and may fail at any time; the runners return only once the context is cancelled
  (\<open>Run\<close> of \<open>jobrunner.go\<close> and \<open>abrrunner.go\<close> wait for it).
\<close>

datatype service = SvcJob | SvcABR | SvcHTTP | SvcGRPC | SvcMetrics

record lifecycle_config =
  lfMode :: mode
  lfJobRunner :: bool
  lfABRRunner :: bool
  lfLiveRunner :: bool
  lfHTTPListen :: bool
  lfGRPCListen :: bool
  lfGRPCStop :: bool
  lfMetricsListen :: bool
  lfABRPlanFn :: bool

text \<open>The main goroutine waits in the \<open>select\<close>, then for the others, then it has returned.\<close>

datatype lc_main = Selecting | Waiting "go_error option" | Returned "go_error option"

text \<open>
  \<open>lcUp\<close>: the gRPC server has been created, so that \<open>GRPCStop\<close> finds it; \<open>lcStopped\<close>: it was told to stop;
  \<open>lcShutdown\<close>: the live runner was shut down.
\<close>

record lifecycle =
  lcMain :: lc_main
  lcRunning :: "service list"
  lcErrs :: "go_error list"
  lcDone :: bool
  lcUp :: bool
  lcStopped :: bool
  lcShutdown :: bool

definition services :: "lifecycle_config \<Rightarrow> service list" where
  "services cfg =
     (if lfJobRunner cfg then [SvcJob] else []) @ (if lfABRRunner cfg then [SvcABR] else []) @
     (if lfHTTPListen cfg then [SvcHTTP] else []) @ (if lfGRPCListen cfg then [SvcGRPC] else []) @
     (if lfMetricsListen cfg then [SvcMetrics] else [])"

text \<open>The beginning of \<open>Run\<close>; a goroutine that was started before an early return goes on.\<close>

definition lifecycle_start :: "lifecycle_config \<Rightarrow> lifecycle" where
  "lifecycle_start cfg =
     (let s = \<lparr>lcMain = Selecting, lcRunning = [], lcErrs = [], lcDone = False, lcUp = False, lcStopped = False,
               lcShutdown = False\<rparr> in
      case Mode_Validate (lfMode cfg) of
        Inl err \<Rightarrow> s\<lparr>lcMain := Returned (Some err)\<rparr>
      | Inr _ \<Rightarrow>
          if lfABRRunner cfg \<and> \<not> lfABRPlanFn cfg
          then s\<lparr>lcMain := Returned (Some (Err ''lifecycle: ABRPlanFn required when ABRRunner wired'')),
                 lcRunning := (if lfJobRunner cfg then [SvcJob] else [])\<rparr>
          else s\<lparr>lcRunning := services cfg\<rparr>)"

datatype lc_action =
    Cancel
  | GRPCUp
  | Exit service "go_error option"
  | PickDone
  | PickErr
  | Finish

text \<open>What happens after the \<open>select\<close>, in both branches: the operator server stops, the live runner is shut down.\<close>

definition stopPeers :: "lifecycle_config \<Rightarrow> lifecycle \<Rightarrow> lifecycle" where
  "stopPeers cfg s = s\<lparr>lcStopped := (lcStopped s \<or> lfGRPCStop cfg \<and> lcUp s), lcShutdown := lfLiveRunner cfg\<rparr>"

text \<open>
  A service leaves: the runners only after the cancellation, the gRPC server cleanly only when it was stopped.
  Only an error of the HTTP listener reaches the channel; \<open>None\<close> stands for nil and for the cancellation of
  the context, which is not reported.
\<close>

definition leaves :: "lifecycle \<Rightarrow> service \<Rightarrow> go_error option \<Rightarrow> bool" where
  "leaves s x e =
     (case x of
        SvcJob \<Rightarrow> lcDone s \<and> e = None
      | SvcABR \<Rightarrow> lcDone s \<and> e = None
      | SvcHTTP \<Rightarrow> True
      | SvcGRPC \<Rightarrow> lcStopped s \<or> e \<noteq> None
      | SvcMetrics \<Rightarrow> True)"

definition reported :: "service \<Rightarrow> go_error option \<Rightarrow> go_error list" where
  "reported x e =
     (case (x, e) of (SvcHTTP, Some err) \<Rightarrow> [ErrWrap ''http: '' err] | _ \<Rightarrow> [])"

fun lc_do :: "lifecycle_config \<Rightarrow> lc_action \<Rightarrow> lifecycle \<Rightarrow> lifecycle option" where
  "lc_do cfg Cancel s = (if lcDone s then None else Some (s\<lparr>lcDone := True\<rparr>))"
| "lc_do cfg GRPCUp s = (if SvcGRPC \<in> set (lcRunning s) \<and> \<not> lcUp s then Some (s\<lparr>lcUp := True\<rparr>) else None)"
| "lc_do cfg (Exit x e) s =
     (if x \<in> set (lcRunning s) \<and> leaves s x e
      then Some (s\<lparr>lcRunning := remove1 x (lcRunning s), lcErrs := lcErrs s @ reported x e\<rparr>) else None)"
| "lc_do cfg PickDone s =
     (if lcMain s = Selecting \<and> lcDone s then Some ((stopPeers cfg s)\<lparr>lcMain := Waiting None\<rparr>) else None)"
| "lc_do cfg PickErr s =
     (case lcErrs s of
        [] \<Rightarrow> None
      | err # errs \<Rightarrow>
          if lcMain s = Selecting
          then Some ((stopPeers cfg s)\<lparr>lcMain := Waiting (Some err), lcErrs := errs\<rparr>) else None)"
| "lc_do cfg Finish s =
     (case lcMain s of
        Waiting r \<Rightarrow> if lcRunning s = [] then Some (s\<lparr>lcMain := Returned r\<rparr>) else None
      | _ \<Rightarrow> None)"

fun lc_run :: "lifecycle_config \<Rightarrow> lc_action list \<Rightarrow> lifecycle \<Rightarrow> lifecycle option" where
  "lc_run cfg [] s = Some s"
| "lc_run cfg (a # as) s = (case lc_do cfg a s of None \<Rightarrow> None | Some s' \<Rightarrow> lc_run cfg as s')"

lemma lc_run_invariant:
  assumes "\<And>a s s'. I s \<Longrightarrow> lc_do cfg a s = Some s' \<Longrightarrow> I s'" "I s" "lc_run cfg as s = Some t"
  shows "I t"
  using assms(2,3) by (induction as arbitrary: s) (auto split: option.splits intro: assms(1))

lemma map_option_the: "map_option f x = Some y \<Longrightarrow> x = Some (the x) \<and> f (the x) = y"
  by (cases x) auto

subsection \<open>A fatal error does not end the process\<close>

definition runner_wired :: "lifecycle_config \<Rightarrow> bool" where
  "runner_wired cfg \<longleftrightarrow> lfJobRunner cfg \<or> lfABRRunner cfg"

text \<open>Until the context is cancelled the runners run, and the main goroutine waits for them.\<close>

definition held :: "lifecycle_config \<Rightarrow> lifecycle \<Rightarrow> bool" where
  "held cfg s \<longleftrightarrow>
     lcDone s \<or> (\<exists>x \<in> set (lcRunning s). x \<in> {SvcJob, SvcABR}) \<and> (\<forall>r. lcMain s \<noteq> Returned r)"

lemma stopPeers_simps [simp]:
  "lcMain (stopPeers cfg s) = lcMain s" "lcRunning (stopPeers cfg s) = lcRunning s" "lcErrs (stopPeers cfg s) = lcErrs s"
  "lcDone (stopPeers cfg s) = lcDone s" "lcUp (stopPeers cfg s) = lcUp s"
  "lcStopped (stopPeers cfg s) \<longleftrightarrow> lcStopped s \<or> lfGRPCStop cfg \<and> lcUp s"
  by (simp_all add: stopPeers_def)

text \<open>What each action needs and does.\<close>

lemma lc_do_cases:
  assumes "lc_do cfg a s = Some s'"
  obtains (Cancel) "a = Cancel" "\<not> lcDone s" "s' = s\<lparr>lcDone := True\<rparr>"
  | (GRPCUp) "a = GRPCUp" "\<not> lcUp s" "s' = s\<lparr>lcUp := True\<rparr>" "SvcGRPC \<in> set (lcRunning s)"
  | (Exit) x e where "a = Exit x e" "x \<in> set (lcRunning s)" "leaves s x e"
      "s' = s\<lparr>lcRunning := remove1 x (lcRunning s), lcErrs := lcErrs s @ reported x e\<rparr>"
  | (Pick) r errs where "a = PickDone \<or> a = PickErr" "lcMain s = Selecting" "length errs \<le> length (lcErrs s)"
      "s' = (stopPeers cfg s)\<lparr>lcMain := Waiting r, lcErrs := errs\<rparr>"
  | (Finish) r where "a = Finish" "lcMain s = Waiting r" "lcRunning s = []" "s' = s\<lparr>lcMain := Returned r\<rparr>"
proof (cases a)
  case PickDone
  then have c: "lcMain s = Selecting" "s' = (stopPeers cfg s)\<lparr>lcMain := Waiting None, lcErrs := lcErrs s\<rparr>"
    using assms by (auto simp: stopPeers_def split: if_splits)
  show ?thesis by (rule Pick [OF _ c(1) _ c(2)]) (simp_all add: PickDone)
next
  case PickErr
  then obtain e es where c: "lcErrs s = e # es" "lcMain s = Selecting"
      "s' = (stopPeers cfg s)\<lparr>lcMain := Waiting (Some e), lcErrs := es\<rparr>"
    using assms by (auto split: if_splits list.splits)
  show ?thesis by (rule Pick [OF _ c(2) _ c(3)]) (simp_all add: PickErr c(1))
qed (use assms that in \<open>auto split: if_splits lc_main.splits\<close>)

lemma held_step: "held cfg s \<Longrightarrow> lc_do cfg a s = Some s' \<Longrightarrow> held cfg s'"
  by (erule lc_do_cases) (auto simp: held_def leaves_def in_set_remove1 split: service.splits)

lemma held_start:
  assumes "is_ok (Mode_Validate (lfMode cfg))" "lfABRRunner cfg \<longrightarrow> lfABRPlanFn cfg" "runner_wired cfg"
  shows "held cfg (lifecycle_start cfg)"
  using assms by (auto simp: held_def lifecycle_start_def services_def runner_wired_def Let_def split: sum.splits)

text \<open>
  C33. A fatal error does not end the process: with a VOD or ABR runner wired, whatever the listeners do and
  however they fail, \<open>Run\<close> has not returned as long as nobody cancels the context. An HTTP listener that cannot
  bind its port stops the operator server and the live runner, and leaves a daemon that serves nothing.
\<close>

theorem lifecycle_fatal_error_hangs:
  assumes "is_ok (Mode_Validate (lfMode cfg))" "lfABRRunner cfg \<longrightarrow> lfABRPlanFn cfg" "runner_wired cfg"
    "lc_run cfg as (lifecycle_start cfg) = Some t" "Cancel \<notin> set as"
  shows "(\<forall>r. lcMain t \<noteq> Returned r) \<and> lc_do cfg Finish t = None"
proof -
  have h: "held cfg t" using held_start [OF assms(1-3)] assms(4) lc_run_invariant [of "held cfg"] held_step by blast
  have "lcDone t = lcDone (lifecycle_start cfg)"
    using assms(4,5)
  proof (induction as arbitrary: t rule: rev_induct)
    case (snoc a as)
    have app: "lc_run cfg (xs @ ys) s = (case lc_run cfg xs s of None \<Rightarrow> None | Some u \<Rightarrow> lc_run cfg ys u)" for xs ys s
      by (induction xs arbitrary: s) (auto split: option.splits)
    obtain u where u: "lc_run cfg as (lifecycle_start cfg) = Some u" "lc_do cfg a u = Some t"
      using snoc.prems(1) by (auto simp: app split: option.splits)
    have "lcDone t = lcDone u"
      using u(2) snoc.prems(2) by (auto elim!: lc_do_cases)
    then show ?case using snoc.IH [OF u(1)] snoc.prems(2) by simp
  qed simp
  then have "\<not> lcDone t" by (simp add: lifecycle_start_def Let_def split: sum.splits)
  then show ?thesis using h by (auto simp: held_def split: lc_main.splits)
qed

definition demo_lifecycle :: lifecycle_config where
  "demo_lifecycle =
     \<lparr>lfMode = ModeUnified, lfJobRunner = True, lfABRRunner = True, lfLiveRunner = True, lfHTTPListen = True,
      lfGRPCListen = True, lfGRPCStop = True, lfMetricsListen = False, lfABRPlanFn = True\<rparr>"

text \<open>The port is in use.\<close>

definition demo_port_in_use :: "lc_action list" where
  "demo_port_in_use = [GRPCUp, Exit SvcHTTP (Some (Err ''port in use'')), PickErr, Exit SvcGRPC None]"

theorem lifecycle_fatal_error_hangs_witness:
  "\<exists>t. lc_run demo_lifecycle demo_port_in_use (lifecycle_start demo_lifecycle) = Some t \<and>
     lcMain t = Waiting (Some (ErrWrap ''http: '' (Err ''port in use''))) \<and> lcRunning t = [SvcJob, SvcABR] \<and>
     lc_do demo_lifecycle Finish t = None"
proof -
  have m: "is_ok (Mode_Validate (lfMode demo_lifecycle))" by (simp add: demo_lifecycle_def)
  have "map_option (\<lambda>t. (lcMain t, lcRunning t)) (lc_run demo_lifecycle demo_port_in_use (lifecycle_start demo_lifecycle)) =
      Some (Waiting (Some (ErrWrap ''http: '' (Err ''port in use''))), [SvcJob, SvcABR])"
    by code_simp
  then obtain t where t: "lc_run demo_lifecycle demo_port_in_use (lifecycle_start demo_lifecycle) = Some t"
    "lcMain t = Waiting (Some (ErrWrap ''http: '' (Err ''port in use'')))" "lcRunning t = [SvcJob, SvcABR]"
    by auto
  have "lfABRRunner demo_lifecycle \<longrightarrow> lfABRPlanFn demo_lifecycle" "runner_wired demo_lifecycle" "Cancel \<notin> set demo_port_in_use"
    by (simp_all add: demo_lifecycle_def runner_wired_def demo_port_in_use_def)
  from lifecycle_fatal_error_hangs [OF m this(1,2) t(1) this(3)] t show ?thesis by blast
qed

subsection \<open>Shutdown\<close>

definition lc_measure :: "lifecycle \<Rightarrow> nat" where
  "lc_measure s =
     2 * length (lcRunning s) + length (lcErrs s) +
     (case lcMain s of Selecting \<Rightarrow> 2 | Waiting _ \<Rightarrow> 1 | Returned _ \<Rightarrow> 0)"

text \<open>The gRPC server is there when it is told to stop.\<close>

definition stoppable :: "lifecycle_config \<Rightarrow> lifecycle \<Rightarrow> bool" where
  "stoppable cfg s \<longleftrightarrow>
     (SvcGRPC \<in> set (lcRunning s) \<longrightarrow> lcUp s \<and> (if lcMain s = Selecting then lfGRPCStop cfg else lcStopped s))"

lemma stoppable_step:
  assumes "stoppable cfg s \<and> lcDone s" "lc_do cfg a s = Some s'"
  shows "(stoppable cfg s' \<and> lcDone s') \<and> lc_measure s' < lc_measure s"
  using assms(2)
proof (cases rule: lc_do_cases)
  case (Exit x e)
  have n: "length (reported x e) \<le> 1" by (auto simp: reported_def split: service.splits option.splits)
  obtain k where "length (lcRunning s) = Suc k" using length_pos_if_in_set [OF Exit(2)] gr0_implies_Suc by blast
  then show ?thesis
    using assms(1) Exit n by (auto simp: stoppable_def lc_measure_def length_remove1 dest: set_remove1_subset [THEN subsetD])
qed (use assms(1) in \<open>auto simp: stoppable_def lc_measure_def\<close>)

lemma stoppable_progress:
  assumes "stoppable cfg s" "lcDone s" "\<forall>r. lcMain s \<noteq> Returned r"
  shows "\<exists>a s'. a \<in> {PickDone, Finish} \<union> (\<lambda>x. Exit x None) ` UNIV \<and> lc_do cfg a s = Some s'"
proof (cases "lcMain s")
  case Selecting
  then show ?thesis using assms(2) by auto
next
  case (Waiting r)
  show ?thesis
  proof (cases "lcRunning s")
    case Nil
    then show ?thesis using Waiting by auto
  next
    case (Cons x xs)
    then have "leaves s x None" using assms Waiting by (auto simp: leaves_def stoppable_def split: service.splits)
    then have "lc_do cfg (Exit x None) s \<noteq> None" using Cons by simp
    then show ?thesis by blast
  qed
qed (use assms in auto)



text \<open>An operator server that is still starting is missed by the stop and keeps \<open>Run\<close> waiting.\<close>

lemma early_stop_missed:
  assumes "lcMain s = Selecting" "lcDone s" "\<not> lcUp s" "\<not> lcStopped s" "SvcGRPC \<in> set (lcRunning s)"
    "lc_run cfg as s = Some t" "\<forall>e. Exit SvcGRPC (Some e) \<notin> set as" "lcMain t = Waiting r"
    "lc_do cfg PickDone s = Some s1" "as = PickDone # bs"
  shows "SvcGRPC \<in> set (lcRunning t) \<and> lc_do cfg Finish t = None"
proof -
  define I where "I u \<longleftrightarrow> lcMain u \<noteq> Selecting \<and> \<not> lcStopped u \<and> SvcGRPC \<in> set (lcRunning u)" for u :: lifecycle
  have r: "lc_run cfg bs s1 = Some t" using assms(6,9,10) by simp
  have "I s1" using assms by (auto simp: I_def stopPeers_def split: if_splits)
  moreover have "\<forall>e. Exit SvcGRPC (Some e) \<notin> set bs" using assms(7,10) by simp
  ultimately have "I t" using r
  proof (induction bs arbitrary: s1)
    case (Cons b bs)
    then obtain u where u: "lc_do cfg b s1 = Some u" "lc_run cfg bs u = Some t" by (auto split: option.splits)
    have "I u" using u(1) Cons.prems(1,2)
      by (cases rule: lc_do_cases) (auto simp: I_def leaves_def in_set_remove1 split: service.splits)
    then show ?case using Cons.IH [of u] Cons.prems(2) u(2) by simp
  qed simp
  then show ?thesis using assms(8) by (auto simp: I_def split: lc_main.splits)
qed

end
