(* ===== verification/Catalog_Verify.thy ===== *)
theory Catalog_Verify
  imports "HOL-Library.Multiset" Worker_Config Payment_Client
begin

text \<open>
  \<open>cmd/livepeer-video-worker-node/verify.go\<close>: at startup the worker refuses a payment daemon whose catalogue is
  not its own. \<open>sort.Slice\<close> is not stable, so the sorting of the rows is a parameter \<open>srt\<close>; the identifiers
  of the offerings are compared as a whole, for them any sorting is \<open>sort\<close>.
\<close>

record normalized_capability =
  ncCapability :: string
  ncWorkUnit :: string
  ncOfferings :: "string list"

type_synonym row_sort = "normalized_capability list \<Rightarrow> normalized_capability list"

definition normalizeCapability :: "registry_capability \<Rightarrow> normalized_capability" where
  "normalizeCapability c =
     \<lparr>ncCapability = capName c, ncWorkUnit = capWorkUnit c, ncOfferings = sort (map roID (capOfferings c))\<rparr>"

definition normalizeConfigCapabilities :: "row_sort \<Rightarrow> registry_capability list \<Rightarrow> normalized_capability list" where
  "normalizeConfigCapabilities srt caps = srt (map normalizeCapability caps)"

definition normalizeDaemonCapability :: "daemon_capability \<Rightarrow> normalized_capability" where
  "normalizeDaemonCapability c =
     \<lparr>ncCapability = dcCapability c, ncWorkUnit = dcWorkUnit c, ncOfferings = sort (map opID (dcOfferings c))\<rparr>"

definition normalizeDaemonCapabilities :: "row_sort \<Rightarrow> daemon_capability list \<Rightarrow> normalized_capability list" where
  "normalizeDaemonCapabilities srt caps = srt (map normalizeDaemonCapability caps)"

text \<open>The two loops, over lists of the same length.\<close>

fun verifyOfferings :: "string \<Rightarrow> nat \<Rightarrow> string list \<Rightarrow> string list \<Rightarrow> unit result" where
  "verifyOfferings pre j (w # ws) (g # gs) =
     (if w \<noteq> g
      then Inl (Err (pre @ '' offering['' @ show_nat j @ ''] id worker='' @ Quote w @ '' daemon='' @ Quote g))
      else verifyOfferings pre (j + 1) ws gs)"
| "verifyOfferings pre j _ _ = Inr ()"

definition verifyCapability :: "nat \<Rightarrow> normalized_capability \<Rightarrow> normalized_capability \<Rightarrow> unit result" where
  "verifyCapability i w g =
     (let pre = ''payment-daemon catalog mismatch: capability['' @ show_nat i @ '']'' in
      if ncCapability w \<noteq> ncCapability g
      then Inl (Err (pre @ '' worker='' @ Quote (ncCapability w) @ '' daemon='' @ Quote (ncCapability g)))
      else
        (let pre = pre @ '' ('' @ Quote (ncCapability w) @ '')'' in
         if ncWorkUnit w \<noteq> ncWorkUnit g
         then Inl (Err (pre @ '' work_unit worker='' @ Quote (ncWorkUnit w) @ '' daemon='' @ Quote (ncWorkUnit g)))
         else if length (ncOfferings w) \<noteq> length (ncOfferings g)
         then Inl (Err (pre @ '' offering count worker='' @ show_nat (length (ncOfferings w)) @ '' daemon='' @
                show_nat (length (ncOfferings g))))
         else verifyOfferings pre 0 (ncOfferings w) (ncOfferings g)))"

fun verifyCapabilities :: "nat \<Rightarrow> normalized_capability list \<Rightarrow> normalized_capability list \<Rightarrow> unit result" where
  "verifyCapabilities i (w # ws) (g # gs) =
     rbind (verifyCapability i w g) (\<lambda>_. verifyCapabilities (i + 1) ws gs)"
| "verifyCapabilities i _ _ = Inr ()"

definition verifyPaymentDaemonCatalog ::
  "row_sort \<Rightarrow> registry_capability list \<Rightarrow> daemon_capability list \<Rightarrow> unit result" where
  "verifyPaymentDaemonCatalog srt caps daemon =
     (let want = normalizeConfigCapabilities srt caps; got = normalizeDaemonCapabilities srt daemon in
      if length got \<noteq> length want
      then Inl (Err (''payment-daemon catalog mismatch: worker has '' @ show_nat (length want) @
             '' capabilities, daemon has '' @ show_nat (length got)))
      else verifyCapabilities 0 want got)"

subsection \<open>What agreement means\<close>

lemma verifyOfferings_iff:
  "length ws = length gs \<Longrightarrow> verifyOfferings pre j ws gs = Inr () \<longleftrightarrow> ws = gs"
  by (induction pre j ws gs rule: verifyOfferings.induct) auto

lemma verifyCapability_iff: "verifyCapability i w g = Inr () \<longleftrightarrow> w = g"
  by (cases w; cases g) (auto simp: verifyCapability_def Let_def verifyOfferings_iff)

lemma verifyCapabilities_iff:
  "length ws = length gs \<Longrightarrow> verifyCapabilities i ws gs = Inr () \<longleftrightarrow> ws = gs"
  by (induction i ws gs rule: verifyCapabilities.induct) (auto simp: rbind_eq_Inr verifyCapability_iff)

text \<open>What \<open>sort.Slice\<close> with the comparison of the names promises, stable or not.\<close>

locale slice_sort =
  fixes srt :: row_sort
  assumes mset_srt: "mset (srt rows) = mset rows"
    and sorted_srt: "sorted (map ncCapability (srt rows))"
begin

lemma same_rows:
  assumes "distinct (map ncCapability xs)" "mset xs = mset ys"
  shows "srt xs = srt ys"
proof -
  have d: "distinct (map ncCapability zs)" if "mset zs = mset xs" for zs
    using assms(1) that by (metis distinct_map mset_eq_setD mset_eq_imp_distinct_iff)
  have m: "mset (srt xs) = mset xs" "mset (srt ys) = mset xs" using mset_srt assms(2) by simp_all
  have "inj_on ncCapability (set (srt xs) \<union> set (srt ys))"
    using assms(1) mset_eq_setD [OF m(1)] mset_eq_setD [OF m(2)] by (simp add: distinct_map)
  then show ?thesis
    using map_sorted_distinct_set_unique [of ncCapability "srt xs" "srt ys"] sorted_srt d m
      mset_eq_setD [OF m(1)] mset_eq_setD [OF m(2)] by simp
qed

lemma verify_iff:
  assumes "distinct (map capName caps)"
  shows "verifyPaymentDaemonCatalog srt caps daemon = Inr () \<longleftrightarrow>
    mset (map normalizeCapability caps) = mset (map normalizeDaemonCapability daemon)"
proof -
  let ?w = "map normalizeCapability caps" and ?g = "map normalizeDaemonCapability daemon"
  have d: "distinct (map ncCapability ?w)" using assms by (simp add: comp_def normalizeCapability_def)
  have l: "length (srt rows) = length rows" for rows using mset_srt by (metis size_mset)
  have "verifyPaymentDaemonCatalog srt caps daemon = Inr () \<longleftrightarrow> srt ?w = srt ?g"
    by (auto simp: verifyPaymentDaemonCatalog_def normalizeConfigCapabilities_def normalizeDaemonCapabilities_def Let_def
        verifyCapabilities_iff)
  also have "\<dots> \<longleftrightarrow> mset ?w = mset ?g" using same_rows [OF d] mset_srt by metis
  finally show ?thesis .
qed

text \<open>Whatever the worker offers, a daemon that passed knows.\<close>

lemma row_known:
  assumes "verifyPaymentDaemonCatalog srt caps daemon = Inr ()" "c \<in> set caps" "r \<in> set (capOfferings c)"
  shows "\<exists>d \<in> set daemon. dcCapability d = capName c \<and> dcWorkUnit d = capWorkUnit c \<and> roID r \<in> opID ` set (dcOfferings d)"
proof -
  let ?w = "map normalizeCapability caps" and ?g = "map normalizeDaemonCapability daemon"
  have "srt ?w = srt ?g"
    using assms(1)
    by (auto simp: verifyPaymentDaemonCatalog_def normalizeConfigCapabilities_def normalizeDaemonCapabilities_def Let_def
        verifyCapabilities_iff split: if_splits)
  then have "set ?w = set ?g" using mset_srt by (metis mset_eq_setD)
  with assms(2) obtain d where d: "d \<in> set daemon" "normalizeCapability c = normalizeDaemonCapability d" by auto
  from d(2) have "sort (map roID (capOfferings c)) = sort (map opID (dcOfferings d))" "capName c = dcCapability d"
    "capWorkUnit c = dcWorkUnit d"
    by (simp_all add: normalizeCapability_def normalizeDaemonCapability_def)
  then have "set (map roID (capOfferings c)) = set (map opID (dcOfferings d))" by (metis set_sort)
  then have "roID r \<in> opID ` set (dcOfferings d)" using assms(3) by auto
  then show ?thesis using d(1) \<open>capName c = dcCapability d\<close> \<open>capWorkUnit c = dcWorkUnit d\<close> by auto
qed

end

text \<open>A stable sort is one of them.\<close>

interpretation stable: slice_sort "sort_key ncCapability"
  by unfold_locales simp_all

text \<open>
  C36. The startup check accepts exactly the daemons with the worker's own catalogue: for a worker with distinct
  capability names, whatever the order of the rows on both sides and however the sort treats equal rows, the
  check passes if and only if both catalogues have the same rows of a capability with its work unit and its
  offering ids. Prices are not compared.
\<close>

theorem daemon_catalog_exact:
  assumes "\<And>rows. mset (srt rows) = mset rows \<and> sorted (map ncCapability (srt rows))" "distinct (map capName caps)"
  shows "verifyPaymentDaemonCatalog srt caps daemon = Inr () \<longleftrightarrow>
    mset (map (\<lambda>c. (capName c, capWorkUnit c, mset (map roID (capOfferings c)))) caps) =
    mset (map (\<lambda>c. (dcCapability c, dcWorkUnit c, mset (map opID (dcOfferings c)))) daemon)"
proof -
  define f where "f r = (ncCapability r, ncWorkUnit r, mset (ncOfferings r))" for r :: normalized_capability
  define rs where "rs = set (map normalizeCapability caps) \<union> set (map normalizeDaemonCapability daemon)"
  have srt: "slice_sort srt" using assms(1) by unfold_locales blast+
  have "sorted (ncOfferings r)" if "r \<in> rs" for r
    using that by (auto simp: rs_def normalizeCapability_def normalizeDaemonCapability_def)
  note sorted = this
  have inj: "x = y" if "x \<in> rs" "y \<in> rs" "f x = f y" for x y
  proof -
    have "ncOfferings x = ncOfferings y"
      using sorted [OF that(1)] sorted [OF that(2)] that(3) properties_for_sort [of "ncOfferings x" "ncOfferings y"]
      by (simp add: f_def sorted_sort_id)
    with that(3) show ?thesis by (cases x; cases y) (simp add: f_def)
  qed
  have "mset (map normalizeCapability caps) = mset (map normalizeDaemonCapability daemon) \<longleftrightarrow>
      image_mset f (mset (map normalizeCapability caps)) = image_mset f (mset (map normalizeDaemonCapability daemon))"
  proof
    let ?w = "mset (map normalizeCapability caps)" and ?g = "mset (map normalizeDaemonCapability daemon)"
    assume e: "image_mset f ?w = image_mset f ?g"
    have "x = y" if "x \<in># ?w" "y \<in># ?g" "f x = f y" for x y
      using that(1,2) by (intro inj that(3)) (simp_all add: rs_def)
    from multiset.inj_map_strong [OF this e] show "?w = ?g" by blast
  qed simp
  then show ?thesis
    unfolding slice_sort.verify_iff [OF srt assms(2)]
    by (simp add: f_def normalizeCapability_def normalizeDaemonCapability_def multiset.map_comp comp_def)
qed

text \<open>The same two capabilities in another order.\<close>

definition demo_row :: "string \<Rightarrow> string list \<Rightarrow> registry_capability" where
  "demo_row name ids =
     \<lparr>capName = name, capWorkUnit = ''token'', capExtra = None,
      capOfferings = map (\<lambda>i. \<lparr>roID = i, roPricePerWorkUnitWei = ''7'', roBackendURL = ''http://x'', roConstraints = None\<rparr>) ids\<rparr>"

definition demo_daemon_row :: "string \<Rightarrow> string list \<Rightarrow> daemon_capability" where
  "demo_daemon_row name ids =
     \<lparr>dcCapability = name, dcWorkUnit = ''token'', dcOfferings = map (\<lambda>i. \<lparr>opID = i, opPricePerWorkUnitWei = ''9''\<rparr>) ids\<rparr>"

theorem daemon_catalog_exact_witness:
  "verifyPaymentDaemonCatalog (sort_key ncCapability) [demo_row ''v'' [''b'', ''a''], demo_row ''l'' [''c'']]
     [demo_daemon_row ''l'' [''c''], demo_daemon_row ''v'' [''a'', ''b'']] = Inr () \<and>
   verifyPaymentDaemonCatalog (sort_key ncCapability) [demo_row ''v'' [''b'', ''a'']] [demo_daemon_row ''v'' [''a'']] \<noteq> Inr ()"
proof -
  have s: "mset (sort_key ncCapability rows) = mset rows \<and> sorted (map ncCapability (sort_key ncCapability rows))"
    for rows :: "normalized_capability list" by simp
  show ?thesis
    by (subst daemon_catalog_exact [OF s]; simp add: demo_row_def demo_daemon_row_def add_mset_commute)+
qed

end
