(* ===== verification/Observability.thy ===== *)
theory Observability
  imports Scheduler Worker_Types Go_Scan "HOL-Library.AList"
begin

text \<open>
  What an operator sees: \<open>internal/providers/logger\<close> (the choice of level and format), \<open>internal/providers/metrics\<close>
  (the names of the metrics) and \<open>internal/runtime/metrics\<close> (the text of the endpoint \<open>/metrics\<close>).
\<close>

subsection \<open>The logger\<close>

datatype log_level = LevelDebug | LevelInfo | LevelWarn | LevelError

datatype log_handler = JSONHandler log_level | TextHandler log_level

definition parseLevel :: "string \<Rightarrow> log_level result" where
  "parseLevel level =
     (if level = ''debug'' then Inr LevelDebug
      else if level = ''info'' then Inr LevelInfo
      else if level = ''warn'' then Inr LevelWarn
      else if level = ''error'' then Inr LevelError
      else Inl (Err (''invalid log level '' @ Quote level)))"

definition logger_Build :: "string \<Rightarrow> string \<Rightarrow> log_handler result" where
  "logger_Build level format =
     (case parseLevel level of
        Inl e \<Rightarrow> Inl e
      | Inr lvl \<Rightarrow>
          if format = ''json'' then Inr (JSONHandler lvl)
          else if format = ''text'' then Inr (TextHandler lvl)
          else Inl (Err (''invalid log format '' @ Quote format)))"

definition logger_Discard :: log_handler where
  "logger_Discard = TextHandler LevelError"

lemma logger_Build_ok:
  "is_ok (logger_Build level format) \<longleftrightarrow>
     level \<in> {''debug'', ''info'', ''warn'', ''error''} \<and> format \<in> {''json'', ''text''}"
  by (auto simp: logger_Build_def parseLevel_def)

subsection \<open>The names of the metrics\<close>

abbreviation (input) metric_name :: "string \<Rightarrow> string" where
  "metric_name n \<equiv> ''livepeer_videoworker_'' @ n"

definition NameBuildInfo :: string where "NameBuildInfo = metric_name ''build_info''"
definition NameJobActive :: string where "NameJobActive = metric_name ''jobs_active''"
definition NameStreamsActive :: string where "NameStreamsActive = metric_name ''streams_active''"
definition NameGPUMaxSessions :: string where "NameGPUMaxSessions = metric_name ''gpu_max_sessions''"
definition NameGPUSlotsTotal :: string where "NameGPUSlotsTotal = metric_name ''gpu_slots_total''"
definition NameGPUSessionsInflight :: string where "NameGPUSessionsInflight = metric_name ''gpu_sessions_inflight''"
definition NameGPULiveReserved :: string where "NameGPULiveReserved = metric_name ''gpu_live_reserved_slots''"
definition NameGPUCostCapacity :: string where "NameGPUCostCapacity = metric_name ''gpu_cost_capacity''"
definition NameGPUCostInflight :: string where "NameGPUCostInflight = metric_name ''gpu_cost_inflight''"
definition NameGPULiveReservedCost :: string where "NameGPULiveReservedCost = metric_name ''gpu_live_reserved_cost''"
definition NameGPUBatchQueued :: string where "NameGPUBatchQueued = metric_name ''gpu_batch_queue_depth''"

subsection \<open>The text\<close>

definition helpType :: "string \<Rightarrow> string \<Rightarrow> string \<Rightarrow> string" where
  "helpType name help typ =
     ''# HELP '' @ name @ '' '' @ help @ [CHR 0x0A] @ ''# TYPE '' @ name @ '' '' @ typ"

text \<open>\<open>strings.ReplaceAll\<close> of one character.\<close>

definition ReplaceChar :: "char \<Rightarrow> string \<Rightarrow> string \<Rightarrow> string" where
  "ReplaceChar c r s = concat (map (\<lambda>x. if x = c then r else [x]) s)"

definition escapeLabel :: "string \<Rightarrow> string" where
  "escapeLabel v =
     ReplaceChar (CHR 0x22) [CHR 0x5C, CHR 0x22]
       (ReplaceChar (CHR 0x0A) [CHR 0x5C, CHR ''n''] (ReplaceChar (CHR 0x5C) [CHR 0x5C, CHR 0x5C] v))"

text \<open>A Go map with distinct keys.\<close>

definition renderLabels :: "(string \<times> string) list \<Rightarrow> string" where
  "renderLabels labels =
     (if labels = [] then []
      else ''{'' @ join_with '',''
        (map (\<lambda>key. key @ ''='' @ [CHR 0x22] @ escapeLabel (the (map_of labels key)) @ [CHR 0x22])
          (sort (map fst labels))) @ ''}'')"

definition metric :: "string \<Rightarrow> (string \<times> string) list \<Rightarrow> rat \<Rightarrow> string" where
  "metric name labels value = name @ renderLabels labels @ '' '' @ show_g value"

record scheduler_snapshot =
  ssTotalSlots :: int
  ssLiveReservedSlots :: int
  ssTotalCost :: int
  ssLiveReservedCost :: int
  ssActiveSlots :: int
  ssActiveCost :: int
  ssQueuedBatch :: int

record metrics_snapshot =
  msGPUVendor :: string
  msGPUMaxSessions :: int
  msActiveJobs :: int
  msActiveStreams :: int
  msScheduler :: scheduler_snapshot

record metrics_server =
  mtAddr :: string
  mtMaxSeries :: int
  mtBoundAddr :: string

definition metrics_New :: "string \<Rightarrow> int \<Rightarrow> metrics_server option result" where
  "metrics_New addr maxSeries =
     (if addr = [] then Inr None else Inr (Some \<lparr>mtAddr = addr, mtMaxSeries = maxSeries, mtBoundAddr = []\<rparr>))"

definition gauge :: "(string \<times> string) list \<Rightarrow> string \<Rightarrow> string \<Rightarrow> int \<Rightarrow> string list" where
  "gauge labels name help n = [helpType name help ''gauge'', metric name labels (rnd64 (of_int n))]"

definition metricLines :: "metrics_snapshot option \<Rightarrow> string list" where
  "metricLines snapshotFn =
     (case snapshotFn of
        None \<Rightarrow> []
      | Some snap \<Rightarrow>
          (let s = msScheduler snap;
               labels = [(''gpu_vendor'', if msGPUVendor snap = [] then ''none'' else msGPUVendor snap)]
           in
            gauge labels NameGPUMaxSessions ''detected maximum GPU sessions'' (msGPUMaxSessions snap) @
            gauge labels NameGPUSlotsTotal ''configured total scheduler slots'' (ssTotalSlots s) @
            gauge labels NameGPUSessionsInflight ''active GPU sessions admitted by scheduler'' (ssActiveSlots s) @
            gauge labels NameGPUCostCapacity ''configured total scheduler cost units'' (ssTotalCost s) @
            gauge labels NameGPUCostInflight ''active scheduler cost units in use'' (ssActiveCost s) @
            gauge labels NameGPULiveReserved ''scheduler slots reserved for live workloads'' (ssLiveReservedSlots s) @
            gauge labels NameGPULiveReservedCost ''scheduler cost units reserved for live workloads'' (ssLiveReservedCost s) @
            gauge labels NameGPUBatchQueued ''batch jobs waiting on scheduler admission'' (ssQueuedBatch s) @
            gauge labels NameJobActive ''active batch jobs across VOD and ABR runners'' (msActiveJobs snap) @
            gauge labels NameStreamsActive ''active live streams'' (msActiveStreams snap)))"

definition metricsPage :: "metrics_snapshot option \<Rightarrow> string" where
  "metricsPage snapshotFn =
     ''# HELP '' @ NameBuildInfo @ '' daemon build info'' @ [CHR 0x0A] @
     ''# TYPE '' @ NameBuildInfo @ '' gauge'' @ [CHR 0x0A] @ NameBuildInfo @ '' 1'' @ [CHR 0x0A] @
     concat (map (\<lambda>l. l @ [CHR 0x0A]) (metricLines snapshotFn))"

subsection \<open>Labels survive\<close>

definition escapeChar :: "char \<Rightarrow> string" where
  "escapeChar c =
     (if c = CHR 0x5C then [CHR 0x5C, CHR 0x5C]
      else if c = CHR 0x0A then [CHR 0x5C, CHR ''n'']
      else if c = CHR 0x22 then [CHR 0x5C, CHR 0x22] else [c])"

lemma ReplaceChar_simps [simp]:
  "ReplaceChar c r [] = []" "ReplaceChar c r (x # s) = (if x = c then r else [x]) @ ReplaceChar c r s"
  by (simp_all add: ReplaceChar_def)

lemma ReplaceChar_append [simp]: "ReplaceChar c r (s @ t) = ReplaceChar c r s @ ReplaceChar c r t"
  by (simp add: ReplaceChar_def)

text \<open>The three passes do what one pass over the characters does: none touches what another has written.\<close>

lemma escapeLabel_chars: "escapeLabel v = concat (map escapeChar v)"
  by (induction v) (auto simp: escapeLabel_def escapeChar_def)

text \<open>What Prometheus reads between the quotes.\<close>

fun unescape :: "string \<Rightarrow> string" where
  "unescape [] = []"
| "unescape [c] = [c]"
| "unescape (c # d # s) =
     (if c = CHR 0x5C then (if d = CHR ''n'' then CHR 0x0A else d) # unescape s else c # unescape (d # s))"

lemma unescape_char: "unescape (escapeChar c @ s) = c # unescape s"
  by (cases s) (auto simp: escapeChar_def)

lemma unescape_escapeLabel: "unescape (escapeLabel v) = v"
  by (induction v) (simp_all add: escapeLabel_chars unescape_char)

lemma escapeLabel_inj: "escapeLabel v = escapeLabel w \<longleftrightarrow> v = w"
  by (metis unescape_escapeLabel)

lemma escapeLabel_one_line: "CHR 0x0A \<notin> set (escapeLabel v)"
  by (induction v) (auto simp: escapeLabel_chars escapeChar_def)

lemma metricLines_length: "length (metricLines (Some s)) = 20"
  by (simp add: metricLines_def gauge_def Let_def)

lemma metrics_example:
  "metric NameJobActive [(''gpu_vendor'', ''none'')] 3 =
     ''livepeer_videoworker_jobs_active{gpu_vendor='' @ [CHR 0x22] @ ''none'' @ [CHR 0x22] @ ''} 3''"
  by code_simp

end
