(* ===== verification/Shell_Fake.thy ===== *)
theory Shell_Fake
  imports Shell_Client
begin

text \<open>
  \<open>internal/providers/shellclient/fake.go\<close>: the gateway that a daemon in development mode and the tests talk to.
  Every call is recorded; the answer is the programmed one, or a default that lets everything pass.
\<close>

record shell_fake =
  sfValidateFunc :: "(string \<times> string \<Rightarrow> validate_result result) option"
  sfPostEventFunc :: "(worker_event \<Rightarrow> unit result) option"
  sfSessionActiveFunc :: "(string \<times> string \<times> time \<Rightarrow> string result) option"
  sfSessionTickFunc :: "(tick_input \<Rightarrow> tick_result result) option"
  sfSessionEndedFunc :: "(ended_input \<Rightarrow> bool \<times> go_error option) option"
  sfRecordingFinalizedFunc :: "(recording_input \<Rightarrow> string result) option"
  sfTopupFunc :: "(string \<times> int \<Rightarrow> topup_result result) option"
  sfValidateCalls :: "(string \<times> string) list"
  sfEventCalls :: "(worker_event) list"
  sfSessionActiveCalls :: "(string \<times> string \<times> time) list"
  sfSessionTickCalls :: "(tick_input) list"
  sfSessionEndedCalls :: "(ended_input) list"
  sfRecordingFinalizedCalls :: "(recording_input) list"
  sfTopupCalls :: "(string \<times> int) list"

definition shell_NewFake :: shell_fake where
  "shell_NewFake =
     \<lparr>sfValidateFunc = None, sfPostEventFunc = None, sfSessionActiveFunc = None, sfSessionTickFunc = None,
      sfSessionEndedFunc = None, sfRecordingFinalizedFunc = None, sfTopupFunc = None,
      sfValidateCalls = [], sfEventCalls = [], sfSessionActiveCalls = [], sfSessionTickCalls = [],
      sfSessionEndedCalls = [], sfRecordingFinalizedCalls = [], sfTopupCalls = []\<rparr>"

definition programmed :: "('i \<Rightarrow> 'a) option \<Rightarrow> 'a \<Rightarrow> 'i \<Rightarrow> 'a" where
  "programmed fn dflt x = (case fn of Some f \<Rightarrow> f x | None \<Rightarrow> dflt)"

definition fakeShell_ValidateKey :: "string \<times> string \<Rightarrow> shell_fake \<Rightarrow> shell_fake \<times> (validate_result result)" where
  "fakeShell_ValidateKey x f =
     (f\<lparr>sfValidateCalls := sfValidateCalls f @ [x]\<rparr>, programmed (sfValidateFunc f)
        (Inr \<lparr>vAccepted = True, vStreamID = ''live_fake'', vProjectID = ''proj_fake'', vRecordingEnabled = True\<rparr>) x)"

definition fakeShell_PostEvent :: "worker_event \<Rightarrow> shell_fake \<Rightarrow> shell_fake \<times> (unit result)" where
  "fakeShell_PostEvent x f =
     (f\<lparr>sfEventCalls := sfEventCalls f @ [x]\<rparr>, programmed (sfPostEventFunc f)
        (Inr ()) x)"

definition fakeShell_SessionActive :: "string \<times> string \<times> time \<Rightarrow> shell_fake \<Rightarrow> shell_fake \<times> (string result)" where
  "fakeShell_SessionActive x f =
     (f\<lparr>sfSessionActiveCalls := sfSessionActiveCalls f @ [x]\<rparr>, programmed (sfSessionActiveFunc f)
        (Inr ''rsv_fake'') x)"

definition fakeShell_SessionTick :: "tick_input \<Rightarrow> shell_fake \<Rightarrow> shell_fake \<times> (tick_result result)" where
  "fakeShell_SessionTick x f =
     (f\<lparr>sfSessionTickCalls := sfSessionTickCalls f @ [x]\<rparr>, programmed (sfSessionTickFunc f)
        (Inr \<lparr>trBalanceCents = 10000, trRunwaySeconds = 200000, trGraceTriggered = False\<rparr>) x)"

definition fakeShell_SessionEnded :: "ended_input \<Rightarrow> shell_fake \<Rightarrow> shell_fake \<times> (bool \<times> go_error option)" where
  "fakeShell_SessionEnded x f =
     (f\<lparr>sfSessionEndedCalls := sfSessionEndedCalls f @ [x]\<rparr>, programmed (sfSessionEndedFunc f)
        ((True, None)) x)"

definition fakeShell_RecordingFinalized :: "recording_input \<Rightarrow> shell_fake \<Rightarrow> shell_fake \<times> (string result)" where
  "fakeShell_RecordingFinalized x f =
     (f\<lparr>sfRecordingFinalizedCalls := sfRecordingFinalizedCalls f @ [x]\<rparr>, programmed (sfRecordingFinalizedFunc f)
        (Inr ''asset_fake'') x)"

definition fakeShell_Topup :: "string \<times> int \<Rightarrow> shell_fake \<Rightarrow> shell_fake \<times> (topup_result result)" where
  "fakeShell_Topup x f =
     (f\<lparr>sfTopupCalls := sfTopupCalls f @ [x]\<rparr>, programmed (sfTopupFunc f)
        (Inr \<lparr>tpSucceeded = True, tpAuthorizedCents = 100, tpBalanceCents = 10000\<rparr>) x)"

text \<open>\<open>Snapshot\<close> copies the recorded calls.\<close>

definition fakeShell_Snapshot ::
  "shell_fake \<Rightarrow> (string \<times> string) list \<times> worker_event list \<times> (string \<times> string \<times> time) list \<times> tick_input list \<times>
   ended_input list \<times> recording_input list \<times> (string \<times> int) list" where
  "fakeShell_Snapshot f =
     (sfValidateCalls f, sfEventCalls f, sfSessionActiveCalls f, sfSessionTickCalls f, sfSessionEndedCalls f,
      sfRecordingFinalizedCalls f, sfTopupCalls f)"

text \<open>The fake as the client that the live runner uses; the answers do not depend on what was called before.\<close>

definition fake_shell :: "shell_fake \<Rightarrow> 'h shell_client" where
  "fake_shell f =
     \<lparr>scValidateKey = (\<lambda>_ k u. snd (fakeShell_ValidateKey (k, u) f)),
      scPostEvent = (\<lambda>_ e. snd (fakeShell_PostEvent e f)),
      scSessionActive = (\<lambda>_ s u t. snd (fakeShell_SessionActive (s, u, t) f)),
      scSessionTick = (\<lambda>_ i. snd (fakeShell_SessionTick i f)),
      scSessionEnded = (\<lambda>_ i. snd (fakeShell_SessionEnded i f)),
      scRecordingFinalized = (\<lambda>_ i. snd (fakeShell_RecordingFinalized i f)),
      scTopup = (\<lambda>_ s n. snd (fakeShell_Topup (s, n) f))\<rparr>"

lemmas fakeShell_defs = fakeShell_ValidateKey_def fakeShell_PostEvent_def fakeShell_SessionActive_def fakeShell_SessionTick_def fakeShell_SessionEnded_def fakeShell_RecordingFinalized_def fakeShell_Topup_def programmed_def

text \<open>Recording a call does not change an answer, so the client may be taken before or after any calls.\<close>

lemma fake_shell_stable:
  "fake_shell (fst (fakeShell_ValidateKey x f)) = fake_shell f"
  "fake_shell (fst (fakeShell_PostEvent e f)) = fake_shell f"
  "fake_shell (fst (fakeShell_SessionActive a f)) = fake_shell f"
  "fake_shell (fst (fakeShell_SessionTick t f)) = fake_shell f"
  "fake_shell (fst (fakeShell_SessionEnded d f)) = fake_shell f"
  "fake_shell (fst (fakeShell_RecordingFinalized r f)) = fake_shell f"
  "fake_shell (fst (fakeShell_Topup p f)) = fake_shell f"
  by (simp_all add: fake_shell_def fakeShell_defs)

text \<open>In development mode every key is accepted, all under one stream, and no balance ever runs low.\<close>

lemma dev_shell_accepts:
  "scValidateKey (fake_shell shell_NewFake) h k u =
     Inr \<lparr>vAccepted = True, vStreamID = ''live_fake'', vProjectID = ''proj_fake'', vRecordingEnabled = True\<rparr>"
  "scSessionTick (fake_shell shell_NewFake) h i =
     Inr \<lparr>trBalanceCents = 10000, trRunwaySeconds = 200000, trGraceTriggered = False\<rparr>"
  by (simp_all add: fake_shell_def shell_NewFake_def fakeShell_defs)

end
