(* ===== verification/Boot.thy ===== *)
theory Boot
  imports Http_Live Gpu_Detect Grpc_Server Lifecycle Catalog_Verify Live_Encoder Observability Shell_Fake
begin

text \<open>
  \<open>cmd/livepeer-video-worker-node/run.go\<close>: from the command line to the wired daemon. \<open>run\<close> ends with an exit
  code and a line on standard error, or hands the wiring to \<open>lifecycle.Run\<close>. Flag parsing, the file system, the subprocesses, BoltDB, YAML and the connection to the payment daemon answer through the
  record \<open>boot_env\<close>, which also holds templates of the dependencies with the environment of the runners.
\<close>

subsection \<open>The command line\<close>

record run_flags =
  rfMode :: string
  rfDev :: bool
  rfLogLevel :: string
  rfLogFormat :: string
  rfConfig :: string
  rfGPUVendor :: string
  rfFFmpegBin :: string
  rfMaxQueueSize :: int
  rfGPUSlots :: int
  rfLiveReservedSlots :: int
  rfGPUCostCapacity :: int
  rfGPULiveReservedCost :: int
  rfGPUBatchCostScale :: rat
  rfGPULiveCostScale :: rat
  rfTempDir :: string
  rfHTTPListen :: string
  rfGRPCSocket :: string
  rfMetricsListen :: string
  rfMetricsMaxSeries :: int
  rfStorePath :: string
  rfPresetsFile :: string
  rfPaymentSocket :: string
  rfDebitCadence :: duration
  rfStreamPreCredit :: int
  rfStreamRunway :: int
  rfStreamGrace :: int
  rfStreamRestartLimit :: int
  rfStreamTopupMinInterval :: duration
  rfShellInternalURL :: string
  rfShellInternalSecret :: string
  rfIngestRTMPListen :: string
  rfIngestRTMPMaxConcurrent :: int
  rfLivePreset :: string
  rfLiveStoragePrefix :: string
  rfLiveSinkRoot :: string
  rfAuthToken :: string

definition defaultFlags :: run_flags where
  "defaultFlags =
     \<lparr>rfMode = ''all'', rfDev = False, rfLogLevel = ''info'', rfLogFormat = ''text'', rfConfig = [],
      rfGPUVendor = ''auto'', rfFFmpegBin = ''/usr/local/bin/ffmpeg'', rfMaxQueueSize = 5, rfGPUSlots = 0,
      rfLiveReservedSlots = 1, rfGPUCostCapacity = 0, rfGPULiveReservedCost = 0, rfGPUBatchCostScale = 1,
      rfGPULiveCostScale = 5 / 4, rfTempDir = ''/tmp/livepeer-transcode'', rfHTTPListen = '':8080'', rfGRPCSocket = [],
      rfMetricsListen = [], rfMetricsMaxSeries = 10000, rfStorePath = [],
      rfPresetsFile = ''presets/h264-streaming.yaml'', rfPaymentSocket = [], rfDebitCadence = 5 * second,
      rfStreamPreCredit = 1, rfStreamRunway = 30, rfStreamGrace = 60, rfStreamRestartLimit = 3,
      rfStreamTopupMinInterval = 5 * second, rfShellInternalURL = [], rfShellInternalSecret = [],
      rfIngestRTMPListen = '':1935'', rfIngestRTMPMaxConcurrent = 4, rfLivePreset = ''h264-live'',
      rfLiveStoragePrefix = ''live/{stream_id}'', rfLiveSinkRoot = ''/var/live'', rfAuthToken = []\<rparr>"

definition flagConfig :: "string \<Rightarrow> run_flags \<Rightarrow> worker_config" where
  "flagConfig version f =
     Default\<lparr>wcMode := mode_of_string (rfMode f), wcDev := rfDev f, wcVersion := version,
       wcGPUVendor := gpu_vendor_of_string (rfGPUVendor f), wcFFmpegBin := rfFFmpegBin f,
       wcMaxQueueSize := rfMaxQueueSize f, wcGPUSlots := rfGPUSlots f, wcLiveReserve := rfLiveReservedSlots f,
       wcGPUCostCapacity := rfGPUCostCapacity f, wcGPULiveReserveCost := rfGPULiveReservedCost f,
       wcGPUBatchCostScale := rfGPUBatchCostScale f, wcGPULiveCostScale := rfGPULiveCostScale f,
       wcTempDir := rfTempDir f, wcPresetsFile := rfPresetsFile f, wcHTTPListen := rfHTTPListen f,
       wcGRPCSocket := rfGRPCSocket f, wcMetricsListen := rfMetricsListen f, wcMetricsMaxSeries := rfMetricsMaxSeries f,
       wcStorePath := rfStorePath f, wcPaymentSocket := rfPaymentSocket f, wcDebitCadence := rfDebitCadence f,
       wcStreamPreCreditSeconds := rfStreamPreCredit f, wcStreamRunwaySeconds := rfStreamRunway f,
       wcStreamGraceSeconds := rfStreamGrace f, wcStreamRestartLimit := rfStreamRestartLimit f,
       wcStreamTopupMinInterval := rfStreamTopupMinInterval f, wcShellInternalURL := rfShellInternalURL f,
       wcShellInternalSecret := rfShellInternalSecret f, wcIngestRTMPListen := rfIngestRTMPListen f,
       wcIngestRTMPMaxConcurrent := rfIngestRTMPMaxConcurrent f, wcLivePreset := rfLivePreset f,
       wcLiveStoragePrefix := rfLiveStoragePrefix f, wcAuthToken := rfAuthToken f\<rparr>"

definition applyShared :: "shared_config \<Rightarrow> worker_config \<Rightarrow> worker_config" where
  "applyShared sh c =
     c\<lparr>wcProtocolVersion := shProtocolVersion sh, wcAPIVersion := shAPIVersion sh,
       wcWorkerEthAddress := shWorkerEthAddress sh, wcAuthToken := shAuthToken sh, wcHTTPListen := shHTTPListen sh,
       wcPaymentSocket := shPaymentDaemonSocket sh, wcCapabilities := map capability_Clone (shCapabilities sh)\<rparr>"

subsection \<open>The environment\<close>

record ('s, 'b) boot_env =
  beVersion :: string
  beURLParse :: "string \<Rightarrow> (string \<times> string) result"
  beOpenYAML :: "string \<Rightarrow> (yaml_config result \<times> yaml_tail) result"
  beCommand :: "string list \<Rightarrow> string result"
  beStat :: "string \<Rightarrow> unit result"
  beNow :: time
  beOpenBolt :: "string \<Rightarrow> (('s, json) store_ops \<times> 's) result"
  beMemory :: "('s, json) store_ops \<times> 's"
  bePresetFile :: "string \<Rightarrow> string result"
  beYAML :: "string \<Rightarrow> catalogue result"
  beDial :: "string \<Rightarrow> ('b payee_rpc \<times> 'b) result"
  beFake :: "'b broker_ops \<times> 'b"
  beSort :: row_sort
  beShellConfig :: "live_event list shell_config"
  beFsys :: fsys
  beOsTempDir :: string
  beDeps :: "('s, 'b) deps"
  beLive :: "('s, 'b) live_deps"
  beServer :: "('s, 'b) http_server"

type_synonym 'a boot = "(int \<times> string) + 'a"

fun bbind :: "'a boot \<Rightarrow> ('a \<Rightarrow> 'c boot) \<Rightarrow> 'c boot" where
  "bbind (Inl e) f = Inl e"
| "bbind (Inr x) f = f x"

text \<open>An error of a step is printed and ends the process with the exit code.\<close>

definition must :: "int \<Rightarrow> string \<Rightarrow> 'a result \<Rightarrow> 'a boot" where
  "must code pre r =
     (case r of Inl err \<Rightarrow> Inl (code, (if pre = [] then [] else pre @ '': '') @ error_text err) | Inr x \<Rightarrow> Inr x)"

lemma bbind_eq_Inr: "bbind r f = Inr y \<longleftrightarrow> (\<exists>x. r = Inr x \<and> f x = Inr y)"
  by (cases r) auto

lemma must_eq_Inr [simp]: "must code pre r = Inr x \<longleftrightarrow> r = Inr x"
  by (auto simp: must_def split: sum.splits)

subsection \<open>The steps\<close>

definition loadConfig :: "('s, 'b) boot_env \<Rightarrow> run_flags \<Rightarrow> worker_config boot" where
  "loadConfig E f =
     (let c = flagConfig (beVersion E) f in
      bbind
        (if rfConfig f = [] then Inr c
         else bbind (must 2 ''shared config'' (LoadSharedWorker (beURLParse E) (rfConfig f) (beOpenYAML E (rfConfig f)))) (\<lambda>sh. Inr (applyShared sh c)))
        (\<lambda>c. bbind (must 2 ''invalid config'' (config_Validate c)) (\<lambda>_. Inr c)))"

definition bootPreflight :: "('s, 'b) boot_env \<Rightarrow> worker_config \<Rightarrow> gpu_profile boot" where
  "bootPreflight E c =
     must 1 ''preflight failed''
       (preflight_Run (wcDev c) (wcGPUVendor c) (wcFFmpegBin c)
          (Some (\<lambda>v. if wcDev c then Inr (FakeNVIDIA (beNow E)) else Detect (beCommand E) v (beNow E))) (beStat E))"

definition bootScheduler :: "worker_config \<Rightarrow> gpu_profile \<Rightarrow> controller" where
  "bootScheduler c g =
     New \<lparr>cfTotalSlots = (if wcGPUSlots c \<le> 0 then gMaxSessions g else wcGPUSlots c),
          cfLiveReservedSlots = wcLiveReserve c, cfTotalCost = wcGPUCostCapacity c,
          cfLiveReservedCost = wcGPULiveReserveCost c\<rparr>"

definition bootCostModel :: "worker_config \<Rightarrow> cost_model" where
  "bootCostModel c = Normalized \<lparr>cmBatchScale = wcGPUBatchCostScale c, cmLiveScale = wcGPULiveCostScale c\<rparr>"

definition bootStore :: "('s, 'b) boot_env \<Rightarrow> worker_config \<Rightarrow> (('s, json) store_ops \<times> 's) boot" where
  "bootStore E c =
     (if wcStorePath c \<noteq> [] then must 1 ''store'' (beOpenBolt E (wcStorePath c)) else Inr (beMemory E))"

definition bootPresets :: "('s, 'b) boot_env \<Rightarrow> worker_config \<Rightarrow> loader boot" where
  "bootPresets E c = must 1 ''presets'' (pl_New (beYAML E) (bePresetFile E (wcPresetsFile c)) (wcPresetsFile c))"

text \<open>
  The payment step: the client of the daemon after the check of its catalogue, or the in-memory ledger. The third
  component is the payee that the HTTP surface gets: without a client it is the nil pointer in the interface.
\<close>

definition bootPayment :: "('s, 'b) boot_env \<Rightarrow> worker_config \<Rightarrow> ('b broker_ops \<times> 'b \<times> 'b payee) boot" where
  "bootPayment E c =
     (if wcPaymentSocket c \<noteq> [] \<and> \<not> wcDev c
      then bbind (must 1 ''payment client'' (beDial E (wcPaymentSocket c))) (\<lambda>(rpc, b).
        (case client_ListCapabilities rpc b of
           (b, r) \<Rightarrow>
             bbind (must 1 ''payment client ListCapabilities'' r) (\<lambda>daemon.
             bbind (must 1 [] (verifyPaymentDaemonCatalog (beSort E) (wcCapabilities c) daemon)) (\<lambda>_.
               Inr (client_ops rpc, b, Client rpc)))))
      else (case beFake E of (ops, b) \<Rightarrow> Inr (ops, b, NilClient)))"

text \<open>The rungs of the live ladder: the presets named for it, or all.\<close>

fun liveRungs :: "preset list \<Rightarrow> preset list" where
  "liveRungs [] = []"
| "liveRungs (p # ps) = (if HasSuffix (pName p) ''-live'' then p # liveRungs ps else liveRungs ps)"

definition liveLadder :: "preset list \<Rightarrow> preset list" where
  "liveLadder ps = (let live = liveRungs ps in if live \<noteq> [] then live else ps)"

definition bootDeps ::
  "('s, 'b) boot_env \<Rightarrow> worker_config \<Rightarrow> gpu_profile \<Rightarrow> ('s, json) store_ops \<Rightarrow> 'b broker_ops \<Rightarrow> loader \<Rightarrow> ('s, 'b) deps" where
  "bootDeps E c g st bk pl =
     (beDeps E)\<lparr>dStore := st, dPayment := Some bk, dWebhook := True, dPresets := (\<lambda>_. pl_Catalogue pl), dGPU := g,
       dCostModel := bootCostModel c, dTempDir := wcTempDir c, dMax := wcMaxQueueSize c\<rparr>"

definition bootVOD ::
  "('s, 'b) boot_env \<Rightarrow> worker_config \<Rightarrow> ('s, 'b) deps \<Rightarrow> ('s, 'b) deps option boot" where
  "bootVOD E c D =
     (if IsVOD (wcMode c)
      then bbind (must 1 ''runner'' (jobrunner_New True True True True (beOsTempDir E) D)) (\<lambda>(D, _). Inr (Some D))
      else Inr None)"

definition bootABR ::
  "('s, 'b) boot_env \<Rightarrow> worker_config \<Rightarrow> ('s, 'b) deps \<Rightarrow> ('s, 'b) deps option boot" where
  "bootABR E c D =
     (if IsABR (wcMode c)
      then bbind (must 1 ''runner'' (abrrunner_New True True True True (beOsTempDir E) D)) (\<lambda>(D, _). Inr (Some D))
      else Inr None)"

definition bootShell :: "('s, 'b) boot_env \<Rightarrow> worker_config \<Rightarrow> live_event list shell_client boot" where
  "bootShell E c =
     (if wcShellInternalURL c \<noteq> [] \<and> wcShellInternalSecret c \<noteq> []
      then bbind (must 1 ''shell client'' (shell_New ((beShellConfig E)\<lparr>hcBaseURL := wcShellInternalURL c,
             hcSecret := wcShellInternalSecret c\<rparr>))) (\<lambda>sc. Inr (httpClient sc))
      else if \<not> wcDev c
      then Inl (2, ''shell-internal-url + shell-internal-secret are required in live mode (non-dev)'')
      else Inr (fake_shell shell_NewFake))"

definition bootSink :: "('s, 'b) boot_env \<Rightarrow> run_flags \<Rightarrow> worker_config \<Rightarrow> string option boot" where
  "bootSink E f c =
     (let sinkRoot = (if wcDev c then filepath_Join [wcTempDir c, ''live-sink''] else rfLiveSinkRoot f) in
      if sinkRoot \<noteq> []
      then bbind (must 1 ''live sink'' (NewLocalFSSink (beFsys E) sinkRoot)) (\<lambda>d. Inr (Some d))
      else Inr None)"

text \<open>The live runner, with the configuration of the ffmpeg encoder (in dev mode the drain encoder) and the sink.\<close>

definition bootLive ::
  "('s, 'b) boot_env \<Rightarrow> run_flags \<Rightarrow> worker_config \<Rightarrow> gpu_profile \<Rightarrow> ('s, json) store_ops \<Rightarrow> 'b broker_ops \<Rightarrow> loader \<Rightarrow>
   (('s, 'b) live_deps \<times> encoder_config option \<times> string option) option boot" where
  "bootLive E f c g st bk pl =
     (if \<not> IsLive (wcMode c) then Inr None
      else
        bbind (bootShell E c) (\<lambda>shell.
          (let ladder = liveLadder (FilterByGPU pl g); dir = filepath_Join [wcTempDir c, ''live''] in
           bbind (bootSink E f c) (\<lambda>sink.
             Inr (Some
               (live_New ((beLive E)\<lparr>ldRepo := Some st, ldPayment := bk, ldHasShell := True, ldShell := shell,
                  ldPresets := Some (pl_Catalogue pl), ldScheduler := True, ldCostModel := bootCostModel c,
                  ldWorkerURL := wcPublicURL c, ldLivePreset := wcLivePreset c,
                  ldStoragePrefix := wcLiveStoragePrefix c,
                  ldMaxConcurrentStreams := wcIngestRTMPMaxConcurrent c, ldLocalDirRoot := dir,
                  ldHasSink := (sink \<noteq> None), ldLadder := ladder, ldMirrorPollInterval := 0,
                  ldDebitCadence := wcDebitCadence c, ldRunwaySeconds := wcStreamRunwaySeconds c,
                  ldGraceSeconds := wcStreamGraceSeconds c, ldPreCreditSeconds := wcStreamPreCreditSeconds c,
                  ldDebitRetryBackoff := wcStreamDebitRetryBackoff c, ldRestartLimit := wcStreamRestartLimit c,
                  ldTopupMinInterval := wcStreamTopupMinInterval c\<rparr>),
                if wcDev c then None
                else Some \<lparr>ecLocalDirRoot = dir, ecLadder = ladder, ecGPU = g, ecSegmentSeconds = 0,
                           ecPlaylistSize = 0, ecAudioBitrateKbps = 0\<rparr>,
                sink))))))"

definition bootHTTP ::
  "('s, 'b) boot_env \<Rightarrow> worker_config \<Rightarrow> ('s, json) store_ops \<Rightarrow> 'b broker_ops \<Rightarrow> 'b payee \<Rightarrow> loader \<Rightarrow>
   ('s, 'b) deps option \<Rightarrow> ('s, 'b) deps option \<Rightarrow> ('s, 'b) live_deps option \<Rightarrow> ('s, 'b) http_server boot" where
  "bootHTTP E c st bk payee pl vod abr live =
     must 1 ''http''
       (http_New True True
          ((beServer E)\<lparr>svMode := wcMode c, svDev := wcDev c, svRepo := st, svJobRunner := vod, svABRRunner := abr,
             svLiveRunner := live, svPayment := Some bk, svPayee := Some payee, svPresets := pl_Catalogue pl,
             svScheduler := True, svAPIVersion := wcAPIVersion c, svProtocolVersion := wcProtocolVersion c,
             svWorkerEthAddress := wcWorkerEthAddress c, svRegistryCaps := wcCapabilities c,
             svOfferingsAuthToken := wcAuthToken c, svPublicRTMP := [], svMaxConc := wcMaxQueueSize c\<rparr>))"

definition bootLifecycle :: "worker_config \<Rightarrow> bool \<Rightarrow> bool \<Rightarrow> bool \<Rightarrow> lifecycle_config" where
  "bootLifecycle c vod abr live =
     \<lparr>lfMode = wcMode c, lfJobRunner = vod, lfABRRunner = abr, lfLiveRunner = live, lfHTTPListen = True,
      lfGRPCListen = (wcGRPCSocket c \<noteq> []), lfGRPCStop = (wcGRPCSocket c \<noteq> []),
      lfMetricsListen = (wcMetricsListen c \<noteq> []), lfABRPlanFn = True\<rparr>"

text \<open>What \<open>run\<close> hands to the lifecycle.\<close>

record ('s, 'b) wiring =
  bwConfig :: worker_config
  bwGPU :: gpu_profile
  bwScheduler :: controller
  bwStore :: 's
  bwBroker :: 'b
  bwLoader :: loader
  bwServer :: "('s, 'b) http_server"
  bwGRPC :: "('s, 'b) grpc_config"
  bwEncoder :: "encoder_config option"
  bwSink :: "string option"
  bwLifecycle :: lifecycle_config
  bwMetrics :: "metrics_server option"

definition bootWiring ::
  "worker_config \<Rightarrow> gpu_profile \<Rightarrow> 's \<Rightarrow> 'b \<Rightarrow> loader \<Rightarrow> ('s, 'b) http_server \<Rightarrow> ('s, 'b) grpc_config \<Rightarrow>
   (('s, 'b) live_deps \<times> encoder_config option \<times> string option) option \<Rightarrow> metrics_server option \<Rightarrow> ('s, 'b) wiring" where
  "bootWiring c g store broker pl srv gs live mt =
     \<lparr>bwConfig = c, bwGPU = g, bwScheduler = bootScheduler c g, bwStore = store, bwBroker = broker,
      bwLoader = pl, bwServer = srv, bwGRPC = gs,
      bwEncoder = (case live of Some (_, e, _) \<Rightarrow> e | None \<Rightarrow> None),
      bwSink = (case live of Some (_, _, k) \<Rightarrow> k | None \<Rightarrow> None),
      bwLifecycle = bootLifecycle c (svJobRunner srv \<noteq> None) (svABRRunner srv \<noteq> None) (svLiveRunner srv \<noteq> None),
      bwMetrics = mt\<rparr>"

definition bootRunners ::
  "('s, 'b) boot_env \<Rightarrow> run_flags \<Rightarrow> worker_config \<Rightarrow> gpu_profile \<Rightarrow> ('s, json) store_ops \<times> 's \<Rightarrow> loader \<Rightarrow>
   'b broker_ops \<times> 'b \<times> 'b payee \<Rightarrow> ('s, 'b) wiring boot" where
  "bootRunners E f c g st pl pay =
     (case (st, pay) of ((ops, store), (bk, broker, payee)) \<Rightarrow>
        (let D = bootDeps E c g ops bk pl in
         bbind (bootVOD E c D) (\<lambda>vod.
         bbind (bootABR E c D) (\<lambda>abr.
         bbind (bootLive E f c g ops bk pl) (\<lambda>live.
         bbind (bootHTTP E c ops bk payee pl vod abr (map_option fst live)) (\<lambda>srv.
         bbind (must 1 ''grpc'' (grpc_New True True (beNow E)
           \<lparr>gsMode = wcMode c, gsVersion = beVersion E, gsDev = wcDev c, gsGPU = g, gsRepo = ops, gsJobRunner = vod,
            gsABRRunner = abr, gsLiveRunner = (live \<noteq> None), gsScheduler = True, gsStartedAt = beNow E\<rparr>)) (\<lambda>gs.
         bbind (must 1 ''metrics'' (metrics_New (wcMetricsListen c) (wcMetricsMaxSeries c))) (\<lambda>mt.
           Inr (bootWiring c g store broker pl srv gs live mt)))))))))"

text \<open>\<open>run\<close> up to the lifecycle; \<open>None\<close> is a command line that did not parse.\<close>

definition run_boot :: "('s, 'b) boot_env \<Rightarrow> run_flags option \<Rightarrow> ('s, 'b) wiring boot" where
  "run_boot E flags =
     (case flags of
        None \<Rightarrow> Inl (2, [])
      | Some f \<Rightarrow>
          bbind (must 2 ''logger'' (logger_Build (rfLogLevel f) (rfLogFormat f))) (\<lambda>_.
          bbind (loadConfig E f) (\<lambda>c.
          bbind (bootPreflight E c) (\<lambda>g.
          bbind (bootStore E c) (\<lambda>st.
          bbind (bootPresets E c) (\<lambda>pl.
          bbind (bootPayment E c) (\<lambda>pay. bootRunners E f c g st pl pay)))))))"

text \<open>What the metrics endpoint shows of the running daemon: the closure given to \<open>SetSnapshotFunc\<close>.\<close>

definition bootSnapshot ::
  "('s, 'b) wiring \<Rightarrow> job_runner \<Rightarrow> job_runner \<Rightarrow> ('s, 'b, 'k) runner \<Rightarrow> controller \<Rightarrow> metrics_snapshot" where
  "bootSnapshot W vod abr live sched =
     (let srv = bwServer W; sn = ctl_Snapshot sched in
      \<lparr>msGPUVendor = GPUVendor_String (gVendor (bwGPU W)), msGPUMaxSessions = gMaxSessions (bwGPU W),
       msActiveJobs = (if svJobRunner srv \<noteq> None then int (ActiveCount vod) else 0) +
         (if svABRRunner srv \<noteq> None then int (ActiveCount abr) else 0),
       msActiveStreams = (if svLiveRunner srv \<noteq> None then int (live_ActiveCount live) else 0),
       msScheduler =
         \<lparr>ssTotalSlots = snTotalSlots sn, ssLiveReservedSlots = snLiveReservedSlots sn, ssTotalCost = snTotalCost sn,
          ssLiveReservedCost = snLiveReservedCost sn, ssActiveSlots = snActiveSlots sn, ssActiveCost = snActiveCost sn,
          ssQueuedBatch = snQueuedBatch sn\<rparr>\<rparr>)"

end
