(* ===== verification/Boot_Safety.thy ===== *)
theory Boot_Safety
  imports Boot Http_Safety
begin

text \<open>
  What a daemon that has started guarantees: the offerings it sells are the validated ones and its payment daemon
  knows them; and what its command line cannot do.
\<close>

subsection \<open>What a successful start went through\<close>

lemma resolveOffering_in:
  "resolveOffering c req hint = Inr r \<Longrightarrow> r \<in> set (capOfferings c) \<and> (req \<noteq> [] \<longrightarrow> roID r = req)"
  by (auto simp: resolveOffering_def find_Some_iff split: if_splits option.splits)

lemma find_SomeD: "find P xs = Some x \<Longrightarrow> x \<in> set xs \<and> P x"
  by (induction xs) (auto split: if_splits)

lemma resolveSessionBinding_row:
  assumes "resolveSessionBinding S p = Inr bn"
  obtains c r where "c \<in> set (svRegistryCaps S)" "r \<in> set (capOfferings c)" "capName c = psCapability p"
    "psOffering p \<noteq> [] \<longrightarrow> roID r = psOffering p"
    "bn = \<lparr>bnWorkID = psWorkID p, bnCapability = capName c, bnOffering = roID r,
       bnPricePerWorkUnitWei = roPricePerWorkUnitWei r, bnWorkUnit = capWorkUnit c\<rparr>"
proof -
  obtain c r where c: "find (\<lambda>c. capName c = psCapability p) (svRegistryCaps S) = Some c"
    "resolveOffering c (psOffering p) (psPreset p) = Inr r"
    "bn = \<lparr>bnWorkID = psWorkID p, bnCapability = capName c, bnOffering = roID r,
       bnPricePerWorkUnitWei = roPricePerWorkUnitWei r, bnWorkUnit = capWorkUnit c\<rparr>"
    using assms by (auto simp: resolveSessionBinding_def rbind_eq_Inr split: if_splits option.splits)
  show ?thesis
    by (rule that [of c r]) (use c resolveOffering_in [OF c(2)] in \<open>auto dest: find_SomeD\<close>)
qed

lemma cloneRegistryCapabilities_id [simp]: "cloneRegistryCapabilities caps = caps"
  by (simp add: cloneRegistryCapabilities_def map_idI)

lemma bootHTTP_server:
  assumes "bootHTTP E c st bk payee pl vod abr live = Inr S"
  shows "svRegistryCaps S = wcCapabilities c" "svPayment S = Some bk" "svPayee S = Some payee" "svDev S = wcDev c"
    "svOfferingsAuthToken S = wcAuthToken c" "svJobRunner S = vod" "svABRRunner S = abr" "svLiveRunner S = live"
  using assms by (auto simp: bootHTTP_def http_New_def)

lemma run_boot_cases:
  assumes "run_boot E (Some f) = Inr W"
  obtains c bk b payee where "loadConfig E f = Inr c" "bwConfig W = c" "bootPayment E c = Inr (bk, b, payee)"
    "svRegistryCaps (bwServer W) = wcCapabilities c" "svPayment (bwServer W) = Some bk"
    "svPayee (bwServer W) = Some payee" "svDev (bwServer W) = wcDev c" "svOfferingsAuthToken (bwServer W) = wcAuthToken c"
    "bwLifecycle W = bootLifecycle c (svJobRunner (bwServer W) \<noteq> None) (svABRRunner (bwServer W) \<noteq> None)
       (svLiveRunner (bwServer W) \<noteq> None)"
proof -
  obtain c g st pl pay where s: "loadConfig E f = Inr c" "bootPayment E c = Inr pay" "bootRunners E f c g st pl pay = Inr W"
    using assms by (auto simp: run_boot_def bbind_eq_Inr)
  obtain ops store bk b payee where t: "st = (ops, store)" "pay = (bk, b, payee)" by (metis prod.exhaust)
  from s(3) obtain vod abr live srv gs mt where w: "bootHTTP E c ops bk payee pl vod abr (map_option fst live) = Inr srv"
    "W = bootWiring c g store b pl srv gs live mt"
    unfolding t by (auto simp: bootRunners_def Let_def bbind_eq_Inr)
  note h = bootHTTP_server [OF w(1)]
  show ?thesis
    by (rule that [of c bk b payee]) (use s t w(2) h in \<open>simp_all add: bootWiring_def\<close>)
qed

lemma bootPayment_client:
  assumes "bootPayment E c = Inr (bk, b0, payee)" "wcPaymentSocket c \<noteq> []" "\<not> wcDev c"
  obtains rpc b daemon where "beDial E (wcPaymentSocket c) = Inr (rpc, b)" "client_ListCapabilities rpc b = (b0, Inr daemon)"
    "verifyPaymentDaemonCatalog (beSort E) (wcCapabilities c) daemon = Inr ()" "bk = client_ops rpc" "payee = Client rpc"
proof -
  obtain rpc b where d: "beDial E (wcPaymentSocket c) = Inr (rpc, b)"
    using assms by (auto simp: bootPayment_def bbind_eq_Inr)
  obtain b' r where l: "client_ListCapabilities rpc b = (b', r)" by fastforce
  show ?thesis
    by (rule that [of rpc b "case r of Inr x \<Rightarrow> x | Inl _ \<Rightarrow> []"])
      (use assms d l in \<open>auto simp: bootPayment_def bbind_eq_Inr\<close>)
qed

lemma loadConfig_caps:
  assumes "loadConfig E f = Inr c"
  shows "(rfConfig f = [] \<and> wcCapabilities c = []) \<or>
    (\<exists>sh. rfConfig f \<noteq> [] \<and> LoadSharedWorker (beURLParse E) (rfConfig f) (beOpenYAML E (rfConfig f)) = Inr sh \<and>
      wcCapabilities c = shCapabilities sh \<and> wcPaymentSocket c = shPaymentDaemonSocket sh \<and> wcAuthToken c = shAuthToken sh)"
  using assms
  by (auto simp: loadConfig_def Let_def bbind_eq_Inr flagConfig_def Default_def applyShared_def map_idI split: if_splits)

subsection \<open>What is sold\<close>

text \<open>
  C37. A production daemon sells only what its configuration prices and its payment daemon knows: after a start
  without dev mode, every payment session that a request can open is for a configured capability and offering (the
  requested one if the request names one), in a known unit and at a positive price, the catalogue that the payment
  daemon listed at startup has this offering with the same unit, and the session is opened with that daemon, which
  is told exactly this price. Without a configuration file nothing can be sold, so the in-memory ledger that then
  stands in for the daemon never sees a session.
\<close>

theorem boot_sells_known_offerings:
  assumes "\<And>rows. mset (beSort E rows) = mset rows \<and> sorted (map ncCapability (beSort E rows))"
    "run_boot E (Some f) = Inr W" "\<not> wcDev (bwConfig W)" "resolveSessionBinding (bwServer W) p = Inr bn"
    "psWorkID p \<noteq> []"
  shows "\<exists>rpc b b' daemon d price m.
    beDial E (wcPaymentSocket (bwConfig W)) = Inr (rpc, b) \<and> client_ListCapabilities rpc b = (b', Inr daemon) \<and>
    d \<in> set daemon \<and> dcCapability d = psCapability p \<and> dcWorkUnit d = bnWorkUnit bn \<and>
    bnOffering bn \<in> opID ` set (dcOfferings d) \<and> (psOffering p \<noteq> [] \<longrightarrow> bnOffering bn = psOffering p) \<and>
    bnWorkUnit bn \<in> set knownWorkUnits \<and> SetString10 (bnPricePerWorkUnitWei bn) = Some price \<and> 0 < price \<and>
    svPayment (bwServer W) = Some (client_ops rpc) \<and>
    bkOpenSession (client_ops rpc) b bn = rpcOpenSession rpc b m \<and>
    int (big_SetBytes (omPricePerWorkUnitWei m)) = price \<and> omOffering m = bnOffering bn"
proof -
  obtain c bk b0 payee where w: "loadConfig E f = Inr c" "bwConfig W = c" "bootPayment E c = Inr (bk, b0, payee)"
    "svRegistryCaps (bwServer W) = wcCapabilities c" "svPayment (bwServer W) = Some bk"
    by (rule run_boot_cases [OF assms(2)]) blast
  obtain k r where row: "k \<in> set (wcCapabilities c)" "r \<in> set (capOfferings k)" "capName k = psCapability p"
    "psOffering p \<noteq> [] \<longrightarrow> roID r = psOffering p"
    "bn = \<lparr>bnWorkID = psWorkID p, bnCapability = capName k, bnOffering = roID r,
       bnPricePerWorkUnitWei = roPricePerWorkUnitWei r, bnWorkUnit = capWorkUnit k\<rparr>"
    using resolveSessionBinding_row [OF assms(4)] w(4) by metis
  obtain sh where sh: "LoadSharedWorker (beURLParse E) (rfConfig f) (beOpenYAML E (rfConfig f)) = Inr sh"
    "wcCapabilities c = shCapabilities sh" "wcPaymentSocket c = shPaymentDaemonSocket sh"
    using loadConfig_caps [OF w(1)] row(1) by auto
  note reg = LoadSharedWorker_registry [OF sh(1)]
  have "priced (roPricePerWorkUnitWei r)" "capWorkUnit k \<in> set knownWorkUnits"
    using reg row(1,2) sh(2) by (auto simp: registry_ok_def list_all_iff)
  then obtain price where price: "SetString10 (roPricePerWorkUnitWei r) = Some price" "0 < price"
    by (auto simp: priced_def split: option.splits)
  have "wcPaymentSocket c \<noteq> []" "\<not> wcDev c" using reg sh(3) assms(3) w(2) by simp_all
  from bootPayment_client [OF w(3) this] obtain rpc b daemon where d: "beDial E (wcPaymentSocket c) = Inr (rpc, b)" "client_ListCapabilities rpc b = (b0, Inr daemon)"
    "verifyPaymentDaemonCatalog (beSort E) (wcCapabilities c) daemon = Inr ()" "bk = client_ops rpc" by metis
  have "slice_sort (beSort E)" using assms(1) by unfold_locales blast+
  from slice_sort.row_known [OF this d(3) row(1,2)] obtain e where e: "e \<in> set daemon" "dcCapability e = capName k"
    "dcWorkUnit e = capWorkUnit k" "roID r \<in> opID ` set (dcOfferings e)" by blast
  have "SetString10 (bnPricePerWorkUnitWei bn) = Some price" "0 \<le> price" "bnWorkID bn \<noteq> []"
    using price assms(5) row(5) by simp_all
  from client_OpenSession_sends [OF this, of rpc b] obtain m where m: "client_OpenSession rpc b bn = rpcOpenSession rpc b m"
    "int (big_SetBytes (omPricePerWorkUnitWei m)) = price" "omOffering m = bnOffering bn" by blast
  show ?thesis
    by (rule exI [of _ rpc], rule exI [of _ b], rule exI [of _ b0], rule exI [of _ daemon], rule exI [of _ e],
        rule exI [of _ price], rule exI [of _ m])
      (use w d e m row price \<open>capWorkUnit k \<in> set knownWorkUnits\<close> in \<open>simp add: client_ops_def\<close>)
qed

subsection \<open>What the command line cannot do\<close>

text \<open>
  C38. The token of the command line is lost: once a configuration file is given, only its token counts. If the file
  has none, a daemon started with \<open>--auth-token\<close> answers every request for its offerings, with any
  \<open>Authorization\<close> header or none.
\<close>

theorem auth_token_flag_ignored:
  assumes "run_boot E (Some f) = Inr W" "rfConfig f \<noteq> []"
    "LoadSharedWorker (beURLParse E) (rfConfig f) (beOpenYAML E (rfConfig f)) = Inr sh" "shAuthToken sh = []"
  shows "\<exists>body. Handler (bwServer W) wait ''GET /registry/offerings'' q s = Some (s, Reply 200 (Some body))"
proof -
  obtain c where c: "loadConfig E f = Inr c" "svOfferingsAuthToken (bwServer W) = wcAuthToken c"
    by (rule run_boot_cases [OF assms(1)]) blast
  have "svOfferingsAuthToken (bwServer W) = []" using loadConfig_caps [OF c(1)] assms(2-4) c(2) by auto
  then show ?thesis by (simp add: Handler_def handleRegistryOfferings_def requireBearerAuth_def writeJSON_def)
qed

text \<open>
  Without a payment daemon the HTTP surface holds a nil client, not no client: the answer 503 for ticket
  parameters that are not wired is out of reach, and a well-formed request panics.
\<close>

theorem nil_payee_panics:
  assumes "run_boot E (Some f) = Inr W" "wcPaymentSocket (bwConfig W) = [] \<or> wcDev (bwConfig W)"
    "requireBearerAuth (bwServer W) q = None"
    "hqBody q (Some maxTicketParamsBodyBytes) = (doc, tail)"
    "decodeInto True ticket_params_fields zero_ticket_params_request doc = Inr req" "ensureSingleJSONDocument tail = Inr ()"
    "parseTicketParamsRequest req = Inr daemonReq"
  shows "Handler (bwServer W) wait ''POST /v1/payment/ticket-params'' q s = Some (s, Panicked)"
proof -
  obtain c bk b payee where w: "bwConfig W = c" "bootPayment E c = Inr (bk, b, payee)" "svPayee (bwServer W) = Some payee"
    by (rule run_boot_cases [OF assms(1)]) blast
  then have "payee = NilClient" using assms(2) by (auto simp: bootPayment_def split: prod.splits)
  then show ?thesis using assms(3-7) w(3) by (simp add: Handler_def handleTicketParams_def)
qed

text \<open>The lifecycle that is started has a runner exactly for its modes, and a plan function for ABR.\<close>

lemma boot_lifecycle_ok:
  assumes "run_boot E (Some f) = Inr W"
  shows "is_ok (Mode_Validate (lfMode (bwLifecycle W)))" "lfABRRunner (bwLifecycle W) \<longrightarrow> lfABRPlanFn (bwLifecycle W)"
    "lfHTTPListen (bwLifecycle W)" "lfGRPCListen (bwLifecycle W) \<longrightarrow> lfGRPCStop (bwLifecycle W)"
proof -
  obtain c where c: "loadConfig E f = Inr c" "bwLifecycle W = bootLifecycle c (svJobRunner (bwServer W) \<noteq> None)
      (svABRRunner (bwServer W) \<noteq> None) (svLiveRunner (bwServer W) \<noteq> None)"
    by (rule run_boot_cases [OF assms]) blast
  have "config_Validate c = Inr ()" using c(1) by (auto simp: loadConfig_def Let_def bbind_eq_Inr split: if_splits)
  then have "is_ok (Mode_Validate (wcMode c))" by (auto simp: config_Validate_def split: sum.splits)
  then show "is_ok (Mode_Validate (lfMode (bwLifecycle W)))" "lfABRRunner (bwLifecycle W) \<longrightarrow> lfABRPlanFn (bwLifecycle W)"
    "lfHTTPListen (bwLifecycle W)" "lfGRPCListen (bwLifecycle W) \<longrightarrow> lfGRPCStop (bwLifecycle W)"
    by (simp_all add: c(2) bootLifecycle_def)
qed

subsection \<open>A daemon to start\<close>

definition demo_yaml_config :: yaml_config where
  "demo_yaml_config =
     \<lparr>yProtocolVersion = 1, yWorkerEthAddress = [], yAuthToken = [], yPaymentDaemon = True,
      yWorker = \<lparr>ywHTTPListen = '':8080'', ywPaymentDaemonSocket = ''/pay''\<rparr>,
      yCapabilities = [\<lparr>ycCapability = ''video:transcode.vod'', ycWorkUnit = ''token'',
        ycExtra = \<lparr>yoPresent = False, yoValue = None\<rparr>,
        ycOfferings = [\<lparr>yfID = ''a'', yfPricePerWorkUnitWei = ''7'', yfBackendURL = ''u'',
          yfConstraints = \<lparr>yoPresent = False, yoValue = None\<rparr>\<rparr>]\<rparr>],
      yServiceRegistryPublisher = False\<rparr>"

definition demo_rpc :: "fake payee_rpc" where
  "demo_rpc =
     \<lparr>rpcListCapabilities = (\<lambda>b. (b, Inr [\<lparr>ceCapability = ''video:transcode.vod'', ceWorkUnit = ''token'',
        ceOfferings = [(''a'', None)]\<rparr>])),
      rpcGetTicketParams = (\<lambda>b m. (b, Inr None)), rpcOpenSession = (\<lambda>b m. (b, Inr ())),
      rpcProcessPayment = fake_ProcessPayment, rpcDebitBalance = fake_DebitBalance,
      rpcSufficientBalance = fake_SufficientBalance, rpcCloseSession = fake_CloseSession\<rparr>"

definition demo_env :: "(json memStore, fake) boot_env" where
  "demo_env =
     \<lparr>beVersion = ''v1'', beURLParse = (\<lambda>_. Inr (''http'', ''h'')),
      beOpenYAML = (\<lambda>_. Inr (Inr demo_yaml_config, TailEOF)),
      beCommand = (\<lambda>_. Inr ''T4, 550, 16''), beStat = (\<lambda>_. Inr ()), beNow = 1,
      beOpenBolt = (\<lambda>_. Inl (Err ''none'')), beMemory = (memStore_ops, Memory), bePresetFile = (\<lambda>_. Inr ''ok''),
      beYAML = demo_yaml, beDial = (\<lambda>_. Inr (demo_rpc, NewFake)), beFake = (fake_ops, NewFake),
      beSort = sort_key ncCapability, beShellConfig = \<lparr>hcBaseURL = [], hcSecret = [], hcRequestTimeout = 0,
        hcDo = (\<lambda>_ _. Inl (Err ''none'')), hcParse = (\<lambda>_. Inl (Err ''none''))\<rparr>,
      beFsys = \<lparr>fsFiles = Map.empty, fsFault = (\<lambda>_ _. None)\<rparr>,
      beOsTempDir = ''/tmp'', beDeps = demo_deps, beLive = demo_run_deps,
      beServer = demo_http\<rparr>"

definition demo_flags :: run_flags where
  "demo_flags = defaultFlags\<lparr>rfMode := ''vod'', rfConfig := ''worker.yaml'', rfGPUVendor := ''nvidia'',
     rfAuthToken := ''secret''\<rparr>"

definition demo_session :: payment_session_request where
  "demo_session = \<lparr>psWorkID = ''w1'', psCapability = ''video:transcode.vod'', psPreset = [], psOffering = ''a''\<rparr>"

definition demo_config :: worker_config where
  "demo_config = applyShared (projectSharedConfig demo_yaml_config) (flagConfig ''v1'' demo_flags)"

lemma demo_validated: "validateSharedConfig (\<lambda>_. Inr (''http'', ''h'')) (Some demo_yaml_config) = Inr ()"
proof -
  have "videoCapabilityNameRE ''video:transcode.vod''" "priced ''7''" by code_simp+
  then show ?thesis
    unfolding is_ok_unit [symmetric]
    by (simp add: validateSharedConfig_def demo_yaml_config_def CurrentProtocolVersion_def TrimSpace_def is_space_def
        validateCapabilities_iff capability_ok_def knownWorkUnits_def object_ok_def offering_ok_def
        del: validateCapabilities.simps)
qed

lemma demo_config_simps:
  "wcMode demo_config = ModeVOD" "wcDev demo_config = False" "wcPaymentSocket demo_config = ''/pay''"
  "wcStorePath demo_config = []" "wcGPUVendor demo_config = GPUVendorNVIDIA" "wcFFmpegBin demo_config = ''/usr/local/bin/ffmpeg''"
  "wcPresetsFile demo_config = ''presets/h264-streaming.yaml''"
  "wcCapabilities demo_config = map projectCapability (yCapabilities demo_yaml_config)"
  by (simp_all add: demo_config_def applyShared_def flagConfig_def demo_flags_def defaultFlags_def projectSharedConfig_def
      demo_yaml_config_def mode_of_string_def gpu_vendor_of_string_def TrimSpace_def is_space_def map_idI)

lemma demo_config_valid: "config_Validate demo_config = Inr ()"
  by (simp add: config_Validate_def demo_config_simps IsLive_def)
     (simp add: demo_config_def applyShared_def flagConfig_def demo_flags_def defaultFlags_def projectSharedConfig_def
      demo_yaml_config_def Default_def TrimSpace_def is_space_def)

lemma demo_loaded: "loadConfig demo_env demo_flags = Inr demo_config"
proof -
  have f: "rfConfig demo_flags = ''worker.yaml''" by (simp add: demo_flags_def)
  have sh: "LoadSharedWorker (beURLParse demo_env) p (beOpenYAML demo_env p) = Inr (projectSharedConfig demo_yaml_config)" for p
    by (simp add: LoadSharedWorker_def parseFile_def parseReader_def demo_env_def demo_validated)
  have v: "beVersion demo_env = ''v1''" by (simp add: demo_env_def)
  show ?thesis
    using demo_config_valid by (simp add: loadConfig_def Let_def f sh v must_def demo_config_def)
qed

lemma demo_detected: "is_ok (ParseNVIDIAOutput ''T4, 550, 16'' 1)"
  by (simp add: ParseNVIDIAOutput_def Let_def TrimSpace_def is_space_def)

lemma demo_preflight: "\<exists>g. bootPreflight demo_env demo_config = Inr g"
proof -
  obtain g where g: "ParseNVIDIAOutput ''T4, 550, 16'' 1 = Inr g" using demo_detected by (metis is_ok.elims(2))
  have "gVendor g = GPUVendorNVIDIA" by (rule ParseNVIDIAOutput_vendor [OF g])
  then show ?thesis
    using g by (simp add: bootPreflight_def preflight_Run_def demo_config_simps demo_env_def Detect_def probeNVIDIA_def must_def)
qed

lemma demo_payment: "bootPayment demo_env demo_config = Inr (client_ops demo_rpc, NewFake, Client demo_rpc)"
proof -
  have "client_ListCapabilities demo_rpc NewFake = (NewFake, Inr [\<lparr>dcCapability = ''video:transcode.vod'', dcWorkUnit = ''token'',
      dcOfferings = [\<lparr>opID = ''a'', opPricePerWorkUnitWei = ''0''\<rparr>]\<rparr>])"
    by (simp add: client_ListCapabilities_def demo_rpc_def client_capability_def priceInfoToWeiString_def)
  moreover have "verifyPaymentDaemonCatalog (sort_key ncCapability) (wcCapabilities demo_config)
      [\<lparr>dcCapability = ''video:transcode.vod'', dcWorkUnit = ''token'',
        dcOfferings = [\<lparr>opID = ''a'', opPricePerWorkUnitWei = ''0''\<rparr>]\<rparr>] = Inr ()"
    by (subst stable.verify_iff) (simp_all add: demo_config_simps demo_yaml_config_def projectCapability_def projectOffering_def
        normalizeCapability_def normalizeDaemonCapability_def)
  ultimately show ?thesis
    by (simp add: bootPayment_def demo_config_simps(2,3) must_def demo_env_def)
qed

lemma demo_log: "logger_Build (rfLogLevel demo_flags) (rfLogFormat demo_flags) = Inr (TextHandler LevelInfo)"
  by (simp add: demo_flags_def defaultFlags_def logger_Build_def parseLevel_def)

lemma demo_boots: "\<exists>W. run_boot demo_env (Some demo_flags) = Inr W"
proof -
  obtain g where g: "bootPreflight demo_env demo_config = Inr g" using demo_preflight by blast
  have st: "bootStore demo_env demo_config = Inr (memStore_ops, Memory)"
    by (simp add: bootStore_def demo_config_simps demo_env_def)
  have "Preset_Validate demo_preset = Inr ()" by (simp add: demo_preset_def Preset_Validate_def zero_preset_def)
  then have pl: "bootPresets demo_env demo_config = Inr \<lparr>plPath = ''presets/h264-streaming.yaml'', plCat = [demo_preset]\<rparr>"
    by (simp add: bootPresets_def demo_config_simps demo_env_def pl_New_def Reload_def ParseBytes_def demo_yaml_def must_def)
  show ?thesis
    by (simp add: run_boot_def demo_loaded g st pl demo_payment must_def bootRunners_def Let_def bootVOD_def bootABR_def
        bootLive_def demo_config_simps IsVOD_def IsABR_def IsLive_def jobrunner_New_def bootHTTP_def http_New_def grpc_New_def
        demo_log metrics_New_def)
qed

definition demo_wiring :: "(json memStore, fake) wiring" where
  "demo_wiring = (case run_boot demo_env (Some demo_flags) of Inr W \<Rightarrow> W)"

lemma demo_wired: "run_boot demo_env (Some demo_flags) = Inr demo_wiring"
  using demo_boots by (auto simp: demo_wiring_def)

lemma demo_wired_config: "bwConfig demo_wiring = demo_config" "svRegistryCaps (bwServer demo_wiring) = wcCapabilities demo_config"
  using run_boot_cases [OF demo_wired] demo_loaded by (metis sum.inject(2))+

text \<open>The daemon of the demonstration sells offering \<open>a\<close> at 7 wei, whatever price its payment daemon lists.\<close>

theorem boot_sells_known_offerings_witness:
  "\<exists>m. rpcOpenSession demo_rpc NewFake m = (NewFake, Inr ()) \<and> int (big_SetBytes (omPricePerWorkUnitWei m)) = 7 \<and>
     omOffering m = ''a''"
proof -
  have srt: "mset (beSort demo_env rows) = mset rows \<and> sorted (map ncCapability (beSort demo_env rows))" for rows
    by (simp add: demo_env_def)
  have nd: "\<not> wcDev (bwConfig demo_wiring)" by (simp add: demo_wired_config demo_config_simps)
  have r: "resolveSessionBinding (bwServer demo_wiring) demo_session =
      Inr \<lparr>bnWorkID = ''w1'', bnCapability = ''video:transcode.vod'', bnOffering = ''a'', bnPricePerWorkUnitWei = ''7'',
           bnWorkUnit = ''token''\<rparr>"
    by (simp add: resolveSessionBinding_def demo_session_def demo_wired_config demo_config_simps demo_yaml_config_def
        resolveOffering_def projectCapability_def projectOffering_def TrimSpace_def is_space_def)
  have "psWorkID demo_session \<noteq> []" by (simp add: demo_session_def)
  from boot_sells_known_offerings [OF srt demo_wired nd r this, unfolded session_binding.simps]
  obtain price m where m: "SetString10 ''7'' = Some price" "int (big_SetBytes (omPricePerWorkUnitWei (m :: open_message))) = price"
    "omOffering m = ''a''" by blast
  have "SetString10 ''7'' = Some 7" by code_simp
  with m show ?thesis by (auto simp: demo_rpc_def)
qed

theorem auth_token_flag_ignored_witness:
  "rfAuthToken demo_flags = ''secret'' \<and>
   (\<exists>body. Handler (bwServer demo_wiring) (\<lambda>r. r) ''GET /registry/offerings'' (demo_request [] []) demo_http_state =
      Some (demo_http_state, Reply 200 (Some body)))"
proof -
  have f: "rfConfig demo_flags \<noteq> []" "rfAuthToken demo_flags = ''secret''" by (simp_all add: demo_flags_def)
  have sh: "LoadSharedWorker (beURLParse demo_env) (rfConfig demo_flags) (beOpenYAML demo_env (rfConfig demo_flags)) =
      Inr (projectSharedConfig demo_yaml_config)"
    by (simp add: LoadSharedWorker_def parseFile_def parseReader_def demo_env_def demo_validated)
  have t: "shAuthToken (projectSharedConfig demo_yaml_config) = []"
    by (simp add: projectSharedConfig_def demo_yaml_config_def TrimSpace_def)
  show ?thesis using auth_token_flag_ignored [OF demo_wired f(1) sh t] f(2) by blast
qed

end
