(* ===== verification/Rtmp_Ingest.thy ===== *)
theory Rtmp_Ingest
  imports Live_Runner
begin

text \<open>
  \<open>internal/providers/ingest\<close> and its RTMP provider \<open>ingest/rtmp/rtmp.go\<close>: the life of the listener (\<open>Listen\<close>,
  \<open>Stop\<close>) as a machine with one step per statement that other goroutines can come between, and the callbacks
  that the RTMP library makes on one connection (\<open>OnPublish\<close>, \<open>OnAudio\<close>, \<open>OnVideo\<close>, \<open>OnClose\<close>). The library
  itself, the socket and the outcome of its calls are inputs. The session acceptor is an interface; the live
  runner provides it.
\<close>

subsection \<open>The interface of the session acceptor\<close>

text \<open>\<open>'r\<close> is the state of the acceptor, \<open>'g\<close> what it hands out for an accepted session.\<close>

record ('r, 'g) acceptor_ops =
  acAccept :: "ingest_session \<Rightarrow> 'r \<Rightarrow> 'r \<times> 'g result"
  acOnEnd :: "'g \<Rightarrow> string \<Rightarrow> 'r \<Rightarrow> 'r"

definition runner_acceptor ::
  "('s, 'b) live_deps \<Rightarrow> 'k sink_ops \<Rightarrow> (('s, 'b, 'k) runner, goroutine) acceptor_ops" where
  "runner_acceptor D K = \<lparr>acAccept = Accept D K, acOnEnd = OnEnd\<rparr>"

subsection \<open>The callbacks of one connection\<close>

text \<open>
  An \<open>io.Pipe\<close>: a write returns when the reader has taken the bytes, and fails once one end is closed.
\<close>

record rtmp_pipe =
  ppData :: bytes
  ppWClosed :: bool
  ppRClosed :: bool

definition io_Pipe :: rtmp_pipe where
  "io_Pipe = \<lparr>ppData = [], ppWClosed = False, ppRClosed = False\<rparr>"

definition closePipe :: "rtmp_pipe \<Rightarrow> rtmp_pipe" where
  "closePipe p = p\<lparr>ppWClosed := True, ppRClosed := True\<rparr>"

definition pipeOpen :: "rtmp_pipe \<Rightarrow> bool" where
  "pipeOpen p \<longleftrightarrow> \<not> ppWClosed p \<and> \<not> ppRClosed p"

text \<open>A payload: its bytes, and the error its reader ends with, if any. \<open>io.Copy\<close> does not write nothing.\<close>

type_synonym payload = "bytes \<times> go_error option"

definition ErrClosedPipe :: go_error where
  "ErrClosedPipe = Err ''io: read/write on closed pipe''"

definition io_Copy :: "rtmp_pipe \<Rightarrow> payload \<Rightarrow> rtmp_pipe \<times> unit result" where
  "io_Copy p x =
     (if fst x \<noteq> [] \<and> \<not> pipeOpen p then (p, Inl ErrClosedPipe)
      else (p\<lparr>ppData := ppData p @ fst x\<rparr>, case snd x of None \<Rightarrow> Inr () | Some e \<Rightarrow> Inl e))"

record rtmp_session =
  rsStreamKey :: string
  rsPipe :: nat
  rsRemote :: string

definition session_Protocol :: string where
  "session_Protocol = ''rtmp''"

definition session_MediaFormat :: string where
  "session_MediaFormat = ''flv''"

definition as_ingest_session :: "rtmp_session \<Rightarrow> ingest_session" where
  "as_ingest_session s = \<lparr>isStreamKey = rsStreamKey s, isRemoteAddr = rsRemote s\<rparr>"

datatype rtmp_log =
    AcceptorRejected string string go_error
  | SessionOpen string string
  | SessionClosed string string

text \<open>
  The handler of a connection, with the pipes made so far (a session refers to its pipe by number), the state
  of the acceptor and the lines logged.
\<close>

record ('r, 'g) rtmp_conn =
  cnRemote :: string
  cnPipe :: "nat option"
  cnSession :: "rtmp_session option"
  cnOnEnd :: "'g option"
  cnPipes :: "rtmp_pipe list"
  cnAcceptor :: 'r
  cnLog :: "rtmp_log list"

definition newConnHandler :: "string \<Rightarrow> 'r \<Rightarrow> ('r, 'g) rtmp_conn" where
  "newConnHandler remote r =
     \<lparr>cnRemote = remote, cnPipe = None, cnSession = None, cnOnEnd = None, cnPipes = [], cnAcceptor = r, cnLog = []\<rparr>"

definition redactKey :: "string \<Rightarrow> string" where
  "redactKey k = (if length k \<le> 6 then ''[short-key]'' else take 6 k @ ''...'')"

definition OnPublish ::
  "('r, 'g) acceptor_ops \<Rightarrow> string \<Rightarrow> ('r, 'g) rtmp_conn \<Rightarrow> ('r, 'g) rtmp_conn \<times> unit result" where
  "OnPublish A publishingName h =
     (let streamKey = TrimSpace publishingName in
      if streamKey = [] then (h, Inl (Err ''rtmp: empty publishing name (stream key)''))
      else
        (let n = length (cnPipes h);
             sess = \<lparr>rsStreamKey = streamKey, rsPipe = n, rsRemote = cnRemote h\<rparr>;
             h = h\<lparr>cnPipes := cnPipes h @ [io_Pipe], cnPipe := Some n, cnSession := Some sess\<rparr>
         in case acAccept A (as_ingest_session sess) (cnAcceptor h) of
              (r, Inl err) \<Rightarrow>
                (h\<lparr>cnAcceptor := r, cnLog := cnLog h @ [AcceptorRejected (redactKey streamKey) (cnRemote h) err],
                   cnPipes := (cnPipes h)[n := closePipe (cnPipes h ! n)]\<rparr>, Inl err)
            | (r, Inr acc) \<Rightarrow>
                (h\<lparr>cnAcceptor := r, cnOnEnd := Some acc,
                   cnLog := cnLog h @ [SessionOpen (redactKey streamKey) (cnRemote h)]\<rparr>, Inr ())))"

definition pipeData :: "payload \<Rightarrow> ('r, 'g) rtmp_conn \<Rightarrow> ('r, 'g) rtmp_conn \<times> unit result" where
  "pipeData x h =
     (case cnPipe h of
        None \<Rightarrow> (h, Inr ())
      | Some n \<Rightarrow> (case io_Copy (cnPipes h ! n) x of (p, a) \<Rightarrow> (h\<lparr>cnPipes := (cnPipes h)[n := p]\<rparr>, a)))"

definition OnAudio :: "payload \<Rightarrow> ('r, 'g) rtmp_conn \<Rightarrow> ('r, 'g) rtmp_conn \<times> unit result" where
  "OnAudio x h = pipeData x h"

definition OnVideo :: "payload \<Rightarrow> ('r, 'g) rtmp_conn \<Rightarrow> ('r, 'g) rtmp_conn \<times> unit result" where
  "OnVideo x h = pipeData x h"

definition OnClose :: "('r, 'g) acceptor_ops \<Rightarrow> ('r, 'g) rtmp_conn \<Rightarrow> ('r, 'g) rtmp_conn" where
  "OnClose A h =
     (let h = (case cnPipe h of
                 None \<Rightarrow> h
               | Some n \<Rightarrow> h\<lparr>cnPipes := (cnPipes h)[n := closePipe (cnPipes h ! n)]\<rparr>);
          h = (case cnSession h of
                 None \<Rightarrow> h
               | Some s \<Rightarrow> h\<lparr>cnLog := cnLog h @ [SessionClosed (redactKey (rsStreamKey s)) (cnRemote h)]\<rparr>)
      in case cnOnEnd h of
           None \<Rightarrow> h
         | Some g \<Rightarrow> h\<lparr>cnAcceptor := acOnEnd A g ''close'' (cnAcceptor h), cnOnEnd := None\<rparr>)"

text \<open>\<open>Close\<close> of the session, which whoever reads it may call at any time.\<close>

definition session_Close :: "rtmp_session \<Rightarrow> ('r, 'g) rtmp_conn \<Rightarrow> ('r, 'g) rtmp_conn" where
  "session_Close s h = h\<lparr>cnPipes := (cnPipes h)[rsPipe s := closePipe (cnPipes h ! rsPipe s)]\<rparr>"

subsection \<open>Any sequence of callbacks\<close>

datatype rtmp_event =
    Publish string
  | Audio payload
  | Video payload
  | ReaderClose
  | Close

fun rtmp_call ::
  "('r, 'g) acceptor_ops \<Rightarrow> rtmp_event \<Rightarrow> ('r, 'g) rtmp_conn \<Rightarrow> ('r, 'g) rtmp_conn" where
  "rtmp_call A (Publish k) h = fst (OnPublish A k h)"
| "rtmp_call A (Audio x) h = fst (OnAudio x h)"
| "rtmp_call A (Video x) h = fst (OnVideo x h)"
| "rtmp_call A ReaderClose h = (case cnSession h of None \<Rightarrow> h | Some s \<Rightarrow> session_Close s h)"
| "rtmp_call A Close h = OnClose A h"

fun rtmp_calls ::
  "('r, 'g) acceptor_ops \<Rightarrow> rtmp_event list \<Rightarrow> ('r, 'g) rtmp_conn \<Rightarrow> ('r, 'g) rtmp_conn" where
  "rtmp_calls A [] h = h"
| "rtmp_calls A (c # cs) h = rtmp_calls A cs (rtmp_call A c h)"

fun is_publish :: "rtmp_event \<Rightarrow> bool" where
  "is_publish (Publish _) = True"
| "is_publish _ = False"

fun media :: "rtmp_event list \<Rightarrow> bytes" where
  "media [] = []"
| "media (Audio x # cs) = fst x @ media cs"
| "media (Video x # cs) = fst x @ media cs"
| "media (_ # cs) = media cs"

fun is_media :: "rtmp_event \<Rightarrow> bool" where
  "is_media (Audio _) = True"
| "is_media (Video _) = True"
| "is_media _ = False"

subsection \<open>A session that was accepted is ended\<close>

text \<open>
  The contract of an acceptor: the closure it hands out ends the session it was handed out for, and a session
  that has ended stays so.
\<close>

locale session_acceptor =
  fixes accept :: "ingest_session \<Rightarrow> 'r \<Rightarrow> 'r \<times> 'g result"
    and on_end :: "'g \<Rightarrow> string \<Rightarrow> 'r \<Rightarrow> 'r"
    and ended :: "'g \<Rightarrow> 'r \<Rightarrow> bool"
  assumes on_end_ends: "ended g (on_end g m r)"
    and on_end_keeps: "ended g r \<Longrightarrow> ended g (on_end g' m r)"
    and accept_keeps: "ended g r \<Longrightarrow> ended g (fst (accept s r))"
begin

lemma ended_call: "ended g (cnAcceptor h) \<Longrightarrow> ended g (cnAcceptor (rtmp_call \<lparr>acAccept = accept, acOnEnd = on_end\<rparr> c h))"
proof (cases c)
  case (Publish k)
  assume e: "ended g (cnAcceptor h)"
  define h1 where "h1 = OnPublish \<lparr>acAccept = accept, acOnEnd = on_end\<rparr> k h"
  have "cnAcceptor (fst h1) = cnAcceptor h \<or> (\<exists>s. cnAcceptor (fst h1) = fst (accept s (cnAcceptor h)))"
    by (auto simp: h1_def OnPublish_def Let_def split: prod.splits sum.splits) (metis fst_conv)+
  with e Publish accept_keeps show ?thesis by (auto simp: h1_def)
qed (auto simp: OnAudio_def OnVideo_def pipeData_def session_Close_def OnClose_def Let_def on_end_keeps
       split: option.splits prod.splits)

lemma ended_calls: "ended g (cnAcceptor h) \<Longrightarrow> ended g (cnAcceptor (rtmp_calls \<lparr>acAccept = accept, acOnEnd = on_end\<rparr> cs h))"
  by (induction cs arbitrary: h) (auto intro: ended_call)

lemma close_ends:
  "cnOnEnd h = Some g \<Longrightarrow> ended g (cnAcceptor (OnClose \<lparr>acAccept = accept, acOnEnd = on_end\<rparr> h))"
  by (auto simp: OnClose_def Let_def on_end_ends split: option.splits)

end

text \<open>Between two publishes a connection keeps its closure, its session and its pipe until it is closed.\<close>

lemma pipeData_keeps [simp]:
  "cnOnEnd (fst (pipeData x h)) = cnOnEnd h" "cnSession (fst (pipeData x h)) = cnSession h"
  "cnPipe (fst (pipeData x h)) = cnPipe h" "cnAcceptor (fst (pipeData x h)) = cnAcceptor h"
  "cnLog (fst (pipeData x h)) = cnLog h" "cnRemote (fst (pipeData x h)) = cnRemote h"
  "length (cnPipes (fst (pipeData x h))) = length (cnPipes h)"
  by (auto simp: pipeData_def split: option.splits prod.splits)

lemma session_Close_keeps [simp]:
  "cnOnEnd (session_Close s h) = cnOnEnd h" "cnSession (session_Close s h) = cnSession h"
  "cnPipe (session_Close s h) = cnPipe h" "cnAcceptor (session_Close s h) = cnAcceptor h"
  "cnLog (session_Close s h) = cnLog h" "cnRemote (session_Close s h) = cnRemote h"
  "length (cnPipes (session_Close s h)) = length (cnPipes h)"
  by (simp_all add: session_Close_def)

lemma OnClose_keeps [simp]:
  "cnSession (OnClose A h) = cnSession h" "cnPipe (OnClose A h) = cnPipe h" "cnRemote (OnClose A h) = cnRemote h"
  "length (cnPipes (OnClose A h)) = length (cnPipes h)" "cnOnEnd (OnClose A h) = None"
  by (auto simp: OnClose_def Let_def split: option.splits)

definition quiet_event :: "rtmp_event \<Rightarrow> bool" where
  "quiet_event c \<longleftrightarrow> \<not> is_publish c \<and> c \<noteq> Close"

lemma quiet_keeps:
  "quiet_event c \<Longrightarrow>
     cnOnEnd (rtmp_call A c h) = cnOnEnd h \<and> cnSession (rtmp_call A c h) = cnSession h \<and>
     cnPipe (rtmp_call A c h) = cnPipe h \<and> cnAcceptor (rtmp_call A c h) = cnAcceptor h \<and>
     length (cnPipes (rtmp_call A c h)) = length (cnPipes h)"
  by (cases c) (auto simp: quiet_event_def OnAudio_def OnVideo_def split: option.splits)

lemma quiet_calls:
  "list_all quiet_event cs \<Longrightarrow>
     cnOnEnd (rtmp_calls A cs h) = cnOnEnd h \<and> cnSession (rtmp_calls A cs h) = cnSession h \<and>
     cnPipe (rtmp_calls A cs h) = cnPipe h \<and> cnAcceptor (rtmp_calls A cs h) = cnAcceptor h \<and>
     length (cnPipes (rtmp_calls A cs h)) = length (cnPipes h)"
  by (induction cs arbitrary: h) (auto simp: quiet_keeps)

text \<open>What an accepted publish leaves behind, and a rejected one: the pipe of a rejected session is closed.\<close>

lemma OnPublish_ok:
  assumes "OnPublish A k h = (h', Inr ())"
  obtains g s where
    "TrimSpace k \<noteq> []" "s = \<lparr>rsStreamKey = TrimSpace k, rsPipe = length (cnPipes h), rsRemote = cnRemote h\<rparr>"
    "acAccept A (as_ingest_session s) (cnAcceptor h) = (cnAcceptor h', Inr g)"
    "cnOnEnd h' = Some g" "cnSession h' = Some s" "cnPipe h' = Some (rsPipe s)" "cnPipes h' = cnPipes h @ [io_Pipe]"
  using assms by (auto simp: OnPublish_def Let_def split: if_splits prod.splits sum.splits)

lemma OnPublish_err:
  assumes "OnPublish A k h = (h', Inl err)"
  shows "cnOnEnd h' = cnOnEnd h"
    and "TrimSpace k \<noteq> [] \<Longrightarrow> cnPipes h' = cnPipes h @ [closePipe io_Pipe]"
    and "TrimSpace k = [] \<Longrightarrow> h' = h"
  using assms by (auto simp: OnPublish_def Let_def split: if_splits prod.splits sum.splits)

lemma io_Copy_open:
  "pipeOpen p \<Longrightarrow> pipeOpen (fst (io_Copy p x)) \<and> ppData (fst (io_Copy p x)) = ppData p @ fst x"
  by (simp add: io_Copy_def pipeOpen_def)

text \<open>While the pipe of a session is open its reader gets every audio and video byte, in order.\<close>

lemma media_to_reader:
  assumes "cnPipe h = Some n" "n < length (cnPipes h)" "pipeOpen (cnPipes h ! n)" "list_all is_media cs"
  shows "pipeOpen (cnPipes (rtmp_calls A cs h) ! n) \<and>
         ppData (cnPipes (rtmp_calls A cs h) ! n) = ppData (cnPipes h ! n) @ media cs"
  using assms
proof (induction cs arbitrary: h)
  case (Cons c cs)
  then obtain x where c: "c = Audio x \<or> c = Video x" by (cases c) auto
  define h1 where "h1 = rtmp_call A c h"
  have h1: "h1 = fst (pipeData x h)" using c by (auto simp: h1_def OnAudio_def OnVideo_def)
  have "cnPipes h1 ! n = fst (io_Copy (cnPipes h ! n) x)"
    using Cons.prems(1,2) by (simp add: h1 pipeData_def split: prod.splits)
  moreover have "cnPipe h1 = Some n" "n < length (cnPipes h1)" using Cons.prems(1,2) by (simp_all add: h1)
  ultimately show ?case
    using Cons.IH [of h1] Cons.prems(3,4) io_Copy_open [OF Cons.prems(3), of x] c by (auto simp: h1_def [symmetric])
qed simp

lemma OnClose_closes:
  "cnPipe h = Some n \<Longrightarrow> n < length (cnPipes h) \<Longrightarrow> \<not> pipeOpen (cnPipes (OnClose A h) ! n)"
  by (auto simp: OnClose_def Let_def pipeOpen_def closePipe_def split: option.splits)

text \<open>The acceptor hears of the end once, however often the connection is closed.\<close>

lemma OnClose_twice: "cnAcceptor (OnClose A (OnClose A h)) = cnAcceptor (OnClose A h)"
  using OnClose_keeps(5) [of A h] by (simp add: OnClose_def [of A "OnClose A h"] Let_def split: option.split)

lemma OnClose_no_session: "cnOnEnd h = None \<Longrightarrow> cnAcceptor (OnClose A h) = cnAcceptor h"
  by (simp add: OnClose_def Let_def split: option.split)

text \<open>
  From publish to close: the acceptor sees the trimmed key and the peer's address; its closure is kept while
  media flows, called with \<open>close\<close> when the connection closes, and the pipe is shut then.
\<close>

theorem rtmp_session_life:
  assumes "OnPublish A k h = (h1, Inr ())" "list_all quiet_event cs" "h2 = rtmp_calls A cs h1"
  obtains g where
    "acAccept A \<lparr>isStreamKey = TrimSpace k, isRemoteAddr = cnRemote h\<rparr> (cnAcceptor h) = (cnAcceptor h1, Inr g)"
    "cnAcceptor h2 = cnAcceptor h1" "cnAcceptor (OnClose A h2) = acOnEnd A g ''close'' (cnAcceptor h1)"
    "\<not> pipeOpen (cnPipes (OnClose A h2) ! length (cnPipes h))"
proof -
  obtain g s where g: "TrimSpace k \<noteq> []"
    "s = \<lparr>rsStreamKey = TrimSpace k, rsPipe = length (cnPipes h), rsRemote = cnRemote h\<rparr>"
    "acAccept A (as_ingest_session s) (cnAcceptor h) = (cnAcceptor h1, Inr g)"
    "cnOnEnd h1 = Some g" "cnSession h1 = Some s" "cnPipe h1 = Some (rsPipe s)" "cnPipes h1 = cnPipes h @ [io_Pipe]"
    using OnPublish_ok [OF assms(1)] by metis
  note q = quiet_calls [OF assms(2), of A h1, folded assms(3)]
  have "cnAcceptor (OnClose A h2) = acOnEnd A g ''close'' (cnAcceptor h1)"
    using q g(4) by (auto simp: OnClose_def Let_def split: option.splits)
  moreover have "\<not> pipeOpen (cnPipes (OnClose A h2) ! length (cnPipes h))"
    using q g(2,6,7) by (intro OnClose_closes) auto
  ultimately show ?thesis using that [of g] q g(2,3) by (simp add: as_ingest_session_def)
qed

subsection \<open>Logged keys\<close>

lemma redactKey_prefix_only: "6 < length k \<Longrightarrow> 6 < length k' \<Longrightarrow> take 6 k = take 6 k' \<Longrightarrow> redactKey k = redactKey k'"
  by (simp add: redactKey_def)

lemma redactKey_short: "length k \<le> 6 \<Longrightarrow> length k' \<le> 6 \<Longrightarrow> redactKey k = redactKey k'"
  by (simp add: redactKey_def)

fun log_key :: "rtmp_log \<Rightarrow> string" where
  "log_key (AcceptorRejected k _ _) = k"
| "log_key (SessionOpen k _) = k"
| "log_key (SessionClosed k _) = k"

definition log_redacted :: "('r, 'g) rtmp_conn \<Rightarrow> bool" where
  "log_redacted h \<longleftrightarrow> (\<forall>l \<in> set (cnLog h). \<exists>k. log_key l = redactKey k)"

lemma log_redacted_call: "log_redacted h \<Longrightarrow> log_redacted (rtmp_call A c h)"
proof (cases c)
  case (Publish k)
  moreover assume "log_redacted h"
  ultimately show ?thesis
    by (auto simp: OnPublish_def Let_def log_redacted_def split: prod.splits sum.splits)
next
  case Close
  moreover assume "log_redacted h"
  ultimately show ?thesis by (auto simp: OnClose_def Let_def log_redacted_def split: option.splits)
qed (auto simp: OnAudio_def OnVideo_def log_redacted_def split: option.splits)

lemma log_redacted_calls: "log_redacted (rtmp_calls A cs (newConnHandler remote r))"
proof -
  have "log_redacted h \<Longrightarrow> log_redacted (rtmp_calls A cs h)" for h :: "('a, 'b) rtmp_conn"
    by (induction cs arbitrary: h) (auto intro: log_redacted_call)
  moreover have "log_redacted (newConnHandler remote r)" by (simp add: newConnHandler_def log_redacted_def)
  ultimately show ?thesis by blast
qed

subsection \<open>The live runner as acceptor\<close>

lemma accept_parts_cancelled [simp]:
  "rnCancelled (fst (sessionActive D sid t r)) = rnCancelled r" "rnCancelled (fst (rnSaveStream D x r)) = rnCancelled r"
  "rnCancelled (fst (acquireLive D r)) = rnCancelled r" "rnCancelled (fst (openMirror D K v r)) = rnCancelled r"
  "rnCancelled (fst (launch v x m l ctx r)) = rnCancelled r" "rnCancelled (rnTick r) = rnCancelled r"
  "rnCancelled (rnEmit e r) = rnCancelled r"
  by (auto simp: sessionActive_def rnSaveStream_def acquireLive_def openMirror_def launch_def rnTick_def rnEmit_def Let_def
      split: option.splits sum.splits prod.splits)

lemma admit_keeps_cancelled: "set (rnCancelled r) \<subseteq> set (rnCancelled (fst (admit D K i v r)))"
proof -
  define t where "t = rnNow D r"
  obtain r1 a where r1: "sessionActive D (vStreamID v) t (rnTick r) = (r1, a)" by fastforce
  define r2 where "r2 = fst (rnSaveStream D (acceptStream D i v t (pendingCtl r1 (vStreamID v))) r1)"
  obtain r3 l where r3: "acquireLive D (r2\<lparr>rnCtxs := Suc (rnCtxs r2)\<rparr>) = (r3, l)" by fastforce
  have "rnCancelled r1 = rnCancelled r"
    using accept_parts_cancelled(1) [of D "vStreamID v" t "rnTick r"] unfolding r1 by simp
  moreover have "rnCancelled r2 = rnCancelled r1" by (simp add: r2_def)
  moreover have "rnCancelled r3 = rnCancelled r2"
    using accept_parts_cancelled(3) [of D "r2\<lparr>rnCtxs := Suc (rnCtxs r2)\<rparr>"] unfolding r3 by simp
  moreover have "admit D K i v r =
      (case a of Inl err \<Rightarrow> (r1, Inl err)
       | Inr _ \<Rightarrow> (case l of Inl err \<Rightarrow> (r3\<lparr>rnCancelled := rnCtxs r2 # rnCancelled r3\<rparr>, Inl err)
          | Inr lease \<Rightarrow> (case openMirror D K v r3 of (r4, m) \<Rightarrow>
              (case launch v (acceptStream D i v t (pendingCtl r1 (vStreamID v))) m lease (rnCtxs r2) r4 of (r5, g) \<Rightarrow> (r5, Inr g)))))"
    by (simp add: admit_def Let_def r1 t_def [symmetric] r2_def [symmetric] r3 split: sum.split)
  moreover have "rnCancelled (fst (case openMirror D K v r3 of (r4, m) \<Rightarrow> (case launch v x m lease c r4 of (r5, g) \<Rightarrow> (r5, Inr g :: goroutine result)))) = rnCancelled r3"
    for x lease c
    by (simp add: case_prod_unfold)
  ultimately show ?thesis by (auto split: sum.split)
qed

lemma Accept_keeps_cancelled: "x \<in> set (rnCancelled r) \<Longrightarrow> x \<in> set (rnCancelled (fst (Accept D K i r)))"
  using admit_keeps_cancelled by (fastforce simp: Accept_def Let_def split: sum.split)

interpretation live_acceptor: session_acceptor "Accept D K" OnEnd "\<lambda>g r. gCtx g \<in> set (rnCancelled r)"
  by unfold_locales (auto simp: OnEnd_def cancelCtx_def updCtl_def intro: Accept_keeps_cancelled)

text \<open>
  C40. A publisher whose session the live runner accepted is told to stop when the connection closes, whatever the
  connection does before that, a second publish apart.
\<close>

theorem rtmp_close_cancels_session:
  assumes "OnPublish (runner_acceptor D K) k h = (h1, Inr ())" "list_all quiet_event cs"
    "Accept D K \<lparr>isStreamKey = TrimSpace k, isRemoteAddr = cnRemote h\<rparr> (cnAcceptor h) = (r1, Inr g)"
  shows "gCtx g \<in> set (rnCancelled (cnAcceptor (rtmp_calls (runner_acceptor D K) (cs @ Close # cs') h1)))"
proof -
  have append: "rtmp_calls A (xs @ ys) h = rtmp_calls A ys (rtmp_calls A xs h)" for A xs ys and h :: "(('s, 'b, 'k) runner, goroutine) rtmp_conn"
    by (induction xs arbitrary: h) auto
  obtain g' s where g': "s = \<lparr>rsStreamKey = TrimSpace k, rsPipe = length (cnPipes h), rsRemote = cnRemote h\<rparr>"
    "Accept D K (as_ingest_session s) (cnAcceptor h) = (cnAcceptor h1, Inr g')" "cnOnEnd h1 = Some g'"
    using OnPublish_ok [OF assms(1)] by (metis runner_acceptor_def acceptor_ops.select_convs(1))
  then have "cnOnEnd (rtmp_calls (runner_acceptor D K) cs h1) = Some g"
    using quiet_calls [OF assms(2), of "runner_acceptor D K" h1] assms(3) by (simp add: as_ingest_session_def)
  then have "gCtx g \<in> set (rnCancelled (cnAcceptor (OnClose (runner_acceptor D K) (rtmp_calls (runner_acceptor D K) cs h1))))"
    unfolding runner_acceptor_def by (rule live_acceptor.close_ends)
  then show ?thesis
    using live_acceptor.ended_calls [of g _ D K cs'] by (simp add: append runner_acceptor_def)
qed

theorem rtmp_close_cancels_session_witness:
  "\<exists>h1. OnPublish (runner_acceptor demo_run_deps memSink_ops) ''s1'' (newConnHandler ''192.0.2.1:4000'' demo_runner) = (h1, Inr ()) \<and>
     gCtx (demo_g 0) \<in> set (rnCancelled (cnAcceptor
       (rtmp_calls (runner_acceptor demo_run_deps memSink_ops) ([Audio ([1, 2], None), Video ([3], None)] @ Close # [Close]) h1)))"
proof -
  have i: "\<lparr>isStreamKey = TrimSpace ''s1'', isRemoteAddr = ''192.0.2.1:4000''\<rparr> = demo_publish"
    by (simp add: demo_publish_def TrimSpace_def is_space_def)
  let ?h = "newConnHandler ''192.0.2.1:4000'' demo_runner :: ((json memStore, fake, memSink) runner, goroutine) rtmp_conn"
  define h1 where "h1 = fst (OnPublish (runner_acceptor demo_run_deps memSink_ops) ''s1'' ?h)"
  have p: "OnPublish (runner_acceptor demo_run_deps memSink_ops) ''s1'' ?h = (h1, Inr ())"
    using i demo_accepts
    by (simp add: h1_def OnPublish_def Let_def runner_acceptor_def newConnHandler_def as_ingest_session_def TrimSpace_def is_space_def)
  have "Accept demo_run_deps memSink_ops \<lparr>isStreamKey = TrimSpace ''s1'', isRemoteAddr = cnRemote ?h\<rparr> (cnAcceptor ?h) =
      (demo_accept, Inr (demo_g 0))"
    using i demo_accepts by (simp add: newConnHandler_def)
  from rtmp_close_cancels_session [OF p _ this, of "[Audio ([1, 2], None), Video ([3], None)]" "[Close]"] p
  show ?thesis by (simp add: quiet_event_def)
qed

text \<open>
  Two publishes on one connection: the handler keeps the closure of the second session only. When the
  connection closes the first session, whose pipe nobody closes, is not told.
\<close>

theorem rtmp_second_publish_orphans:
  defines "A \<equiv> runner_acceptor demo_run_deps memSink_ops"
  defines "h \<equiv> rtmp_calls A [Publish ''s1'', Publish ''s1'', Close]
    (newConnHandler ''192.0.2.1:4000'' demo_runner)"
  shows "gCtx (demo_g 0) \<notin> set (rnCancelled (cnAcceptor h))" "gCtx (demo_g 1) \<in> set (rnCancelled (cnAcceptor h))"
    "pipeOpen (cnPipes h ! 0)"
  unfolding A_def h_def by code_simp+

subsection \<open>The listener\<close>

record rtmp_config =
  rcListen :: string
  rcMaxConcurrent :: int

text \<open>
  The provider: its fields, whether the socket is bound and whether the RTMP server has been closed. \<open>Listen\<close>
  holds the mutex while it binds; what other goroutines can see of it is where it stands.
\<close>

datatype listen_pc =
    LIdle
  | LBound
  | LServing
  | LDrain
  | LReturned "go_error option"

record rtmp_provider =
  pvCfg :: rtmp_config
  pvListener :: bool
  pvServer :: bool
  pvStopped :: bool
  pvBound :: bool
  pvClosed :: bool
  pvListen :: listen_pc

definition rtmp_New :: "rtmp_config \<Rightarrow> rtmp_provider" where
  "rtmp_New cfg =
     \<lparr>pvCfg = (if rcListen cfg = [] then cfg\<lparr>rcListen := '':1935''\<rparr> else cfg), pvListener = False, pvServer = False,
      pvStopped = False, pvBound = False, pvClosed = False, pvListen = LIdle\<rparr>"

definition ErrAlreadyListening :: go_error where
  "ErrAlreadyListening = Err ''ingest: already listening''"

definition ErrNotListening :: go_error where
  "ErrNotListening = Err ''ingest: not listening''"

text \<open>\<open>closeErr\<close> is what \<open>rtmp.Server.Close\<close> returns.\<close>

definition rtmp_Stop :: "go_error option \<Rightarrow> rtmp_provider \<Rightarrow> rtmp_provider \<times> unit result" where
  "rtmp_Stop closeErr p =
     (let p = p\<lparr>pvStopped := True\<rparr> in
      if \<not> pvListener p then (p, Inl ErrNotListening)
      else
        (let srv = pvServer p; p = p\<lparr>pvListener := False, pvServer := False\<rparr> in
         if srv then (p\<lparr>pvBound := False, pvClosed := True\<rparr>, case closeErr of None \<Rightarrow> Inr () | Some e \<Rightarrow> Inl e)
         else (p, Inr ())))"

text \<open>
  The steps of one call of \<open>Listen\<close>: the bind, the construction of the server, the end of \<open>Serve\<close> (by an error of
  the socket, or because the server was closed), the end of the context. \<open>Serve\<close> on a closed server returns.
\<close>

definition listen_bind :: "unit result \<Rightarrow> rtmp_provider \<Rightarrow> rtmp_provider" where
  "listen_bind bind p =
     (if pvListener p then p\<lparr>pvListen := LReturned (Some ErrAlreadyListening)\<rparr>
      else
        (case bind of
           Inl err \<Rightarrow> p\<lparr>pvListen := LReturned (Some (ErrWrap ''rtmp listen: '' err))\<rparr>
         | Inr _ \<Rightarrow> p\<lparr>pvListener := True, pvBound := True, pvClosed := False, pvListen := LBound\<rparr>))"

definition listen_server :: "rtmp_provider \<Rightarrow> rtmp_provider" where
  "listen_server p = p\<lparr>pvServer := True, pvListen := LServing\<rparr>"

definition serve_error :: "go_error option \<Rightarrow> rtmp_provider \<Rightarrow> go_error option" where
  "serve_error err p =
     (case err of None \<Rightarrow> None | Some e \<Rightarrow> if pvStopped p then None else Some (ErrWrap ''rtmp serve: '' e))"

definition listen_ctxDone :: "go_error option \<Rightarrow> rtmp_provider \<Rightarrow> rtmp_provider" where
  "listen_ctxDone closeErr p = (fst (rtmp_Stop closeErr p))\<lparr>pvListen := LDrain\<rparr>"

datatype listen_event =
    Bind "unit result"
  | MakeServer
  | ServeFails go_error
  | ServeCloses go_error
  | CtxDone "go_error option"
  | StopCall "go_error option"

fun listen_do :: "listen_event \<Rightarrow> rtmp_provider \<Rightarrow> rtmp_provider option" where
  "listen_do (Bind b) p = (if pvListen p = LIdle then Some (listen_bind b p) else None)"
| "listen_do MakeServer p = (if pvListen p = LBound then Some (listen_server p) else None)"
| "listen_do (ServeFails e) p =
     (if pvListen p = LServing then Some (p\<lparr>pvListen := LReturned (serve_error (Some e) p)\<rparr>)
      else if pvListen p = LDrain then Some (p\<lparr>pvListen := LReturned None\<rparr>) else None)"
| "listen_do (ServeCloses e) p =
     (if pvClosed p \<and> pvListen p = LServing then Some (p\<lparr>pvListen := LReturned (serve_error (Some e) p)\<rparr>)
      else if pvClosed p \<and> pvListen p = LDrain then Some (p\<lparr>pvListen := LReturned None\<rparr>) else None)"
| "listen_do (CtxDone c) p = (if pvListen p = LServing then Some (listen_ctxDone c p) else None)"
| "listen_do (StopCall c) p = Some (fst (rtmp_Stop c p))"

fun listen_run :: "listen_event list \<Rightarrow> rtmp_provider \<Rightarrow> rtmp_provider option" where
  "listen_run [] p = Some p"
| "listen_run (e # es) p = (case listen_do e p of None \<Rightarrow> None | Some q \<Rightarrow> listen_run es q)"

fun is_serve_failure :: "listen_event \<Rightarrow> bool" where
  "is_serve_failure (ServeFails _) = True"
| "is_serve_failure _ = False"

text \<open>The regular life: bind, serve, and when the context ends the port is free and \<open>Listen\<close> returns no error.\<close>

theorem rtmp_listen_graceful:
  "\<exists>p. listen_run [Bind (Inr ()), MakeServer, CtxDone c, ServeCloses e] (rtmp_New cfg) = Some p \<and>
     pvListen p = LReturned None \<and> \<not> pvBound p"
  by (simp add: rtmp_New_def listen_bind_def listen_server_def listen_ctxDone_def rtmp_Stop_def Let_def)

lemma rtmp_listen_twice:
  "pvListener p \<Longrightarrow> pvListen p = LIdle \<Longrightarrow>
     listen_do (Bind b) p = Some (p\<lparr>pvListen := LReturned (Some ErrAlreadyListening)\<rparr>)"
  by (simp add: listen_bind_def)

lemma rtmp_serve_failure:
  "listen_run [Bind (Inr ()), MakeServer, ServeFails e] (rtmp_New cfg) = Some p \<Longrightarrow>
     pvListen p = LReturned (Some (ErrWrap ''rtmp serve: '' e))"
  by (auto simp: rtmp_New_def listen_bind_def listen_server_def serve_error_def)

text \<open>
  A stop that comes between the bind and the construction of the server closes nothing, although it takes the
  listener out of the provider. From then on the socket stays bound: no later stop finds a listener, and when
  the context ends \<open>Listen\<close> waits for a \<open>Serve\<close> that nobody has told to return.
\<close>

definition stuck :: "rtmp_provider \<Rightarrow> bool" where
  "stuck p \<longleftrightarrow> \<not> pvListener p \<and> pvBound p \<and> \<not> pvClosed p \<and> pvListen p \<in> {LBound, LServing, LDrain}"

lemma stuck_do: "stuck p \<Longrightarrow> \<not> is_serve_failure e \<Longrightarrow> listen_do e p = Some q \<Longrightarrow> stuck q"
  by (cases e) (auto simp: stuck_def listen_server_def listen_ctxDone_def rtmp_Stop_def Let_def split: if_splits)

lemma stuck_run: "stuck p \<Longrightarrow> list_all (\<lambda>e. \<not> is_serve_failure e) es \<Longrightarrow> listen_run es p = Some q \<Longrightarrow> stuck q"
  by (induction es arbitrary: p) (auto split: option.splits intro: stuck_do)

theorem rtmp_early_stop_hangs:
  assumes "list_all (\<lambda>e. \<not> is_serve_failure e) es"
    "listen_run ([Bind (Inr ()), StopCall c] @ es) (rtmp_New cfg) = Some p"
  shows "pvListen p \<in> {LBound, LServing, LDrain} \<and> pvBound p \<and> snd (rtmp_Stop c' p) = Inl ErrNotListening"
proof -
  obtain q where q: "listen_run es q = Some p" "stuck q"
    using assms(2) by (auto simp: rtmp_New_def listen_bind_def rtmp_Stop_def Let_def stuck_def)
  then have "stuck p" using stuck_run assms(1) by blast
  then show ?thesis by (simp add: stuck_def rtmp_Stop_def)
qed

lemma rtmp_early_stop_hangs_example:
  "\<exists>p. listen_run [Bind (Inr ()), StopCall None, MakeServer, CtxDone None] (rtmp_New \<lparr>rcListen = [], rcMaxConcurrent = 4\<rparr>) = Some p \<and>
     pvListen p = LDrain \<and> pvBound p"
  by (simp add: rtmp_New_def listen_bind_def listen_server_def listen_ctxDone_def rtmp_Stop_def Let_def)

text \<open>
  The flag \<open>stopped\<close> is never taken back: in a later call of \<open>Listen\<close> on the same provider a failure of \<open>Serve\<close> is
  taken for the effect of the stop, and \<open>Listen\<close> returns without an error.
\<close>

theorem rtmp_relisten_hides_failure:
  assumes "pvStopped p" "\<not> pvListener p" "pvListen p = LIdle"
  shows "\<exists>q. listen_run [Bind (Inr ()), MakeServer, ServeFails e] p = Some q \<and> pvListen q = LReturned None"
  using assms by (simp add: listen_bind_def listen_server_def serve_error_def)

end
