(* ===== verification/Media_Storage.thy ===== *)
theory Media_Storage
  imports Http_Server
begin

text \<open>
  \<open>internal/providers/probe\<close>, the call of \<open>ffprobe\<close> and the reading of its JSON, and \<open>internal/providers/storage\<close>,
  download and upload through pre-signed URLs, with the in-memory storage of the tests. The processes and the
  HTTP client are inputs; the file system is the one of the live mirror.
\<close>

subsection \<open>ffprobe\<close>

record probe_format =
  pfDuration :: string
  pfFormatName :: string

record probe_stream =
  psCodecType :: string
  psWidth :: int
  psHeight :: int

record probe_doc =
  pdFormat :: probe_format
  pdStreams :: "probe_stream list"

definition zero_probe_stream :: probe_stream where
  "zero_probe_stream = \<lparr>psCodecType = [], psWidth = 0, psHeight = 0\<rparr>"

definition zero_probe_doc :: probe_doc where
  "zero_probe_doc = \<lparr>pdFormat = \<lparr>pfDuration = [], pfFormatName = []\<rparr>, pdStreams = []\<rparr>"

definition format_fields :: "probe_format fields" where
  "format_fields =
     [(''duration'', field dec_str (\<lambda>v r. r\<lparr>pfDuration := v\<rparr>)), (''format_name'', field dec_str (\<lambda>v r. r\<lparr>pfFormatName := v\<rparr>))]"

definition stream_fields :: "probe_stream fields" where
  "stream_fields =
     [(''codec_type'', field dec_str (\<lambda>v r. r\<lparr>psCodecType := v\<rparr>)), (''width'', field dec_int (\<lambda>v r. r\<lparr>psWidth := v\<rparr>)),
      (''height'', field dec_int (\<lambda>v r. r\<lparr>psHeight := v\<rparr>))]"

definition decode_probe_stream :: "json \<Rightarrow> probe_stream result" where
  "decode_probe_stream j = decodeInto False stream_fields zero_probe_stream (Inr j)"

text \<open>A member that is itself a struct is decoded into the value it has.\<close>

definition probe_doc_fields :: "probe_doc fields" where
  "probe_doc_fields =
     [(''format'', \<lambda>j r. rbind (decodeInto False format_fields (pdFormat r) (Inr j)) (\<lambda>v. Inr (r\<lparr>pdFormat := v\<rparr>))),
      (''streams'', field (dec_list decode_probe_stream) (\<lambda>v r. r\<lparr>pdStreams := v\<rparr>))]"

text \<open>
  \<open>doc\<close> is the JSON text as a tree, or its syntax error. A duration that is no number is zero (as is one beyond
  the range of a float, which Go would read as infinite); the size is that of the first video stream.
\<close>

definition ParseProbeJSON :: "json result \<Rightarrow> probe_result result" where
  "ParseProbeJSON doc =
     rbind (decodeInto False probe_doc_fields zero_probe_doc doc) (\<lambda>v.
       let dur = (case ParseFloat (pfDuration (pdFormat v)) of None \<Rightarrow> 0 | Some x \<Rightarrow> x);
           r = \<lparr>prDurationSeconds = dur, prWidth = 0, prHeight = 0, prContainer = pfFormatName (pdFormat v)\<rparr>
       in case find (\<lambda>s. psCodecType s = ''video'') (pdStreams v) of
            None \<Rightarrow> Inr r
          | Some s \<Rightarrow> Inr (r\<lparr>prWidth := psWidth s, prHeight := psHeight s\<rparr>))"

definition probeArgs :: "string \<Rightarrow> string list" where
  "probeArgs path = [''-v'', ''error'', ''-print_format'', ''json'', ''-show_format'', ''-show_streams'', path]"

text \<open>\<open>exec\<close> is the run of a program, \<open>parse\<close> the JSON reader.\<close>

definition SystemProber_Probe ::
  "string \<Rightarrow> (string \<Rightarrow> string list \<Rightarrow> bytes result) \<Rightarrow> (bytes \<Rightarrow> json result) \<Rightarrow> string \<Rightarrow> probe_result result" where
  "SystemProber_Probe bin exec parse path =
     (case exec (if bin = [] then ''ffprobe'' else bin) (probeArgs path) of
        Inl err \<Rightarrow> Inl (ErrWrap ''ffprobe: '' err)
      | Inr out \<Rightarrow> ParseProbeJSON (parse out))"

definition NewSystem :: string where
  "NewSystem = ''ffprobe''"

definition FakeProber_Probe :: "probe_result \<Rightarrow> string \<Rightarrow> probe_result result" where
  "FakeProber_Probe r path = Inr r"

text \<open>What \<open>ffprobe\<close> writes for a file with a sound track before the picture.\<close>

definition stream_json :: "string \<times> int \<times> int \<Rightarrow> json" where
  "stream_json = (\<lambda>(c, w, h).
     JObj ((''codec_type'', JStr c) # (if c = ''video'' then [(''width'', JInt w), (''height'', JInt h)] else [])))"

definition ffprobe_json :: "string \<Rightarrow> string \<Rightarrow> (string \<times> int \<times> int) list \<Rightarrow> json" where
  "ffprobe_json dur name streams =
     JObj
       [(''streams'', JArr (map stream_json streams)),
        (''format'', JObj [(''filename'', JStr ''in.mp4''), (''format_name'', JStr name), (''duration'', JStr dur)])]"

lemma ToLower_names:
  "ToLower ''streams'' = ''streams''" "ToLower ''format'' = ''format''" "ToLower ''duration'' = ''duration''"
  "ToLower ''format_name'' = ''format_name''" "ToLower ''codec_type'' = ''codec_type''" "ToLower ''width'' = ''width''"
  "ToLower ''height'' = ''height''" "ToLower ''filename'' = ''filename''"
  by code_simp+

lemmas probe_decode = decodeInto_def probe_doc_fields_def format_fields_def stream_fields_def setMember_def field_def
  ToLower_names zero_probe_doc_def zero_probe_stream_def

definition decoded_stream :: "string \<times> int \<times> int \<Rightarrow> probe_stream" where
  "decoded_stream = (\<lambda>(c, w, h).
     \<lparr>psCodecType = c, psWidth = (if c = ''video'' then w else 0), psHeight = (if c = ''video'' then h else 0)\<rparr>)"

abbreviation fits64 :: "int \<Rightarrow> bool" where
  "fits64 i \<equiv> - (2 ^ 63) \<le> i \<and> i < 2 ^ 63"

lemma decode_stream_json:
  "fits64 w \<Longrightarrow> fits64 h \<Longrightarrow> decode_probe_stream (stream_json (c, w, h)) = Inr (decoded_stream (c, w, h))"
  by (auto simp: decode_probe_stream_def probe_decode stream_json_def decoded_stream_def)

lemma decode_streams_json:
  "list_all (\<lambda>(c, w, h). fits64 w \<and> fits64 h) streams \<Longrightarrow>
   rmap decode_probe_stream (map stream_json streams) = Inr (map decoded_stream streams)"
  by (induction streams) (auto simp: decode_stream_json)

lemma decode_ffprobe_json:
  assumes "list_all (\<lambda>(c, w, h). fits64 w \<and> fits64 h) streams"
  shows "decodeInto False probe_doc_fields zero_probe_doc (Inr (ffprobe_json dur name streams)) =
    Inr \<lparr>pdFormat = \<lparr>pfDuration = dur, pfFormatName = name\<rparr>, pdStreams = map decoded_stream streams\<rparr>"
  by (simp add: ffprobe_json_def probe_decode decode_streams_json [OF assms])

lemma find_decoded:
  "find (\<lambda>s. psCodecType s = ''video'') (map decoded_stream streams) =
     (case find (\<lambda>x. fst x = ''video'') streams of
        None \<Rightarrow> None | Some x \<Rightarrow> Some \<lparr>psCodecType = ''video'', psWidth = fst (snd x), psHeight = snd (snd x)\<rparr>)"
  by (induction streams) (auto simp: decoded_stream_def)

text \<open>The fields of the document arrive in the result, and the size is the one of the first video stream.\<close>

theorem ParseProbeJSON_reads:
  assumes "list_all (\<lambda>(c, w, h). fits64 w \<and> fits64 h) streams" "ParseFloat dur = Some d"
  shows "ParseProbeJSON (Inr (ffprobe_json dur name streams)) =
     Inr (case find (\<lambda>x. fst x = ''video'') streams of
            None \<Rightarrow> \<lparr>prDurationSeconds = d, prWidth = 0, prHeight = 0, prContainer = name\<rparr>
          | Some x \<Rightarrow> \<lparr>prDurationSeconds = d, prWidth = fst (snd x), prHeight = snd (snd x), prContainer = name\<rparr>)"
  by (simp add: ParseProbeJSON_def decode_ffprobe_json [OF assms(1)] find_decoded assms(2) split: option.split)

lemma ParseProbeJSON_bad_duration:
  "ParseFloat dur = None \<Longrightarrow>
   ParseProbeJSON (Inr (JObj [(''format'', JObj [(''duration'', JStr dur)])])) =
     Inr \<lparr>prDurationSeconds = 0, prWidth = 0, prHeight = 0, prContainer = []\<rparr>"
  by (simp add: ParseProbeJSON_def probe_decode)

lemma SystemProber_Probe_errors:
  "exec ''ffprobe'' (probeArgs path) = Inl e \<Longrightarrow> SystemProber_Probe [] exec parse path = Inl (ErrWrap ''ffprobe: '' e)"
  "exec ''ffprobe'' (probeArgs path) = Inr out \<Longrightarrow> parse out = Inl e \<Longrightarrow> SystemProber_Probe [] exec parse path = Inl e"
  by (simp_all add: SystemProber_Probe_def ParseProbeJSON_def decodeInto_def)

subsection \<open>Storage behind pre-signed URLs\<close>

record storage_request =
  sqMethod :: string
  sqURL :: string
  sqBody :: bytes
  sqContentLength :: int
  sqContentType :: "string option"

text \<open>The status, the bytes of the body that arrive, and the error that cuts the body off, if any.\<close>

record storage_response =
  spStatus :: int
  spBody :: bytes
  spCut :: "go_error option"

text \<open>
  The HTTP client: \<open>NewRequest\<close> refuses some URLs, \<open>Do\<close> answers or fails. Opening a file and reading its size
  may fail as well, a file that does not exist apart.
\<close>

record http_client =
  hcNewRequest :: "string \<Rightarrow> go_error option"
  hcDo :: "storage_request \<Rightarrow> storage_response result"
  hcOpen :: "string \<Rightarrow> go_error option"
  hcStat :: "string \<Rightarrow> go_error option"

definition getRequest :: "string \<Rightarrow> storage_request" where
  "getRequest url = \<lparr>sqMethod = ''GET'', sqURL = url, sqBody = [], sqContentLength = 0, sqContentType = None\<rparr>"

definition putRequest :: "string \<Rightarrow> bytes \<Rightarrow> string \<Rightarrow> storage_request" where
  "putRequest url body contentType =
     \<lparr>sqMethod = ''PUT'', sqURL = url, sqBody = body, sqContentLength = int (length body),
      sqContentType = (if contentType \<noteq> [] then Some contentType else None)\<rparr>"

definition setFile :: "string \<Rightarrow> bytes \<Rightarrow> fsys \<Rightarrow> fsys" where
  "setFile p b fs = fs\<lparr>fsFiles := (fsFiles fs)(p \<mapsto> b)\<rparr>"

text \<open>The timeout of the client that \<open>New\<close> makes: half an hour.\<close>

definition storage_Timeout :: duration where
  "storage_Timeout = 30 * 60 * second"

text \<open>
  \<open>Fetch\<close> returns the number of bytes copied also with an error. A body that is cut off leaves what came of it
  in the file.
\<close>

definition http_Fetch ::
  "http_client \<Rightarrow> fsys \<Rightarrow> string \<Rightarrow> string \<Rightarrow> fsys \<times> int \<times> go_error option" where
  "http_Fetch C fs url destPath =
     (if url = [] then (fs, 0, Some (Err ''storage: empty url''))
      else
        (case fsFault fs FsMkdirAll (filepath_Dir destPath) of
           Some e \<Rightarrow> (fs, 0, Some (ErrWrap ''mkdir: '' e))
         | None \<Rightarrow>
        (case hcNewRequest C url of
           Some e \<Rightarrow> (fs, 0, Some e)
         | None \<Rightarrow>
        (case hcDo C (getRequest url) of
           Inl e \<Rightarrow> (fs, 0, Some (ErrWrap ''http get: '' e))
         | Inr resp \<Rightarrow>
             if spStatus resp div 100 \<noteq> 2
             then (fs, 0, Some (Err (''storage: GET returned '' @ show_int (spStatus resp))))
             else
               (case fsFault fs FsCreate destPath of
                  Some e \<Rightarrow> (fs, 0, Some e)
                | None \<Rightarrow>
                    (case fsFault fs FsWrite destPath of
                       Some e \<Rightarrow>
                         if spBody resp = [] then (setFile destPath [] fs, 0, map_option (ErrWrap ''copy: '') (spCut resp))
                         else (setFile destPath [] fs, 0, Some (ErrWrap ''copy: '' e))
                     | None \<Rightarrow>
                         (setFile destPath (spBody resp) fs, int (length (spBody resp)),
                          map_option (ErrWrap ''copy: '') (spCut resp))))))))"

definition http_Upload :: "http_client \<Rightarrow> fsys \<Rightarrow> string \<Rightarrow> string \<Rightarrow> string \<Rightarrow> unit result" where
  "http_Upload C fs url srcPath contentType =
     (if url = [] then Inl (Err ''storage: empty url'')
      else
        (case hcOpen C srcPath of
           Some e \<Rightarrow> Inl e
         | None \<Rightarrow>
        (case fsFiles fs srcPath of
           None \<Rightarrow> Inl ErrNotExist
         | Some b \<Rightarrow>
        (case hcStat C srcPath of
           Some e \<Rightarrow> Inl e
         | None \<Rightarrow>
        (case hcNewRequest C url of
           Some e \<Rightarrow> Inl e
         | None \<Rightarrow>
        (case hcDo C (putRequest url b contentType) of
           Inl e \<Rightarrow> Inl (ErrWrap ''http put: '' e)
         | Inr resp \<Rightarrow>
             if spStatus resp div 100 \<noteq> 2
             then Inl (Err (''storage: PUT returned '' @ show_int (spStatus resp))) else Inr ()))))))"

record fake_storage =
  fkInputs :: "(string \<times> bytes) list"
  fkUploads :: "(string \<times> bytes) list"
  fkFailFetch :: string
  fkFailUpload :: string

definition NewFakeStorage :: fake_storage where
  "NewFakeStorage = \<lparr>fkInputs = [], fkUploads = [], fkFailFetch = [], fkFailUpload = []\<rparr>"

text \<open>\<open>os.WriteFile\<close> creates or empties the file before it writes.\<close>

definition fakeStorage_Fetch ::
  "fake_storage \<Rightarrow> fsys \<Rightarrow> string \<Rightarrow> string \<Rightarrow> fsys \<times> int \<times> go_error option" where
  "fakeStorage_Fetch f fs url dest =
     (if url = fkFailFetch f then (fs, 0, Some (Err ''fake fetch failure''))
      else
        (case map_of (fkInputs f) url of
           None \<Rightarrow> (fs, 0, Some (Err (''fake: no input for '' @ url)))
         | Some b \<Rightarrow>
        (case fsFault fs FsMkdirAll (filepath_Dir dest) of
           Some e \<Rightarrow> (fs, 0, Some e)
         | None \<Rightarrow>
        (case fsFault fs FsCreate dest of
           Some e \<Rightarrow> (fs, 0, Some e)
         | None \<Rightarrow>
        (case fsFault fs FsWrite dest of
           Some e \<Rightarrow> (setFile dest [] fs, 0, Some e)
         | None \<Rightarrow> (setFile dest b fs, int (length b), None))))))"

definition fakeStorage_Upload ::
  "fsys \<Rightarrow> string \<Rightarrow> string \<Rightarrow> fake_storage \<Rightarrow> fake_storage \<times> unit result" where
  "fakeStorage_Upload fs url src f =
     (if url = fkFailUpload f then (f, Inl (Err ''fake upload failure''))
      else
        (case fsFiles fs src of
           None \<Rightarrow> (f, Inl ErrNotExist)
         | Some b \<Rightarrow> (f\<lparr>fkUploads := AList.update url b (fkUploads f)\<rparr>, Inr ())))"

subsection \<open>What a storage promises\<close>

text \<open>
  A successful fetch stores the object of the URL and reports its size; a failed one touches no file but the
  destination. An upload sends exactly the file.
\<close>

locale object_storage =
  fixes fetch :: "'s \<Rightarrow> fsys \<Rightarrow> string \<Rightarrow> string \<Rightarrow> fsys \<times> int \<times> go_error option"
    and object :: "'s \<Rightarrow> string \<Rightarrow> bytes option"
  assumes fetch_ok: "fetch s fs url p = (fs', n, None) \<Longrightarrow>
      \<exists>b. object s url = Some b \<and> fs' = setFile p b fs \<and> n = int (length b)"
    and fetch_frame: "fetch s fs url p = (fs', n, err) \<Longrightarrow> q \<noteq> p \<Longrightarrow> fsFiles fs' q = fsFiles fs q"
begin

lemma fetch_content: "fetch s fs url p = (fs', n, None) \<Longrightarrow> fsFiles fs' p = object s url"
  using fetch_ok by (fastforce simp: setFile_def)

text \<open>Two downloads into different files do not disturb each other.\<close>

lemma fetch_both:
  assumes "fetch s fs u p = (fs1, n, None)" "fetch s fs1 v q = (fs2, m, None)" "p \<noteq> q"
  shows "fsFiles fs2 p = object s u \<and> fsFiles fs2 q = object s v"
  using fetch_content [OF assms(1)] fetch_content [OF assms(2)] fetch_frame [OF assms(2,3)] by simp

end

definition httpObject :: "http_client \<Rightarrow> string \<Rightarrow> bytes option" where
  "httpObject C url =
     (case hcDo C (getRequest url) of
        Inl _ \<Rightarrow> None
      | Inr resp \<Rightarrow> if spStatus resp div 100 = 2 \<and> spCut resp = None then Some (spBody resp) else None)"

interpretation http_storage: object_storage http_Fetch httpObject
  by unfold_locales
    (auto simp: http_Fetch_def httpObject_def setFile_def split: if_splits option.splits sum.splits)

interpretation fake_storage: object_storage fakeStorage_Fetch "\<lambda>f. map_of (fkInputs f)"
  by unfold_locales
    (auto simp: fakeStorage_Fetch_def setFile_def split: if_splits option.splits)

text \<open>
  Through the worker's disk: what was downloaded and is uploaded again arrives byte for byte, with its length
  as the declared one; an upload succeeds exactly if the server takes it.
\<close>

theorem storage_copy_roundtrip:
  assumes "http_Fetch C fs u p = (fs', n, None)" "v \<noteq> []"
    "hcOpen C p = None" "hcStat C p = None" "hcNewRequest C v = None"
  obtains b where "httpObject C u = Some b" "n = int (length b)"
    "http_Upload C fs' v p ct = Inr () \<longleftrightarrow>
       (\<exists>resp. hcDo C (putRequest v b ct) = Inr resp \<and> spStatus resp div 100 = 2)"
proof -
  obtain b where b: "httpObject C u = Some b" "fs' = setFile p b fs" "n = int (length b)"
    using http_storage.fetch_ok [OF assms(1)] by blast
  have "http_Upload C fs' v p ct = Inr () \<longleftrightarrow>
      (\<exists>resp. hcDo C (putRequest v b ct) = Inr resp \<and> spStatus resp div 100 = 2)"
    using assms(2-5) by (auto simp: http_Upload_def b(2) setFile_def split: sum.splits)
  then show ?thesis using that b by blast
qed

text \<open>A download that breaks off leaves a truncated file behind, and says so.\<close>

lemma fetch_cut_leaves_partial:
  assumes "url \<noteq> []" "fsFault fs = (\<lambda>_ _. None)" "hcNewRequest C url = None"
    "hcDo C (getRequest url) = Inr \<lparr>spStatus = 200, spBody = b, spCut = Some e\<rparr>"
  shows "http_Fetch C fs url p = (setFile p b fs, int (length b), Some (ErrWrap ''copy: '' e))"
  using assms by (simp add: http_Fetch_def)

lemma fake_fail_default: "fakeStorage_Fetch NewFakeStorage fs [] p = (fs, 0, Some (Err ''fake fetch failure''))"
  by (simp add: fakeStorage_Fetch_def NewFakeStorage_def)

end
