(* ===== verification/Dev_Fakes.thy ===== *)
theory Dev_Fakes
  imports Ffmpeg Webhooks Gpu_Detect Rtmp_Ingest Shell_Fake
begin

text \<open>
  The stand-ins that a daemon started with \<open>--dev\<close> and the tests run on: the encoder that only reports progress
  (\<open>ffmpeg.FakeRunner\<close>), the webhook sender that keeps what it is given, the detector with a fixed answer; and
  what the gateway's stand-in does to the live runner.
\<close>

subsection \<open>The encoder\<close>

record fake_runner =
  fnSteps :: int
  fnPerStep :: duration
  fnFailWithExit :: int
  fnFailedStderr :: string

definition fakeProgress :: "ffjob \<Rightarrow> nat \<Rightarrow> progress" where
  "fakeProgress j i =
     \<lparr>pgOutTimeSeconds = rnd64 (of_nat i), pgFPS = 30, pgSpeed = 1, pgBitrateKbps = rnd64 (of_int (pBitrateKbps (fjPreset j))),
      pgFrame = int i * 30\<rparr>"

text \<open>
  The loop from step \<open>i\<close> with \<open>n\<close> steps to go: the events sent, and whether the context ended it. \<open>ctx i\<close> says
  whether the context has ended when step \<open>i\<close> looks, and whether it ends before the timer of that step.
\<close>

fun fakeSteps :: "(nat \<Rightarrow> bool \<times> bool) \<Rightarrow> bool \<Rightarrow> ffjob \<Rightarrow> nat \<Rightarrow> nat \<Rightarrow> progress list \<times> bool" where
  "fakeSteps ctx timed j i 0 = ([], False)"
| "fakeSteps ctx timed j i (Suc n) =
     (if fst (ctx i) \<or> timed \<and> snd (ctx i) then ([], True)
      else (case fakeSteps ctx timed j (Suc i) n of (ps, c) \<Rightarrow> (fakeProgress j i # ps, c)))"

text \<open>The events, whether it was cancelled, the result and the error.\<close>

definition FakeRunner_Run ::
  "fake_runner \<Rightarrow> (nat \<Rightarrow> bool \<times> bool) \<Rightarrow> ffjob \<Rightarrow> progress list \<times> bool \<times> run_result \<times> go_error option" where
  "FakeRunner_Run f ctx j =
     (let steps = (if fnSteps f \<le> 0 then 5 else nat (fnSteps f)) in
      case fakeSteps ctx (fnPerStep f > 0) j 1 steps of
        (ps, c) \<Rightarrow>
          if c then
            (ps, True, \<lparr>rrArgv = BuildArgs j, rrExitCode = 130, rrStdout = [], rrStderr = ''cancelled''\<rparr>,
             Some (encodingFailed ''cancelled'' 130 []))
          else if fnFailWithExit f \<noteq> 0 then
            (ps, False, \<lparr>rrArgv = BuildArgs j, rrExitCode = fnFailWithExit f, rrStdout = [], rrStderr = fnFailedStderr f\<rparr>,
             Some (encodingFailed ''fake failure'' (fnFailWithExit f) (fnFailedStderr f)))
          else (ps, False, \<lparr>rrArgv = BuildArgs j, rrExitCode = 0, rrStdout = [], rrStderr = ''done''\<rparr>, None))"

lemma fakeSteps_uncancelled:
  "(\<And>k. i \<le> k \<Longrightarrow> k < i + n \<Longrightarrow> \<not> fst (ctx k) \<and> \<not> snd (ctx k)) \<Longrightarrow>
     fakeSteps ctx timed j i n = (map (fakeProgress j) [i..<i + n], False)"
proof (induction n arbitrary: i)
  case (Suc n)
  have "fakeSteps ctx timed j (Suc i) n = (map (fakeProgress j) [Suc i..<Suc i + n], False)"
    by (rule Suc.IH) (use Suc.prems in auto)
  moreover have "\<not> fst (ctx i) \<and> \<not> snd (ctx i)" using Suc.prems by simp
  ultimately show ?case by (simp add: upt_rec [of i])
qed simp

text \<open>A run that nobody cancels reports every step once and in order, and succeeds unless told to fail.\<close>

lemma FakeRunner_done:
  assumes "0 < fnSteps f" "\<And>k. \<not> fst (ctx k) \<and> \<not> snd (ctx k)" "fnFailWithExit f = 0"
  shows "FakeRunner_Run f ctx j =
    (map (fakeProgress j) [1..<1 + nat (fnSteps f)], False,
     \<lparr>rrArgv = BuildArgs j, rrExitCode = 0, rrStdout = [], rrStderr = ''done''\<rparr>, None)"
  using assms fakeSteps_uncancelled [of 1 "nat (fnSteps f)" ctx "fnPerStep f > 0" j]
  by (simp add: FakeRunner_Run_def Let_def)

lemma FakeRunner_cancelled:
  assumes "fst (ctx 1)"
  shows "FakeRunner_Run f ctx j =
    ([], True, \<lparr>rrArgv = BuildArgs j, rrExitCode = 130, rrStdout = [], rrStderr = ''cancelled''\<rparr>,
     Some (encodingFailed ''cancelled'' 130 []))"
proof -
  have "0 < n \<Longrightarrow> fakeSteps ctx timed j 1 n = ([], True)" for timed n using assms by (cases n) auto
  then show ?thesis by (simp add: FakeRunner_Run_def Let_def)
qed

subsection \<open>Webhooks and detector\<close>

record fake_sender =
  fwEvents :: "delivery list"
  fwFailFor :: string

definition FakeSender_Send :: "delivery \<Rightarrow> fake_sender \<Rightarrow> fake_sender \<times> go_error option" where
  "FakeSender_Send d f =
     (f\<lparr>fwEvents := fwEvents f @ [d]\<rparr>, if dlEvent d = fwFailFor f then Some (Err ''fake webhook fail'') else None)"

definition FakeSender_EventsByName :: "string \<Rightarrow> fake_sender \<Rightarrow> delivery list" where
  "FakeSender_EventsByName name f = filter (\<lambda>e. dlEvent e = name) (fwEvents f)"

definition FakeDetector_Detect :: "gpu_profile \<Rightarrow> go_error option \<Rightarrow> time \<Rightarrow> gpu_profile result" where
  "FakeDetector_Detect p err now =
     (case err of
        Some e \<Rightarrow> Inl e
      | None \<Rightarrow> Inr (if gDetectedAt p = zero_time then p\<lparr>gDetectedAt := now\<rparr> else p))"

lemma FakeSender_all:
  "FakeSender_EventsByName name (fst (FakeSender_Send d f)) =
     FakeSender_EventsByName name f @ (if dlEvent d = name then [d] else [])"
  by (simp add: FakeSender_EventsByName_def FakeSender_Send_def)

subsection \<open>All publishers of a development daemon share one stream\<close>

text \<open>
  The stand-in for the gateway gives every key the same stream. Once a publisher has been accepted, every other
  one takes its control block over, which is the situation in which a lease is lost.
\<close>

theorem dev_publishers_collide:
  assumes "Accept D K i r = (r', Inr g)" "ldShell D = fake_shell shell_NewFake" "table_ok r"
  shows "takeover D j r'"
proof -
  obtain ctl t where a: "accepted D g ctl r r'"
    and v: "scValidateKey (ldShell D) (rnTrace r) (isStreamKey i) (ldWorkerURL D) = Inr (gValid g)"
    using Accept_ok [OF assms(1)] by metis
  have sid: "vStreamID (gValid g) = ''live_fake''" using v by (auto simp: assms(2) dev_shell_accepts dest: sym)
  have "rnCtls r' ! gCtl g = ctl" "cRunning ctl" using accepted_ctl [OF a assms(3)] a by (simp_all add: accepted_def)
  moreover have "pendingAddr r' ''live_fake'' = Some (gCtl g)"
    using a sid by (simp add: accepted_def pendingAddr_def update_conv')
  ultimately show ?thesis by (simp add: takeover_def assms(2) dev_shell_accepts pendingCtl_def)
qed

end
