(* ===== verification/Go_Files.thy ===== *)
theory Go_Files
  imports Go_Scan Go_Strings
begin

text \<open>
  What the command-line tools under \<open>lint\<close> use of the standard library: \<open>bufio.Scanner\<close> over lines,
  \<open>strings.Fields\<close>, the verb \<open>%.nf\<close>, and \<open>filepath.Walk\<close> over a tree of files.
\<close>

subsection \<open>Lines and fields\<close>

definition line_feed :: char where
  "line_feed = CHR 0x0A"

definition dropCR :: "string \<Rightarrow> string" where
  "dropCR l = (if l \<noteq> [] \<and> last l = CHR 0x0D then butlast l else l)"

definition raw_lines :: "string \<Rightarrow> string list" where
  "raw_lines s = (let ls = split_on line_feed s in if last ls = [] then butlast ls else ls)"

definition ErrTooLong :: go_error where
  "ErrTooLong = Err ''bufio.Scanner: token too long''"

text \<open>The lines up to the first one that fills the buffer of size \<open>bufsize\<close>, and the error of the scanner, if any.\<close>

definition scan_lines :: "int \<Rightarrow> string \<Rightarrow> string list \<times> go_error option" where
  "scan_lines bufsize s =
     (let ls = raw_lines s; ok = takeWhile (\<lambda>l. int (length l) < bufsize) ls
      in (map dropCR ok, if length ok < length ls then Some ErrTooLong else None))"

definition Fields :: "string \<Rightarrow> string list" where
  "Fields s =
     filter (\<lambda>f. f \<noteq> []) (split_on (CHR '' '') (map (\<lambda>c. if is_space c then CHR '' '' else c) s))"

lemma Fields_no_space: "f \<in> set (Fields s) \<Longrightarrow> f \<noteq> []"
  by (simp add: Fields_def)

text \<open>\<open>%.nf\<close> of a float that is not negative: the decimal nearest to its exact value, ties to even.\<close>

definition show_fixed :: "nat \<Rightarrow> rat \<Rightarrow> string" where
  "show_fixed n x =
     (let m = nat (round_even (x * 10 ^ n)); ds = show_nat (m mod 10 ^ n) in
      show_nat (m div 10 ^ n) @ (if n = 0 then [] else ''.'' @ replicate (n - length ds) (CHR ''0'') @ ds))"

subsection \<open>A tree of files\<close>

text \<open>
  The entries of a directory are listed in the order of their names, as \<open>ReadDir\<close> returns them. A directory
  that cannot be listed is \<open>Broken\<close>. A file that cannot be opened is one without content.
\<close>

datatype tree =
    File string string
  | Dir string "tree list"
  | Broken string go_error

fun tree_name :: "tree \<Rightarrow> string" where
  "tree_name (File n _) = n"
| "tree_name (Dir n _) = n"
| "tree_name (Broken n _) = n"

text \<open>
  The calls for files and unreadable entries that a walk makes, in order, with the path of each relative to the
  root, as its elements. \<open>skip\<close> is asked for every directory, the root included; \<open>WalkDir\<close> asks before it lists a
  directory, so it skips one that it could not list, \<open>Walk\<close> lists first.
\<close>

fun visits :: "(string list \<Rightarrow> tree \<Rightarrow> bool) \<Rightarrow> string list \<Rightarrow> tree \<Rightarrow> (string list \<times> tree) list" where
  "visits skip p (Dir n ts) =
     (if skip p (Dir n ts) then [] else concat (map (\<lambda>t. visits skip (p @ [tree_name t]) t) ts))"
| "visits skip p (File n c) = [(p, File n c)]"
| "visits skip p (Broken n e) = (if skip p (Broken n e) then [] else [(p, Broken n e)])"

text \<open>\<open>filepath.Rel\<close> of a path below the root, and of its directory.\<close>

definition rel_path :: "string list \<Rightarrow> string" where
  "rel_path p = (if p = [] then ''.'' else join_with ''/'' p)"

lemma split_scan_line: "line_feed \<notin> set l \<Longrightarrow> split_on line_feed (l @ line_feed # s) = l # split_on line_feed s"
  by (simp add: split_on_append split_on_no_sep)

lemma raw_lines_Cons: "line_feed \<notin> set l \<Longrightarrow> raw_lines (l @ line_feed # s) = l # raw_lines s"
  by (simp add: raw_lines_def split_scan_line Let_def)

lemma raw_lines_Nil [simp]: "raw_lines [] = []"
  by (simp add: raw_lines_def)

lemma raw_lines_join:
  "list_all (\<lambda>l. line_feed \<notin> set l) ls \<Longrightarrow> raw_lines (concat (map (\<lambda>l. l @ [line_feed]) ls)) = ls"
  by (induction ls) (auto simp: raw_lines_Cons)

lemma fixed_examples: "show_fixed 1 75 = ''75.0''" "show_fixed 0 75 = ''75''" "show_fixed 1 (200 / 3) = ''66.7''"
  by code_simp+

end
