(* ===== verification/Coverage_Gate.thy ===== *)
theory Coverage_Gate
  imports Go_Files "HOL-Library.AList" "HOL-Library.Multiset"
begin

text \<open>
  \<open>lint/coverage-gate\<close>, the tool of the build that refuses packages with too few covered statements: the parsers
  of the coverage profile and of the list of exemptions, the classification of the packages, the report, the
  search for the packages of the module, and the exit code. A Go map is an association list with distinct keys.
\<close>

subsection \<open>The data\<close>

record package_coverage =
  pcPkg :: string
  pcStatements :: int
  pcCovered :: int

definition Percent :: "package_coverage \<Rightarrow> rat" where
  "Percent p =
     (if pcStatements p = 0 then 100
      else rnd64 (rnd64 (100 * rnd64 (of_int (pcCovered p))) / rnd64 (of_int (pcStatements p))))"

record gate_report =
  rpOK :: "package_coverage list"
  rpExempt :: "package_coverage list"
  rpFailing :: "package_coverage list"
  rpMissing :: "string list"

definition zero_report :: gate_report where
  "zero_report = \<lparr>rpOK = [], rpExempt = [], rpFailing = [], rpMissing = []\<rparr>"

definition HasFailures :: "gate_report \<Rightarrow> bool" where
  "HasFailures r \<longleftrightarrow> rpFailing r \<noteq> [] \<or> rpMissing r \<noteq> []"

subsection \<open>The coverage profile\<close>

definition PackageOf :: "string \<Rightarrow> string" where
  "PackageOf f = (if CHR ''/'' \<in> set f then rev (tl (dropWhile (\<lambda>c. c \<noteq> CHR ''/'') (rev f))) else f)"

text \<open>One line of the profile: the package, the number of statements, and whether they ran.\<close>

definition profile_line :: "string \<Rightarrow> (string \<times> int \<times> bool) option" where
  "profile_line line =
     (case Fields line of
        [pos, n, k] \<Rightarrow>
          (case (Atoi n, Atoi k) of
             (Some statements, Some hits) \<Rightarrow>
               Some (PackageOf (takeWhile (\<lambda>c. c \<noteq> CHR '':'') pos), statements, hits > 0)
           | _ \<Rightarrow> None)
      | _ \<Rightarrow> None)"

definition count_line :: "string \<Rightarrow> (string \<times> package_coverage) list \<Rightarrow> (string \<times> package_coverage) list" where
  "count_line line pkgs =
     (case profile_line line of
        None \<Rightarrow> pkgs
      | Some (pkg, statements, executed) \<Rightarrow>
          (let pc = (case map_of pkgs pkg of None \<Rightarrow> \<lparr>pcPkg = [], pcStatements = 0, pcCovered = 0\<rparr> | Some pc \<Rightarrow> pc);
               pc = pc\<lparr>pcPkg := pkg, pcStatements := wrap64 (pcStatements pc + statements)\<rparr>;
               pc = (if executed then pc\<lparr>pcCovered := wrap64 (pcCovered pc + statements)\<rparr> else pc)
           in AList.update pkg pc pkgs))"

definition ParseCoverage :: "string \<Rightarrow> (string \<times> package_coverage) list result" where
  "ParseCoverage s =
     (case scan_lines 1048576 s of (ls, err) \<Rightarrow>
        (case ls of
           [] \<Rightarrow> (case err of None \<Rightarrow> Inr [] | Some e \<Rightarrow> Inl e)
         | h # ls \<Rightarrow>
             if \<not> HasPrefix h ''mode:'' then Inl (Err (''unexpected coverage header: '' @ Quote h))
             else (case err of None \<Rightarrow> Inr (fold count_line ls []) | Some e \<Rightarrow> Inl e)))"

subsection \<open>The exemptions\<close>

definition exemption_line :: "string \<Rightarrow> string" where
  "exemption_line l = TrimSpace (takeWhile (\<lambda>c. c \<noteq> CHR ''#'') (TrimSpace l))"

definition ParseExemptions :: "string \<Rightarrow> string list result" where
  "ParseExemptions s =
     (case scan_lines 65536 s of (ls, err) \<Rightarrow>
        (case err of None \<Rightarrow> Inr (filter (\<lambda>l. l \<noteq> []) (map exemption_line ls)) | Some e \<Rightarrow> Inl e))"

subsection \<open>The verdict\<close>

definition evalCovered :: "rat \<Rightarrow> package_coverage \<Rightarrow> gate_report \<Rightarrow> gate_report" where
  "evalCovered threshold c r =
     (if Percent c < threshold then r\<lparr>rpFailing := rpFailing r @ [c]\<rparr> else r\<lparr>rpOK := rpOK r @ [c]\<rparr>)"

definition evalSource ::
  "(string \<times> package_coverage) list \<Rightarrow> string list \<Rightarrow> string list \<Rightarrow> rat \<Rightarrow> string \<Rightarrow> gate_report \<Rightarrow> gate_report" where
  "evalSource covs exempt hasTests threshold p r =
     (if p \<in> set exempt
      then r\<lparr>rpExempt := rpExempt r @ [\<lparr>pcPkg = p, pcStatements = 0, pcCovered = 0\<rparr>]\<rparr>
      else
        (case map_of covs p of
           None \<Rightarrow>
             if p \<in> set hasTests then r\<lparr>rpOK := rpOK r @ [\<lparr>pcPkg = p, pcStatements = 0, pcCovered = 0\<rparr>]\<rparr>
             else r\<lparr>rpMissing := rpMissing r @ [p]\<rparr>
         | Some c \<Rightarrow> evalCovered threshold c r))"

definition evalExtra ::
  "(string \<times> package_coverage) list \<Rightarrow> string list \<Rightarrow> rat \<Rightarrow> string \<Rightarrow> gate_report \<Rightarrow> gate_report" where
  "evalExtra covs exempt threshold k r =
     (let c = the (map_of covs k) in
      if k \<in> set exempt then r\<lparr>rpExempt := rpExempt r @ [c]\<rparr> else evalCovered threshold c r)"

definition Evaluate ::
  "(string \<times> package_coverage) list \<Rightarrow> string list \<Rightarrow> string list \<Rightarrow> string list \<Rightarrow> rat \<Rightarrow> gate_report" where
  "Evaluate covs exempt sourcePkgs hasTests threshold =
     (let r = fold (evalSource covs exempt hasTests threshold) (sort sourcePkgs) zero_report;
          extras = sort (filter (\<lambda>k. k \<notin> set sourcePkgs) (map fst covs))
      in fold (evalExtra covs exempt threshold) extras r)"

definition em_dash :: string where
  "em_dash = [CHR 0xE2, CHR 0x80, CHR 0x94]"

definition FormatReport :: "gate_report \<Rightarrow> rat \<Rightarrow> string" where
  "FormatReport r threshold =
     concat (map (\<lambda>c. ''  OK      '' @ pcPkg c @ '' ('' @ show_fixed 1 (Percent c) @ ''%)'' @ [line_feed]) (rpOK r)) @
     concat (map (\<lambda>c.
       if pcStatements c > 0
       then ''  EXEMPT  '' @ pcPkg c @ '' ('' @ show_fixed 1 (Percent c) @ ''%)'' @ [line_feed]
       else ''  EXEMPT  '' @ pcPkg c @ [line_feed]) (rpExempt r)) @
     concat (map (\<lambda>c. ''  FAIL    '' @ pcPkg c @ '' ('' @ show_fixed 1 (Percent c) @ ''% < '' @
       show_fixed 0 threshold @ ''%)'' @ [line_feed]) (rpFailing r)) @
     concat (map (\<lambda>p. ''  MISSING '' @ p @ '' (no tests '' @ em_dash @ '' add at least one _test.go)'' @ [line_feed]) (rpMissing r)) @
     (if HasFailures r
      then line_feed # ''coverage-gate: '' @ show_nat (length (rpFailing r) + length (rpMissing r)) @
        '' package(s) failing ('' @ show_fixed 0 threshold @ ''% threshold)'' @ [line_feed]
      else line_feed # ''coverage-gate: all packages meet the threshold.'' @ [line_feed])"

text \<open>The exit code, and what is written to \<open>stdout\<close> and to \<open>stderr\<close>.\<close>

definition remediation :: string where
  "remediation =
     line_feed # ''Remediation: add tests to the listed packages. If coverage is inherently'' @ [line_feed] @
     ''impractical, add the package to lint/coverage-gate/exemptions.txt with a'' @ [line_feed] @
     ''written reason and a tracking issue.'' @ [line_feed]"

definition gate_error :: "go_error \<Rightarrow> int \<times> string \<times> string" where
  "gate_error e = (2, [], ''coverage-gate: '' @ error_text e @ [line_feed])"

definition gate_Run ::
  "string \<Rightarrow> string option \<Rightarrow> string list \<Rightarrow> string list \<Rightarrow> rat \<Rightarrow> int \<times> string \<times> string" where
  "gate_Run cov exempt sourcePkgs hasTests threshold =
     (case ParseCoverage cov of
        Inl e \<Rightarrow> gate_error e
      | Inr covs \<Rightarrow>
          (case (case exempt of None \<Rightarrow> Inr [] | Some x \<Rightarrow> ParseExemptions x) of
             Inl e \<Rightarrow> gate_error e
           | Inr em \<Rightarrow>
               (let report = Evaluate covs em sourcePkgs hasTests threshold; out = FormatReport report threshold
                in if HasFailures report then (1, out, remediation) else (0, out, []))))"

subsection \<open>The packages of the module\<close>

definition readModulePath :: "string \<Rightarrow> tree list \<Rightarrow> string result" where
  "readModulePath path ts =
     (case find (\<lambda>t. tree_name t = ''go.mod'') ts of
        Some (File _ s) \<Rightarrow>
          (case find (\<lambda>l. HasPrefix l ''module '') (map TrimSpace (split_on line_feed s)) of
             Some l \<Rightarrow> Inr (TrimSpace (TrimPrefix l ''module ''))
           | None \<Rightarrow> Inl (Err (''no module directive in '' @ path)))
      | Some (Broken _ e) \<Rightarrow> Inl (ErrWrap (''read '' @ path @ '': '') e)
      | Some (Dir _ _) \<Rightarrow> Inl (ErrWrap (''read '' @ path @ '': '') (Err ''is a directory''))
      | None \<Rightarrow> Inl (ErrWrap (''read '' @ path @ '': '') ErrNotExist))"

text \<open>The directories that are left out. The name of the root directory is looked at as well.\<close>

fun skipDir :: "string list \<Rightarrow> tree \<Rightarrow> bool" where
  "skipDir p (Dir n ts) \<longleftrightarrow>
     HasPrefix n ''.'' \<or> n = ''vendor'' \<or> n = ''bin'' \<or> n = ''dist'' \<or> n = ''node_modules'' \<or>
     p \<noteq> [] \<and> ''go.mod'' \<in> set (map tree_name ts)"
| "skipDir p _ \<longleftrightarrow> False"

definition importPath :: "string \<Rightarrow> string list \<Rightarrow> string" where
  "importPath modPath p =
     (let rel = rel_path (butlast p) in if rel = ''.'' then modPath else modPath @ ''/'' @ rel)"

text \<open>The two sets that the walk collects; an unreadable entry ends it.\<close>

fun collect ::
  "string \<Rightarrow> (string list \<times> tree) list \<Rightarrow> string list \<times> string list \<Rightarrow> (string list \<times> string list) result" where
  "collect modPath [] acc = Inr acc"
| "collect modPath ((p, t) # vs) (src, tests) =
     (case t of
        Broken _ e \<Rightarrow> Inl e
      | _ \<Rightarrow>
          collect modPath vs
            (if \<not> HasSuffix (tree_name t) ''.go'' then (src, tests)
             else if HasSuffix (tree_name t) ''_test.go'' then (src, List.insert (importPath modPath p) tests)
             else (List.insert (importPath modPath p) src, tests)))"

definition DiscoverSourcePackages :: "string \<Rightarrow> string \<Rightarrow> tree list \<Rightarrow> (string list \<times> string list) result" where
  "DiscoverSourcePackages rootPath rootName ts =
     (case readModulePath (filepath_Join [rootPath, ''go.mod'']) ts of
        Inl e \<Rightarrow> Inl e
      | Inr modPath \<Rightarrow>
          (case collect modPath (visits skipDir [] (Dir rootName ts)) ([], []) of
             Inl e \<Rightarrow> Inl e
           | Inr (src, tests) \<Rightarrow> Inr (sort src, tests)))"

text \<open>
  The command: the profile must be readable, the list of exemptions may be missing. The messages on \<open>stderr\<close> of
  the two failures before the gate are left out of the result.
\<close>

definition gate_main :: "string result \<Rightarrow> string result \<Rightarrow> string \<Rightarrow> string \<Rightarrow> tree list \<Rightarrow> rat \<Rightarrow> int" where
  "gate_main cov exempt rootPath rootName ts threshold =
     (case cov of
        Inl e \<Rightarrow> 2
      | Inr c \<Rightarrow>
          (case DiscoverSourcePackages rootPath rootName ts of
             Inl e \<Rightarrow> 2
           | Inr (src, tests) \<Rightarrow>
               fst (gate_Run c (case exempt of Inl _ \<Rightarrow> None | Inr x \<Rightarrow> Some x) src tests threshold)))"

subsection \<open>The profile is summed up\<close>

definition records :: "string list \<Rightarrow> (string \<times> int \<times> bool) list" where
  "records ls = List.map_filter profile_line ls"

definition total :: "(bool \<Rightarrow> bool) \<Rightarrow> string \<Rightarrow> (string \<times> int \<times> bool) list \<Rightarrow> int" where
  "total sel pkg rs = sum_list (map (\<lambda>(p, n, executed). if p = pkg \<and> sel executed then n else 0) rs)"

lemma records_simps [simp]:
  "records [] = []" "records (ls @ [l]) = records ls @ (case profile_line l of None \<Rightarrow> [] | Some x \<Rightarrow> [x])"
  by (auto simp: records_def map_filter_def split: option.splits)

lemma total_simps [simp]:
  "total sel pkg [] = 0" "total sel pkg (rs @ [(p, n, executed)]) = total sel pkg rs + (if p = pkg \<and> sel executed then n else 0)"
  by (simp_all add: total_def)

lemma total_absent: "pkg \<notin> fst ` set rs \<Longrightarrow> total sel pkg rs = 0"
  by (induction rs) (auto simp: total_def)

text \<open>
  For every package the profile gives the sum of the statements of its blocks and of those that ran (modulo
  \<open>2^64\<close>); a block that is listed twice counts twice.
\<close>

lemma profile_totals:
  "map_of (fold count_line ls []) pkg =
     (if pkg \<in> fst ` set (records ls)
      then Some \<lparr>pcPkg = pkg, pcStatements = wrap64 (total (\<lambda>_. True) pkg (records ls)),
                  pcCovered = wrap64 (total id pkg (records ls))\<rparr>
      else None)"
proof (induction ls arbitrary: pkg rule: rev_induct)
  case (snoc l ls)
  define acc where "acc = fold count_line ls []"
  have IH: "map_of acc q =
     (if q \<in> fst ` set (records ls)
      then Some \<lparr>pcPkg = q, pcStatements = wrap64 (total (\<lambda>_. True) q (records ls)),
                  pcCovered = wrap64 (total id q (records ls))\<rparr>
      else None)" for q
    using snoc [of q] by (simp add: acc_def)
  have "map_of (count_line l acc) pkg =
     (if pkg \<in> fst ` set (records (ls @ [l]))
      then Some \<lparr>pcPkg = pkg, pcStatements = wrap64 (total (\<lambda>_. True) pkg (records (ls @ [l]))),
                  pcCovered = wrap64 (total id pkg (records (ls @ [l])))\<rparr>
      else None)"
  proof (cases "profile_line l")
    case (Some x)
    obtain p n e where x: "x = (p, n, e)" by (cases x)
    show ?thesis
    proof (cases "p \<in> fst ` set (records ls)")
      case True
      then show ?thesis using IH [of p] IH [of pkg] by (auto simp: count_line_def Some x Let_def update_conv')
    next
      case False
      then show ?thesis
        using IH [of p] IH [of pkg] by (auto simp: count_line_def Some x Let_def update_conv' total_absent)
    qed
  qed (use IH [of pkg] in \<open>simp add: count_line_def\<close>)
  then show ?case by (simp add: acc_def)
qed simp

lemma distinct_profile: "distinct (map fst (fold count_line ls []))"
proof (induction ls rule: rev_induct)
  case (snoc l ls)
  then show ?case by (auto simp: count_line_def Let_def distinct_update split: option.splits)
qed simp

lemma Percent_range:
  assumes "0 \<le> pcCovered c" "pcCovered c \<le> pcStatements c" "pcStatements c < 2 ^ 46"
  shows "0 \<le> Percent c \<and> Percent c \<le> 100"
proof (cases "pcStatements c = 0")
  case False
  let ?c = "pcCovered c" and ?s = "pcStatements c"
  have s: "0 < ?s" using False assms by linarith
  have e: "rnd64 (of_int ?c) = of_int ?c" "rnd64 (of_int ?s) = of_int ?s" using assms by (auto intro!: rnd64_of_int)
  have "rnd64 (of_int (100 * ?c)) = of_int (100 * ?c)" using assms by (intro rnd64_of_int) simp
  then have p: "Percent c = rnd64 (of_int (100 * ?c) / of_int ?s)"
    using False e by (simp add: Percent_def)
  have le: "(of_int (100 * ?c) :: rat) \<le> of_int (100 * ?s)" using assms(2) by (simp only: of_int_le_iff)
  have "of_int (100 * ?c) / of_int ?s \<le> (of_int 100 :: rat)"
    using le s by (simp add: pos_divide_le_eq)
  moreover have "0 \<le> (of_int (100 * ?c) / of_int ?s :: rat)" using assms(1) s by simp
  ultimately have "rnd64 (of_int (100 * ?c) / of_int ?s) \<le> of_int 100" by (intro rnd64_le_int) auto
  then show ?thesis using p \<open>0 \<le> of_int (100 * ?c) / of_int ?s\<close> by simp
qed (simp add: Percent_def)

subsection \<open>When the gate is passed\<close>

definition source_passes ::
  "(string \<times> package_coverage) list \<Rightarrow> string list \<Rightarrow> string list \<Rightarrow> rat \<Rightarrow> string \<Rightarrow> bool" where
  "source_passes covs exempt hasTests threshold p \<longleftrightarrow>
     p \<in> set exempt \<or>
     (case map_of covs p of None \<Rightarrow> p \<in> set hasTests | Some c \<Rightarrow> threshold \<le> Percent c)"

definition extra_passes :: "(string \<times> package_coverage) list \<Rightarrow> string list \<Rightarrow> rat \<Rightarrow> string \<Rightarrow> bool" where
  "extra_passes covs exempt threshold k \<longleftrightarrow> k \<in> set exempt \<or> threshold \<le> Percent (the (map_of covs k))"

lemma HasFailures_evalSource:
  "HasFailures (evalSource covs ex tests thr p r) \<longleftrightarrow> HasFailures r \<or> \<not> source_passes covs ex tests thr p"
  by (auto simp: HasFailures_def evalSource_def evalCovered_def source_passes_def split: option.splits)

lemma HasFailures_evalExtra:
  "HasFailures (evalExtra covs ex thr k r) \<longleftrightarrow> HasFailures r \<or> \<not> extra_passes covs ex thr k"
  by (auto simp: HasFailures_def evalExtra_def evalCovered_def extra_passes_def Let_def)

lemma HasFailures_fold:
  assumes "\<And>x r. HasFailures (f x r) \<longleftrightarrow> HasFailures r \<or> \<not> P x"
  shows "HasFailures (fold f xs r) \<longleftrightarrow> HasFailures r \<or> (\<exists>x \<in> set xs. \<not> P x)"
  by (induction xs arbitrary: r) (auto simp: assms)

lemma Evaluate_passes:
  "\<not> HasFailures (Evaluate covs ex src tests thr) \<longleftrightarrow>
     (\<forall>p \<in> set src. source_passes covs ex tests thr p) \<and>
     (\<forall>k \<in> fst ` set covs - set src. extra_passes covs ex thr k)"
proof -
  note s = HasFailures_fold [where f = "evalSource covs ex tests thr" and P = "source_passes covs ex tests thr",
      OF HasFailures_evalSource]
  note e = HasFailures_fold [where f = "evalExtra covs ex thr" and P = "extra_passes covs ex thr", OF HasFailures_evalExtra]
  have z: "\<not> HasFailures zero_report" by (simp add: HasFailures_def zero_report_def)
  show ?thesis by (auto simp: Evaluate_def Let_def s e z)
qed

text \<open>
  The gate exits with 0 exactly if the profile and the exemptions parse and every package is exempt, covered up
  to the threshold, or a package of the module with tests and without statements.
\<close>

theorem coverage_gate_exact:
  "fst (gate_Run cov exempt src tests thr) = 0 \<longleftrightarrow>
     (\<exists>covs em. ParseCoverage cov = Inr covs \<and>
        (case exempt of None \<Rightarrow> em = [] | Some x \<Rightarrow> ParseExemptions x = Inr em) \<and>
        (\<forall>p \<in> set src. source_passes covs em tests thr p) \<and>
        (\<forall>k \<in> fst ` set covs - set src. extra_passes covs em thr k))"
  by (auto simp: gate_Run_def gate_error_def Let_def Evaluate_passes [symmetric] split: sum.splits option.splits)

lemma gate_exit_codes: "fst (gate_Run cov exempt src tests thr) \<in> {0, 1, 2}"
  by (auto simp: gate_Run_def gate_error_def Let_def split: sum.splits)

text \<open>The report does not depend on the order of the packages or of the profile's map.\<close>

lemma sort_mset_cong: "mset xs = mset (ys :: string list) \<Longrightarrow> sort xs = sort ys"
  by (metis mset_sort properties_for_sort sorted_sort)

lemma Evaluate_order:
  assumes "mset src = mset src'" "mset covs = mset covs'" "distinct (map fst covs)"
  shows "Evaluate covs ex src tests thr = Evaluate covs' ex src' tests thr"
proof -
  have "set covs = set covs'" using assms(2) mset_eq_setD by blast
  moreover have "distinct (map fst covs')"
    using assms(2,3) mset_eq_imp_distinct_iff [of "map fst covs" "map fst covs'"] by simp
  ultimately have m: "map_of covs = map_of covs'" using assms(3) map_of_inject_set by blast
  have x: "sort (filter (\<lambda>k. k \<notin> set src) (map fst covs)) = sort (filter (\<lambda>k. k \<notin> set src') (map fst covs'))"
    using mset_eq_setD [OF assms(1)] assms(2) by (intro sort_mset_cong) (simp add: mset_filter)
  have "evalSource covs = evalSource covs'" "evalExtra covs = evalExtra covs'"
    by (simp_all add: fun_eq_iff evalSource_def evalExtra_def m)
  then show ?thesis by (simp only: Evaluate_def sort_mset_cong [OF assms(1)] x)
qed

subsection \<open>The search for packages\<close>

definition go_file :: "tree \<Rightarrow> bool" where
  "go_file t \<longleftrightarrow> HasSuffix (tree_name t) ''.go''"

definition test_file :: "tree \<Rightarrow> bool" where
  "test_file t \<longleftrightarrow> HasSuffix (tree_name t) ''_test.go''"

lemma collect_sets:
  "collect m vs acc = Inr (src, tests) \<Longrightarrow>
     set src = set (fst acc) \<union> set (map (importPath m \<circ> fst) (filter (\<lambda>v. go_file (snd v) \<and> \<not> test_file (snd v)) vs)) \<and>
     set tests = set (snd acc) \<union> set (map (importPath m \<circ> fst) (filter (\<lambda>v. go_file (snd v) \<and> test_file (snd v)) vs))"
proof (induction vs arbitrary: acc)
  case (Cons v vs)
  obtain p t s ts where v: "v = (p, t)" "acc = (s, ts)" by (cases v, cases acc)
  define acc' where "acc' = (if \<not> go_file t then (s, ts) else if test_file t then (s, List.insert (importPath m p) ts)
    else (List.insert (importPath m p) s, ts))"
  have "collect m vs acc' = Inr (src, tests)"
    using Cons.prems by (cases t) (simp_all add: v acc'_def go_file_def test_file_def split: if_splits)
  from Cons.IH [OF this] show ?case by (auto simp: v acc'_def)
qed auto

text \<open>The key of a file in the profile is the key of its directory in the search.\<close>

lemma PackageOf_dir: "CHR ''/'' \<notin> set n \<Longrightarrow> PackageOf (d @ CHR ''/'' # n) = d"
  by (simp add: PackageOf_def dropWhile_append)

lemma profile_key:
  assumes "CHR ''/'' \<notin> set n" "rel_path p \<noteq> ''.'' \<or> p = []"
  shows "PackageOf (m @ ''/'' @ join_with ''/'' (p @ [n])) = importPath m (p @ [n])"
proof (cases "p = []")
  case False
  then have "m @ ''/'' @ join_with ''/'' (p @ [n]) = (m @ ''/'' @ join_with ''/'' p) @ CHR ''/'' # n"
    by (simp add: join_with_snoc)
  then show ?thesis
    using False assms PackageOf_dir [OF assms(1), of "m @ ''/'' @ join_with ''/'' p"]
    by (simp add: importPath_def Let_def rel_path_def)
qed (use PackageOf_dir [OF assms(1)] in \<open>simp add: importPath_def rel_path_def\<close>)

text \<open>
  In a checkout whose directory has one of the names that are skipped, nothing is searched, and a profile
  without a single block passes the gate.
\<close>

theorem coverage_gate_vacuous:
  assumes "HasPrefix rootName ''.'' \<or> rootName \<in> {''vendor'', ''bin'', ''dist'', ''node_modules''}"
    "readModulePath (filepath_Join [rootPath, ''go.mod'']) ts = Inr m"
  shows "DiscoverSourcePackages rootPath rootName ts = Inr ([], [])"
    and "gate_main (Inr (''mode: atomic'' @ [line_feed])) (Inl e) rootPath rootName ts thr = 0"
proof -
  have v: "visits skipDir [] (Dir rootName ts) = []" using assms(1) by auto
  then show d: "DiscoverSourcePackages rootPath rootName ts = Inr ([], [])"
    using assms(2) by (simp add: DiscoverSourcePackages_def)
  have "scan_lines 1048576 (''mode: atomic'' @ [line_feed]) = ([''mode: atomic''], None)" by code_simp
  then have "ParseCoverage (''mode: atomic'' @ [line_feed]) = Inr []"
    by (simp add: ParseCoverage_def HasPrefix_def del: append.simps)
  then show "gate_main (Inr (''mode: atomic'' @ [line_feed])) (Inl e) rootPath rootName ts thr = 0"
    using d by (simp add: gate_main_def gate_Run_def Evaluate_def zero_report_def HasFailures_def Let_def)
qed

definition demo_module :: "tree list" where
  "demo_module =
     [File ''go.mod'' (''module m'' @ [line_feed]),
      Dir ''a'' [File ''a.go'' [], File ''a_test.go'' []],
      Dir ''b'' [File ''b.go'' []],
      Dir ''sub'' [File ''go.mod'' [], File ''s.go'' []]]"

lemma demo_discover:
  "DiscoverSourcePackages ''.'' ''work'' demo_module = Inr ([''m/a'', ''m/b''], [''m/a''])"
  "DiscoverSourcePackages ''.'' ''dist'' demo_module = Inr ([], [])"
  by code_simp+

lemma demo_gate:
  "fst (gate_Run (''mode: set'' @ [line_feed] @ ''m/a/a.go:1.2,3.4 3 1'' @ [line_feed] @ ''m/a/a.go:5.2,6.4 1 0'' @ [line_feed])
     (Some (''m/b  # no logic'' @ [line_feed])) [''m/a'', ''m/b''] [''m/a''] 75) = 0"
  "fst (gate_Run (''mode: set'' @ [line_feed] @ ''m/a/a.go:1.2,3.4 3 1'' @ [line_feed] @ ''m/a/a.go:5.2,6.4 2 0'' @ [line_feed])
     (Some (''m/b  # no logic'' @ [line_feed])) [''m/a'', ''m/b''] [''m/a''] 75) = 1"
  by code_simp+

end
