(* ===== verification/Lint_Checks.thy ===== *)
theory Lint_Checks
  imports Go_Files "HOL-Library.Multiset"
begin

text \<open>
  Two checks of the build: \<open>lint/no-cgo\<close>, which refuses imports of \<open>C\<close> and cgo build directives, and
  \<open>lint/no-chain-commons\<close>, which refuses imports of a forbidden module. The tree of files is an input, with the
  name that \<open>Lstat\<close> gives its root; the import list that \<open>go/parser\<close> reads from a file is a parameter.
\<close>

subsection \<open>no-cgo\<close>

record finding =
  fiPath :: string
  fiLine :: nat
  fiMsg :: string

definition finding_String :: "finding \<Rightarrow> string" where
  "finding_String f = fiPath f @ '':'' @ show_nat (fiLine f) @ '': no-cgo: '' @ fiMsg f"

definition import_finding :: "string \<Rightarrow> string \<times> nat \<Rightarrow> finding list" where
  "import_finding rel imp =
     (if fst imp = ''C''
      then [\<lparr>fiPath = rel, fiLine = snd imp,
             fiMsg = ''import '' @ Quote ''C'' @ '': cgo is forbidden in transcode-worker-node''\<rparr>]
      else [])"

definition directive_findings :: "string \<Rightarrow> nat \<times> string \<Rightarrow> finding list" where
  "directive_findings rel numbered =
     (let t = TrimSpace (snd numbered); f = \<lparr>fiPath = rel, fiLine = fst numbered + 1, fiMsg = t\<rparr> in
      (if HasPrefix t ''//go:build '' \<and> Contains t ''cgo'' then [f] else []) @
      (if HasPrefix t ''// +build '' \<and> Contains t ''cgo'' then [f] else []))"

text \<open>\<open>parse\<close> gives the import paths of a file, without their quotes, each with its line, or a syntax error.\<close>

definition CheckFile ::
  "(string \<Rightarrow> (string \<times> nat) list result) \<Rightarrow> string \<Rightarrow> string \<Rightarrow> string \<Rightarrow> finding list result" where
  "CheckFile parse path rel content =
     (case parse content of
        Inl e \<Rightarrow> Inl (ErrWrap (''parse '' @ path @ '': '') e)
      | Inr imports \<Rightarrow>
          Inr (concat (map (import_finding rel) imports) @
               concat (map (directive_findings rel) (enumerate 0 (split_on line_feed content)))))"

fun skipCgo :: "string list \<Rightarrow> tree \<Rightarrow> bool" where
  "skipCgo p (File n c) \<longleftrightarrow> False"
| "skipCgo p t \<longleftrightarrow>
     HasPrefix (tree_name t) ''.'' \<or> tree_name t \<in> {''vendor'', ''bin'', ''node_modules'', ''testdata''}"

definition visitCgo ::
  "(string \<Rightarrow> (string \<times> nat) list result) \<Rightarrow> string \<Rightarrow> string list \<times> tree \<Rightarrow> finding list result" where
  "visitCgo parse rootPath v =
     (case snd v of
        Broken _ e \<Rightarrow> Inl e
      | File n content \<Rightarrow>
          if HasSuffix n ''.go'' then CheckFile parse (filepath_Join (rootPath # fst v)) (rel_path (fst v)) content else Inr []
      | Dir _ _ \<Rightarrow> Inr [])"

text \<open>\<open>srt\<close> is \<open>sort.Slice\<close> by path and line.\<close>

definition CheckRepo ::
  "(finding list \<Rightarrow> finding list) \<Rightarrow> (string \<Rightarrow> (string \<times> nat) list result) \<Rightarrow> string \<Rightarrow> string \<Rightarrow> tree list \<Rightarrow>
   finding list result" where
  "CheckRepo srt parse rootPath rootName ts =
     rbind (rmap (visitCgo parse rootPath) (visits skipCgo [] (Dir rootName ts))) (\<lambda>fss. Inr (srt (concat fss)))"

definition cgo_Run ::
  "(finding list \<Rightarrow> finding list) \<Rightarrow> (string \<Rightarrow> (string \<times> nat) list result) \<Rightarrow> string \<Rightarrow> string \<Rightarrow> tree list \<Rightarrow>
   int \<times> string" where
  "cgo_Run srt parse rootPath rootName ts =
     (case CheckRepo srt parse rootPath rootName ts of
        Inl e \<Rightarrow> (2, ''no-cgo: '' @ error_text e @ [line_feed])
      | Inr fs \<Rightarrow>
          if fs = [] then (0, [])
          else (1, concat (map (\<lambda>f. finding_String f @ [line_feed]) fs) @
                line_feed # ''no-cgo: cgo is forbidden in transcode-worker-node.'' @ [line_feed] @
                ''Remediation: route the dependency through internal/providers/* (subprocess wrapper).'' @ [line_feed]))"

text \<open>The last \<open>-root\<close> or \<open>--root\<close> that a value follows; everything else on the command line is ignored.\<close>

fun cgo_root :: "string list \<Rightarrow> string \<Rightarrow> string" where
  "cgo_root (a # v # args) r = cgo_root (v # args) (if a = ''--root'' \<or> a = ''-root'' then v else r)"
| "cgo_root _ r = r"

text \<open>The last element of a path, as \<open>Lstat\<close> reports it; a path without slashes is its own last element.\<close>

definition lstat_name :: "string \<Rightarrow> string" where
  "lstat_name p = (if CHR ''/'' \<in> set p then filepath_Base p else p)"

definition cgo_main ::
  "(finding list \<Rightarrow> finding list) \<Rightarrow> (string \<Rightarrow> (string \<times> nat) list result) \<Rightarrow> string list \<Rightarrow> (string \<Rightarrow> tree list) \<Rightarrow> int" where
  "cgo_main srt parse args dirs =
     (let r = cgo_root args ''.'' in fst (cgo_Run srt parse r (lstat_name r) (dirs r)))"

subsection \<open>What no-cgo finds\<close>

text \<open>The contract of \<open>sort.Slice\<close>: the same elements.\<close>

locale permuting_sort =
  fixes srt :: "finding list \<Rightarrow> finding list"
  assumes srt_mset: "mset (srt fs) = mset fs"
begin

lemma srt_set: "set (srt fs) = set fs"
  using srt_mset by (metis mset_eq_setD)

lemma srt_Nil: "srt fs = [] \<longleftrightarrow> fs = []"
  using srt_mset by (metis mset_zero_iff)

text \<open>A tree is clean exactly if every Go file that is visited is.\<close>

lemma rmap_clean: "(\<exists>fss. rmap f vs = Inr fss \<and> concat fss = []) \<longleftrightarrow> (\<forall>v \<in> set vs. f v = Inr [])"
proof (induction vs)
  case (Cons v vs)
  then show ?case by (cases "f v"; cases "rmap f vs") auto
qed simp

lemma cgo_clean_iff:
  "fst (cgo_Run srt parse rp rn ts) = 0 \<longleftrightarrow>
     (\<forall>v \<in> set (visits skipCgo [] (Dir rn ts)). visitCgo parse rp v = Inr [])"
proof -
  let ?r = "rmap (visitCgo parse rp) (visits skipCgo [] (Dir rn ts))"
  have "fst (cgo_Run srt parse rp rn ts) = 0 \<longleftrightarrow> (\<exists>fss. ?r = Inr fss \<and> concat fss = [])"
    by (cases ?r) (auto simp: cgo_Run_def CheckRepo_def srt_Nil)
  then show ?thesis unfolding rmap_clean .
qed

end

definition finding_order :: "finding list \<Rightarrow> finding list" where
  "finding_order = sort_key fiPath \<circ> sort_key fiLine"

interpretation stable_findings: permuting_sort finding_order
  by unfold_locales (simp add: finding_order_def)

text \<open>
  Started as the build starts it, with the argument \<open>./...\<close> and no root, the check succeeds whatever the
  repository contains: the root is \<open>.\<close>, which starts with a dot, and is skipped like a hidden directory.
\<close>

theorem no_cgo_default_vacuous:
  assumes "\<And>fs. srt fs = [] \<longleftrightarrow> fs = []"
  shows "cgo_main srt parse [''./...''] dirs = 0"
proof -
  have n: "lstat_name ''.'' = ''.''" by code_simp
  have "srt [] = []" using assms by blast
  then show ?thesis
    by (simp add: cgo_main_def Let_def n cgo_Run_def CheckRepo_def HasPrefix_def)
qed

text \<open>With a root that does not start with a dot the same import is reported.\<close>

definition cgo_tree :: "tree list" where
  "cgo_tree = [File ''x.go'' ''package x'']"

lemma no_cgo_reports:
  "cgo_main finding_order (\<lambda>_. Inr [(''C'', 3)]) [''-root'', ''repo''] (\<lambda>_. cgo_tree) = 1"
  "cgo_main finding_order (\<lambda>_. Inr [(''C'', 3)]) [''./...''] (\<lambda>_. cgo_tree) = 0"
  by code_simp+

text \<open>A directive that excludes cgo is reported as if it required it.\<close>

lemma no_cgo_negated_tag:
  "directive_findings ''x.go'' (0, ''//go:build !cgo'') = [\<lparr>fiPath = ''x.go'', fiLine = 1, fiMsg = ''//go:build !cgo''\<rparr>]"
  by code_simp

subsection \<open>no-chain-commons\<close>

definition forbiddenPrefix :: string where
  "forbiddenPrefix = CHR 0x22 # ''github.com/Cloud-SPE/livepeer-modules/chain-commons''"

text \<open>The lines of one file with their numbers; \<open>inImport\<close> is whether an import block is open. The lines reported.\<close>

fun chain_lines :: "bool \<Rightarrow> nat \<Rightarrow> string list \<Rightarrow> (nat \<times> string) list" where
  "chain_lines inImport num [] = []"
| "chain_lines inImport num (line # ls) =
     (let t = TrimSpace line in
      if HasPrefix t ''import ('' then chain_lines True (num + 1) ls
      else if t = '')'' \<and> inImport then chain_lines False (num + 1) ls
      else if \<not> inImport \<and> \<not> HasPrefix t ''import '' then chain_lines inImport (num + 1) ls
      else if \<not> Contains line forbiddenPrefix then chain_lines inImport (num + 1) ls
      else (num + 1, t) # chain_lines inImport (num + 1) ls)"

fun skipChain :: "string list \<Rightarrow> tree \<Rightarrow> bool" where
  "skipChain p (File n c) \<longleftrightarrow> False"
| "skipChain p t \<longleftrightarrow> tree_name t \<in> {''vendor'', ''.git'', ''lint'', ''proto''}"

text \<open>The error of the walk and of the scanner are dropped: what comes after either is not looked at.\<close>

definition readable :: "string list \<times> tree \<Rightarrow> bool" where
  "readable v = (case snd v of Broken _ _ \<Rightarrow> False | _ \<Rightarrow> True)"

definition chain_file :: "string list \<times> tree \<Rightarrow> (string \<times> nat \<times> string) list" where
  "chain_file v =
     (case snd v of
        File n content \<Rightarrow>
          if HasSuffix n ''.go''
          then map (\<lambda>(num, l). (rel_path (fst v), num, l)) (chain_lines False 0 (fst (scan_lines 4194304 content)))
          else []
      | _ \<Rightarrow> [])"

definition chain_reports :: "string \<Rightarrow> tree list \<Rightarrow> (string \<times> nat \<times> string) list" where
  "chain_reports rootName ts =
     concat (map chain_file (takeWhile readable (visits skipChain [] (Dir rootName ts))))"

definition chain_Run :: "string \<Rightarrow> tree list \<Rightarrow> int" where
  "chain_Run rootName ts = (if chain_reports rootName ts = [] then 0 else 1)"

text \<open>Every line of an import block, and every single import, that names the module is reported with its number.\<close>

lemma chain_block_reported:
  "Contains line forbiddenPrefix \<Longrightarrow> \<not> HasPrefix (TrimSpace line) ''import ('' \<Longrightarrow> TrimSpace line \<noteq> '')'' \<Longrightarrow>
     (num + 1, TrimSpace line) \<in> set (chain_lines True num (line # ls))"
  by (simp add: Let_def)

lemma chain_single_reported:
  "Contains line forbiddenPrefix \<Longrightarrow> HasPrefix (TrimSpace line) ''import '' \<Longrightarrow>
   \<not> HasPrefix (TrimSpace line) ''import ('' \<Longrightarrow> TrimSpace line \<noteq> '')'' \<Longrightarrow>
     (num + 1, TrimSpace line) \<in> set (chain_lines False num (line # ls))"
  by (simp add: Let_def)

lemma chain_reported_contains:
  "(n, t) \<in> set (chain_lines b num ls) \<Longrightarrow> \<exists>line \<in> set ls. t = TrimSpace line \<and> Contains line forbiddenPrefix"
  by (induction b num ls rule: chain_lines.induct) (auto simp: Let_def split: if_splits)

text \<open>A directory that cannot be listed ends the check without a word, and with success if nothing was found before.\<close>

theorem no_chain_commons_unreadable:
  assumes "n \<notin> {''vendor'', ''.git'', ''lint'', ''proto''}"
  shows "chain_Run rootName (Broken n e # ts) = 0"
  using assms by (simp add: chain_Run_def chain_reports_def readable_def)

end
