(* ===== verification/Log_Secrets.thy ===== *)
theory Log_Secrets
  imports Go_Files
begin

text \<open>
  \<open>lint/no-secrets-in-logs\<close>: the check of the build that looks for log calls with secrets in them. The five
  regular expressions are values of a datatype; the matcher is the one of \<open>MatchString\<close>, an unanchored search.
\<close>

subsection \<open>Regular expressions\<close>

datatype re =
    Eps
  | One "char list"
  | Many "char list"
  | Boundary
  | Cat re re
  | Or re re

text \<open>A position: the character before it and the text after it.\<close>

type_synonym position = "char option \<times> string"

definition lower :: string where "lower = ''abcdefghijklmnopqrstuvwxyz''"

definition word_chars :: string where
  "word_chars = lower @ ''ABCDEFGHIJKLMNOPQRSTUVWXYZ'' @ ''0123456789'' @ ''_''"

definition word_at :: "char option \<Rightarrow> bool" where
  "word_at c = (case c of None \<Rightarrow> False | Some x \<Rightarrow> x \<in> set word_chars)"

definition head :: "string \<Rightarrow> char option" where
  "head s = (case s of [] \<Rightarrow> None | c # _ \<Rightarrow> Some c)"

fun many :: "char list \<Rightarrow> char option \<Rightarrow> string \<Rightarrow> position list" where
  "many cs p [] = [(p, [])]"
| "many cs p (c # s) = (p, c # s) # (if c \<in> set cs then many cs (Some c) s else [])"

text \<open>All positions at which a match that starts here can end.\<close>

fun ends :: "re \<Rightarrow> position \<Rightarrow> position list" where
  "ends Eps (p, s) = [(p, s)]"
| "ends (One cs) (p, s) = (case s of [] \<Rightarrow> [] | c # t \<Rightarrow> if c \<in> set cs then [(Some c, t)] else [])"
| "ends (Many cs) (p, s) = many cs p s"
| "ends Boundary (p, s) = (if word_at p \<noteq> word_at (head s) then [(p, s)] else [])"
| "ends (Cat r q) (p, s) = concat (map (ends q) (ends r (p, s)))"
| "ends (Or r q) (p, s) = ends r (p, s) @ ends q (p, s)"

fun search :: "re \<Rightarrow> char option \<Rightarrow> string \<Rightarrow> bool" where
  "search r p [] \<longleftrightarrow> ends r (p, []) \<noteq> []"
| "search r p (c # s) \<longleftrightarrow> ends r (p, c # s) \<noteq> [] \<or> search r (Some c) s"

definition MatchString :: "re \<Rightarrow> string \<Rightarrow> bool" where
  "MatchString r s = search r None s"

subsection \<open>What the matcher decides\<close>

text \<open>
  The meaning of an expression: \<open>denotes r p u s\<close> says that \<open>r\<close> matches the text \<open>u\<close> between the character \<open>p\<close>
  and the text \<open>s\<close>.
\<close>

definition after :: "char option \<Rightarrow> string \<Rightarrow> char option" where
  "after p u = (if u = [] then p else Some (last u))"

inductive denotes :: "re \<Rightarrow> char option \<Rightarrow> string \<Rightarrow> string \<Rightarrow> bool" where
  eps: "denotes Eps p [] s"
| one: "c \<in> set cs \<Longrightarrow> denotes (One cs) p [c] s"
| many: "set u \<subseteq> set cs \<Longrightarrow> denotes (Many cs) p u s"
| boundary: "word_at p \<noteq> word_at (head s) \<Longrightarrow> denotes Boundary p [] s"
| cat: "denotes r p u (v @ s) \<Longrightarrow> denotes q (after p u) v s \<Longrightarrow> denotes (Cat r q) p (u @ v) s"
| or_left: "denotes r p u s \<Longrightarrow> denotes (Or r q) p u s"
| or_right: "denotes q p u s \<Longrightarrow> denotes (Or r q) p u s"

inductive_simps denotes_simps [simp]:
  "denotes Eps p u s" "denotes (One cs) p u s" "denotes (Many cs) p u s" "denotes Boundary p u s"
  "denotes (Cat r q) p u s" "denotes (Or r q) p u s"

lemma after_append [simp]: "after (after p u) v = after p (u @ v)"
  by (simp add: after_def)

lemma after_simps [simp]: "after p [] = p" "after p (c # u) = after (Some c) u"
  by (auto simp: after_def)

lemma ex_list: "(\<exists>u. P u) \<longleftrightarrow> P [] \<or> (\<exists>c u. P (c # u))"
  by (metis list.exhaust)

lemma many_iff: "(q, t) \<in> set (many cs p s) \<longleftrightarrow> (\<exists>u. s = u @ t \<and> q = after p u \<and> set u \<subseteq> set cs)"
proof (induction cs p s rule: many.induct)
  case (2 cs p c s)
  have "(\<exists>u. c # s = u @ t \<and> q = after p u \<and> set u \<subseteq> set cs) \<longleftrightarrow>
      c # s = t \<and> q = p \<or> c \<in> set cs \<and> (\<exists>u. s = u @ t \<and> q = after (Some c) u \<and> set u \<subseteq> set cs)"
    by (subst ex_list) auto
  with 2 show ?case by auto
qed (auto simp: after_def)

lemma ends_Cat_iff:
  assumes r: "\<And>p s q t. (q, t) \<in> set (ends r (p, s)) \<longleftrightarrow> (\<exists>u. s = u @ t \<and> q = after p u \<and> denotes r p u t)"
    and r': "\<And>p s q t. (q, t) \<in> set (ends r' (p, s)) \<longleftrightarrow> (\<exists>u. s = u @ t \<and> q = after p u \<and> denotes r' p u t)"
  shows "(q, t) \<in> set (ends (Cat r r') (p, s)) \<longleftrightarrow> (\<exists>u. s = u @ t \<and> q = after p u \<and> denotes (Cat r r') p u t)"
    (is "?l \<longleftrightarrow> ?m")
proof
  assume ?l
  then obtain p1 s1 where 1: "(p1, s1) \<in> set (ends r (p, s))" "(q, t) \<in> set (ends r' (p1, s1))" by auto
  obtain u v where u: "s = u @ s1" "p1 = after p u" "denotes r p u s1" "s1 = v @ t" "q = after p1 v" "denotes r' p1 v t"
    using 1 unfolding r r' by blast
  then have "denotes (Cat r r') p (u @ v) t" by (intro denotes.cat) simp_all
  with u show ?m by (intro exI [of _ "u @ v"]) simp
next
  assume ?m
  then obtain u v where u: "s = (u @ v) @ t" "q = after p (u @ v)" "denotes r p u (v @ t)" "denotes r' (after p u) v t" by auto
  have "(after p u, v @ t) \<in> set (ends r (p, s))" unfolding r using u(1,3) by auto
  moreover have "(q, t) \<in> set (ends r' (after p u, v @ t))" unfolding r' using u(2,4) by auto
  ultimately show ?l by (simp del: after_append) blast
qed

lemma ends_iff: "(q, t) \<in> set (ends r (p, s)) \<longleftrightarrow> (\<exists>u. s = u @ t \<and> q = after p u \<and> denotes r p u t)"
proof (induction r arbitrary: p s q t)
  case (One cs)
  have "(\<exists>u. s = u @ t \<and> q = after p u \<and> denotes (One cs) p u t) \<longleftrightarrow> (\<exists>c \<in> set cs. s = c # t \<and> q = Some c)"
    by auto
  then show ?case by (cases s) auto
next
  case (Many cs)
  show ?case by (auto simp: many_iff)
next
  case (Cat r r')
  show ?case by (rule ends_Cat_iff) (rule Cat.IH)+
next
  case (Or r r')
  have "(q, t) \<in> set (ends (Or r r') (p, s)) \<longleftrightarrow> (q, t) \<in> set (ends r (p, s)) \<or> (q, t) \<in> set (ends r' (p, s))" by simp
  then show ?case unfolding Or.IH by auto
qed auto

lemma ends_Nil_iff: "ends r (p, s) \<noteq> [] \<longleftrightarrow> (\<exists>u t. s = u @ t \<and> denotes r p u t)"
proof -
  have "ends r (p, s) \<noteq> [] \<longleftrightarrow> (\<exists>q t. (q, t) \<in> set (ends r (p, s)))" by (metis list.set_intros(1) neq_Nil_conv prod.exhaust set_empty2 empty_iff list.set(1))
  then show ?thesis unfolding ends_iff by blast
qed

lemma search_iff: "search r p s \<longleftrightarrow> (\<exists>a u b. s = a @ u @ b \<and> denotes r (after p a) u b)"
proof (induction s arbitrary: p)
  case (Cons c s)
  have "(\<exists>a u b. c # s = a @ u @ b \<and> denotes r (after p a) u b) \<longleftrightarrow>
      (\<exists>u b. c # s = u @ b \<and> denotes r p u b) \<or> (\<exists>a u b. s = a @ u @ b \<and> denotes r (after (Some c) a) u b)"
    by (subst ex_list) auto
  then show ?case using Cons by (simp add: ends_Nil_iff)
qed (simp add: ends_Nil_iff)

theorem MatchString_iff:
  "MatchString r s \<longleftrightarrow> (\<exists>a u b. s = a @ u @ b \<and> denotes r (after None a) u b)"
  by (simp add: MatchString_def search_iff)

subsection \<open>The five expressions\<close>

definition opt :: "re \<Rightarrow> re" where "opt r = Or r Eps"

definition lit :: "string \<Rightarrow> re" where "lit s = foldr (\<lambda>c r. Cat (One [c]) r) s Eps"

definition alts :: "re list \<Rightarrow> re" where "alts rs = foldr Or (butlast rs) (last rs)"

definition seqs :: "re list \<Rightarrow> re" where "seqs rs = foldr Cat rs Eps"

definition lits :: "string list \<Rightarrow> re" where "lits ss = alts (map lit ss)"

definition logCall :: re where
  "logCall =
     seqs [Boundary, lits [''logger'', ''log'', ''slog'', ''cfg.Logger'', ''r.cfg.Logger'', ''s.logger''], lit ''.'',
       alts [lit ''Info'', lit ''Warn'', lit ''Error'', lit ''Debug'', Cat (lit ''Print'') (opt (lits [''f'', ''ln''])),
         lit ''Errorf'', lit ''Fatalf''], lit ''('']"

definition dashed :: "string \<Rightarrow> string \<Rightarrow> re" where
  "dashed a b = seqs [lit a, opt (One ''_-''), lit b]"

definition secretToken :: re where
  "secretToken =
     seqs [Boundary,
       alts [seqs [Many word_chars, lits [''secret'', ''password'', ''passwd''], Many word_chars],
         dashed ''stream'' ''key'', dashed ''api'' ''key'', dashed ''private'' ''key'', dashed ''signing'' ''key'',
         dashed ''access'' ''token'', dashed ''bearer'' ''token'', dashed ''auth'' ''token''], Boundary]"

definition safeToken :: re where
  "safeToken =
     seqs [Boundary, lits [''key_hash'', ''keyHash'', ''api_key_hash'', ''apiKeyHash'', ''stream_key_hash'',
       ''streamKeyHash'', ''csrf_token'', ''csrfToken'', ''key_id'', ''keyId''], Boundary]"

definition disable :: re where
  "disable = seqs [lit ''no-secrets-in-logs'', opt (One '' -''), lit ''disable'']"

definition redactor :: re where
  "redactor = seqs [Boundary, lits [''redact'', ''maskSecret'', ''sanitize''], lit ''('']"

subsection \<open>The check\<close>

definition suspect :: "string \<Rightarrow> bool" where
  "suspect line \<longleftrightarrow>
     \<not> MatchString disable line \<and> MatchString logCall line \<and> MatchString secretToken line \<and>
     \<not> MatchString safeToken line \<and> \<not> MatchString redactor line"

definition suspect_lines :: "string list \<Rightarrow> (nat \<times> string) list" where
  "suspect_lines ls = map (\<lambda>(n, l). (n + 1, TrimSpace l)) (filter (\<lambda>(_, l). suspect l) (enumerate 0 ls))"

fun skipSecrets :: "string list \<Rightarrow> tree \<Rightarrow> bool" where
  "skipSecrets p (File n c) \<longleftrightarrow> False"
| "skipSecrets p t \<longleftrightarrow> tree_name t \<in> {''vendor'', ''.git'', ''lint'', ''proto''}"

definition secrets_file :: "string list \<times> tree \<Rightarrow> (string \<times> nat \<times> string) list" where
  "secrets_file v =
     (case snd v of
        File n content \<Rightarrow>
          if HasSuffix n ''.go'' \<and> \<not> HasSuffix n ''_test.go''
          then map (\<lambda>(k, l). (rel_path (fst v), k, l)) (suspect_lines (fst (scan_lines 4194304 content)))
          else []
      | _ \<Rightarrow> [])"

text \<open>As in the other check the errors of the walk and of the scanner are dropped.\<close>

definition secrets_reports :: "string \<Rightarrow> tree list \<Rightarrow> (string \<times> nat \<times> string) list" where
  "secrets_reports rootName ts =
     concat (map secrets_file
       (takeWhile (\<lambda>v. case snd v of Broken _ _ \<Rightarrow> False | _ \<Rightarrow> True) (visits skipSecrets [] (Dir rootName ts))))"

definition secrets_Run :: "string \<Rightarrow> tree list \<Rightarrow> int" where
  "secrets_Run rootName ts = (if secrets_reports rootName ts = [] then 0 else 1)"

text \<open>
  The expressions are sensitive to case: a log call with a variable named \<open>stream_key\<close> is reported, one with the
  names that the sources use, \<open>streamKey\<close>, \<open>WebhookSecret\<close> or \<open>AuthToken\<close>, is not.
\<close>

lemma secrets_reported:
  "suspect ''logger.Info(x, stream_key)''" "\<not> suspect ''logger.Info(x, redact(stream_key))''"
  by code_simp+

theorem no_secrets_misses_camel_case:
  "\<not> suspect ''h.logger.Info(x, streamKey)''" "\<not> suspect ''r.cfg.Logger.Warn(x, j.WebhookSecret)''"
  "\<not> suspect ''slog.Info(x, cfg.AuthToken)''"
  by code_simp+

end
