(* ===== verification/Spec2Isabelle.thy ===== *)
theory Spec2Isabelle
  imports Webhooks Http_Errors Http_Sessions Boot_Safety Rtmp_Ingest Media_Storage Dev_Fakes Coverage_Gate Lint_Checks Log_Secrets
begin

text \<open>
  Verification of the video worker node, a Go daemon that transcodes video for payment: VOD files, ABR ladders and
  live streams, on one GPU, under a payment daemon and a gateway that it calls.

  \<^bold>\<open>How the program fits together.\<close> \<open>cmd/livepeer-video-worker-node/run.go\<close> reads flags and \<open>worker.yaml\<close>, checks
  GPU and payment daemon and wires everything; \<open>internal/runtime/lifecycle\<close> runs the listeners and the runners until
  the context ends. Requests come in through \<open>internal/runtime/http\<close> (public) and \<open>internal/runtime/grpc\<close>
  (operator). A submission is paid through \<open>internal/service/paymentbroker\<close> or the client of the payment daemon,
  stored by \<open>internal/repo/jobs\<close> in \<open>internal/providers/store\<close> and queued in \<open>internal/service/jobrunner\<close> or
  \<open>abrrunner\<close>, whose workers take a slot of \<open>internal/providers/scheduler\<close> at the cost of
  \<open>internal/providers/workloadcost\<close> and call storage, ffprobe and ffmpeg. A live stream comes in through
  \<open>internal/providers/ingest\<close>, is admitted by \<open>internal/service/liverunner\<close>, which charges it while it runs and
  mirrors its output with \<open>internal/service/livecdn\<close>, and is reported to the gateway by
  \<open>internal/providers/shellclient\<close> and \<open>internal/providers/webhooks\<close>.

  \<^bold>\<open>Theories.\<close>
  \<^item> The language and its library: \<open>Go_Prelude\<close> (64-bit integers, time, strings, errors, JSON trees, results),
    \<open>Go_Float\<close> (float64 on rationals with correct rounding), \<open>Go_Path\<close>, \<open>Go_Strings\<close>, \<open>Go_Scan\<close> (numbers as text),
    \<open>Go_Codec\<close> (hex, base64, big integers), \<open>Go_Files\<close> (lines, fields, file trees), \<open>Go_Comp\<close> (sequential code
    with effects and its rules of weakest preconditions).
  \<^item> Data: \<open>Worker_Types\<close> (\<open>internal/types\<close>), \<open>Job_Json\<close> (the stored form of its records).
  \<^item> Providers: \<open>Scheduler\<close>, \<open>Workload_Cost\<close>, \<open>Kv_Store\<close>, \<open>Hls\<close>, \<open>Ffmpeg\<close>, \<open>Gpu_Detect\<close> (with
    \<open>internal/service/preflight\<close>), \<open>Payment_Client\<close>, \<open>Shell_Client\<close>, \<open>Shell_Fake\<close>, \<open>Webhooks\<close>, \<open>Rtmp_Ingest\<close>,
    \<open>Media_Storage\<close> (probe and storage), \<open>Observability\<close> (logger and metrics), \<open>Dev_Fakes\<close>.
  \<^item> Repository and services: \<open>Jobs_Repo\<close>, \<open>Payment_Broker\<close>, \<open>Preset_Loader\<close>; \<open>Runner_World\<close> and \<open>Runner_Logic\<close>
    (the world of the batch runners and their proof rules), \<open>Job_Runner\<close>, \<open>Abr_Runner\<close>; \<open>Live_Cdn\<close>, \<open>Live_Session\<close>
    (one session), \<open>Live_Billing\<close>, \<open>Live_Record\<close> (what a session charges and leaves), \<open>Live_Runner\<close> (the table of
    sessions over a heap of control blocks), \<open>Live_Encoder\<close>.
  \<^item> Runtime: \<open>Worker_Config\<close>, \<open>Http_Server\<close>, \<open>Http_Handlers\<close>, \<open>Http_Live\<close> (the surface), \<open>Http_Demo\<close>,
    \<open>Http_Safety\<close>, \<open>Http_Errors\<close>, \<open>Http_Sessions\<close> (the registry of live sessions); \<open>Grpc_Server\<close>; \<open>Lifecycle\<close>;
    \<open>Catalog_Verify\<close>, \<open>Boot\<close>, \<open>Boot_Safety\<close>.
  \<^item> Tools of the build under \<open>lint\<close>: \<open>Coverage_Gate\<close>, \<open>Lint_Checks\<close>, \<open>Log_Secrets\<close>.

  \<^bold>\<open>How the code is modelled.\<close> A struct is a record, an enumeration a datatype with a constructor for unknown strings, a
  method a function from the state before to the state after and a value of type \<open>go_error + 'a\<close>, with a branch for
  every return of the code. An \<open>int\<close> is an integer with \<open>wrap64\<close> where the code computes, a \<open>uint64\<close> a word.
  What the code runs concurrently is a step relation or a machine over every sequence of steps: waiting and waking in
  the scheduler, the pool of workers, the operations on live sessions, the goroutines of the lifecycle, the RTMP
  listener against its \<open>Stop\<close>. Sessions that share a control block share an address, so that aliasing is visible.
  The environment (clock, network, subprocesses, file system faults, answers of gateway and payment daemon) is a
  function of the calls made so far, or an input sequence, over which the theorems quantify. JSON and YAML texts are
  trees with the reader of the text as a parameter; the field names, the omission of zero values and the errors of
  the wrong type are modelled.

  \<^bold>\<open>Interfaces.\<close> What one component relies on in another is a locale, interpreted on the model of its provider:
  \<open>store\<close> and its JSON form (both stores), the ledger, the sinks of the mirror and the reliable ones among them, the
  session acceptor of the RTMP provider (the live runner), object storage (HTTP and in memory), sorting whose
  treatment of equal elements is open.

  \<^bold>\<open>What is proved.\<close>
  \<^item> Admission: under every interleaving the totals hold, batch work never enters the live reserve, a live request
    that fits the reserve is admitted at once, every granted lease is given back; costs stay in range.
  \<^item> Batch jobs: success means the whole work in order with the charge after the upload, failure names the step and
    charges nothing; an ABR job is charged per rendition that was finished; no job runs twice at a time; the phase history
    stays ordered; records survive storage; both stores are maps.
  \<^item> Live sessions: charges are consecutive and bounded by the encoded time, the grace period is respected, every close
    leaves a terminal record with its reason, leases balance over all operations; a connection that closes cancels
    its session; what happens when a publisher connects twice.
  \<^item> Mirror and sinks: after a run the sink has exactly the files of the directory; an upload is atomic.
  \<^item> Surface: no request starts work without a configured price and a processed ticket; ticket parameters are well
    typed; the registry stays keyed by the ids of its sessions; a configuration is accepted exactly if it is well formed; the startup check is exact; the catalogue in
    service is always valid; a delivery of a webhook always ends; shutdown always completes once the context ends.
  \<^item> Where the code does not do what it says, a theorem shows it: unsigned webhooks, the temporary directory of a job
    id with slashes, the mirror that keeps a session from closing, the lease lost by a second publisher, the daemon that does not
    end after a fatal error, the cancellation that cancels nothing, the token flag that is dropped, the RTMP listener
    that hangs after an early stop, a second publish on a connection, a refused submission that keeps its payment,
    a session end whose retry is refused, a top-up refused after its ticket was spent,
    publishers that collide in development mode, checks of the build that never fail or miss the names in use.
  \<^item> Tools: the coverage gate passes exactly if every package is exempt, covered or without statements; the matcher of
    the log check decides the meaning of its expressions.

  \<^bold>\<open>Bounds.\<close> Loops of the code are recursions on their input; none has fuel except the search for the decimal
  exponent in \<open>Go_Scan\<close>, where 400 steps exceed every exponent of a float64. A loop that ends only when the context does reads an
  input sequence. Floats are finite: infinities and NaN do not arise in the code modelled, except for a duration of
  ffprobe beyond the range of float64, which counts as 0.

  \<^bold>\<open>Not modelled.\<close> The listeners of HTTP, gRPC and metrics and the dialling of the payment daemon (input and output
  only); flag parsing; log lines, except those of the RTMP provider; \<open>clock\<close> and \<open>ticker.go\<close> (pass-throughs); the
  \<open>Recorder\<close> of the metrics, which drops everything; two empty tools under \<open>lint\<close>; generated code and libraries
  (go-rtmp, bbolt, the YAML and the Go parser), which are parameters. The gate's messages on \<open>stderr\<close> and the report texts
  of two tools are left out. Preemption inside a handler that holds no lock is modelled for the runners and not for
  the HTTP handlers, each of which runs as one step.
\<close>

end
